(* ===== verification/Js_Base.thy ===== *)
theory Js_Base
  imports Main
begin

text \<open>
  Prelude of the development: the parts of the JavaScript standard library that the
  TypeScript sources of the repository use, with the generic lemmas the component theories
  share.

  A JavaScript string is a sequence of UTF-16 code units. The model keeps it as a
  \<^typ>\<open>string\<close>, one \<^typ>\<open>char\<close> per code unit, so it covers the strings whose code
  units are below 256 (ASCII and Latin-1): every header name, identifier, status, code and
  message literal of the program is of that kind. Case conversion is the one of Latin-1,
  and \<open>trim\<close> removes the white space code units of that range.

  Values that the code reads with \<open>a || b\<close> are optional strings: \<open>None\<close> stands for
  \<open>undefined\<close> or \<open>null\<close>, and both \<open>None\<close> and the empty string are falsy.
\<close>

named_theorems js_simps "evaluation of the modelled library functions on literals"
named_theorems world_simps "unfolding of the state-passing combinators"

type_synonym env = "string \<Rightarrow> string option"
type_synonym headers = "(string \<times> string) list"

section \<open>Characters\<close>

definition char_code :: "char \<Rightarrow> nat" where
  "char_code c = of_char c"

definition is_ws :: "char \<Rightarrow> bool" where
  "is_ws c \<longleftrightarrow> (let n = char_code c in (9 \<le> n \<and> n \<le> 13) \<or> n = 32 \<or> n = 160)"

definition is_digit :: "char \<Rightarrow> bool" where
  "is_digit c \<longleftrightarrow> 48 \<le> char_code c \<and> char_code c \<le> 57"

definition lower_char :: "char \<Rightarrow> char" where
  "lower_char c = (let n = char_code c in
     if (65 \<le> n \<and> n \<le> 90) \<or> (192 \<le> n \<and> n \<le> 222 \<and> n \<noteq> 215) then char_of (n + 32) else c)"

definition upper_char :: "char \<Rightarrow> char" where
  "upper_char c = (let n = char_code c in
     if (97 \<le> n \<and> n \<le> 122) \<or> (224 \<le> n \<and> n \<le> 254 \<and> n \<noteq> 247) then char_of (n - 32) else c)"

definition digit_char :: "nat \<Rightarrow> char" where
  "digit_char d = char_of (48 + d mod 10)"

definition digit_val :: "char \<Rightarrow> nat" where
  "digit_val c = char_code c - 48"

lemma char_code_less [simp]: "char_code c < 256"
  using nat_of_char_less_256 [of c] by (simp add: char_code_def)

lemma char_code_inject [simp]: "char_code c = char_code d \<longleftrightarrow> c = d"
  by (simp add: char_code_def)

lemma char_code_char_of [simp]: "n < 256 \<Longrightarrow> char_code (char_of n) = n"
  by (simp add: char_code_def)

lemma char_code_digit [simp]: "char_code (digit_char d) = 48 + d mod 10"
proof -
  have "d mod 10 < 10" by simp
  then have "48 + d mod 10 < (256::nat)" by linarith
  then show ?thesis unfolding digit_char_def by (rule char_code_char_of)
qed

lemma is_digit_digit_char [simp]: "is_digit (digit_char d)"
  unfolding is_digit_def char_code_digit using mod_less_divisor [of 10 d] by linarith

lemma digit_val_digit_char [simp]: "digit_val (digit_char d) = d mod 10"
  by (simp add: digit_val_def)

lemma digit_val_less [simp]: "is_digit c \<Longrightarrow> digit_val c < 10"
  by (auto simp: is_digit_def digit_val_def)

lemma digit_char_val: "is_digit c \<Longrightarrow> digit_char (digit_val c) = c"
  by (subst char_code_inject [symmetric])
    (auto simp: is_digit_def digit_val_def simp del: char_code_inject)

lemma lower_char_idem [simp]: "lower_char (lower_char c) = lower_char c"
proof (cases "(65 \<le> char_code c \<and> char_code c \<le> 90)
    \<or> (192 \<le> char_code c \<and> char_code c \<le> 222 \<and> char_code c \<noteq> 215)")
  case True
  then have "lower_char c = char_of (char_code c + 32)" by (simp add: lower_char_def Let_def)
  moreover have "char_code (char_of (char_code c + 32) :: char) = char_code c + 32"
    using True by (intro char_code_char_of) auto
  ultimately show ?thesis using True by (auto simp: lower_char_def Let_def)
next
  case False
  then show ?thesis by (auto simp: lower_char_def Let_def)
qed

lemma char_eqI: "char_code c = char_code d \<Longrightarrow> c = d"
  by simp

lemma digit_char_lits [js_simps]:
  "digit_char 0 = CHR ''0''" "digit_char 1 = CHR ''1''" "digit_char 2 = CHR ''2''"
  "digit_char 3 = CHR ''3''" "digit_char 4 = CHR ''4''" "digit_char 5 = CHR ''5''"
  "digit_char 6 = CHR ''6''" "digit_char 7 = CHR ''7''" "digit_char 8 = CHR ''8''"
  "digit_char 9 = CHR ''9''" "digit_char (Suc 0) = CHR ''1''"
  by (rule char_eqI, simp only: char_code_digit, simp add: char_code_def)+

lemma char_code_lits [js_simps]: "char_code (Char b0 b1 b2 b3 b4 b5 b6 b7) =
    horner_sum of_bool 2 [b0, b1, b2, b3, b4, b5, b6, b7]"
  by (simp add: char_code_def)

lemmas char_eval = char_code_def char_of_def bit_Suc_0_iff Let_def

section \<open>Strings\<close>

definition js_lower :: "string \<Rightarrow> string" where
  "js_lower s = map lower_char s"

definition js_upper :: "string \<Rightarrow> string" where
  "js_upper s = map upper_char s"

definition trim_start :: "string \<Rightarrow> string" where
  "trim_start s = dropWhile is_ws s"

definition trim_end :: "string \<Rightarrow> string" where
  "trim_end s = rev (dropWhile is_ws (rev s))"

definition js_trim :: "string \<Rightarrow> string" where
  "js_trim s = trim_end (trim_start s)"

fun starts_with :: "string \<Rightarrow> string \<Rightarrow> bool" where
  "starts_with s [] = True"
| "starts_with [] (p # ps) = False"
| "starts_with (c # s) (p # ps) = (c = p \<and> starts_with s ps)"

definition ends_with :: "string \<Rightarrow> string \<Rightarrow> bool" where
  "ends_with s p = starts_with (rev s) (rev p)"

fun js_includes :: "string \<Rightarrow> string \<Rightarrow> bool" where
  "js_includes [] p = (p = [])"
| "js_includes (c # s) p = (starts_with (c # s) p \<or> js_includes s p)"

fun split_on :: "char \<Rightarrow> string \<Rightarrow> string list" where
  "split_on c [] = [[]]"
| "split_on c (x # xs) = (if x = c then [] # split_on c xs
     else (case split_on c xs of [] \<Rightarrow> [[x]] | h # t \<Rightarrow> (x # h) # t))"

fun js_join :: "string \<Rightarrow> string list \<Rightarrow> string" where
  "js_join sep [] = []"
| "js_join sep [s] = s"
| "js_join sep (s # ss) = s @ sep @ js_join sep ss"

definition pad_start :: "nat \<Rightarrow> char \<Rightarrow> string \<Rightarrow> string" where
  "pad_start n c s = replicate (n - length s) c @ s"

definition pad_end :: "nat \<Rightarrow> char \<Rightarrow> string \<Rightarrow> string" where
  "pad_end n c s = s @ replicate (n - length s) c"

text \<open>\<open>s.slice(-n)\<close> for a positive \<open>n\<close>, and \<open>s.replace(/\/+$/, "")\<close>.\<close>

definition slice_last :: "nat \<Rightarrow> string \<Rightarrow> string" where
  "slice_last n s = drop (length s - n) s"

definition strip_trailing_slashes :: "string \<Rightarrow> string" where
  "strip_trailing_slashes s = rev (dropWhile (\<lambda>c. c = CHR ''/'') (rev s))"

text \<open>The byte length of the UTF-8 encoding: \<open>Buffer.from(s, "utf8")\<close>.\<close>

definition utf8_char :: "char \<Rightarrow> char list" where
  "utf8_char c = (let n = char_code c in
     if n < 128 then [c] else [char_of (192 + n div 64), char_of (128 + n mod 64)])"

definition utf8 :: "string \<Rightarrow> char list" where
  "utf8 s = concat (map utf8_char s)"

lemma js_lower_idem [simp]: "js_lower (js_lower s) = js_lower s"
  by (simp add: js_lower_def)

lemma length_js_lower [simp]: "length (js_lower s) = length s"
  by (simp add: js_lower_def)

lemma starts_with_append: "starts_with s p \<longleftrightarrow> (\<exists>r. s = p @ r)"
  by (induction s p rule: starts_with.induct) auto

lemma starts_with_self [simp]: "starts_with (p @ r) p"
  by (auto simp: starts_with_append)

lemma ends_with_append: "ends_with s p \<longleftrightarrow> (\<exists>r. s = r @ p)"
proof
  assume "ends_with s p"
  then obtain r where "rev s = rev p @ r" by (auto simp: ends_with_def starts_with_append)
  then have "s = rev r @ p" by (metis rev_append rev_rev_ident)
  then show "\<exists>r. s = r @ p" by blast
qed (auto simp: ends_with_def)

lemma js_includes_append: "js_includes s p \<longleftrightarrow> (\<exists>a b. s = a @ p @ b)"
proof (induction s)
  case Nil
  show ?case by auto
next
  case (Cons c s)
  show ?case
  proof
    assume "js_includes (c # s) p"
    then consider "starts_with (c # s) p" | "js_includes s p" by auto
    then show "\<exists>a b. c # s = a @ p @ b"
    proof cases
      case 1
      then show ?thesis by (metis append_Nil starts_with_append)
    next
      case 2
      then show ?thesis using Cons.IH by (metis append_Cons)
    qed
  next
    assume "\<exists>a b. c # s = a @ p @ b"
    then obtain a b where ab: "c # s = a @ p @ b" by blast
    show "js_includes (c # s) p"
    proof (cases a)
      case Nil
      with ab have "starts_with (c # s) p" by (simp add: starts_with_append)
      then show ?thesis by simp
    next
      case (Cons x xs)
      with ab Cons.IH show ?thesis by auto
    qed
  qed
qed

lemma split_on_not_Nil [simp]: "split_on c s \<noteq> []"
  by (induction s) (auto split: list.splits)

lemma split_on_no_sep: "c \<notin> set s \<Longrightarrow> split_on c s = [s]"
  by (induction s) auto

lemma split_on_append_sep: "c \<notin> set a \<Longrightarrow> split_on c (a @ c # b) = a # split_on c b"
  by (induction a) auto

lemma js_join_Cons: "ss \<noteq> [] \<Longrightarrow> js_join sep (s # ss) = s @ sep @ js_join sep ss"
  by (cases ss) auto

lemma js_join_cons_head: "js_join sep ((x # h) # t) = x # js_join sep (h # t)"
  by (cases t) auto

lemma js_join_split_on: "js_join [c] (split_on c s) = s"
proof (induction s)
  case Nil
  show ?case by simp
next
  case (Cons x xs)
  show ?case
  proof (cases "x = c")
    case True
    with Cons show ?thesis by (simp add: js_join_Cons)
  next
    case False
    obtain h t where "split_on c xs = h # t" by (cases "split_on c xs") auto
    with False Cons show ?thesis by (simp add: js_join_cons_head)
  qed
qed

lemma set_split_on: "x \<in> set (split_on c s) \<Longrightarrow> c \<notin> set x"
  by (induction s arbitrary: x) (auto split: if_splits list.splits)

lemma strip_trailing_slashes_last:
  "strip_trailing_slashes s = [] \<or> last (strip_trailing_slashes s) \<noteq> CHR ''/''"
proof (cases "dropWhile (\<lambda>c. c = CHR ''/'') (rev s)")
  case Nil
  then show ?thesis by (simp add: strip_trailing_slashes_def)
next
  case (Cons x xs)
  then have "x \<noteq> CHR ''/''" by (metis (mono_tags) hd_dropWhile list.distinct(1) list.sel(1))
  with Cons show ?thesis by (simp add: strip_trailing_slashes_def)
qed

lemma strip_trailing_slashes_id:
  assumes "s = [] \<or> last s \<noteq> CHR ''/''"
  shows "strip_trailing_slashes s = s"
proof (cases s rule: rev_cases)
  case (snoc xs x)
  with assms show ?thesis by (simp add: strip_trailing_slashes_def)
qed (simp add: strip_trailing_slashes_def)

lemma strip_trailing_slashes_idem [simp]:
  "strip_trailing_slashes (strip_trailing_slashes s) = strip_trailing_slashes s"
  by (rule strip_trailing_slashes_id) (rule strip_trailing_slashes_last)

lemma trim_ends: "js_trim s = [] \<or> (\<not> is_ws (hd (js_trim s)) \<and> \<not> is_ws (last (js_trim s)))"
proof (cases "js_trim s = []")
  case False
  let ?d = "dropWhile is_ws (rev (dropWhile is_ws s))"
  have eq: "js_trim s = rev ?d" by (simp add: js_trim_def trim_start_def trim_end_def)
  with False have ne: "?d \<noteq> []" by simp
  have l: "last (js_trim s) = hd ?d" using eq ne by (simp add: last_rev)
  have "\<not> is_ws (hd ?d)" using ne by (rule hd_dropWhile)
  moreover have "\<not> is_ws (hd (js_trim s))"
  proof -
    obtain w where w: "rev (dropWhile is_ws s) = w @ ?d" by (metis takeWhile_dropWhile_id)
    then have "dropWhile is_ws s = rev ?d @ rev w" by (metis rev_append rev_rev_ident)
    then have "hd (dropWhile is_ws s) = hd (rev ?d)"
      using ne by (metis hd_append2 rev_is_Nil_conv)
    then have "hd (dropWhile is_ws s) = hd (js_trim s)" by (simp only: eq)
    moreover have "dropWhile is_ws s \<noteq> []" using ne by (metis dropWhile.simps(1) rev.simps(1))
    ultimately show ?thesis by (metis hd_dropWhile)
  qed
  ultimately show ?thesis using l by simp
qed simp

lemma is_ws_digit [simp]: "is_digit c \<Longrightarrow> \<not> is_ws c"
  by (auto simp: is_digit_def is_ws_def Let_def)

lemma js_trim_id:
  assumes "s = [] \<or> (\<not> is_ws (hd s) \<and> \<not> is_ws (last s))"
  shows "js_trim s = s"
proof (cases s)
  case Nil
  then show ?thesis by (simp add: js_trim_def trim_start_def trim_end_def)
next
  case (Cons c cs)
  with assms have "trim_start s = s" and l: "\<not> is_ws (last s)" by (simp_all add: trim_start_def)
  moreover have "trim_end s = s"
  proof -
    obtain x xs where x: "rev s = x # xs" using Cons by (metis list.exhaust rev_is_Nil_conv list.distinct(1))
    then have "x = last s" by (metis last_rev list.sel(1) rev_rev_ident)
    with l have "\<not> is_ws x" by simp
    then have "dropWhile is_ws (rev s) = rev s" unfolding x by simp
    then show ?thesis by (simp add: trim_end_def)
  qed
  ultimately show ?thesis by (simp add: js_trim_def)
qed

lemma js_trim_idem [simp]: "js_trim (js_trim s) = js_trim s"
  by (rule js_trim_id) (rule trim_ends)

lemma js_trim_no_ws: "(\<And>c. c \<in> set s \<Longrightarrow> \<not> is_ws c) \<Longrightarrow> js_trim s = s"
proof -
  assume a: "\<And>c. c \<in> set s \<Longrightarrow> \<not> is_ws c"
  have "dropWhile is_ws t = t" if "set t = set s" for t
    using a that by (cases t) auto
  then show ?thesis by (simp add: js_trim_def trim_start_def trim_end_def)
qed

lemma js_trim_prefix:
  assumes "p \<noteq> []" and "\<And>c. c \<in> set p \<Longrightarrow> \<not> is_ws c"
  shows "\<exists>r. js_trim (p @ s) = p @ r"
proof -
  obtain c cs where p: "p = c # cs" using assms(1) by (cases p) auto
  have "trim_start (p @ s) = p @ s" using p assms(2) [of c] by (simp add: trim_start_def)
  moreover have "\<exists>r. trim_end (p @ s) = p @ r"
  proof (cases "dropWhile is_ws (rev s) = []")
    case True
    have "dropWhile is_ws (rev p) = rev p"
      using assms by (subst dropWhile_eq_self_iff) (simp add: hd_rev)
    with True have "dropWhile is_ws (rev (p @ s)) = rev p" by (simp add: dropWhile_append)
    then have "trim_end (p @ s) = p @ []" by (simp add: trim_end_def)
    then show ?thesis ..
  next
    case False
    then have "dropWhile is_ws (rev (p @ s)) = dropWhile is_ws (rev s) @ rev p"
      by (auto simp: dropWhile_append)
    then have "trim_end (p @ s) = p @ rev (dropWhile is_ws (rev s))" by (simp add: trim_end_def)
    then show ?thesis ..
  qed
  ultimately show ?thesis by (simp add: js_trim_def)
qed

lemma js_lower_append [simp]: "js_lower (a @ b) = js_lower a @ js_lower b"
  by (simp add: js_lower_def)

section \<open>Exceptions\<close>

text \<open>The errors the modelled code throws, with their messages.\<close>

datatype js_exn =
    TypeError string
  | RangeError string
  | SyntaxError
  | Error string

section \<open>Truthiness of optional strings\<close>

definition truthy :: "string option \<Rightarrow> bool" where
  "truthy v = (case v of None \<Rightarrow> False | Some s \<Rightarrow> s \<noteq> [])"

definition js_or :: "string option \<Rightarrow> string option \<Rightarrow> string option" where
  "js_or a b = (if truthy a then a else b)"

text \<open>\<open>a || "literal"\<close> and \<open>a ?? "literal"\<close>.\<close>

definition or_else :: "string option \<Rightarrow> string \<Rightarrow> string" where
  "or_else a d = (case a of None \<Rightarrow> d | Some s \<Rightarrow> if s = [] then d else s)"

definition nullish_else :: "'a option \<Rightarrow> 'a \<Rightarrow> 'a" where
  "nullish_else a d = (case a of None \<Rightarrow> d | Some s \<Rightarrow> s)"

lemma truthy_simps [simp, js_simps]:
  "truthy None = False" "truthy (Some s) = (s \<noteq> [])"
  by (simp_all add: truthy_def)

lemma or_else_simps [simp, js_simps]:
  "or_else None d = d" "or_else (Some s) d = (if s = [] then d else s)"
  by (simp_all add: or_else_def)

lemma js_or_simps [simp, js_simps]:
  "js_or None b = b" "js_or (Some s) b = (if s = [] then b else Some s)"
  by (simp_all add: js_or_def)

lemma nullish_else_simps [simp, js_simps]:
  "nullish_else None d = d" "nullish_else (Some s) d = s"
  by (simp_all add: nullish_else_def)

lemma truthyE:
  assumes "truthy v"
  obtains s where "v = Some s" "s \<noteq> []"
  using assms by (cases v) auto

section \<open>Decimal numerals\<close>

fun nat_str :: "nat \<Rightarrow> string" where
  "nat_str n = (if n < 10 then [digit_char n] else nat_str (n div 10) @ [digit_char n])"

declare nat_str.simps [simp del]

definition int_str :: "int \<Rightarrow> string" where
  "int_str i = (if i < 0 then CHR ''-'' # nat_str (nat (- i)) else nat_str (nat i))"

definition digits_val :: "string \<Rightarrow> nat" where
  "digits_val s = foldl (\<lambda>acc c. 10 * acc + digit_val c) 0 s"

text \<open>Printing a small numeral: the last digit, then the rest.\<close>

lemma nat_str_lit:
  "n < 10 \<Longrightarrow> nat_str n = [digit_char n]"
  "\<not> n < 10 \<Longrightarrow> nat_str n = nat_str (n div 10) @ [digit_char (n mod 10)]"
  by (subst nat_str.simps, simp add: digit_char_def)+

lemma digits_val_Nil [simp]: "digits_val [] = 0"
  by (simp add: digits_val_def)

lemma digits_val_snoc [simp]: "digits_val (s @ [c]) = 10 * digits_val s + digit_val c"
  by (simp add: digits_val_def)

lemma nat_str_not_Nil [simp]: "nat_str n \<noteq> []"
  by (subst nat_str.simps) simp

lemma nat_str_digits: "c \<in> set (nat_str n) \<Longrightarrow> is_digit c"
proof (induction n rule: nat_str.induct)
  case (1 n)
  then show ?case by (subst (asm) (2) nat_str.simps) (auto split: if_splits)
qed

lemma digits_val_nat_str [simp]: "digits_val (nat_str n) = n"
proof (induction n rule: nat_str.induct)
  case (1 n)
  show ?case
  proof (cases "n < 10")
    case True
    then show ?thesis by (subst nat_str.simps) (simp add: digits_val_def)
  next
    case False
    with 1 show ?thesis by (subst nat_str.simps) simp
  qed
qed

lemma nat_str_inject [simp]: "nat_str m = nat_str n \<longleftrightarrow> m = n"
  by (metis digits_val_nat_str)

lemma nat_str_length: "n < 10 ^ k \<Longrightarrow> 0 < k \<Longrightarrow> length (nat_str n) \<le> k"
proof (induction n arbitrary: k rule: nat_str.induct)
  case (1 n)
  show ?case
  proof (cases "n < 10")
    case True
    with 1 show ?thesis by (subst nat_str.simps) simp
  next
    case False
    have k: "1 < k"
    proof (rule ccontr)
      assume "\<not> 1 < k"
      with "1.prems" have "k = 1" by simp
      with "1.prems" False show False by simp
    qed
    then obtain j where j: "k = Suc j" "0 < j" by (cases k) auto
    have "n div 10 < 10 ^ j" using "1.prems" j by (simp add: less_mult_imp_div_less mult.commute)
    then have "length (nat_str (n div 10)) \<le> j" using "1.IH" False j by simp
    with False j show ?thesis by (subst nat_str.simps) simp
  qed
qed

lemma digits_val_append:
  "digits_val (a @ b) = digits_val a * 10 ^ length b + digits_val b"
proof (induction b rule: rev_induct)
  case Nil
  show ?case by simp
next
  case (snoc x xs)
  have "digits_val (a @ xs @ [x]) = 10 * digits_val (a @ xs) + digit_val x"
    by (metis append_assoc digits_val_snoc)
  with snoc show ?case by (simp add: algebra_simps)
qed

lemma digit_val_zero: "digit_val (CHR ''0'') = 0"
  by (simp add: digit_val_def char_code_def)

lemma digits_val_replicate_zero [simp]: "digits_val (replicate n (CHR ''0'')) = 0"
proof (induction n)
  case (Suc n)
  have "replicate (Suc n) (CHR ''0'') = [CHR ''0''] @ replicate n (CHR ''0'')" by simp
  then have "digits_val (replicate (Suc n) (CHR ''0''))
      = digits_val [CHR ''0''] * 10 ^ n + digits_val (replicate n (CHR ''0''))"
    by (simp only: digits_val_append length_replicate)
  moreover have "digits_val [CHR ''0''] = 0" by (simp add: digits_val_def digit_val_zero)
  ultimately show ?case using Suc by simp
qed simp

lemma digits_val_pad_start [simp]: "digits_val (pad_start k (CHR ''0'') s) = digits_val s"
  by (simp add: pad_start_def digits_val_append)

lemma length_pad_start: "length s \<le> k \<Longrightarrow> length (pad_start k c s) = k"
  by (simp add: pad_start_def)

lemma set_pad_start: "set (pad_start k c s) \<subseteq> insert c (set s)"
  by (auto simp: pad_start_def)

lemma int_str_inject [simp]: "int_str i = int_str j \<longleftrightarrow> i = j"
proof
  assume eq: "int_str i = int_str j"
  have d: "hd (nat_str n) \<noteq> CHR ''-''" for n
  proof
    assume "hd (nat_str n) = CHR ''-''"
    moreover have "is_digit (hd (nat_str n))" by (rule nat_str_digits [of _ n]) simp
    ultimately show False by (simp add: is_digit_def char_code_def)
  qed
  have d': "nat_str n \<noteq> CHR ''-'' # xs" for n xs using d [of n] by auto
  show "i = j" using eq d' d' [symmetric]
    by (auto simp: int_str_def nat_eq_iff split: if_splits)
qed simp

section \<open>Headers\<close>

text \<open>
  A \<open>Headers\<close> object: names are kept in lower case, \<open>get\<close> returns the value or
  \<open>null\<close>, and \<open>entries()\<close> enumerates the pairs.
\<close>

definition hdr_get :: "headers \<Rightarrow> string \<Rightarrow> string option" where
  "hdr_get h k = map_of h k"

lemma hdr_get_simps [simp, js_simps]:
  "hdr_get [] k = None"
  "hdr_get ((a, v) # h) k = (if a = k then Some v else hdr_get h k)"
  by (simp_all add: hdr_get_def)

end
