(* ===== verification/Json.thy ===== *)
theory Json
  imports Js_Base "HOL-Library.List_Lexorder" "HOL-Library.Char_ord"
begin

text \<open>
  JavaScript values as \<open>JSON.parse\<close> builds them and \<open>JSON.stringify\<close> reads them.

  An object is the list of its own enumerable properties in enumeration order: keys that
  are array indices first, in ascending numeric order, then the others in the order they
  were added; \<open>js_set\<close> is the assignment \<open>o[k] = v\<close> on that list (assigning to
  \<open>__proto__\<close> changes the prototype and adds no property). A number is its shortest
  round-trip decimal \<open>m * 10 ^ e\<close>, the triple from which ECMAScript's
  \<open>Number::toString\<close> prints it. \<open>JUndef\<close> is the value \<open>undefined\<close>. Objects with an
  own property \<open>toString\<close> are not given to \<open>String(v)\<close> in the model.
\<close>

datatype jsv =
    JUndef
  | JNull
  | JBool bool
  | JNum int int
  | JStr string
  | JArr "jsv list"
  | JObj "(string \<times> jsv) list"

section \<open>Objects\<close>

definition is_index :: "string \<Rightarrow> bool" where
  "is_index k \<longleftrightarrow> k \<noteq> [] \<and> list_all is_digit k \<and> nat_str (digits_val k) = k
     \<and> digits_val k < 4294967295"

fun insert_index :: "string \<Rightarrow> 'v \<Rightarrow> (string \<times> 'v) list \<Rightarrow> (string \<times> 'v) list" where
  "insert_index k v [] = [(k, v)]"
| "insert_index k v ((a, w) # ps) =
     (if is_index a \<and> digits_val a < digits_val k then (a, w) # insert_index k v ps
      else (k, v) # (a, w) # ps)"

fun assoc_set :: "string \<Rightarrow> 'v \<Rightarrow> (string \<times> 'v) list \<Rightarrow> (string \<times> 'v) list" where
  "assoc_set k v [] = [(k, v)]"
| "assoc_set k v ((a, w) # ps) = (if a = k then (k, v) # ps else (a, w) # assoc_set k v ps)"

definition js_set :: "(string \<times> 'v) list \<Rightarrow> string \<Rightarrow> 'v \<Rightarrow> (string \<times> 'v) list" where
  "js_set ps k v =
     (if k = ''__proto__'' then ps
      else if k \<in> set (map fst ps) then assoc_set k v ps
      else if is_index k then insert_index k v ps
      else ps @ [(k, v)])"

definition js_build :: "(string \<times> 'v) list \<Rightarrow> (string \<times> 'v) list" where
  "js_build ps = foldl (\<lambda>r p. js_set r (fst p) (snd p)) [] ps"

text \<open>\<open>v.k\<close>: \<open>None\<close> is the \<open>TypeError\<close> on \<open>null\<close> and \<open>undefined\<close>.\<close>

fun get_prop :: "jsv \<Rightarrow> string \<Rightarrow> jsv option" where
  "get_prop JUndef k = None"
| "get_prop JNull k = None"
| "get_prop (JObj ps) k = Some (case map_of ps k of None \<Rightarrow> JUndef | Some v \<Rightarrow> v)"
| "get_prop _ k = Some JUndef"

definition field :: "jsv \<Rightarrow> string \<Rightarrow> jsv" where
  "field v k = (case get_prop v k of None \<Rightarrow> JUndef | Some w \<Rightarrow> w)"

fun js_truthy :: "jsv \<Rightarrow> bool" where
  "js_truthy JUndef = False"
| "js_truthy JNull = False"
| "js_truthy (JBool b) = b"
| "js_truthy (JNum m e) = (m \<noteq> 0)"
| "js_truthy (JStr s) = (s \<noteq> [])"
| "js_truthy (JArr xs) = True"
| "js_truthy (JObj ps) = True"

text \<open>\<open>a || b\<close> on values.\<close>

definition jor :: "jsv \<Rightarrow> jsv \<Rightarrow> jsv" where
  "jor a b = (if js_truthy a then a else b)"

lemma assoc_set_map: "map_of (assoc_set k v ps) = (map_of ps)(k \<mapsto> v)"
  by (induction k v ps rule: assoc_set.induct) auto

lemma insert_index_map: "k \<notin> fst ` set ps \<Longrightarrow> map_of (insert_index k v ps) = (map_of ps)(k \<mapsto> v)"
  by (induction k v ps rule: insert_index.induct) (auto simp: fun_eq_iff)

lemma js_set_map: "k \<noteq> ''__proto__'' \<Longrightarrow> map_of (js_set ps k v) = (map_of ps)(k \<mapsto> v)"
  by (auto simp: js_set_def assoc_set_map insert_index_map map_add_def fun_eq_iff
      split: option.splits dest!: map_of_SomeD intro: rev_image_eqI)

section \<open>Numbers and strings\<close>

definition number_str :: "int \<Rightarrow> int \<Rightarrow> string" where
  "number_str m e =
     (if m = 0 then ''0''
      else let digits = nat_str (nat \<bar>m\<bar>);
               k = int (length digits);
               n = k + e;
               body =
                 (if k \<le> n \<and> n \<le> 21 then digits @ replicate (nat e) (CHR ''0'')
                  else if 0 < n \<and> n \<le> 21 then take (nat n) digits @ CHR ''.'' # drop (nat n) digits
                  else if - 6 < n \<and> n \<le> 0 then ''0.'' @ replicate (nat (- n)) (CHR ''0'') @ digits
                  else (if k = 1 then digits else take 1 digits @ CHR ''.'' # drop 1 digits)
                     @ CHR ''e'' # (if n - 1 < 0 then ''-'' else ''+'') @ nat_str (nat \<bar>n - 1\<bar>))
           in (if m < 0 then ''-'' else []) @ body)"

text \<open>\<open>String(v)\<close>. In \<open>Array.prototype.join\<close> the elements \<open>null\<close>, \<open>undefined\<close> are empty.\<close>

primrec js_String :: "jsv \<Rightarrow> string" where
  "js_String JUndef = ''undefined''"
| "js_String JNull = ''null''"
| "js_String (JBool b) = (if b then ''true'' else ''false'')"
| "js_String (JNum m e) = number_str m e"
| "js_String (JStr s) = s"
| "js_String (JArr xs) = js_join '','' (map (\<lambda>(v, s). if v = JUndef \<or> v = JNull then [] else s)
     (zip xs (map js_String xs)))"
| "js_String (JObj ps) = ''[object Object]''"

section \<open>JSON.stringify\<close>

definition hex_digit :: "nat \<Rightarrow> char" where
  "hex_digit n = (if n < 10 then char_of (48 + n) else char_of (87 + n))"

definition quote_char :: "char \<Rightarrow> string" where
  "quote_char c = (let n = char_code c in
     if n = 34 then [char_of (92::nat), char_of (34::nat)]
     else if n = 92 then [char_of (92::nat), char_of (92::nat)]
     else if n = 8 then [char_of (92::nat), CHR ''b'']
     else if n = 9 then [char_of (92::nat), CHR ''t'']
     else if n = 10 then [char_of (92::nat), CHR ''n'']
     else if n = 12 then [char_of (92::nat), CHR ''f'']
     else if n = 13 then [char_of (92::nat), CHR ''r'']
     else if n < 32 then [char_of (92::nat), CHR ''u'', CHR ''0'', CHR ''0'', hex_digit (n div 16), hex_digit (n mod 16)]
     else [c])"

definition dquote :: string where
  "dquote = [CHR 0x22]"

definition json_quote :: "string \<Rightarrow> string" where
  "json_quote s = dquote @ concat (map quote_char s) @ dquote"

primrec js_stringify :: "jsv \<Rightarrow> string option" where
  "js_stringify JUndef = None"
| "js_stringify JNull = Some ''null''"
| "js_stringify (JBool b) = Some (if b then ''true'' else ''false'')"
| "js_stringify (JNum m e) = Some (number_str m e)"
| "js_stringify (JStr s) = Some (json_quote s)"
| "js_stringify (JArr xs) = Some (''['' @ js_join '',''
     (map (\<lambda>r. case r of None \<Rightarrow> ''null'' | Some s \<Rightarrow> s) (map js_stringify xs)) @ '']'')"
| "js_stringify (JObj ps) = Some (''{'' @ js_join '',''
     (concat (map (\<lambda>(k, r). case r of None \<Rightarrow> [] | Some s \<Rightarrow> [json_quote k @ '':'' @ s])
       (map (map_prod id js_stringify) ps))) @ ''}'')"

section \<open>Well-formed objects\<close>

text \<open>Property keys of an object are distinct; \<open>no_proto\<close> excludes the key \<open>__proto__\<close>.\<close>

primrec wf_jsv :: "jsv \<Rightarrow> bool" where
  "wf_jsv JUndef = True"
| "wf_jsv JNull = True"
| "wf_jsv (JBool b) = True"
| "wf_jsv (JNum m e) = True"
| "wf_jsv (JStr s) = True"
| "wf_jsv (JArr xs) = list_all id (map wf_jsv xs)"
| "wf_jsv (JObj ps) = (distinct (map fst ps) \<and> list_all snd (map (map_prod id wf_jsv) ps))"

lemma wf_jsv_obj: "wf_jsv (JObj ps) \<longleftrightarrow> distinct (map fst ps) \<and> (\<forall>(k, v) \<in> set ps. wf_jsv v)"
  by (auto simp: list_all_iff)

lemma wf_jsv_arr: "wf_jsv (JArr xs) \<longleftrightarrow> (\<forall>v \<in> set xs. wf_jsv v)"
  by (simp add: list_all_iff)

lemma field_simps_obj [simp, js_simps]:
  "field (JObj ps) k = (case map_of ps k of None \<Rightarrow> JUndef | Some v \<Rightarrow> v)"
  "field JNull k = JUndef" "field JUndef k = JUndef"
  by (simp_all add: field_def)

section \<open>The order an object enumerates\<close>

definition index_val :: "string \<times> 'v \<Rightarrow> nat" where
  "index_val p = digits_val (fst p)"

text \<open>
  A list enumerates like a JavaScript object whose string keys were added in
  lexicographic order: ascending indices, then ascending string keys.
\<close>

definition canonical_order :: "(string \<times> 'v) list \<Rightarrow> bool" where
  "canonical_order out \<longleftrightarrow> (\<exists>ix ss. out = ix @ ss
     \<and> (\<forall>p \<in> set ix. is_index (fst p)) \<and> sorted (map index_val ix) \<and> distinct (map index_val ix)
     \<and> (\<forall>p \<in> set ss. \<not> is_index (fst p)) \<and> sorted (map fst ss) \<and> distinct (map fst ss))"

lemma is_index_inj: "is_index k \<Longrightarrow> is_index l \<Longrightarrow> digits_val k = digits_val l \<Longrightarrow> k = l"
  by (auto simp: is_index_def)

lemma insert_index_append:
  assumes "\<forall>p \<in> set ix. is_index (fst p)" and "\<forall>p \<in> set ss. \<not> is_index (fst p)"
  shows "insert_index k v (ix @ ss) = insort_key index_val (k, v) ix @ ss"
  using assms
proof (induction ix)
  case Nil
  then show ?case by (cases ss) auto
next
  case (Cons p ps)
  then show ?case by (cases p) (auto simp: index_val_def not_le)
qed

lemma js_set_fresh:
  assumes "canonical_order r" and "k \<notin> set (map fst r)" and "\<forall>p \<in> set r. is_index (fst p) \<or> fst p \<le> k"
  shows "canonical_order (js_set r k v)
    \<and> set (js_set r k v) = (if k = ''__proto__'' then set r else insert (k, v) (set r))"
proof -
  obtain ix ss where r: "r = ix @ ss" and i: "\<forall>p \<in> set ix. is_index (fst p)"
    "sorted (map index_val ix)" "distinct (map index_val ix)"
    and s: "\<forall>p \<in> set ss. \<not> is_index (fst p)" "sorted (map fst ss)" "distinct (map fst ss)"
    using assms(1) unfolding canonical_order_def by blast
  consider "k = ''__proto__''" | "k \<noteq> ''__proto__''" "is_index k" | "k \<noteq> ''__proto__''" "\<not> is_index k"
    by blast
  then show ?thesis
  proof cases
    case 1
    then show ?thesis using assms(1) by (simp add: js_set_def)
  next
    case 2
    let ?ix = "insort_key index_val (k, v) ix"
    have eq: "js_set r k v = ?ix @ ss"
      using 2 assms(2) r i(1) s(1) by (simp add: js_set_def insert_index_append)
    have fresh: "index_val (k, v) \<notin> index_val ` set ix"
    proof
      assume "index_val (k, v) \<in> index_val ` set ix"
      then obtain p where p: "p \<in> set ix" "digits_val (fst p) = digits_val k"
        by (auto simp: index_val_def)
      then have "fst p = k" using i(1) 2 is_index_inj by blast
      then have "k \<in> set (map fst r)" using p r by auto
      with assms(2) show False by blast
    qed
    have "sorted (map index_val ?ix)" using i(2) by (simp add: sorted_insort_key)
    moreover have "distinct (map index_val ?ix)"
      using i(3) fresh by (induction ix) (auto simp: set_insort_key)
    moreover have "\<forall>p \<in> set ?ix. is_index (fst p)" using i(1) 2 by (simp add: set_insort_key)
    ultimately have "canonical_order (?ix @ ss)" using s unfolding canonical_order_def by blast
    moreover have "set (?ix @ ss) = insert (k, v) (set r)" using r by (simp add: set_insort_key)
    ultimately show ?thesis using eq 2 by simp
  next
    case 3
    have eq: "js_set r k v = ix @ (ss @ [(k, v)])" using 3 assms(2) r by (simp add: js_set_def)
    have "sorted (map fst (ss @ [(k, v)]))" using s assms(3) r by (auto simp: sorted_append)
    moreover have "distinct (map fst (ss @ [(k, v)]))" using s(3) assms(2) r by auto
    moreover have "\<forall>p \<in> set (ss @ [(k, v)]). \<not> is_index (fst p)" using s(1) 3 by simp
    ultimately have "canonical_order (ix @ (ss @ [(k, v)]))" using i unfolding canonical_order_def by blast
    then show ?thesis using eq 3 r by auto
  qed
qed

lemma js_build_sorted:
  assumes "sorted (map fst ps)" and "distinct (map fst ps)"
  shows "canonical_order (js_build ps) \<and> set (js_build ps) = {p \<in> set ps. fst p \<noteq> ''__proto__''}"
  using assms
proof (induction ps rule: rev_induct)
  case Nil
  show ?case by (simp add: js_build_def canonical_order_def)
next
  case (snoc p ps)
  obtain k v where p: "p = (k, v)" by (cases p)
  have IH: "canonical_order (js_build ps)" "set (js_build ps) = {p \<in> set ps. fst p \<noteq> ''__proto__''}"
    using snoc by (auto simp: sorted_append)
  have step: "js_build (ps @ [p]) = js_set (js_build ps) k v" by (simp add: js_build_def p)
  have "k \<notin> set (map fst (js_build ps))" using IH(2) snoc.prems(2) p by auto
  moreover have "\<forall>q \<in> set (js_build ps). is_index (fst q) \<or> fst q \<le> k"
    using IH(2) snoc.prems(1) p by (auto simp: sorted_append)
  ultimately have "canonical_order (js_set (js_build ps) k v)
      \<and> set (js_set (js_build ps) k v)
        = (if k = ''__proto__'' then set (js_build ps) else insert (k, v) (set (js_build ps)))"
    using IH(1) by (intro js_set_fresh) auto
  then show ?case using step IH(2) p by auto
qed

lemma canonical_order_distinct: "canonical_order out \<Longrightarrow> distinct (map fst out)"
proof -
  assume "canonical_order out"
  then obtain ix ss where o: "out = ix @ ss" and i: "\<forall>p \<in> set ix. is_index (fst p)"
    "distinct (map index_val ix)" and s: "\<forall>p \<in> set ss. \<not> is_index (fst p)" "distinct (map fst ss)"
    unfolding canonical_order_def by blast
  have "map index_val ix = map digits_val (map fst ix)" by (simp add: index_val_def)
  then have "distinct (map fst ix)" using i(2) by (metis distinct_map)
  then show ?thesis using o i(1) s by fastforce
qed

lemma canonical_order_unique:
  assumes "canonical_order xs" and "canonical_order ys" and "set xs = set ys"
  shows "xs = ys"
proof -
  obtain i s where x: "xs = i @ s" "\<forall>p \<in> set i. is_index (fst p)" "sorted (map index_val i)"
    "distinct (map index_val i)" "\<forall>p \<in> set s. \<not> is_index (fst p)" "sorted (map fst s)" "distinct (map fst s)"
    using assms(1) unfolding canonical_order_def by blast
  obtain j t where y: "ys = j @ t" "\<forall>p \<in> set j. is_index (fst p)" "sorted (map index_val j)"
    "distinct (map index_val j)" "\<forall>p \<in> set t. \<not> is_index (fst p)" "sorted (map fst t)" "distinct (map fst t)"
    using assms(2) unfolding canonical_order_def by blast
  have "set i = {p \<in> set xs. is_index (fst p)}" "set j = {p \<in> set ys. is_index (fst p)}"
    "set s = {p \<in> set xs. \<not> is_index (fst p)}" "set t = {p \<in> set ys. \<not> is_index (fst p)}"
    using x y by auto
  then have ij: "set i = set j" and st: "set s = set t" using assms(3) by auto
  have "inj_on index_val (set i \<union> set j)" using x(4) ij by (simp add: distinct_map)
  then have "i = j" using x(3,4) y(3,4) ij by (intro map_sorted_distinct_set_unique) auto
  moreover have "inj_on fst (set s \<union> set t)" using x(7) st by (simp add: distinct_map)
  then have "s = t" using x(6,7) y(6,7) st by (intro map_sorted_distinct_set_unique) auto
  ultimately show ?thesis using x(1) y(1) by simp
qed

end
