(* ===== verification/Database.thy ===== *)
theory Database
  imports Json
begin

text \<open>
  The tables of the shared Postgres database (\<open>apps/web/lib/db/schema.ts\<close>), the SQL
  statements the application issues on them, and the state-passing combinators the handlers
  are written with.

  A table is the list of its rows in the order a scan returns them; \<open>select ... limit 1\<close>
  returns the first match. The constraints are the ones \<open>schema.ts\<close> and \<open>db/init.ts\<close>
  declare: the primary keys, the unique key hash, and the unique index over
  \<open>(user_id, idempotency_key)\<close> for rows with a user. A statement may fail: \<open>outages\<close>
  tells for the statements to come whether the database rejects them (\<open>True\<close>), so every
  theorem covers every pattern of failures. \<open>afterQueue\<close> holds the telemetry scheduled
  with \<open>after(...)\<close>, which runs once the response is sent. Times are integers.
\<close>

section \<open>Tables\<close>

record payment_row =
  p_id :: string
  p_userId :: "string option"
  p_apiKeyId :: "int option"
  p_idempotencyKey :: string
  p_requestFingerprint :: string
  p_provider :: string
  p_providerReference :: "string option"
  p_status :: string
  p_amountMinorUnits :: int
  p_currency :: string
  p_merchantReference :: "string option"
  p_description :: "string option"
  p_customerPhone :: "string option"
  p_customerEmail :: "string option"
  p_customerName :: "string option"
  p_nextActionType :: "string option"
  p_nextActionPayload :: "string option"
  p_metadataJson :: "string option"
  p_environment :: string
  p_createdAt :: int
  p_updatedAt :: int

record api_key_row =
  k_id :: int
  k_userId :: string
  k_name :: string
  k_keyHash :: string
  k_prefix :: string
  k_lastFour :: string
  k_environment :: string
  k_createdAt :: int
  k_lastUsedAt :: "int option"
  k_revokedAt :: "int option"

record api_request_row =
  q_userId :: string
  q_apiKeyId :: "int option"
  q_method :: string
  q_endpoint :: string
  q_statusCode :: nat
  q_latencyMs :: int
  q_routingLatencyMs :: "int option"
  q_environment :: string
  q_createdAt :: int

record webhook_event_row =
  e_eventId :: string
  e_provider :: string
  e_paymentId :: "string option"
  e_payloadJson :: "string option"
  e_signature :: "string option"
  e_receivedAt :: int

record merchant_settings_row =
  m_userId :: string
  m_orgName :: string
  m_billingEmail :: "string option"
  m_currency :: string
  m_webhookUrl :: "string option"
  m_webhookSecret :: string
  m_brandLogoUrl :: "string option"
  m_brandColor :: "string option"
  m_brandName :: "string option"
  m_createdAt :: int
  m_updatedAt :: int

record telemetry =
  t_userId :: string
  t_apiKeyId :: "int option"
  t_method :: string
  t_endpoint :: string
  t_statusCode :: nat
  t_routingLatencyMs :: "int option"
  t_environment :: "string option"

record world =
  payments :: "payment_row list"
  apiKeys :: "api_key_row list"
  apiRequests :: "api_request_row list"
  webhookEvents :: "webhook_event_row list"
  merchantSettings :: "merchant_settings_row list"
  nextKeyId :: int
  outages :: "bool list"
  afterQueue :: "telemetry list"

definition empty_world :: world where
  "empty_world = \<lparr>payments = [], apiKeys = [], apiRequests = [], webhookEvents = [],
     merchantSettings = [], nextKeyId = 1, outages = [], afterQueue = []\<rparr>"

section \<open>Computations on the database\<close>

type_synonym 'a db = "world \<Rightarrow> (js_exn + 'a) \<times> world"

definition db_return :: "'a \<Rightarrow> 'a db" where
  "db_return x = (\<lambda>w. (Inr x, w))"

definition db_throw :: "js_exn \<Rightarrow> 'a db" where
  "db_throw e = (\<lambda>w. (Inl e, w))"

definition db_bind :: "'a db \<Rightarrow> ('a \<Rightarrow> 'b db) \<Rightarrow> 'b db" where
  "db_bind m f = (\<lambda>w. case m w of (Inl e, w') \<Rightarrow> (Inl e, w') | (Inr x, w') \<Rightarrow> f x w')"

definition db_catch :: "'a db \<Rightarrow> (js_exn \<Rightarrow> 'a db) \<Rightarrow> 'a db" where
  "db_catch m h = (\<lambda>w. case m w of (Inl e, w') \<Rightarrow> h e w' | (Inr x, w') \<Rightarrow> (Inr x, w'))"

definition db_then :: "'a db \<Rightarrow> 'b db \<Rightarrow> 'b db" where
  "db_then m n = db_bind m (\<lambda>_. n)"

text \<open>One SQL statement: the next entry of \<open>outages\<close> decides whether it reaches the database.\<close>

definition db_query :: "'a db \<Rightarrow> 'a db" where
  "db_query f = (\<lambda>w. case outages w of
     [] \<Rightarrow> f w
   | down # rest \<Rightarrow>
       if down then (Inl (Error ''connection failure''), w\<lparr>outages := rest\<rparr>)
       else f (w\<lparr>outages := rest\<rparr>))"

section \<open>Statements on payments\<close>

definition select_payment :: "(payment_row \<Rightarrow> bool) \<Rightarrow> payment_row option db" where
  "select_payment cond = db_query (\<lambda>w. (Inr (find cond (payments w)), w))"

text \<open>What a lookup returned is a row of the table.\<close>

definition found_in :: "payment_row option \<Rightarrow> world \<Rightarrow> bool" where
  "found_in r w \<longleftrightarrow> (\<forall>p. r = Some p \<longrightarrow> p \<in> set (payments w))"

definition update_payment :: "string \<Rightarrow> (payment_row \<Rightarrow> payment_row) \<Rightarrow> unit db" where
  "update_payment i f = db_query (\<lambda>w. (Inr (), w\<lparr>payments :=
     map (\<lambda>p. if p_id p = i then f p else p) (payments w)\<rparr>))"

text \<open>The unique index over \<open>(user_id, idempotency_key)\<close>: a row of another id holds the pair.\<close>

definition idempotency_clash :: "payment_row \<Rightarrow> payment_row list \<Rightarrow> bool" where
  "idempotency_clash c ps \<longleftrightarrow> list_ex (\<lambda>p. p_id p \<noteq> p_id c \<and> p_userId p \<noteq> None
     \<and> p_userId p = p_userId c \<and> p_idempotencyKey p = p_idempotencyKey c) ps"

text \<open>\<open>insert ... on conflict (id) do update set ... returning *\<close>.\<close>

definition upsert_payment :: "payment_row \<Rightarrow> (payment_row \<Rightarrow> payment_row) \<Rightarrow> payment_row option db" where
  "upsert_payment c f = db_query (\<lambda>w.
     case find (\<lambda>p. p_id p = p_id c) (payments w) of
       None \<Rightarrow>
         if idempotency_clash c (payments w) then (Inl (Error ''unique violation''), w)
         else (Inr (Some c), w\<lparr>payments := payments w @ [c]\<rparr>)
     | Some old \<Rightarrow>
         if idempotency_clash (f old) (payments w) then (Inl (Error ''unique violation''), w)
         else (Inr (Some (f old)), w\<lparr>payments :=
                 map (\<lambda>p. if p_id p = p_id c then f p else p) (payments w)\<rparr>))"

definition insert_webhook_event :: "webhook_event_row \<Rightarrow> unit db" where
  "insert_webhook_event e = db_query (\<lambda>w.
     if list_ex (\<lambda>x. e_eventId x = e_eventId e) (webhookEvents w) then (Inr (), w)
     else (Inr (), w\<lparr>webhookEvents := webhookEvents w @ [e]\<rparr>))"

definition schedule :: "telemetry \<Rightarrow> unit db" where
  "schedule t = (\<lambda>w. (Inr (), w\<lparr>afterQueue := afterQueue w @ [t]\<rparr>))"

lemma select_payment_found: "select_payment cond w = (Inr r, w') \<Longrightarrow> found_in r w'"
  by (auto simp: select_payment_def db_query_def found_in_def find_Some_iff nth_mem
      split: list.splits if_splits)

lemma select_payment_cond: "select_payment cond w = (Inr (Some p), w') \<Longrightarrow> cond p"
  by (auto simp: select_payment_def db_query_def find_Some_iff split: list.splits if_splits)

section \<open>Responses\<close>

record response =
  r_status :: nat
  r_body :: jsv
  r_headers :: headers

definition json_response :: "nat \<Rightarrow> (string \<times> jsv) list \<Rightarrow> response" where
  "json_response st ps = \<lparr>r_status = st, r_body = JObj ps, r_headers = []\<rparr>"

definition error_response :: "nat \<Rightarrow> string \<Rightarrow> string \<Rightarrow> response" where
  "error_response st code msg =
     json_response st [(''error'', JObj [(''code'', JStr code), (''message'', JStr msg)])]"

definition jint :: "int \<Rightarrow> jsv" where
  "jint n = JNum n 0"

definition jstr_or_null :: "string option \<Rightarrow> jsv" where
  "jstr_or_null v = (case v of None \<Rightarrow> JNull | Some s \<Rightarrow> JStr s)"

text \<open>An exception that leaves a handler is answered by the framework with status 500.\<close>

definition run_handler :: "response db \<Rightarrow> world \<Rightarrow> response \<times> world" where
  "run_handler h w = (case h w of
     (Inl e, w') \<Rightarrow> (\<lparr>r_status = 500, r_body = JUndef, r_headers = []\<rparr>, w')
   | (Inr r, w') \<Rightarrow> (r, w'))"

lemma snd_db_return [simp]: "snd (db_return x w) = w"
  by (simp add: db_return_def)

lemma snd_then_return [simp]: "snd (db_then m (db_return x) w) = snd (m w)"
  by (auto simp: db_return_def db_bind_def db_then_def split: prod.splits sum.splits)

lemmas db_defs = db_return_def db_throw_def db_bind_def db_catch_def db_then_def

section \<open>Relations every computation keeps\<close>

text \<open>
  The interface between the statements and the handlers: a reflexive and transitive relation
  on worlds that no failure pattern and no scheduled telemetry can break. A computation
  keeps it when its start and end worlds are always related, whether it returns or
  throws; the combinators pass that on.
\<close>

definition keeps :: "(world \<Rightarrow> world \<Rightarrow> bool) \<Rightarrow> 'a db \<Rightarrow> bool" where
  "keeps R m \<longleftrightarrow> (\<forall>w. R w (snd (m w)))"

locale world_relation =
  fixes R :: "world \<Rightarrow> world \<Rightarrow> bool"
  assumes rel_refl: "R w w"
    and rel_trans: "R u v \<Longrightarrow> R v w \<Longrightarrow> R u w"
    and rel_outages: "R w (w\<lparr>outages := os\<rparr>)"
    and rel_after: "R w (w\<lparr>afterQueue := ts\<rparr>)"
begin

lemma keeps_return: "keeps R (db_return x)"
  by (simp add: keeps_def db_return_def rel_refl)

lemma keeps_throw: "keeps R (db_throw e)"
  by (simp add: keeps_def db_throw_def rel_refl)

lemma keeps_bind:
  assumes "keeps R m" and "\<And>x. keeps R (f x)"
  shows "keeps R (db_bind m f)"
  unfolding keeps_def
proof
  fix w
  obtain r v where m: "m w = (r, v)" by (cases "m w")
  have wv: "R w v" using assms(1) m by (auto simp: keeps_def dest: spec [of _ w])
  show "R w (snd (db_bind m f w))"
  proof (cases r)
    case (Inl e)
    with m wv show ?thesis by (simp add: db_bind_def)
  next
    case (Inr x)
    have "R v (snd (f x v))" using assms(2) by (simp add: keeps_def)
    with wv have "R w (snd (f x v))" by (rule rel_trans)
    with m Inr show ?thesis by (simp add: db_bind_def)
  qed
qed

text \<open>The same, with what the first computation is known to return.\<close>

lemma keeps_bind_yield:
  assumes "keeps R m" and "\<And>w x w'. m w = (Inr x, w') \<Longrightarrow> R w' (snd (f x w'))"
  shows "keeps R (db_bind m f)"
  unfolding keeps_def
proof
  fix w
  obtain r v where m: "m w = (r, v)" by (cases "m w")
  have wv: "R w v" using assms(1) m by (auto simp: keeps_def dest: spec [of _ w])
  show "R w (snd (db_bind m f w))"
  proof (cases r)
    case (Inl e)
    with m wv show ?thesis by (simp add: db_bind_def)
  next
    case (Inr x)
    have "R v (snd (f x v))" using assms(2) m Inr by simp
    with wv have "R w (snd (f x v))" by (rule rel_trans)
    with m Inr show ?thesis by (simp add: db_bind_def)
  qed
qed

lemma rel_bind:
  assumes "R w (snd (m w))" and "\<And>x. keeps R (k x)"
  shows "R w (snd (db_bind m k w))"
proof (cases "m w")
  case (Pair r v)
  show ?thesis
  proof (cases r)
    case (Inl e)
    with Pair assms(1) show ?thesis by (simp add: db_bind_def)
  next
    case (Inr x)
    have "R v (snd (k x v))" using assms(2) by (simp add: keeps_def)
    then have "R w (snd (k x v))" using assms(1) Pair by (auto intro: rel_trans)
    with Pair Inr show ?thesis by (simp add: db_bind_def)
  qed
qed

lemma keepsD: "keeps R m \<Longrightarrow> R w (snd (m w))"
  by (simp add: keeps_def)

lemma keeps_then: "keeps R m \<Longrightarrow> keeps R n \<Longrightarrow> keeps R (db_then m n)"
  unfolding db_then_def by (rule keeps_bind)

lemma keeps_catch:
  assumes "keeps R m" and "\<And>e. keeps R (h e)"
  shows "keeps R (db_catch m h)"
  unfolding keeps_def
proof
  fix w
  obtain r v where m: "m w = (r, v)" by (cases "m w")
  have wv: "R w v" using assms(1) m by (auto simp: keeps_def dest: spec [of _ w])
  show "R w (snd (db_catch m h w))"
  proof (cases r)
    case (Inr x)
    with m wv show ?thesis by (simp add: db_catch_def)
  next
    case (Inl e)
    have "R v (snd (h e v))" using assms(2) by (simp add: keeps_def)
    with wv have "R w (snd (h e v))" by (rule rel_trans)
    with m Inl show ?thesis by (simp add: db_catch_def)
  qed
qed

text \<open>A lookup, what is done with the row found, and the rest.\<close>

lemma keeps_lookup:
  assumes "keeps R m" and "\<And>w r w'. m w = (Inr r, w') \<Longrightarrow> Q r w'"
    and "\<And>r w. Q r w \<Longrightarrow> R w (snd (g r w))" and "\<And>x. keeps R (k x)"
  shows "keeps R (db_bind m (\<lambda>r. db_bind (g r) k))"
proof (rule keeps_bind_yield)
  fix w r w'
  assume "m w = (Inr r, w')"
  then have gw: "R w' (snd (g r w'))" using assms(2,3) by blast
  obtain y v where g: "g r w' = (y, v)" by (cases "g r w'")
  show "R w' (snd (db_bind (g r) k w'))"
  proof (cases y)
    case (Inl e)
    with g gw show ?thesis by (simp add: db_bind_def)
  next
    case (Inr x)
    have "R v (snd (k x v))" using assms(4) by (simp add: keeps_def)
    with gw g have "R w' (snd (k x v))" by (auto intro: rel_trans)
    with g Inr show ?thesis by (simp add: db_bind_def)
  qed
qed (rule assms(1))

lemma keeps_query: "keeps R f \<Longrightarrow> keeps R (db_query f)"
  unfolding keeps_def db_query_def
  by (auto simp: rel_outages split: list.splits intro: rel_trans [OF rel_outages])

lemma keeps_select: "keeps R (select_payment cond)"
  unfolding select_payment_def by (rule keeps_query) (simp add: keeps_def rel_refl)

lemma keeps_schedule: "keeps R (schedule t)"
  by (simp add: keeps_def schedule_def rel_after)

lemma keeps_if: "(b \<Longrightarrow> keeps R m) \<Longrightarrow> (\<not> b \<Longrightarrow> keeps R n) \<Longrightarrow> keeps R (if b then m else n)"
  by simp

lemmas keeps_intros = keeps_return keeps_throw keeps_then keeps_catch keeps_select keeps_schedule

lemma keeps_handler: "keeps R h \<Longrightarrow> R w (snd (run_handler h w))"
proof -
  assume "keeps R h"
  then have "R w (snd (h w))" by (simp add: keeps_def)
  then show ?thesis by (auto simp: run_handler_def split: prod.splits sum.splits)
qed

end

end
