(* ===== verification/Money.thy ===== *)
theory Money
  imports Js_Base Complex_Main
begin

text \<open>
  Money arithmetic: \<open>toMinorUnits\<close> and \<open>formatMajorUnits\<close> of the TypeScript SDK
  (\<open>sdk/typescript/src/client.ts\<close>) and \<open>getCurrencyDecimals\<close>, \<open>formatMinorUnits\<close>,
  \<open>formatCurrency\<close> of the web application (\<open>apps/web/lib/utils.ts\<close>).

  A JavaScript number is its exact rational value; \<open>BigInt\<close> values are integers; the
  conversion of a \<open>BigInt\<close> back to a number rounds to 53 significant bits, ties to even.
  The \<open>decimals\<close> argument is a natural number; for values up to 22 the factor
  \<open>10 ** decimals\<close> is an exact double. \<open>Math.floor(abs / factor)\<close> is the integer
  quotient for every safe integer \<open>abs\<close>: the distance of the true quotient to the next
  integer is at least \<open>1 / factor\<close>, more than half a unit in its last place.
\<close>

section \<open>BigInt and number conversions\<close>

definition max_safe_integer :: int where
  "max_safe_integer = 9007199254740991"

definition is_safe_integer :: "rat \<Rightarrow> bool" where
  "is_safe_integer x \<longleftrightarrow> x = of_int (floor x) \<and> \<bar>x\<bar> \<le> of_int max_safe_integer"

fun bit_length :: "nat \<Rightarrow> nat" where
  "bit_length n = (if n = 0 then 0 else Suc (bit_length (n div 2)))"

declare bit_length.simps [simp del]

definition bigint_to_number :: "int \<Rightarrow> int" where
  "bigint_to_number i = (let a = nat \<bar>i\<bar> in
     if a \<le> 2 ^ 53 then i
     else let e = bit_length a - 53;
              q = a div 2 ^ e;
              r = a mod 2 ^ e;
              h = 2 ^ (e - 1);
              q' = (if h < r \<or> (r = h \<and> odd q) then q + 1 else q)
          in sgn i * int (q' * 2 ^ e))"

definition hex_val :: "char \<Rightarrow> nat option" where
  "hex_val c = (let n = char_code c in
     if 48 \<le> n \<and> n \<le> 57 then Some (n - 48)
     else if 97 \<le> n \<and> n \<le> 102 then Some (n - 87)
     else if 65 \<le> n \<and> n \<le> 70 then Some (n - 55)
     else None)"

fun radix_val :: "nat \<Rightarrow> nat \<Rightarrow> string \<Rightarrow> nat option" where
  "radix_val b acc [] = Some acc"
| "radix_val b acc (c # cs) =
     (case hex_val c of None \<Rightarrow> None
      | Some d \<Rightarrow> if d < b then radix_val b (b * acc + d) cs else None)"

definition decimal_digits :: "string \<Rightarrow> nat option" where
  "decimal_digits s = (if s \<noteq> [] \<and> list_all is_digit s then Some (digits_val s) else None)"

definition prefixed_literal :: "string \<Rightarrow> nat option" where
  "prefixed_literal s = (case s of
     z # x # r \<Rightarrow>
       (if z \<noteq> CHR ''0'' \<or> r = [] then None
        else if x = CHR ''x'' \<or> x = CHR ''X'' then radix_val 16 0 r
        else if x = CHR ''o'' \<or> x = CHR ''O'' then radix_val 8 0 r
        else if x = CHR ''b'' \<or> x = CHR ''B'' then radix_val 2 0 r
        else None)
   | _ \<Rightarrow> None)"

text \<open>\<open>BigInt(s)\<close>: \<open>None\<close> is the \<open>SyntaxError\<close> it throws.\<close>

definition bigint_of_string :: "string \<Rightarrow> int option" where
  "bigint_of_string s = (case js_trim s of
     [] \<Rightarrow> Some 0
   | c # r \<Rightarrow>
       if c = CHR ''+'' then map_option int (decimal_digits r)
       else if c = CHR ''-'' then map_option (\<lambda>n. - int n) (decimal_digits r)
       else case decimal_digits (c # r) of
              Some n \<Rightarrow> Some (int n)
            | None \<Rightarrow> map_option int (prefixed_literal (c # r)))"

text \<open>
  \<open>x.toFixed(d)\<close> for a finite \<open>x\<close>; \<open>txt\<close> is \<open>String(x)\<close>, which \<open>toFixed\<close> returns
  from \<open>10 ** 21\<close> on. The integer chosen is the nearest, the larger one on a tie.
\<close>

definition js_to_fixed :: "rat \<Rightarrow> string \<Rightarrow> nat \<Rightarrow> string" where
  "js_to_fixed x txt d =
     (if 10 ^ 21 \<le> \<bar>x\<bar> then txt
      else let n = nat (floor (\<bar>x\<bar> * 10 ^ d + 1 / 2));
               sign = (if x < 0 then ''-'' else []);
               body = (if d = 0 then nat_str n
                       else nat_str (n div 10 ^ d) @ CHR ''.'' # pad_start d (CHR ''0'') (nat_str (n mod 10 ^ d)))
           in sign @ body)"

section \<open>The SDK's conversions\<close>

datatype js_amount =
    ANumber rat string \<comment> \<open>a finite number and its \<open>String\<close> form\<close>
  | ANotFinite string \<comment> \<open>\<open>NaN\<close> or an infinity, by its \<open>String\<close> form\<close>
  | AString string

definition strip_sign :: "string \<Rightarrow> string" where
  "strip_sign s = (case s of [] \<Rightarrow> []
     | c # r \<Rightarrow> if c = CHR ''+'' \<or> c = CHR ''-'' then r else s)"

definition toMinorUnits :: "js_amount \<Rightarrow> nat \<Rightarrow> js_exn + int" where
  "toMinorUnits amount decimals =
     (let raw = (case amount of
                   ANumber x txt \<Rightarrow> js_to_fixed x txt decimals
                 | ANotFinite txt \<Rightarrow> txt
                 | AString s \<Rightarrow> js_trim s);
          isNegative = starts_with raw ''-'';
          str = strip_sign raw;
          parts = split_on (CHR ''.'') str;
          p0 = hd parts;
          p1 = (case tl parts of [] \<Rightarrow> [] | p # _ \<Rightarrow> p)
      in case bigint_of_string (if p0 = [] then ''0'' else p0) of
           None \<Rightarrow> Inl SyntaxError
         | Some whole \<Rightarrow>
             (let frac = take decimals (pad_end decimals (CHR ''0'') p1) in
              case bigint_of_string (if frac = [] then ''0'' else frac) of
                None \<Rightarrow> Inl SyntaxError
              | Some f \<Rightarrow>
                  (let minor = whole * 10 ^ decimals + f
                   in Inr (bigint_to_number (if isNegative then - minor else minor)))))"

definition formatMajorUnits :: "rat \<Rightarrow> nat \<Rightarrow> js_exn + string" where
  "formatMajorUnits minorUnits decimals =
     (if \<not> is_safe_integer minorUnits then Inl (TypeError ''minorUnits must be a safe integer'')
      else let m = floor minorUnits in
        if decimals = 0 then Inr (int_str m)
        else let abs = nat \<bar>m\<bar>;
                 factor = 10 ^ decimals;
                 whole = abs div factor;
                 fraction = pad_start decimals (CHR ''0'') (nat_str (abs mod factor))
             in Inr ((if m < 0 then ''-'' else []) @ nat_str whole @ CHR ''.'' # fraction))"

section \<open>The web application's formatting\<close>

definition getCurrencyDecimals :: "string \<Rightarrow> nat" where
  "getCurrencyDecimals currency =
     (let c = js_upper currency in
      if c \<in> set [''KWD'', ''BHD'', ''OMR''] then 3
      else if c \<in> set [''JPY'', ''KRW'', ''VND'', ''CLP''] then 0
      else 2)"

definition formatMinorUnits :: "rat \<Rightarrow> string \<Rightarrow> string" where
  "formatMinorUnits amountMinorUnits currency =
     (let isNegative = amountMinorUnits < 0;
          abs = nat \<bar>floor (amountMinorUnits + 1 / 2)\<bar>;
          decimals = getCurrencyDecimals currency;
          factor = 10 ^ decimals;
          major = abs div factor;
          sign = (if isNegative then ''-'' else [])
      in if decimals = 0 then sign @ nat_str abs @ CHR '' '' # js_upper currency
         else let minor = pad_start decimals (CHR ''0'') (nat_str (abs mod factor))
              in sign @ nat_str major @ CHR ''.'' # minor @ CHR '' '' # js_upper currency)"

definition formatCurrency :: "rat \<Rightarrow> string \<Rightarrow> string" where
  "formatCurrency amountMinorUnits currency = formatMinorUnits amountMinorUnits currency"

section \<open>Lemmas on the conversions\<close>

lemma bigint_to_number_exact: "\<bar>i\<bar> \<le> 2 ^ 53 \<Longrightarrow> bigint_to_number i = i"
proof -
  assume "\<bar>i\<bar> \<le> 2 ^ 53"
  then have "nat \<bar>i\<bar> \<le> 2 ^ 53" by simp
  then show ?thesis by (simp add: bigint_to_number_def Let_def)
qed

lemma decimal_digits_all: "s \<noteq> [] \<Longrightarrow> (\<And>c. c \<in> set s \<Longrightarrow> is_digit c) \<Longrightarrow> decimal_digits s = Some (digits_val s)"
  by (auto simp: decimal_digits_def list_all_iff)

lemma digit_not_sign [simp]:
  "is_digit c \<Longrightarrow> c \<noteq> CHR ''+''" "is_digit c \<Longrightarrow> c \<noteq> CHR ''-''" "is_digit c \<Longrightarrow> c \<noteq> CHR ''.''"
  by (auto simp: is_digit_def char_code_def)

lemma bigint_of_digits:
  assumes "s \<noteq> []" and d: "\<And>c. c \<in> set s \<Longrightarrow> is_digit c"
  shows "bigint_of_string s = Some (int (digits_val s))"
proof -
  obtain c r where s: "s = c # r" using assms(1) by (cases s) auto
  have "js_trim s = s" by (rule js_trim_no_ws) (simp add: d)
  moreover have "is_digit c" using s d by simp
  ultimately show ?thesis
    using s decimal_digits_all [OF assms] by (auto simp: bigint_of_string_def)
qed

lemma pad_nat_digits:
  "c \<in> set (pad_start d (CHR ''0'') (nat_str n)) \<Longrightarrow> is_digit c"
  using set_pad_start [of d "CHR ''0''" "nat_str n"] nat_str_digits [of c n]
  by (auto simp: is_digit_def char_code_def)

lemma pad_nat_length: "n < 10 ^ d \<Longrightarrow> 0 < d \<Longrightarrow> length (pad_start d (CHR ''0'') (nat_str n)) = d"
  by (rule length_pad_start) (rule nat_str_length)

definition major_text :: "bool \<Rightarrow> nat \<Rightarrow> nat \<Rightarrow> string" where
  "major_text neg n d = (if neg then ''-'' else []) @
     (if d = 0 then nat_str n
      else nat_str (n div 10 ^ d) @ CHR ''.'' # pad_start d (CHR ''0'') (nat_str (n mod 10 ^ d)))"

lemma major_text_no_ws: "c \<in> set (major_text neg n d) \<Longrightarrow> \<not> is_ws c"
proof -
  have "\<not> is_ws (CHR ''-'')" "\<not> is_ws (CHR ''.'')" by (simp_all add: is_ws_def char_code_def)
  moreover assume "c \<in> set (major_text neg n d)"
  then have "c = CHR ''-'' \<or> c = CHR ''.'' \<or> is_digit c"
    by (auto simp: major_text_def split: if_splits dest: nat_str_digits pad_nat_digits)
  ultimately show ?thesis by auto
qed

lemma nat_str_hd:
  obtains c r where "nat_str n = c # r" "is_digit c"
proof (cases "nat_str n")
  case (Cons c r)
  then have "is_digit c" using nat_str_digits [of c n] by simp
  with Cons show ?thesis by (rule that)
qed simp

lemma major_text_sign:
  "starts_with (major_text neg n d) ''-'' = neg"
  "strip_sign (major_text neg n d) = major_text False n d"
proof -
  obtain c r where c: "nat_str n = c # r" "is_digit c" by (rule nat_str_hd)
  obtain e q where e: "nat_str (n div 10 ^ d) = e # q" "is_digit e" by (rule nat_str_hd)
  show "starts_with (major_text neg n d) ''-'' = neg"
    using c e by (auto simp: major_text_def)
  show "strip_sign (major_text neg n d) = major_text False n d"
    using c e by (auto simp: major_text_def strip_sign_def)
qed

lemma toMinorUnits_text:
  assumes "(case amount of ANumber x txt \<Rightarrow> js_to_fixed x txt d | ANotFinite txt \<Rightarrow> txt
      | AString s \<Rightarrow> js_trim s) = major_text neg n d"
  shows "toMinorUnits amount d = Inr (bigint_to_number (if neg then - int n else int n))"
proof -
  have dot: "CHR ''.'' \<notin> set (nat_str k)" for k
    using nat_str_digits [of "CHR ''.''" k] digit_not_sign(3) by blast
  show ?thesis
  proof (cases "d = 0")
    case True
    have "split_on (CHR ''.'') (nat_str n) = [nat_str n]" by (rule split_on_no_sep) (rule dot)
    moreover have "bigint_of_string (nat_str n) = Some (int n)"
      using bigint_of_digits [of "nat_str n"] nat_str_digits by simp
    moreover have "bigint_of_string ''0'' = Some 0"
      using bigint_of_digits [of "''0''"] by (simp add: is_digit_def char_code_def digits_val_def digit_val_zero)
    ultimately show ?thesis
      unfolding toMinorUnits_def assms Let_def major_text_sign
      using True by (simp add: major_text_def)
  next
    case False
    let ?f = "pad_start d (CHR ''0'') (nat_str (n mod 10 ^ d))"
    have len: "length ?f = d" using False by (intro pad_nat_length) auto
    have f_dot: "CHR ''.'' \<notin> set ?f" using pad_nat_digits digit_not_sign(3) by blast
    have fne: "?f \<noteq> []" using len False by auto
    have sp: "split_on (CHR ''.'') (nat_str (n div 10 ^ d) @ CHR ''.'' # ?f) = [nat_str (n div 10 ^ d), ?f]"
      by (simp add: split_on_append_sep split_on_no_sep dot f_dot)
    have w: "bigint_of_string (nat_str (n div 10 ^ d)) = Some (int (n div 10 ^ d))"
      using bigint_of_digits [of "nat_str (n div 10 ^ d)"] nat_str_digits by simp
    have fr: "bigint_of_string ?f = Some (int (n mod 10 ^ d))"
      using bigint_of_digits [of ?f] pad_nat_digits fne by simp
    have tk: "take d (pad_end d (CHR ''0'') ?f) = ?f" using len by (simp add: pad_end_def)
    have total: "int (n div 10 ^ d) * 10 ^ d + int (n mod 10 ^ d) = int n"
    proof -
      have "int n = int (n div 10 ^ d * 10 ^ d + n mod 10 ^ d)" by (simp only: div_mult_mod_eq)
      also have "\<dots> = int (n div 10 ^ d) * 10 ^ d + int (n mod 10 ^ d)"
        by (simp only: of_nat_add of_nat_mult of_nat_power of_nat_numeral)
      finally show ?thesis by simp
    qed
    show ?thesis
      unfolding toMinorUnits_def assms Let_def major_text_sign
      using False fne by (simp add: major_text_def sp w tk fr total)
  qed
qed

lemma js_trim_major_text: "js_trim (major_text neg n d) = major_text neg n d"
  by (rule js_trim_no_ws) (rule major_text_no_ws)

lemma js_to_fixed_text:
  "\<bar>x\<bar> < 10 ^ 21 \<Longrightarrow> js_to_fixed x txt d = major_text (x < 0) (nat (floor (\<bar>x\<bar> * 10 ^ d + 1 / 2))) d"
  by (simp add: js_to_fixed_def major_text_def Let_def)

lemma formatMajorUnits_text:
  assumes "\<bar>m\<bar> \<le> max_safe_integer"
  shows "formatMajorUnits (of_int m) d = Inr (major_text (m < 0) (nat \<bar>m\<bar>) d)"
proof -
  have "\<bar>rat_of_int m\<bar> \<le> of_int max_safe_integer"
    using assms by (metis of_int_abs of_int_le_iff)
  then show ?thesis
    by (auto simp: formatMajorUnits_def is_safe_integer_def major_text_def int_str_def Let_def)
qed

lemma formatMinorUnits_text:
  "formatMinorUnits (of_int m) cur =
     major_text (m < 0) (nat \<bar>m\<bar>) (getCurrencyDecimals cur) @ CHR '' '' # js_upper cur"
proof -
  have "\<lfloor>rat_of_int m + 1 / 2\<rfloor> = m" by (simp add: floor_eq_iff)
  then show ?thesis by (simp add: formatMinorUnits_def major_text_def Let_def)
qed

lemma nearest_half: "N \<le> Z + 1 / 2 \<Longrightarrow> Z + 1 / 2 < N + 1 \<Longrightarrow> \<bar>N - Z\<bar> \<le> (1 / 2 :: rat)"
  by (rule abs_leI) linarith+

section \<open>Properties\<close>

text \<open>
  C39. Formatting an amount of minor units and reading the text back gives the amount: for
  every safe integer \<open>m\<close> and every number of decimals whose factor is exact,
  \<open>toMinorUnits(formatMajorUnits(m, d), d)\<close> is \<open>m\<close>, signs and leading zeros of the
  fraction included.
\<close>

theorem format_parse_roundtrip:
  assumes "\<bar>m\<bar> \<le> max_safe_integer" and "d \<le> 22"
  shows "\<exists>t. formatMajorUnits (of_int m) d = Inr t \<and> toMinorUnits (AString t) d = Inr m"
proof -
  let ?t = "major_text (m < 0) (nat \<bar>m\<bar>) d"
  have "toMinorUnits (AString ?t) d = Inr (bigint_to_number m)"
    by (subst toMinorUnits_text [where neg = "m < 0" and n = "nat \<bar>m\<bar>"]) (auto simp: js_trim_major_text)
  moreover have "bigint_to_number m = m"
    using assms(1) by (intro bigint_to_number_exact) (simp add: max_safe_integer_def)
  ultimately show ?thesis using formatMajorUnits_text [OF assms(1)] by auto
qed

theorem format_parse_roundtrip_witness:
  "\<exists>t. formatMajorUnits (of_int (-1005)) 2 = Inr t \<and> toMinorUnits (AString t) 2 = Inr (-1005)"
  by (rule format_parse_roundtrip) (simp_all add: max_safe_integer_def)

text \<open>
  C39. On a number the SDK's \<open>toMinorUnits\<close> never loses more than half a minor unit: the
  result is the integer nearest to \<open>amount * 10 ** decimals\<close>, for every amount whose
  scaled magnitude is exact in a double.
\<close>

theorem toMinorUnits_nearest:
  assumes "\<bar>x\<bar> < 10 ^ 21" and "\<bar>x\<bar> * 10 ^ d + 1 / 2 \<le> 2 ^ 53" and "d \<le> 22"
  shows "\<exists>r. toMinorUnits (ANumber x txt) d = Inr r \<and> \<bar>of_int r - x * 10 ^ d\<bar> \<le> 1 / 2"
proof -
  let ?y = "\<bar>x\<bar> * 10 ^ d + 1 / 2"
  define n where "n = floor ?y"
  have b: "rat_of_int n \<le> ?y" "?y < rat_of_int n + 1" unfolding n_def by linarith+
  have n0: "0 \<le> n" unfolding n_def by simp
  have "rat_of_int n \<le> rat_of_int (2 ^ 53)" using b(1) assms(2) by simp
  then have n53: "n \<le> 2 ^ 53" by (simp only: of_int_le_iff)
  define r where "r = (if x < 0 then - n else n)"
  have "toMinorUnits (ANumber x txt) d
      = Inr (bigint_to_number (if x < 0 then - int (nat n) else int (nat n)))"
    by (rule toMinorUnits_text) (simp only: js_amount.case js_to_fixed_text [OF assms(1)] n_def)
  also have "\<dots> = Inr (bigint_to_number r)" by (simp only: nat_0_le [OF n0] r_def)
  also have "bigint_to_number r = r"
    using n0 n53 by (intro bigint_to_number_exact) (auto simp: r_def)
  finally have eq: "toMinorUnits (ANumber x txt) d = Inr r" .
  have "\<bar>of_int r - x * 10 ^ d\<bar> = \<bar>of_int n - \<bar>x\<bar> * 10 ^ d\<bar>"
    using abs_minus_cancel [of "of_int n + x * 10 ^ d"] by (simp add: r_def)
  also have "\<dots> \<le> 1 / 2" using b by (rule nearest_half)
  finally show ?thesis using eq by (intro exI conjI)
qed

theorem toMinorUnits_nearest_witness:
  "\<exists>r. toMinorUnits (ANumber (21 / 2) ''10.5'') 2 = Inr r \<and> \<bar>of_int r - (21 / 2) * 10 ^ 2\<bar> \<le> (1 / 2 :: rat)"
  by (rule toMinorUnits_nearest) simp_all

text \<open>
  C38. The dashboard and the SDK print the same amount: for every safe integer the web
  application's \<open>formatMinorUnits\<close> is the SDK's \<open>formatMajorUnits\<close> at the
  currency's number of decimals, followed by a space and the upper-case currency code.
\<close>

theorem web_sdk_formatting_agree:
  assumes "\<bar>m\<bar> \<le> max_safe_integer"
  shows "\<exists>t. formatMajorUnits (of_int m) (getCurrencyDecimals cur) = Inr t
           \<and> formatCurrency (of_int m) cur = t @ '' '' @ js_upper cur"
  by (simp add: formatMajorUnits_text [OF assms] formatCurrency_def formatMinorUnits_text)

theorem web_sdk_formatting_agree_witness:
  "\<exists>t. formatMajorUnits (of_int 1234567) (getCurrencyDecimals ''kwd'') = Inr t
     \<and> formatCurrency (of_int 1234567) ''kwd'' = t @ '' '' @ js_upper ''kwd''"
  by (rule web_sdk_formatting_agree) (simp add: max_safe_integer_def)

end
