(* ===== verification/Access.thy ===== *)
theory Access
  imports Database Money
begin

text \<open>
  Who calls the API: \<open>apps/web/lib/api-version.ts\<close>, \<open>api-key-service.ts\<close>,
  \<open>api-request-authenticator.ts\<close> and the token and mode detection of the payment routes
  (\<open>app/api/[version]/payments/route.ts\<close>, \<open>[id]/route.ts\<close>). The SHA-256 digest
  \<open>sha\<close>, the 24 random bytes in base64url \<open>secret\<close> and the clock are parameters.
\<close>

section \<open>API versions\<close>

definition SUPPORTED_API_VERSIONS :: "string list" where
  "SUPPORTED_API_VERSIONS = [''v1'', ''v2'', ''v3'']"

text \<open>\<open>Inl\<close> is the error response, \<open>Inr\<close> the normalised version.\<close>

definition validateApiVersion :: "string \<Rightarrow> response + string" where
  "validateApiVersion rawVersion =
     (let normalized = js_trim (js_lower rawVersion) in
      if normalized = [] \<or> normalized \<notin> set SUPPORTED_API_VERSIONS then
        Inl (error_response 400 ''unsupported_api_version''
          (''API version '' @ [CHR 0x27] @ rawVersion @ [CHR 0x27] @ '' is not supported. Supported versions: ''
            @ js_join '', '' SUPPORTED_API_VERSIONS @ ''.''))
      else Inr normalized)"

section \<open>API keys\<close>

definition hashApiKey :: "(string \<Rightarrow> string) \<Rightarrow> string \<Rightarrow> string" where
  "hashApiKey sha key = sha (js_trim key)"

definition getApiKeyEnvironment :: "string \<Rightarrow> string" where
  "getApiKeyEnvironment keyOrPrefix =
     (let normalized = js_lower (js_trim keyOrPrefix) in
      if starts_with normalized ''ow_test'' \<or> normalized = ''ow_test_sandbox_demo''
         \<or> normalized = ''ow_demo_sandbox_key''
      then ''test'' else ''live'')"

record issued_key =
  i_key :: string
  i_environment :: string
  i_keyHash :: string
  i_prefix :: string
  i_lastFour :: string

definition issueApiKey :: "(string \<Rightarrow> string) \<Rightarrow> string \<Rightarrow> string \<Rightarrow> issued_key" where
  "issueApiKey sha secret environment =
     (let e = (if environment = ''test'' then ''test'' else ''live'');
          key = ''ow_'' @ e @ ''_'' @ secret
      in \<lparr>i_key = key, i_environment = e, i_keyHash = hashApiKey sha key,
          i_prefix = take 12 key, i_lastFour = slice_last 4 key\<rparr>)"

section \<open>Authentication of a request\<close>

record auth_key =
  a_id :: int
  a_userId :: string
  a_environment :: string

text \<open>\<open>s.replace(/^Bearer\s+/i, "")\<close>; \<open>None\<close> when the pattern does not match.\<close>

definition strip_bearer :: "string \<Rightarrow> string option" where
  "strip_bearer s =
     (if starts_with (js_lower s) ''bearer'' \<and> (case drop 6 s of [] \<Rightarrow> False | c # _ \<Rightarrow> is_ws c)
      then Some (dropWhile is_ws (drop 6 s)) else None)"

definition request_token :: "headers \<Rightarrow> string" where
  "request_token h =
     (let authorization = hdr_get h ''authorization''; xApiKey = hdr_get h ''x-api-key'' in
      case (if truthy authorization then Option.bind authorization strip_bearer else None) of
        Some t \<Rightarrow> js_trim t
      | None \<Rightarrow> if truthy xApiKey then js_trim (the xApiKey) else [])"

definition ambient_keys :: "env \<Rightarrow> string list" where
  "ambient_keys en = (case en ''OPENWRAPPER_API_KEYS'' of
     None \<Rightarrow> []
   | Some v \<Rightarrow> if v = [] then [] else filter (\<lambda>k. k \<noteq> []) (map js_trim (split_on (CHR '','') v)))"

definition is_demo_token :: "env \<Rightarrow> string \<Rightarrow> bool" where
  "is_demo_token en token \<longleftrightarrow> token = ''ow_demo_sandbox_key'' \<or> token = ''ow_test_sandbox_demo''
     \<or> token \<in> set (ambient_keys en)"

definition select_api_key :: "(api_key_row \<Rightarrow> bool) \<Rightarrow> api_key_row option db" where
  "select_api_key cond = db_query (\<lambda>w. (Inr (find cond (apiKeys w)), w))"

definition authenticateApiRequest ::
  "(string \<Rightarrow> string) \<Rightarrow> env \<Rightarrow> headers \<Rightarrow> auth_key option db" where
  "authenticateApiRequest sha en h =
     (let token = request_token h in
      if token = [] then db_return None
      else if is_demo_token en token then
        db_return (Some \<lparr>a_id = 0, a_userId = ''usr_sandbox_demo'',
          a_environment = getApiKeyEnvironment token\<rparr>)
      else
        (let keyHash = hashApiKey sha token in
         db_bind (select_api_key (\<lambda>k. k_keyHash k = keyHash \<and> k_revokedAt k = None)) (\<lambda>key.
           case key of
             None \<Rightarrow> db_return None
           | Some k \<Rightarrow> db_return (Some \<lparr>a_id = k_id k, a_userId = k_userId k,
               a_environment = (if k_environment k \<noteq> [] then k_environment k
                                else getApiKeyEnvironment (k_prefix k))\<rparr>))))"

section \<open>Telemetry\<close>

definition scheduleApiRequestRecord ::
  "auth_key \<Rightarrow> string \<Rightarrow> string \<Rightarrow> nat \<Rightarrow> int option \<Rightarrow> string option \<Rightarrow> unit db" where
  "scheduleApiRequestRecord key method endpoint statusCode routing environment =
     schedule \<lparr>t_userId = a_userId key, t_apiKeyId = Some (a_id key), t_method = method,
       t_endpoint = endpoint, t_statusCode = statusCode, t_routingLatencyMs = routing,
       t_environment = environment\<rparr>"

text \<open>\<open>elapsed\<close> is \<open>performance.now() - startedAt\<close>. Both statements are started before either is awaited.\<close>

definition recordApiRequest :: "int \<Rightarrow> rat \<Rightarrow> telemetry \<Rightarrow> unit db" where
  "recordApiRequest now elapsed t =
     (let latencyMs = max 1 (floor (elapsed + 1 / 2));
          validKeyId = (case t_apiKeyId t of Some i \<Rightarrow> if 0 < i then Some i else None | None \<Rightarrow> None);
          row = \<lparr>q_userId = t_userId t, q_apiKeyId = validKeyId, q_method = t_method t,
                 q_endpoint = t_endpoint t, q_statusCode = t_statusCode t, q_latencyMs = latencyMs,
                 q_routingLatencyMs = t_routingLatencyMs t,
                 q_environment = nullish_else (t_environment t) ''live'', q_createdAt = now\<rparr>;
          insert_row = db_query (\<lambda>w. (Inr (), w\<lparr>apiRequests := apiRequests w @ [row]\<rparr>));
          touch_key = (\<lambda>i. db_query (\<lambda>w. (Inr (), w\<lparr>apiKeys :=
            map (\<lambda>k. if k_id k = i \<and> k_userId k = t_userId t then k\<lparr>k_lastUsedAt := Some now\<rparr> else k)
              (apiKeys w)\<rparr>)))
      in case validKeyId of
           None \<Rightarrow> insert_row
         | Some i \<Rightarrow> db_catch (db_then insert_row (touch_key i)) (\<lambda>e. db_then (touch_key i) (db_throw e)))"

text \<open>The queue runs after the response; a failure of one record is only logged.\<close>

fun run_after :: "int \<Rightarrow> rat \<Rightarrow> telemetry list \<Rightarrow> world \<Rightarrow> world" where
  "run_after now elapsed [] w = w"
| "run_after now elapsed (t # ts) w = run_after now elapsed ts (snd (recordApiRequest now elapsed t w))"

section \<open>Token and mode of the payment routes\<close>

definition extractApiToken :: "headers \<Rightarrow> string option" where
  "extractApiToken h =
     (let a = map_option (\<lambda>s. js_trim (case strip_bearer s of None \<Rightarrow> s | Some t \<Rightarrow> t)) (hdr_get h ''authorization'');
          x = map_option js_trim (hdr_get h ''x-api-key'')
      in if truthy a then a else if truthy x then x else None)"

definition isTestMode :: "auth_key \<Rightarrow> headers \<Rightarrow> string option \<Rightarrow> bool" where
  "isTestMode key h token \<longleftrightarrow>
     a_environment key = ''test''
     \<or> map_option js_lower (hdr_get h ''x-openwrapper-environment'') = Some ''test''
     \<or> (case token of None \<Rightarrow> False | Some t \<Rightarrow> starts_with t ''ow_test_'')
     \<or> token = Some ''ow_test_sandbox_demo''
     \<or> token = Some ''ow_demo_sandbox_key''"

definition request_environment :: "auth_key \<Rightarrow> headers \<Rightarrow> string" where
  "request_environment key h = (if isTestMode key h (extractApiToken h) then ''test'' else ''live'')"

section \<open>Lemmas\<close>

lemma request_environment_cases: "request_environment key h = ''test'' \<or> request_environment key h = ''live''"
  by (simp add: request_environment_def)

lemma validateApiVersion_supported: "validateApiVersion raw = Inr v \<Longrightarrow> v \<in> set SUPPORTED_API_VERSIONS"
  by (auto simp: validateApiVersion_def Let_def split: if_splits)

lemma starts_with_no_ws:
  "\<not> is_ws c \<Longrightarrow> trim_start (c # s) = c # s"
  by (simp add: trim_start_def)

context world_relation begin

lemma keeps_select_api_key: "keeps R (select_api_key cond)"
  unfolding select_api_key_def by (rule keeps_query) (simp add: keeps_def rel_refl)

lemma keeps_authenticate: "keeps R (authenticateApiRequest sha en h)"
  unfolding authenticateApiRequest_def Let_def
  by (auto intro!: keeps_return keeps_bind keeps_select_api_key split: option.splits)

lemma keeps_telemetry: "keeps R (scheduleApiRequestRecord key method endpoint st routing environment)"
  unfolding scheduleApiRequestRecord_def by (rule keeps_schedule)

end

lemma authenticate_unfold:
  assumes "request_token h \<noteq> []" and "\<not> is_demo_token en (request_token h)" and "outages w = []"
  shows "authenticateApiRequest sha en h w =
    (Inr (map_option (\<lambda>k. \<lparr>a_id = k_id k, a_userId = k_userId k,
       a_environment = (if k_environment k \<noteq> [] then k_environment k else getApiKeyEnvironment (k_prefix k))\<rparr>)
       (find (\<lambda>k. k_keyHash k = hashApiKey sha (request_token h) \<and> k_revokedAt k = None) (apiKeys w))), w)"
  using assms by (simp add: authenticateApiRequest_def select_api_key_def db_query_def db_defs Let_def
      split: option.splits)

text \<open>A \<open>Bearer\<close> header carries its token: no white space inside or around it.\<close>

lemma request_token_bearer:
  assumes "hdr_get h ''authorization'' = Some (''Bearer '' @ t)" and "t \<noteq> []"
    and "\<And>c. c \<in> set t \<Longrightarrow> \<not> is_ws c"
  shows "request_token h = t"
proof -
  obtain c r where t: "t = c # r" using assms(2) by (cases t) auto
  have lower: "js_lower (''Bearer '' @ t) = ''bearer '' @ js_lower t"
    by (simp add: js_lower_def lower_char_def char_eval)
  have ws: "is_ws (CHR '' '')" by (simp add: is_ws_def char_code_def)
  have "dropWhile is_ws (CHR '' '' # t) = t" using t assms(3) ws by simp
  moreover have "starts_with (''bearer '' @ js_lower t) ''bearer''" by simp
  ultimately have "strip_bearer (''Bearer '' @ t) = Some t"
    unfolding strip_bearer_def lower by (simp add: ws)
  then show ?thesis using assms js_trim_no_ws [of t] by (simp add: request_token_def Let_def)
qed

section \<open>Properties\<close>

text \<open>
  C24. Only a stored key that has not been revoked authenticates: when a request that does
  not use a demo or ambient key is authenticated, some row of \<open>api_keys\<close> holds the hash
  of its token, is not revoked, and gives the identity.
\<close>

theorem authenticate_sound:
  assumes "authenticateApiRequest sha en h w = (Inr (Some a), w')"
    and "\<not> is_demo_token en (request_token h)"
  shows "\<exists>k \<in> set (apiKeys w). k_keyHash k = hashApiKey sha (request_token h)
    \<and> k_revokedAt k = None \<and> a_id a = k_id k \<and> a_userId a = k_userId k"
  using assms
  by (auto simp: authenticateApiRequest_def select_api_key_def db_query_def db_defs Let_def find_Some_iff
      split: if_splits option.splits list.splits prod.splits sum.splits dest!: nth_mem)

definition demo_keys_world :: world where
  "demo_keys_world = empty_world\<lparr>apiKeys := [\<lparr>k_id = 7, k_userId = ''u1'', k_name = ''ci'',
     k_keyHash = ''ow_live_abc'', k_prefix = ''ow_live_abc'', k_lastFour = ''_abc'', k_environment = ''live'',
     k_createdAt = 0, k_lastUsedAt = None, k_revokedAt = None\<rparr>]\<rparr>"

lemma demo_token: "request_token [(''x-api-key'', ''ow_live_abc'')] = ''ow_live_abc''"
proof -
  have "js_trim ''ow_live_abc'' = ''ow_live_abc''"
    by (rule js_trim_no_ws) (auto simp: is_ws_def char_code_def)
  then show ?thesis by (simp add: request_token_def Let_def)
qed

lemma demo_hash: "hashApiKey (\<lambda>s. s) ''ow_live_abc'' = ''ow_live_abc''"
  unfolding hashApiKey_def by (rule js_trim_no_ws) (auto simp: is_ws_def char_code_def)

theorem authenticate_sound_witness:
  "\<exists>k \<in> set (apiKeys demo_keys_world). k_keyHash k = hashApiKey (\<lambda>s. s) (request_token [(''x-api-key'', ''ow_live_abc'')])
    \<and> k_revokedAt k = None \<and> a_id \<lparr>a_id = 7, a_userId = ''u1'', a_environment = ''live''\<rparr> = k_id k
    \<and> a_userId \<lparr>a_id = 7, a_userId = ''u1'', a_environment = ''live''\<rparr> = k_userId k"
proof (rule authenticate_sound [where en = "\<lambda>_. None" and w' = demo_keys_world])
  show nd: "\<not> is_demo_token (\<lambda>_. None) (request_token [(''x-api-key'', ''ow_live_abc'')])"
    by (simp add: demo_token is_demo_token_def ambient_keys_def)
  show "authenticateApiRequest (\<lambda>s. s) (\<lambda>_. None) [(''x-api-key'', ''ow_live_abc'')] demo_keys_world =
      (Inr (Some \<lparr>a_id = 7, a_userId = ''u1'', a_environment = ''live''\<rparr>), demo_keys_world)"
    using nd by (subst authenticate_unfold)
      (simp_all add: demo_token demo_hash demo_keys_world_def empty_world_def)
qed

text \<open>
  A key the service issues keeps its environment: reading the environment back from the
  issued key, or from the twelve-character prefix that is stored, gives the environment it
  was issued for.
\<close>

theorem issued_key_environment:
  "getApiKeyEnvironment (i_key (issueApiKey sha secret environment))
     = i_environment (issueApiKey sha secret environment)
   \<and> getApiKeyEnvironment (i_prefix (issueApiKey sha secret environment))
     = i_environment (issueApiKey sha secret environment)
   \<and> i_environment (issueApiKey sha secret environment) = (if environment = ''test'' then ''test'' else ''live'')"
proof -
  have "getApiKeyEnvironment (''ow_'' @ e @ ''_'' @ s) = e" if "e = ''test'' \<or> e = ''live''" for e s
  proof -
    have "\<exists>r. js_trim ((''ow_'' @ e @ ''_'') @ s) = (''ow_'' @ e @ ''_'') @ r"
      by (rule js_trim_prefix) (use that in \<open>auto simp: is_ws_def char_code_def\<close>)
    then obtain r where r: "js_trim (''ow_'' @ e @ ''_'' @ s) = ''ow_'' @ e @ ''_'' @ r" by auto
    have "js_lower (''ow_'' @ e @ ''_'' @ r) = ''ow_'' @ e @ ''_'' @ js_lower r"
      using that by (auto simp: js_lower_def lower_char_def char_eval)
    with that show ?thesis unfolding getApiKeyEnvironment_def r by (auto simp: Let_def)
  qed
  from this [of "''test''"] this [of "''live''"] show ?thesis
    by (simp add: issueApiKey_def Let_def)
qed

end
