(* ===== verification/Dashboard.thy ===== *)
theory Dashboard
  imports Access
begin

text \<open>
  The figures of the dashboard: \<open>apps/web/lib/dashboard-telemetry-service.ts\<close>.

  Timestamps are milliseconds. \<open>iso_day\<close> is \<open>toISOString().split("T")[0]\<close>, \<open>sql_day\<close> the
  database's \<open>to_char(... AT TIME ZONE 'UTC', 'YYYY-MM-DD')\<close>, \<open>week_label\<close> and \<open>month_label\<close>
  \<open>toLocaleDateString\<close>; percentages are rationals. \<open>p / 100 * n\<close> in doubles rounds up to the
  same integer as the exact product for the two percentiles used and the at most 200 samples.
\<close>

section \<open>Percentiles and the timeline\<close>

definition percentile :: "int list \<Rightarrow> nat \<Rightarrow> int" where
  "percentile values p =
     (if values = [] then 0
      else (let sorted = sort values;
                idx = min (int (length sorted) - 1) (\<lceil>of_nat p / 100 * of_nat (length sorted) :: rat\<rceil> - 1)
            in sorted ! nat (max 0 idx)))"

record chart_point =
  cp_day :: string
  cp_requests :: int
  cp_errors :: int
  cp_successes :: int
  cp_volume :: int
  cp_settledVolume :: int

definition DAY_MS :: int where
  "DAY_MS = 24 * 60 * 60 * 1000"

text \<open>The body of the loop for \<open>i\<close>; the loop counts \<open>i\<close> down from \<open>days - 1\<close> to 0.\<close>

definition timeline_point ::
  "(int \<Rightarrow> string) \<Rightarrow> int \<Rightarrow> (int \<Rightarrow> string) \<Rightarrow> (string \<times> int \<times> int) list \<Rightarrow> (string \<times> int \<times> int) list
    \<Rightarrow> nat \<Rightarrow> chart_point" where
  "timeline_point iso_day now labelFn requestMap volumeMap i =
     (let d = now - int i * DAY_MS; dateStr = iso_day d;
          (requests, errors) = nullish_else (map_of requestMap dateStr) (0, 0);
          (initiated, settled) = nullish_else (map_of volumeMap dateStr) (0, 0)
      in \<lparr>cp_day = labelFn d, cp_requests = requests, cp_errors = errors,
          cp_successes = max 0 (requests - errors), cp_volume = initiated, cp_settledVolume = settled\<rparr>)"

definition buildDailyTimeline ::
  "(int \<Rightarrow> string) \<Rightarrow> int \<Rightarrow> nat \<Rightarrow> (int \<Rightarrow> string) \<Rightarrow> (string \<times> int \<times> int) list \<Rightarrow> (string \<times> int \<times> int) list
    \<Rightarrow> chart_point list" where
  "buildDailyTimeline iso_day now days labelFn requestMap volumeMap =
     map (timeline_point iso_day now labelFn requestMap volumeMap) (rev [0..<days])"

section \<open>The queries\<close>

definition counted :: "('a \<Rightarrow> bool) \<Rightarrow> 'a list \<Rightarrow> int" where
  "counted P xs = int (length (filter P xs))"

definition volume :: "payment_row list \<Rightarrow> int" where
  "volume ps = sum_list (map p_amountMinorUnits ps)"

definition is_settled :: "payment_row \<Rightarrow> bool" where
  "is_settled p \<longleftrightarrow> p_status p = ''succeeded''"

definition is_pending :: "payment_row \<Rightarrow> bool" where
  "is_pending p \<longleftrightarrow> p_status p = ''pending''
     \<or> (p_status p = ''unknown'' \<and> (p_nextActionType p \<noteq> None \<or> p_nextActionPayload p \<noteq> None))"

text \<open>\<open>group by\<close>: one result per key that occurs.\<close>

definition group_by :: "('a \<Rightarrow> 'k) \<Rightarrow> ('a list \<Rightarrow> 'v) \<Rightarrow> 'a list \<Rightarrow> ('k \<times> 'v) list" where
  "group_by key agg xs = map (\<lambda>k. (k, agg (filter (\<lambda>x. key x = k) xs))) (remdups (map key xs))"

definition latest :: "('a \<Rightarrow> int) \<Rightarrow> 'a list \<Rightarrow> 'a list" where
  "latest time xs = sort_key (\<lambda>x. - time x) xs"

text \<open>A statement that reads, and two statements awaited together: both run, one failure fails both.\<close>

definition read_db :: "(world \<Rightarrow> 'a) \<Rightarrow> 'a db" where
  "read_db f = db_query (\<lambda>w. (Inr (f w), w))"

definition both :: "'a db \<Rightarrow> 'b db \<Rightarrow> ('a \<times> 'b) db" where
  "both m n = (\<lambda>w. case m w of (r, w') \<Rightarrow> (case n w' of (s, w'') \<Rightarrow>
     (case r of Inl e \<Rightarrow> Inl e | Inr x \<Rightarrow> (case s of Inl e \<Rightarrow> Inl e | Inr y \<Rightarrow> Inr (x, y)), w'')))"

definition own_keys :: "string \<Rightarrow> string \<Rightarrow> world \<Rightarrow> api_key_row list" where
  "own_keys userId environment w = latest k_createdAt
     (filter (\<lambda>k. k_userId k = userId \<and> k_revokedAt k = None \<and> k_environment k = environment) (apiKeys w))"

definition own_requests :: "string \<Rightarrow> string \<Rightarrow> world \<Rightarrow> api_request_row list" where
  "own_requests userId environment w =
     filter (\<lambda>q. q_userId q = userId \<and> q_environment q = environment) (apiRequests w)"

definition requests_since :: "string \<Rightarrow> string \<Rightarrow> int \<Rightarrow> world \<Rightarrow> api_request_row list" where
  "requests_since userId environment t w = filter (\<lambda>q. t \<le> q_createdAt q) (own_requests userId environment w)"

definition own_payments :: "string \<Rightarrow> string \<Rightarrow> world \<Rightarrow> payment_row list" where
  "own_payments userId environment w =
     filter (\<lambda>p. p_userId p = Some userId \<and> p_environment p = environment) (payments w)"

definition payments_since :: "string \<Rightarrow> string \<Rightarrow> int \<Rightarrow> world \<Rightarrow> payment_row list" where
  "payments_since userId environment t w = filter (\<lambda>p. t \<le> p_createdAt p) (own_payments userId environment w)"

definition api_totals :: "api_request_row list \<Rightarrow> int \<times> int \<times> int" where
  "api_totals qs = (int (length qs), counted (\<lambda>q. 400 \<le> q_statusCode q) qs,
     counted (\<lambda>q. 200 \<le> q_statusCode q \<and> q_statusCode q < 300) qs)"

definition provider_stats :: "payment_row list \<Rightarrow> (string \<times> int \<times> int \<times> int) list" where
  "provider_stats = group_by p_provider
     (\<lambda>ps. (int (length ps), counted is_settled ps, volume (filter is_settled ps)))"

definition payment_totals :: "payment_row list \<Rightarrow> int \<times> int \<times> int \<times> int \<times> int" where
  "payment_totals ps = (volume ps, volume (filter is_settled ps), int (length ps),
     counted is_settled ps, counted is_pending ps)"

definition request_days :: "(int \<Rightarrow> string) \<Rightarrow> api_request_row list \<Rightarrow> (string \<times> int \<times> int) list" where
  "request_days sql_day = group_by (\<lambda>q. sql_day (q_createdAt q))
     (\<lambda>qs. (int (length qs), counted (\<lambda>q. 400 \<le> q_statusCode q) qs))"

definition volume_days :: "(int \<Rightarrow> string) \<Rightarrow> payment_row list \<Rightarrow> (string \<times> int \<times> int) list" where
  "volume_days sql_day = group_by (\<lambda>p. sql_day (p_createdAt p))
     (\<lambda>ps. (volume ps, volume (filter is_settled ps)))"

section \<open>The dashboard\<close>

record provider_mix =
  pm_provider :: string
  pm_count :: int
  pm_settledCount :: int
  pm_settledVolumeMinor :: int
  pm_settlementRate :: "rat option"

record metrics =
  me_apiSuccessRate24h :: "rat option"
  me_paymentSettlementRate :: "rat option"
  me_settledVolumeMinor :: int
  me_initiatedVolumeMinor :: int
  me_totalPayments :: int
  me_pendingPayments :: int
  me_routingLatencyP50 :: "int option"
  me_routingLatencyP95 :: "int option"
  me_activeKeys :: int
  me_providerMix :: "provider_mix list"

record dashboard =
  dd_keys :: "api_key_row list"
  dd_requests :: "api_request_row list"
  dd_payments :: "payment_row list"
  dd_weeklyChart :: "chart_point list"
  dd_monthlyChart :: "chart_point list"
  dd_metrics :: metrics

definition rate :: "int \<Rightarrow> int \<Rightarrow> rat option" where
  "rate part whole = (if 0 < whole then Some (of_int part / of_int whole * 100) else None)"

definition providerMix :: "(string \<times> int \<times> int \<times> int) list \<Rightarrow> provider_mix list" where
  "providerMix providerStats =
     filter (\<lambda>p. 0 < pm_count p)
       (map (\<lambda>provider. case nullish_else (map_of providerStats provider) (0, 0, 0) of
            (n, settledCount, settledVolume) \<Rightarrow>
              \<lparr>pm_provider = provider, pm_count = n, pm_settledCount = settledCount,
               pm_settledVolumeMinor = settledVolume, pm_settlementRate = rate settledCount n\<rparr>)
         [''paymob'', ''fawry'', ''stripe'', ''mock''])"

definition routing_samples :: "api_request_row list \<Rightarrow> int list" where
  "routing_samples qs = filter (\<lambda>n. 0 < n \<and> n < 2000)
     (map (\<lambda>q. nullish_else (q_routingLatencyMs q) (q_latencyMs q)) (take 200 qs))"

definition live_if_empty :: "api_key_row \<Rightarrow> api_key_row" where
  "live_if_empty k = k\<lparr>k_environment := if k_environment k = [] then ''live'' else k_environment k\<rparr>"

definition empty_metrics :: metrics where
  "empty_metrics = \<lparr>me_apiSuccessRate24h = None, me_paymentSettlementRate = None, me_settledVolumeMinor = 0,
     me_initiatedVolumeMinor = 0, me_totalPayments = 0, me_pendingPayments = 0, me_routingLatencyP50 = None,
     me_routingLatencyP95 = None, me_activeKeys = 0, me_providerMix = []\<rparr>"

definition empty_dashboard :: dashboard where
  "empty_dashboard =
     (let emptyDays = map (\<lambda>d. \<lparr>cp_day = d, cp_requests = 0, cp_errors = 0, cp_successes = 0, cp_volume = 0,
            cp_settledVolume = 0\<rparr>) [''Mon'', ''Tue'', ''Wed'', ''Thu'', ''Fri'', ''Sat'', ''Sun'']
      in \<lparr>dd_keys = [], dd_requests = [], dd_payments = [], dd_weeklyChart = emptyDays,
          dd_monthlyChart = emptyDays, dd_metrics = empty_metrics\<rparr>)"

record calendar =
  cal_iso_day :: "int \<Rightarrow> string"
  cal_sql_day :: "int \<Rightarrow> string"
  cal_week_label :: "int \<Rightarrow> string"
  cal_month_label :: "int \<Rightarrow> string"

definition assemble ::
  "calendar \<Rightarrow> int \<Rightarrow> api_key_row list \<Rightarrow> api_request_row list \<Rightarrow> int \<times> int \<times> int
    \<Rightarrow> (string \<times> int \<times> int \<times> int) list \<Rightarrow> payment_row list \<Rightarrow> int \<times> int \<times> int \<times> int \<times> int
    \<Rightarrow> (string \<times> int \<times> int) list \<Rightarrow> (string \<times> int \<times> int) list \<Rightarrow> int list \<Rightarrow> dashboard" where
  "assemble cal now keys requests apiTotals providerStats recent totals requestDays volumeDays samples =
     (case (apiTotals, totals) of
        ((attempts, _, successes), (initiated, settled, tot, successful, pending)) \<Rightarrow>
          \<lparr>dd_keys = map live_if_empty keys, dd_requests = requests, dd_payments = recent,
           dd_weeklyChart = buildDailyTimeline (cal_iso_day cal) now 7 (cal_week_label cal) requestDays volumeDays,
           dd_monthlyChart = buildDailyTimeline (cal_iso_day cal) now 30 (cal_month_label cal) requestDays volumeDays,
           dd_metrics =
             \<lparr>me_apiSuccessRate24h = rate successes attempts, me_paymentSettlementRate = rate successful tot,
              me_settledVolumeMinor = settled, me_initiatedVolumeMinor = initiated, me_totalPayments = tot,
              me_pendingPayments = pending,
              me_routingLatencyP50 = (if samples = [] then None else Some (percentile samples 50)),
              me_routingLatencyP95 = (if samples = [] then None else Some (percentile samples 95)),
              me_activeKeys = int (length keys), me_providerMix = providerMix providerStats\<rparr>\<rparr>)"

text \<open>
  \<open>ensureDatabaseSchema\<close> as its callers see it: in an initialised process it does nothing,
  before that it may fail.
\<close>

definition schema_gate :: "unit db" where
  "schema_gate = read_db (\<lambda>_. ())"

definition fetchDashboardDataUncached :: "calendar \<Rightarrow> int \<Rightarrow> string \<Rightarrow> string \<Rightarrow> dashboard db" where
  "fetchDashboardDataUncached cal now userId environment =
     (let oneDayAgo = now - DAY_MS; thirtyDaysAgo = now - 29 * DAY_MS;
          own = own_payments userId environment; reqs = own_requests userId environment
      in db_then schema_gate
        (db_catch
          (db_bind
            (both (read_db (own_keys userId environment))
            (both (read_db (\<lambda>w. take 10 (latest q_createdAt (reqs w))))
            (both (read_db (\<lambda>w. api_totals (requests_since userId environment oneDayAgo w)))
            (both (read_db (\<lambda>w. provider_stats (own w)))
            (both (read_db (\<lambda>w. take 10 (latest p_createdAt (own w))))
            (both (read_db (\<lambda>w. payment_totals (own w)))
            (both (read_db (\<lambda>w. request_days (cal_sql_day cal) (requests_since userId environment thirtyDaysAgo w)))
            (both (read_db (\<lambda>w. volume_days (cal_sql_day cal) (payments_since userId environment thirtyDaysAgo w)))
                  (read_db (\<lambda>w. routing_samples (requests_since userId environment oneDayAgo w)))))))))))
            (\<lambda>(keys, requests, apiTotals, providerStats, recent, totals, requestDays, volumeDays, samples).
               db_return (assemble cal now keys requests apiTotals providerStats recent totals requestDays volumeDays samples)))
          (\<lambda>error. db_return empty_dashboard)))"

section \<open>The cache\<close>

text \<open>\<open>metricsCache\<close>: a \<open>Map\<close> in insertion order; an entry holds when it was stored.\<close>

type_synonym cache = "(string \<times> int \<times> dashboard) list"

definition METRICS_CACHE_TTL_MS :: int where "METRICS_CACHE_TTL_MS = 30000"
definition METRICS_CACHE_MAX_ENTRIES :: nat where "METRICS_CACHE_MAX_ENTRIES = 500"

definition cache_key :: "string \<Rightarrow> string \<Rightarrow> string" where
  "cache_key userId environment = userId @ '':'' @ environment"

definition cache_delete :: "string \<Rightarrow> cache \<Rightarrow> cache" where
  "cache_delete k c = filter (\<lambda>e. fst e \<noteq> k) c"

definition cache_store :: "string \<Rightarrow> int \<Rightarrow> dashboard \<Rightarrow> cache \<Rightarrow> cache" where
  "cache_store k since d c =
     (let c' = (if METRICS_CACHE_MAX_ENTRIES \<le> length c then
                  (case c of [] \<Rightarrow> c | (oldestKey, _) # _ \<Rightarrow> if oldestKey \<noteq> [] then cache_delete oldestKey c else c)
                else c)
      in assoc_set k (since, d) c')"

text \<open>\<open>checked\<close>, \<open>started\<close> and \<open>stored\<close> are the three readings of the clock.\<close>

definition getDashboardData ::
  "calendar \<Rightarrow> int \<Rightarrow> int \<Rightarrow> int \<Rightarrow> string \<Rightarrow> string \<Rightarrow> cache \<Rightarrow> (dashboard \<times> cache) db" where
  "getDashboardData cal checked started stored userId environment c =
     (let cacheKey = cache_key userId environment;
          hit = (case map_of c cacheKey of
                   None \<Rightarrow> None
                 | Some (since, d) \<Rightarrow> if checked - since < METRICS_CACHE_TTL_MS then Some d else None)
      in case hit of
           Some d \<Rightarrow> db_return (d, c)
         | None \<Rightarrow> db_bind (fetchDashboardDataUncached cal started userId environment) (\<lambda>d.
             db_return (d, cache_store cacheKey stored d c)))"

definition invalidateDashboardData :: "string option \<Rightarrow> string option \<Rightarrow> cache \<Rightarrow> cache" where
  "invalidateDashboardData userId environment c =
     (if \<not> truthy userId then []
      else if truthy environment then cache_delete (cache_key (the userId) (the environment)) c
      else cache_delete (the userId)
             (cache_delete (cache_key (the userId) ''test'') (cache_delete (cache_key (the userId) ''live'') c)))"

section \<open>Percentiles\<close>

lemma filter_sorted_le:
  assumes "sorted s" "i < length s"
  shows "Suc i \<le> length (filter (\<lambda>x. x \<le> s ! i) s)"
proof -
  have "set (take (Suc i) s) \<subseteq> {x. x \<le> s ! i}"
    using assms by (auto simp: set_conv_nth sorted_iff_nth_mono less_Suc_eq_le)
  then have "filter (\<lambda>x. x \<le> s ! i) (take (Suc i) s) = take (Suc i) s"
    by (intro filter_True) auto
  then have "filter (\<lambda>x. x \<le> s ! i) s = take (Suc i) s @ filter (\<lambda>x. x \<le> s ! i) (drop (Suc i) s)"
    by (metis append_take_drop_id filter_append)
  then show ?thesis using assms(2) by simp
qed

lemma filter_sorted_less:
  assumes "sorted s" "i < length s"
  shows "length (filter (\<lambda>x. x < s ! i) s) \<le> i"
proof -
  have "set (drop i s) \<subseteq> {x. \<not> x < s ! i}"
    using assms by (auto simp: set_conv_nth sorted_iff_nth_mono not_less)
  then have "filter (\<lambda>x. x < s ! i) (drop i s) = []"
    by (intro filter_False) auto
  then have "filter (\<lambda>x. x < s ! i) s = filter (\<lambda>x. x < s ! i) (take i s)"
    by (metis append_Nil2 append_take_drop_id filter_append)
  then show ?thesis by (metis assms(2) length_filter_le length_take less_imp_le min_absorb2)
qed

lemma length_filter_sort: "length (filter P (sort xs)) = length (filter P xs)"
  by (metis filter_sort length_sort)

text \<open>The index the function reads: the number of values at or below the percentile, less one.\<close>

lemma percentile_index:
  fixes n p :: nat
  assumes "0 < n" "1 \<le> p" "p \<le> 100"
  obtains i where "i < n" "min (int n - 1) (\<lceil>of_nat p / 100 * of_nat n :: rat\<rceil> - 1) = int i"
    "p * n \<le> 100 * Suc i" "100 * i < p * n"
proof -
  define c where "c = \<lceil>of_nat p / 100 * of_nat n :: rat\<rceil>"
  have "of_nat p / 100 * of_nat n \<le> (of_int c :: rat)" "(of_int c :: rat) < of_nat p / 100 * of_nat n + 1"
    unfolding c_def by (simp_all add: ceiling_correct algebra_simps, linarith)
  then have "of_nat (p * n) \<le> (of_int (100 * c) :: rat)" "(of_int (100 * c) :: rat) < of_nat (p * n + 100)"
    by (simp_all add: field_simps)
  then have c: "int (p * n) \<le> 100 * c" "100 * c < int (p * n) + 100"
    by (metis of_int_le_iff of_int_of_nat_eq, metis of_int_less_iff of_int_of_nat_eq of_nat_add of_nat_numeral)
  have "0 < p * n" "p * n \<le> 100 * n" using assms by simp_all
  then have "1 \<le> c" "c \<le> int n" using c by linarith+
  then obtain i where i: "c = int i + 1" by (metis zle_iff_zadd add.commute)
  have "int (100 * i) < int (p * n)" "int (p * n) \<le> int (100 * Suc i)" using c i by simp_all
  then show ?thesis
    using that[of i] \<open>c \<le> int n\<close> i unfolding c_def[symmetric] by (simp only: of_nat_less_iff of_nat_le_iff)
qed

text \<open>
  C37. \<open>percentile\<close> is the nearest-rank percentile: for a non-empty list and 1 to 100 percent it
  is one of the values, at least \<open>p\<close> percent of the values are at or below it, and fewer than
  \<open>p\<close> percent are below it.
\<close>

theorem percentile_nearest_rank:
  assumes "values \<noteq> []" "1 \<le> p" "p \<le> 100"
  shows "percentile values p \<in> set values
    \<and> p * length values \<le> 100 * length (filter (\<lambda>v. v \<le> percentile values p) values)
    \<and> 100 * length (filter (\<lambda>v. v < percentile values p) values) < p * length values"
proof -
  obtain i where i: "i < length values"
    "min (int (length values) - 1) (\<lceil>of_nat p / 100 * of_nat (length values) :: rat\<rceil> - 1) = int i"
    "p * length values \<le> 100 * Suc i" "100 * i < p * length values"
    using percentile_index[of "length values" p] assms by (metis length_greater_0_conv)
  have v: "percentile values p = sort values ! i"
    using assms(1) i(2) by (simp add: percentile_def Let_def)
  have "Suc i \<le> length (filter (\<lambda>x. x \<le> sort values ! i) values)"
    "length (filter (\<lambda>x. x < sort values ! i) values) \<le> i"
    using filter_sorted_le[of "sort values" i] filter_sorted_less[of "sort values" i] i(1)
    by (simp_all add: length_filter_sort)
  moreover have "sort values ! i \<in> set values" using i(1) by (metis length_sort nth_mem set_sort)
  ultimately show ?thesis using i(3,4) unfolding v by auto
qed

theorem percentile_nearest_rank_witness:
  "percentile [40, 10, 30, 20] 50 \<in> set [40, 10, 30, 20]
    \<and> 50 * length [40, 10, 30, 20 :: int] \<le> 100 * length (filter (\<lambda>v. v \<le> percentile [40, 10, 30, 20] 50) [40, 10, 30, 20])
    \<and> 100 * length (filter (\<lambda>v. v < percentile [40, 10, 30, 20] 50) [40, 10, 30, 20]) < 50 * length [40, 10, 30, 20 :: int]"
  by (rule percentile_nearest_rank) simp_all

section \<open>The charts lose nothing\<close>

lemma group_by_lookup:
  "map_of (group_by key agg xs) k = (if k \<in> key ` set xs then Some (agg (filter (\<lambda>x. key x = k) xs)) else None)"
proof -
  have "map_of (map (\<lambda>k. (k, agg (filter (\<lambda>x. key x = k) xs))) ks) k
    = (if k \<in> set ks then Some (agg (filter (\<lambda>x. key x = k) xs)) else None)" for ks
    by (induction ks) auto
  then show ?thesis by (simp add: group_by_def)
qed

lemma group_by_total:
  assumes "agg [] = z"
  shows "nullish_else (map_of (group_by key agg xs) k) z = agg (filter (\<lambda>x. key x = k) xs)"
proof (cases "k \<in> key ` set xs")
  case False
  then have "filter (\<lambda>x. key x = k) xs = []" by (auto simp: filter_empty_conv)
  then show ?thesis using False assms by (simp add: group_by_lookup)
qed (simp add: group_by_lookup)

text \<open>Summing by classes counts everything once.\<close>

lemma sum_by_class:
  fixes f :: "'a \<Rightarrow> int"
  assumes "\<And>x. x \<in> set xs \<Longrightarrow> g x < n"
  shows "(\<Sum>i\<leftarrow>[0..<n]. sum_list (map f (filter (\<lambda>x. g x = i) xs))) = sum_list (map f xs)"
  using assms
proof (induction xs)
  case (Cons x xs)
  have one: "(\<Sum>i\<leftarrow>[0..<n]. if g x = i then f x else 0) = f x" if "g x < n"
    using that by (simp add: interv_sum_list_conv_sum_set_nat)
  have "sum_list (map f (filter (\<lambda>x. g x = i) (x # xs)))
    = (if g x = i then f x else 0) + sum_list (map f (filter (\<lambda>x. g x = i) xs))" for i by simp
  then show ?case
    using Cons.IH Cons.prems one by (simp add: sum_list_addf)
qed simp

text \<open>Both day functions name the UTC day of a timestamp, different days differently.\<close>

definition calendar_ok :: "calendar \<Rightarrow> bool" where
  "calendar_ok cal \<longleftrightarrow> (\<forall>t u. (cal_sql_day cal t = cal_iso_day cal u) = (t div DAY_MS = u div DAY_MS))"

lemma day_class:
  assumes "calendar_ok cal" "now - 29 * DAY_MS \<le> t" "t \<le> now"
  shows "(cal_sql_day cal t = cal_iso_day cal (now - int i * DAY_MS)) = (nat (now div DAY_MS - t div DAY_MS) = i)"
    "nat (now div DAY_MS - t div DAY_MS) < 30"
proof -
  have D: "(x - int j * DAY_MS) div DAY_MS = x div DAY_MS - int j" for x j
    using div_mult_self1[of DAY_MS x "- int j"] by (simp add: DAY_MS_def algebra_simps)
  have "now div DAY_MS - 29 \<le> t div DAY_MS"
    using zdiv_mono1[OF assms(2), of DAY_MS] D[of now 29] by (simp add: DAY_MS_def)
  moreover have "t div DAY_MS \<le> now div DAY_MS" using assms(3) by (simp add: zdiv_mono1 DAY_MS_def)
  ultimately show "nat (now div DAY_MS - t div DAY_MS) < 30" by simp
  show "(cal_sql_day cal t = cal_iso_day cal (now - int i * DAY_MS)) = (nat (now div DAY_MS - t div DAY_MS) = i)"
    using assms(1) \<open>t div DAY_MS \<le> now div DAY_MS\<close> by (auto simp: calendar_ok_def D)
qed

text \<open>The values of one column over a timeline add up to the whole.\<close>

lemma timeline_total:
  fixes f :: "'a \<Rightarrow> int"
  assumes "calendar_ok cal"
    and "\<And>x. x \<in> set xs \<Longrightarrow> now - 29 * DAY_MS \<le> time x \<and> time x \<le> now"
    and "\<And>i. column i = sum_list (map f (filter (\<lambda>x. cal_sql_day cal (time x) = cal_iso_day cal (now - int i * DAY_MS)) xs))"
  shows "sum_list (map column (rev [0..<30])) = sum_list (map f xs)"
proof -
  let ?g = "\<lambda>x. nat (now div DAY_MS - time x div DAY_MS)"
  have "filter (\<lambda>x. cal_sql_day cal (time x) = cal_iso_day cal (now - int i * DAY_MS)) xs = filter (\<lambda>x. ?g x = i) xs" for i
    using day_class(1)[OF assms(1)] assms(2) by (intro filter_cong) auto
  then have c: "column = (\<lambda>i. sum_list (map f (filter (\<lambda>x. ?g x = i) xs)))"
    by (simp only: assms(3) fun_eq_iff simp_thms)
  have "?g x < 30" if "x \<in> set xs" for x using day_class(2)[OF assms(1)] assms(2)[OF that] by blast
  then have "sum_list (map column [0..<30]) = sum_list (map f xs)"
    unfolding c by (rule sum_by_class)
  then show ?thesis by (metis rev_map sum_list_rev)
qed

text \<open>What a run without failures returns.\<close>

lemma read_db_up: "outages w = [] \<Longrightarrow> read_db f w = (Inr (f w), w)"
  by (simp add: read_db_def db_query_def)

lemma both_up: "m w = (Inr x, w) \<Longrightarrow> n w = (Inr y, w) \<Longrightarrow> both m n w = (Inr (x, y), w)"
  by (simp add: both_def)

lemma fetch_up:
  assumes "outages w = []"
  shows "fetchDashboardDataUncached cal now userId environment w =
    (Inr (assemble cal now (own_keys userId environment w) (take 10 (latest q_createdAt (own_requests userId environment w)))
       (api_totals (requests_since userId environment (now - DAY_MS) w)) (provider_stats (own_payments userId environment w))
       (take 10 (latest p_createdAt (own_payments userId environment w))) (payment_totals (own_payments userId environment w))
       (request_days (cal_sql_day cal) (requests_since userId environment (now - 29 * DAY_MS) w))
       (volume_days (cal_sql_day cal) (payments_since userId environment (now - 29 * DAY_MS) w))
       (routing_samples (requests_since userId environment (now - DAY_MS) w))), w)"
  using assms
  by (simp add: fetchDashboardDataUncached_def schema_gate_def db_then_def db_catch_def db_bind_def both_def
      read_db_up db_return_def Let_def)

lemma volume_sum: "volume ps = sum_list (map p_amountMinorUnits ps)"
  "volume (filter P ps) = sum_list (map (\<lambda>p. if P p then p_amountMinorUnits p else 0) ps)"
  by (induction ps) (simp_all add: volume_def)

text \<open>
  C36. The monthly chart loses nothing and counts nothing twice: when the database answers, the
  volumes, the settled volumes and the requests of its thirty points add up to those of all
  payments and requests of the user and environment since \<open>now - 29\<close> days.
\<close>

theorem monthly_chart_complete:
  assumes "calendar_ok cal" "outages w = []"
    and "\<forall>p \<in> set (payments w). p_createdAt p \<le> now" "\<forall>q \<in> set (apiRequests w). q_createdAt q \<le> now"
    and "fetchDashboardDataUncached cal now userId environment w = (Inr d, w')"
  shows "length (dd_monthlyChart d) = 30
    \<and> sum_list (map cp_volume (dd_monthlyChart d)) = volume (payments_since userId environment (now - 29 * DAY_MS) w)
    \<and> sum_list (map cp_settledVolume (dd_monthlyChart d))
        = volume (filter is_settled (payments_since userId environment (now - 29 * DAY_MS) w))
    \<and> sum_list (map cp_requests (dd_monthlyChart d))
        = int (length (requests_since userId environment (now - 29 * DAY_MS) w))"
proof -
  let ?ps = "payments_since userId environment (now - 29 * DAY_MS) w"
  let ?qs = "requests_since userId environment (now - 29 * DAY_MS) w"
  let ?pt = "timeline_point (cal_iso_day cal) now (cal_month_label cal) (request_days (cal_sql_day cal) ?qs)
    (volume_days (cal_sql_day cal) ?ps)"
  have chart: "dd_monthlyChart d = map ?pt (rev [0..<30])"
    using assms(5) fetch_up[OF assms(2)]
    by (auto simp: assemble_def buildDailyTimeline_def split: prod.splits)
  have ps: "now - 29 * DAY_MS \<le> p_createdAt p \<and> p_createdAt p \<le> now" if "p \<in> set ?ps" for p
    using that assms(3) by (auto simp: payments_since_def own_payments_def)
  have qs: "now - 29 * DAY_MS \<le> q_createdAt q \<and> q_createdAt q \<le> now" if "q \<in> set ?qs" for q
    using that assms(4) by (auto simp: requests_since_def own_requests_def)
  let ?pday = "\<lambda>i p. cal_sql_day cal (p_createdAt p) = cal_iso_day cal (now - int i * DAY_MS)"
  let ?qday = "\<lambda>i q. cal_sql_day cal (q_createdAt q) = cal_iso_day cal (now - int i * DAY_MS)"
  have "nullish_else (map_of (volume_days (cal_sql_day cal) ?ps) (cal_iso_day cal (now - int i * DAY_MS))) (0, 0)
      = (volume (filter (?pday i) ?ps), volume (filter is_settled (filter (?pday i) ?ps)))"
    "nullish_else (map_of (request_days (cal_sql_day cal) ?qs) (cal_iso_day cal (now - int i * DAY_MS))) (0, 0)
      = (int (length (filter (?qday i) ?qs)), counted (\<lambda>q. 400 \<le> q_statusCode q) (filter (?qday i) ?qs))" for i
    unfolding volume_days_def request_days_def
    by (subst group_by_total; simp add: volume_def counted_def)+
  then have pt: "cp_volume (?pt i) = volume (filter (?pday i) ?ps)"
    "cp_settledVolume (?pt i) = volume (filter is_settled (filter (?pday i) ?ps))"
    "cp_requests (?pt i) = int (length (filter (?qday i) ?qs))" for i
    by (simp_all add: timeline_point_def Let_def split: prod.splits)
  have "sum_list (map (\<lambda>i. cp_volume (?pt i)) (rev [0..<30])) = volume ?ps"
    unfolding volume_sum(1)
    by (rule timeline_total[where time = p_createdAt, OF assms(1) ps]) (simp_all add: pt volume_def)
  moreover have "sum_list (map (\<lambda>i. cp_settledVolume (?pt i)) (rev [0..<30])) = volume (filter is_settled ?ps)"
    unfolding volume_sum(2)
    by (rule timeline_total[where time = p_createdAt, OF assms(1) ps], assumption, simp only: pt volume_sum(2))
  moreover have "sum_list (map (\<lambda>i. cp_requests (?pt i)) (rev [0..<30])) = sum_list (map (\<lambda>_. 1) ?qs)"
    by (rule timeline_total[where time = q_createdAt, OF assms(1) qs]) (simp_all add: pt sum_list_triv)
  ultimately show ?thesis by (simp add: chart o_def sum_list_triv)
qed

definition demo_calendar :: calendar where
  "demo_calendar = \<lparr>cal_iso_day = (\<lambda>t. int_str (t div DAY_MS)), cal_sql_day = (\<lambda>t. int_str (t div DAY_MS)),
     cal_week_label = (\<lambda>_. ''Mon''), cal_month_label = (\<lambda>_. ''Jan 1'')\<rparr>"

lemma demo_calendar_ok: "calendar_ok demo_calendar"
  by (simp add: calendar_ok_def demo_calendar_def)

definition demo_request :: api_request_row where
  "demo_request = \<lparr>q_userId = ''u1'', q_apiKeyId = None, q_method = ''POST'', q_endpoint = ''/api/v1/payments'',
     q_statusCode = 201, q_latencyMs = 12, q_routingLatencyMs = None, q_environment = ''live'', q_createdAt = 5\<rparr>"

theorem monthly_chart_complete_witness:
  "\<exists>d. fetchDashboardDataUncached demo_calendar DAY_MS ''u1'' ''live'' (empty_world\<lparr>apiRequests := [demo_request]\<rparr>)
      = (Inr d, empty_world\<lparr>apiRequests := [demo_request]\<rparr>)
    \<and> sum_list (map cp_requests (dd_monthlyChart d)) = 1"
proof -
  let ?w = "empty_world\<lparr>apiRequests := [demo_request]\<rparr>"
  obtain d where d: "fetchDashboardDataUncached demo_calendar DAY_MS ''u1'' ''live'' ?w = (Inr d, ?w)"
    using fetch_up[of ?w demo_calendar DAY_MS "''u1''" "''live''"] by (simp add: empty_world_def)
  have "sum_list (map cp_requests (dd_monthlyChart d))
      = int (length (requests_since ''u1'' ''live'' (DAY_MS - 29 * DAY_MS) ?w))"
    using monthly_chart_complete[OF demo_calendar_ok _ _ _ d] by (simp add: empty_world_def demo_request_def DAY_MS_def)
  then have "sum_list (map cp_requests (dd_monthlyChart d)) = 1"
    by (simp add: requests_since_def own_requests_def demo_request_def DAY_MS_def)
  with d show ?thesis by blast
qed

section \<open>The cache refines a map\<close>

text \<open>At most 500 entries, one per key, no empty key.\<close>

definition cache_ok :: "cache \<Rightarrow> bool" where
  "cache_ok c \<longleftrightarrow> distinct (map fst c) \<and> [] \<notin> fst ` set c \<and> length c \<le> METRICS_CACHE_MAX_ENTRIES"

lemma map_of_delete: "map_of (cache_delete k c) = (map_of c)(k := None)"
  by (induction c) (auto simp: cache_delete_def)

lemma delete_keys: "map fst (cache_delete k c) = filter (\<lambda>x. x \<noteq> k) (map fst c)"
  by (simp add: cache_delete_def filter_map o_def)

lemma delete_length: "length (cache_delete k c) \<le> length c"
  by (simp add: cache_delete_def)

lemma delete_ok: "cache_ok c \<Longrightarrow> cache_ok (cache_delete k c)"
proof -
  assume c: "cache_ok c"
  have "fst ` set (cache_delete k c) \<subseteq> fst ` set c" by (auto simp: cache_delete_def)
  then have "[] \<notin> fst ` set (cache_delete k c)" using c by (auto simp: cache_ok_def)
  then show ?thesis using c delete_length[of k c] by (simp add: cache_ok_def delete_keys)
qed

lemma assoc_set_keys: "map fst (assoc_set k v c) = (if k \<in> fst ` set c then map fst c else map fst c @ [k])"
  by (induction k v c rule: assoc_set.induct) auto

lemma assoc_set_length: "length (assoc_set k v c) = (if k \<in> fst ` set c then length c else Suc (length c))"
  by (metis assoc_set_keys length_append_singleton length_map)

text \<open>Storing is an update of the map, after at most one other entry has been evicted.\<close>

lemma cache_store_cases:
  assumes "cache_ok c"
  obtains c' where "cache_store k since d c = assoc_set k (since, d) c'" "cache_ok c'"
    "length c' < METRICS_CACHE_MAX_ENTRIES" "c' = c \<or> (\<exists>old. c' = cache_delete old c)"
proof (cases "METRICS_CACHE_MAX_ENTRIES \<le> length c")
  case False
  then show ?thesis using assms that[of c] by (simp add: cache_store_def)
next
  case True
  then obtain old e rest where c: "c = (old, e) # rest"
    by (cases c) (auto simp: METRICS_CACHE_MAX_ENTRIES_def)
  have "old \<noteq> []" using assms by (auto simp: cache_ok_def c)
  moreover have "length (cache_delete old c) < METRICS_CACHE_MAX_ENTRIES"
    using assms le_less_trans[OF length_filter_le[of "\<lambda>e. fst e \<noteq> old" rest], of "length c"]
    by (simp add: cache_ok_def cache_delete_def c)
  ultimately show ?thesis
    using that[of "cache_delete old c"] delete_ok[OF assms] True
    by (simp add: cache_store_def Let_def c) blast
qed

lemma store_ok:
  assumes "cache_ok c" "k \<noteq> []"
  shows "cache_ok (cache_store k since d c)"
proof -
  obtain c' where c': "cache_store k since d c = assoc_set k (since, d) c'" "cache_ok c'"
    "length c' < METRICS_CACHE_MAX_ENTRIES"
    using cache_store_cases[OF assms(1)] by metis
  have "fst ` set (assoc_set k (since, d) c') = insert k (fst ` set c')"
    using arg_cong[OF assoc_set_keys[of k "(since, d)" c'], of set] by (auto split: if_splits)
  then show ?thesis
    using c'(2,3) assms(2) by (auto simp: cache_ok_def c'(1) assoc_set_keys assoc_set_length)
qed

lemma store_map:
  assumes "cache_ok c"
  shows "map_of (cache_store k since d c) k = Some (since, d)"
    "l \<noteq> k \<Longrightarrow> map_of (cache_store k since d c) l = map_of c l \<or> map_of (cache_store k since d c) l = None"
proof -
  obtain c' where c': "cache_store k since d c = assoc_set k (since, d) c'" "c' = c \<or> (\<exists>old. c' = cache_delete old c)"
    using cache_store_cases[OF assms] by metis
  show "map_of (cache_store k since d c) k = Some (since, d)" by (simp add: c'(1) assoc_set_map)
  show "map_of (cache_store k since d c) l = map_of c l \<or> map_of (cache_store k since d c) l = None" if "l \<noteq> k"
    using c'(2) that by (cases "c' = c") (auto simp: c'(1) assoc_set_map map_of_delete split: if_splits)
qed

text \<open>
  C29. The cache of the dashboard implements a map from users and environments to figures with an
  age limit: it keeps at most 500 entries with distinct keys; an answer is either the entry of
  this user and environment, younger than 30 seconds, with nothing changed, or it has just been
  read from the database and is the entry now; and no other entry is altered, at most dropped.
\<close>

theorem dashboard_cache_refines_map:
  assumes "cache_ok c"
    and "getDashboardData cal checked started stored userId environment c w = (Inr (d, c'), w')"
  shows "cache_ok c'
    \<and> ((\<exists>since. map_of c (cache_key userId environment) = Some (since, d) \<and> checked - since < METRICS_CACHE_TTL_MS
          \<and> c' = c \<and> w' = w)
       \<or> (fetchDashboardDataUncached cal started userId environment w = (Inr d, w')
          \<and> map_of c' (cache_key userId environment) = Some (stored, d)
          \<and> (\<forall>k. k \<noteq> cache_key userId environment \<longrightarrow> map_of c' k = map_of c k \<or> map_of c' k = None)))"
proof -
  let ?k = "cache_key userId environment"
  have k: "?k \<noteq> []" by (simp add: cache_key_def)
  show ?thesis
  proof (cases "\<exists>since d'. map_of c ?k = Some (since, d') \<and> checked - since < METRICS_CACHE_TTL_MS")
    case True
    then show ?thesis using assms by (auto simp: getDashboardData_def db_return_def)
  next
    case False
    then have "db_bind (fetchDashboardDataUncached cal started userId environment)
        (\<lambda>d. db_return (d, cache_store ?k stored d c)) w = (Inr (d, c'), w')"
      using assms(2) by (auto simp: getDashboardData_def Let_def split: option.splits if_splits)
    then have "fetchDashboardDataUncached cal started userId environment w = (Inr d, w')" "c' = cache_store ?k stored d c"
      by (auto simp: db_bind_def db_return_def split: prod.splits sum.splits)
    then show ?thesis using store_ok[OF assms(1) k] store_map[OF assms(1)] by auto
  qed
qed

text \<open>Invalidation on the map: everything, one environment, or all of a user.\<close>

lemma invalidate_map:
  "map_of (invalidateDashboardData None x c) = Map.empty"
  "u \<noteq> [] \<Longrightarrow> e \<noteq> [] \<Longrightarrow> map_of (invalidateDashboardData (Some u) (Some e) c) = (map_of c)(cache_key u e := None)"
  "u \<noteq> [] \<Longrightarrow> map_of (invalidateDashboardData (Some u) None c)
     = (map_of c)(cache_key u ''live'' := None, cache_key u ''test'' := None, u := None)"
  by (simp_all add: invalidateDashboardData_def map_of_delete)

theorem dashboard_cache_refines_map_witness:
  "\<exists>d c'. getDashboardData demo_calendar 0 1 2 ''u1'' ''live'' [] empty_world = (Inr (d, c'), empty_world) \<and> cache_ok c'
    \<and> map_of c' ''u1:live'' = Some (2, d)"
proof -
  have ok: "cache_ok []" by (simp add: cache_ok_def)
  have up: "outages empty_world = []" by (simp add: empty_world_def)
  obtain d c' where r: "getDashboardData demo_calendar 0 1 2 ''u1'' ''live'' [] empty_world = (Inr (d, c'), empty_world)"
    by (simp add: getDashboardData_def db_bind_def fetch_up[OF up] db_return_def)
  with dashboard_cache_refines_map[OF ok r] show ?thesis by (auto simp: cache_key_def)
qed

end
