(* ===== verification/Graphql.thy ===== *)
theory Graphql
  imports Dashboard
begin

text \<open>
  The GraphQL endpoint: \<open>apps/web/lib/graphql/resolvers.ts\<close> and \<open>app/api/graphql/route.ts\<close>.

  The GraphQL library is the parameter \<open>graphql\<close>: it runs a query against the resolvers in a
  context and says whether there are errors and data. A resolver argument is \<open>None\<close> when the query
  passes null; the defaults of \<open>schema.ts\<close> have been applied. Sessions come from the
  authentication library: the user, or an exception.
\<close>

section \<open>The resolvers\<close>

record gql_context =
  gc_userId :: "string option"
  gc_userEmail :: "string option"
  gc_userName :: "string option"

definition no_context :: gql_context where
  "no_context = \<lparr>gc_userId = None, gc_userEmail = None, gc_userName = None\<rparr>"

definition resolve_health :: "env \<Rightarrow> string \<Rightarrow> jsv" where
  "resolve_health en iso_now = JObj
     [(''status'', JStr ''ok''), (''timestamp'', JStr iso_now), (''version'', JStr ''0.2.7''),
      (''database'', JStr ''connected''),
      (''gatewayGrpc'', JStr (if truthy (js_or (en ''OPENWRAPPER_GATEWAY_GRPC_ADDR'') (en ''GATEWAY_GRPC_URL''))
         then ''configured'' else ''fallback_to_http''))]"

definition resolve_viewer :: "gql_context \<Rightarrow> jsv" where
  "resolve_viewer ctx =
     (if \<not> truthy (gc_userId ctx) then JNull
      else JObj [(''id'', jstr_or_null (gc_userId ctx)), (''email'', jstr_or_null (gc_userEmail ctx)),
                 (''name'', jstr_or_null (gc_userName ctx))])"

lemma viewer_has_identity_only:
  "f \<notin> {''id'', ''email'', ''name''} \<Longrightarrow> field (resolve_viewer ctx) f = JUndef"
  by (auto simp: resolve_viewer_def field_def)

text \<open>The condition on the owner is only there when the context has a user.\<close>

definition owned :: "gql_context \<Rightarrow> payment_row \<Rightarrow> bool" where
  "owned ctx p \<longleftrightarrow> (truthy (gc_userId ctx) \<longrightarrow> p_userId p = gc_userId ctx)"

definition resolve_payment :: "gql_context \<Rightarrow> string \<Rightarrow> payment_row option db" where
  "resolve_payment ctx i = select_payment (\<lambda>p. p_id p = i \<and> owned ctx p)"

text \<open>\<open>Math.max(a, n)\<close> and \<open>Math.min\<close>, null counting as 0.\<close>

definition safe_limit :: "int option \<Rightarrow> nat" where
  "safe_limit limit = nat (min (max 1 (nullish_else limit 0)) 100)"

definition safe_offset :: "int option \<Rightarrow> nat" where
  "safe_offset offset = nat (max 0 (nullish_else offset 0))"

definition page :: "int option \<Rightarrow> int option \<Rightarrow> 'a list \<Rightarrow> 'a list" where
  "page limit offset xs = take (safe_limit limit) (drop (safe_offset offset) xs)"

definition resolve_payments ::
  "gql_context \<Rightarrow> string option \<Rightarrow> string option \<Rightarrow> int option \<Rightarrow> int option \<Rightarrow> payment_row list db" where
  "resolve_payments ctx status provider limit offset =
     read_db (\<lambda>w. page limit offset (latest p_createdAt (filter (\<lambda>p. owned ctx p
       \<and> (truthy status \<longrightarrow> Some (p_status p) = status)
       \<and> (truthy provider \<longrightarrow> Some (p_provider p) = provider)) (payments w))))"

text \<open>The JSON of a row: the columns of the \<open>Payment\<close> type.\<close>

definition gql_payment :: "(int \<Rightarrow> string) \<Rightarrow> payment_row \<Rightarrow> jsv" where
  "gql_payment to_iso p = JObj
     [(''id'', JStr (p_id p)), (''userId'', jstr_or_null (p_userId p)),
      (''apiKeyId'', case p_apiKeyId p of None \<Rightarrow> JNull | Some k \<Rightarrow> jint k),
      (''idempotencyKey'', JStr (p_idempotencyKey p)), (''requestFingerprint'', JStr (p_requestFingerprint p)),
      (''provider'', JStr (p_provider p)), (''providerReference'', jstr_or_null (p_providerReference p)),
      (''status'', JStr (p_status p)), (''amountMinorUnits'', jint (p_amountMinorUnits p)),
      (''currency'', JStr (p_currency p)), (''merchantReference'', jstr_or_null (p_merchantReference p)),
      (''description'', jstr_or_null (p_description p)), (''customerPhone'', jstr_or_null (p_customerPhone p)),
      (''customerEmail'', jstr_or_null (p_customerEmail p)), (''customerName'', jstr_or_null (p_customerName p)),
      (''nextActionType'', jstr_or_null (p_nextActionType p)),
      (''nextActionPayload'', jstr_or_null (p_nextActionPayload p)),
      (''metadataJson'', jstr_or_null (p_metadataJson p)),
      (''createdAt'', JStr (to_iso (p_createdAt p))), (''updatedAt'', JStr (to_iso (p_updatedAt p)))]"

text \<open>The clock readings of the cache are the arguments \<open>t1\<close>, \<open>t2\<close>, \<open>t3\<close>; the environment is the default.\<close>

definition gql_dashboard ::
  "calendar \<Rightarrow> int \<Rightarrow> int \<Rightarrow> int \<Rightarrow> string \<Rightarrow> cache \<Rightarrow> (dashboard \<times> cache) db" where
  "gql_dashboard cal t1 t2 t3 userId c = getDashboardData cal t1 t2 t3 userId ''test'' c"

definition effective_user :: "gql_context \<Rightarrow> string" where
  "effective_user ctx = or_else (gc_userId ctx) ''anonymous''"

definition resolve_metrics ::
  "calendar \<Rightarrow> int \<Rightarrow> int \<Rightarrow> int \<Rightarrow> gql_context \<Rightarrow> cache \<Rightarrow> (metrics \<times> cache) db" where
  "resolve_metrics cal t1 t2 t3 ctx c =
     db_bind (gql_dashboard cal t1 t2 t3 (effective_user ctx) c) (\<lambda>(d, c'). db_return (dd_metrics d, c'))"

text \<open>\<open>days > 7\<close>; null is not greater.\<close>

definition resolve_timeline ::
  "calendar \<Rightarrow> int \<Rightarrow> int \<Rightarrow> int \<Rightarrow> gql_context \<Rightarrow> int option \<Rightarrow> cache \<Rightarrow> (chart_point list \<times> cache) db" where
  "resolve_timeline cal t1 t2 t3 ctx days c =
     db_bind (gql_dashboard cal t1 t2 t3 (effective_user ctx) c) (\<lambda>(d, c').
       db_return (if 7 < nullish_else days 0 then dd_monthlyChart d else dd_weeklyChart d, c'))"

section \<open>The resolvers of the viewer\<close>

text \<open>
  They stand in the member \<open>MerchantViewer\<close> of the root value. The library resolves a field of an
  object as the property of the value of that object; the value of \<open>viewer\<close> is what
  \<open>resolve_viewer\<close> returns, which has none of them (\<open>viewer_has_identity_only\<close>), so the library
  calls no function below and the schema's non-null fields of the viewer are errors. Their
  context has a user.
\<close>

definition viewer_apiRequests :: "gql_context \<Rightarrow> int option \<Rightarrow> int option \<Rightarrow> api_request_row list db" where
  "viewer_apiRequests ctx limit offset =
     read_db (\<lambda>w. page limit offset (latest q_createdAt (filter (\<lambda>q. Some (q_userId q) = gc_userId ctx) (apiRequests w))))"

definition viewer_apiKeys :: "gql_context \<Rightarrow> api_key_row list db" where
  "viewer_apiKeys ctx =
     read_db (\<lambda>w. latest k_createdAt (filter (\<lambda>k. Some (k_userId k) = gc_userId ctx) (apiKeys w)))"

definition viewer_metrics ::
  "calendar \<Rightarrow> int \<Rightarrow> int \<Rightarrow> int \<Rightarrow> gql_context \<Rightarrow> cache \<Rightarrow> (metrics \<times> cache) db" where
  "viewer_metrics cal t1 t2 t3 ctx c =
     db_bind (gql_dashboard cal t1 t2 t3 (the (gc_userId ctx)) c) (\<lambda>(d, c'). db_return (dd_metrics d, c'))"

definition viewer_timeline ::
  "calendar \<Rightarrow> int \<Rightarrow> int \<Rightarrow> int \<Rightarrow> gql_context \<Rightarrow> int option \<Rightarrow> cache \<Rightarrow> (chart_point list \<times> cache) db" where
  "viewer_timeline cal t1 t2 t3 ctx days c =
     db_bind (gql_dashboard cal t1 t2 t3 (the (gc_userId ctx)) c) (\<lambda>(d, c').
       db_return (if 7 < nullish_else days 0 then dd_monthlyChart d else dd_weeklyChart d, c'))"

section \<open>The route\<close>

record gql_result =
  gl_errors :: "jsv list"
  gl_data :: "jsv option"

type_synonym graphql_library = "gql_context \<Rightarrow> string \<Rightarrow> jsv \<Rightarrow> jsv \<Rightarrow> gql_result db"

definition CORS_HEADERS :: headers where
  "CORS_HEADERS = [(''Access-Control-Allow-Origin'', ''*''), (''Access-Control-Allow-Methods'', ''GET, POST, OPTIONS''),
     (''Access-Control-Allow-Headers'', ''Content-Type, Authorization, X-API-Key'')]"

definition gql_error :: "nat \<Rightarrow> jsv \<Rightarrow> response" where
  "gql_error st body = \<lparr>r_status = st, r_body = body, r_headers = CORS_HEADERS\<rparr>"

text \<open>The context, and the identifier of the key that gave it.\<close>

definition request_context ::
  "(string \<Rightarrow> string) \<Rightarrow> env \<Rightarrow> js_exn + gql_context option \<Rightarrow> headers \<Rightarrow> (gql_context \<times> int option) db" where
  "request_context sha en session h =
     (let context = (case session of Inr (Some ctx) \<Rightarrow> ctx | _ \<Rightarrow> no_context) in
      if truthy (gc_userId context) then db_return (context, None)
      else db_catch
        (db_bind (authenticateApiRequest sha en h) (\<lambda>apiKey.
           case apiKey of
             None \<Rightarrow> db_return (context, None)
           | Some k \<Rightarrow> db_return (no_context\<lparr>gc_userId := Some (a_userId k)\<rparr>, Some (a_id k))))
        (\<lambda>_. db_return (context, None)))"

definition result_body :: "gql_result \<Rightarrow> jsv" where
  "result_body r = JObj ((if gl_errors r = [] then [] else [(''errors'', JArr (gl_errors r))])
     @ [(''data'', case gl_data r of None \<Rightarrow> JUndef | Some d \<Rightarrow> d)])"

definition executeGraphQL ::
  "(string \<Rightarrow> string) \<Rightarrow> env \<Rightarrow> graphql_library \<Rightarrow> js_exn + gql_context option \<Rightarrow> headers \<Rightarrow> string \<Rightarrow> jsv \<Rightarrow> jsv
    \<Rightarrow> response db" where
  "executeGraphQL sha en graphql session h query variables operationName =
     db_bind (request_context sha en session h) (\<lambda>(context, apiKeyId).
       db_bind (graphql context query variables operationName) (\<lambda>result.
         db_then
           (if truthy (gc_userId context) then
              schedule \<lparr>t_userId = the (gc_userId context), t_apiKeyId = apiKeyId, t_method = ''POST'',
                t_endpoint = ''/api/graphql'', t_statusCode = (if gl_errors result \<noteq> [] then 400 else 200),
                t_routingLatencyMs = None, t_environment = None\<rparr>
            else db_return ())
           (db_return \<lparr>r_status = (if gl_errors result \<noteq> [] \<and> gl_data result = None then 400 else 200),
              r_body = result_body result,
              r_headers = [(''Content-Type'', ''application/json''), (''Cache-Control'', ''no-store'')] @ CORS_HEADERS\<rparr>)))"

text \<open>\<open>query\<close> is the query parameter of the URL; the page of the explorer is \<open>html\<close>.\<close>

definition graphql_get ::
  "(string \<Rightarrow> string) \<Rightarrow> env \<Rightarrow> graphql_library \<Rightarrow> string \<Rightarrow> js_exn + gql_context option \<Rightarrow> headers \<Rightarrow> string option
    \<Rightarrow> response db" where
  "graphql_get sha en graphql html session h query =
     (if js_includes (or_else (hdr_get h ''accept'') []) ''text/html'' then
        db_return \<lparr>r_status = 200, r_body = JStr html,
          r_headers = (''Content-Type'', ''text/html; charset=utf-8'') # CORS_HEADERS\<rparr>
      else if \<not> truthy query then
        db_return (gql_error 400 (JObj [(''error'',
          JStr (''Missing '' @ [CHR 0x27] @ ''query'' @ [CHR 0x27]
            @ '' parameter. Navigate with browser to open GraphiQL IDE.''))]))
      else executeGraphQL sha en graphql session h (the query) JNull JNull)"

text \<open>\<open>parsed\<close> is \<open>request.json()\<close>: the message of its error, or the value.\<close>

definition graphql_post ::
  "(string \<Rightarrow> string) \<Rightarrow> env \<Rightarrow> graphql_library \<Rightarrow> (js_exn \<Rightarrow> string) \<Rightarrow> js_exn + gql_context option \<Rightarrow> headers
    \<Rightarrow> js_exn + jsv \<Rightarrow> response db" where
  "graphql_post sha en graphql message session h parsed =
     db_catch
       (case parsed of
          Inl e \<Rightarrow> db_throw e
        | Inr body \<Rightarrow>
            if body = JNull \<or> body = JUndef then db_throw (TypeError ''properties of null'')
            else (case field body ''query'' of
                JStr q \<Rightarrow>
                  if q = [] then db_return (gql_error 400 (JObj [(''errors'', JArr [JObj [(''message'',
                    JStr (''Field '' @ [CHR 0x27] @ ''query'' @ [CHR 0x27] @ '' is required and must be a GraphQL query string.''))]])]))
                  else executeGraphQL sha en graphql session h q (field body ''variables'') (field body ''operationName'')
              | _ \<Rightarrow> db_return (gql_error 400 (JObj [(''errors'', JArr [JObj [(''message'',
                    JStr (''Field '' @ [CHR 0x27] @ ''query'' @ [CHR 0x27] @ '' is required and must be a GraphQL query string.''))]])]))))
       (\<lambda>err. db_return (gql_error 400 (JObj [(''errors'', JArr [JObj [(''message'',
          JStr (''Malformed GraphQL request body: '' @ message err))]])])))"

end
