(* ===== verification/Ledger.thy ===== *)
theory Ledger
  imports Access
begin

text \<open>
  The payment ledger: \<open>apps/web/lib/payment-ledger-service.ts\<close> and
  \<open>payment-status-resolver.ts\<close>, and the relations between two states of the database
  that no operation of the application may break. Each relation interprets the interface
  \<open>world_relation\<close>, so that the lemmas of the handlers apply to it.
\<close>

section \<open>Status shown to the client\<close>

definition normalizePaymentStatus :: "string \<Rightarrow> bool \<Rightarrow> string" where
  "normalizePaymentStatus status hasNextAction =
     (if status = ''succeeded'' \<or> status = ''failed'' then status
      else if status = ''pending'' \<or> (status = ''unknown'' \<and> hasNextAction) then ''pending''
      else ''unknown'')"

definition paymentHasNextAction :: "payment_row \<Rightarrow> bool" where
  "paymentHasNextAction row \<longleftrightarrow> truthy (p_nextActionType row) \<or> truthy (p_nextActionPayload row)"

text \<open>The members of the object, in the order they are serialised.\<close>

definition paymentToApiResponse :: "payment_row \<Rightarrow> string option \<Rightarrow> jsv" where
  "paymentToApiResponse row provider = JObj
     ([(''payment_id'', JStr (p_id row)),
       (''provider'', JStr (p_provider row)),
       (''provider_reference'', jstr_or_null (p_providerReference row)),
       (''status'', JStr (p_status row)),
       (''amount_minor_units'', jint (p_amountMinorUnits row)),
       (''currency'', JStr (p_currency row)),
       (''merchant_reference'', jstr_or_null (p_merchantReference row))] @
      (if truthy (p_nextActionType row) then
         [(''next_action'',
           if p_nextActionType row = Some ''redirect_to_url'' then
             JObj [(''type'', JStr ''redirect_to_url''), (''url'', jstr_or_null (p_nextActionPayload row))]
           else
             JObj [(''type'', JStr ''pay_at_reference''), (''reference'', jstr_or_null (p_nextActionPayload row)),
               (''instructions'', JStr (or_else (p_description row)
                  (''Pay at any '' @ (if or_else provider (p_provider row) = ''fawry'' then ''Fawry'' else ''kiosk'')
                    @ '' outlet using reference code: ''
                    @ (case p_nextActionPayload row of None \<Rightarrow> ''null'' | Some r \<Rightarrow> r))))])]
       else []))"

section \<open>Idempotency lookup\<close>

record idem_lookup =
  il_row :: "payment_row option"
  il_crossTenant :: bool

definition no_lookup :: idem_lookup where
  "no_lookup = \<lparr>il_row = None, il_crossTenant = False\<rparr>"

definition findIdempotentPayment :: "string \<Rightarrow> string \<Rightarrow> string \<Rightarrow> idem_lookup db" where
  "findIdempotentPayment userId idempotencyKey environment =
     db_catch
       (db_bind (select_payment (\<lambda>p. p_userId p = Some userId \<and> p_idempotencyKey p = idempotencyKey
            \<and> p_environment p = environment)) (\<lambda>byUser.
          case byUser of
            Some row \<Rightarrow> db_return \<lparr>il_row = Some row, il_crossTenant = False\<rparr>
          | None \<Rightarrow>
              db_bind (select_payment (\<lambda>p. p_idempotencyKey p = idempotencyKey \<and> p_environment p = environment)) (\<lambda>global.
                case global of
                  None \<Rightarrow> db_return no_lookup
                | Some row \<Rightarrow>
                    if truthy (p_userId row) \<and> p_userId row \<noteq> Some userId
                    then db_return \<lparr>il_row = None, il_crossTenant = True\<rparr>
                    else db_return \<lparr>il_row = Some row, il_crossTenant = False\<rparr>)))
       (\<lambda>err. if userId = ''usr_sandbox_demo'' then db_return no_lookup else db_throw err)"

section \<open>Persisting a payment\<close>

record persist_input =
  in_id :: string
  in_userId :: string
  in_apiKeyId :: int
  in_idempotencyKey :: string
  in_requestFingerprint :: string
  in_provider :: string
  in_providerReference :: "string option"
  in_status :: string
  in_amountMinorUnits :: int
  in_currency :: string
  in_merchantReference :: "string option"
  in_description :: string
  in_customerPhone :: string
  in_customerEmail :: "string option"
  in_customerName :: "string option"
  in_nextActionType :: "string option"
  in_nextActionPayload :: "string option"
  in_metadataJson :: string
  in_environment :: "string option"

text \<open>The row \<open>values(...)\<close> inserts: an \<open>undefined\<close> column takes its default, \<open>null\<close>.\<close>

definition inserted_row :: "int \<Rightarrow> persist_input \<Rightarrow> payment_row" where
  "inserted_row now i =
     \<lparr>p_id = in_id i, p_userId = Some (in_userId i), p_apiKeyId = Some (in_apiKeyId i),
      p_idempotencyKey = in_idempotencyKey i, p_requestFingerprint = in_requestFingerprint i,
      p_provider = in_provider i, p_providerReference = in_providerReference i,
      p_status = in_status i, p_amountMinorUnits = in_amountMinorUnits i,
      p_currency = in_currency i, p_merchantReference = in_merchantReference i,
      p_description = Some (in_description i), p_customerPhone = Some (in_customerPhone i),
      p_customerEmail = in_customerEmail i, p_customerName = in_customerName i,
      p_nextActionType = in_nextActionType i, p_nextActionPayload = in_nextActionPayload i,
      p_metadataJson = Some (in_metadataJson i),
      p_environment = nullish_else (in_environment i) ''live'',
      p_createdAt = now, p_updatedAt = now\<rparr>"

text \<open>\<open>onConflictDoUpdate(set)\<close>: the columns set, an \<open>undefined\<close> one is left as it was.\<close>

definition conflict_set :: "int \<Rightarrow> persist_input \<Rightarrow> payment_row \<Rightarrow> payment_row" where
  "conflict_set now i old = old
     \<lparr>p_userId := Some (in_userId i), p_apiKeyId := Some (in_apiKeyId i),
      p_requestFingerprint := in_requestFingerprint i,
      p_providerReference := in_providerReference i,
      p_status := in_status i,
      p_merchantReference := in_merchantReference i,
      p_description := Some (in_description i), p_customerPhone := Some (in_customerPhone i),
      p_customerEmail := (case in_customerEmail i of None \<Rightarrow> p_customerEmail old | Some v \<Rightarrow> Some v),
      p_customerName := (case in_customerName i of None \<Rightarrow> p_customerName old | Some v \<Rightarrow> Some v),
      p_nextActionType := in_nextActionType i, p_nextActionPayload := in_nextActionPayload i,
      p_metadataJson := Some (in_metadataJson i),
      p_environment := nullish_else (in_environment i) ''live'',
      p_updatedAt := now\<rparr>"

text \<open>The row made up for the sandbox user when the database cannot be used.\<close>

definition sandbox_row :: "int \<Rightarrow> persist_input \<Rightarrow> payment_row" where
  "sandbox_row now i = (inserted_row now i)
     \<lparr>p_customerEmail := js_or (in_customerEmail i) None,
      p_customerName := js_or (in_customerName i) None\<rparr>"

definition persistPaymentRecord :: "int \<Rightarrow> persist_input \<Rightarrow> payment_row db" where
  "persistPaymentRecord now i =
     db_catch
       (db_bind (upsert_payment (inserted_row now i) (conflict_set now i)) (\<lambda>row.
          case row of
            Some r \<Rightarrow> db_return r
          | None \<Rightarrow>
              db_bind (select_payment (\<lambda>p. p_id p = in_id i)) (\<lambda>existing.
                case existing of
                  None \<Rightarrow> db_throw (Error ''payment persist failed: row missing after upsert'')
                | Some e \<Rightarrow> db_return e)))
       (\<lambda>err. if in_userId i = ''usr_sandbox_demo'' then db_return (sandbox_row now i) else db_throw err)"

section \<open>Relations between states of the database\<close>

text \<open>Payments are never deleted and their order of insertion is kept: row by row.\<close>

definition rows_related :: "(payment_row \<Rightarrow> payment_row \<Rightarrow> bool) \<Rightarrow> world \<Rightarrow> world \<Rightarrow> bool" where
  "rows_related r w w' = list_all2 r (payments w) (take (length (payments w)) (payments w'))"

lemma rows_related_nth:
  "rows_related r w w' \<longleftrightarrow> length (payments w) \<le> length (payments w')
     \<and> (\<forall>n < length (payments w). r (payments w ! n) (payments w' ! n))"
  by (auto simp: rows_related_def list_all2_conv_all_nth min_def split: if_splits)

text \<open>The money of a row: who it is, which rail carries it, how much, since when.\<close>

definition same_money :: "payment_row \<Rightarrow> payment_row \<Rightarrow> bool" where
  "same_money p q \<longleftrightarrow> p_id q = p_id p \<and> p_provider q = p_provider p
     \<and> p_amountMinorUnits q = p_amountMinorUnits p \<and> p_currency q = p_currency p
     \<and> p_idempotencyKey q = p_idempotencyKey p \<and> p_createdAt q = p_createdAt p"

definition is_terminal :: "string \<Rightarrow> bool" where
  "is_terminal s \<longleftrightarrow> s = ''succeeded'' \<or> s = ''failed''"

text \<open>A settled row keeps its status.\<close>

definition settled_kept :: "payment_row \<Rightarrow> payment_row \<Rightarrow> bool" where
  "settled_kept p q \<longleftrightarrow> same_money p q \<and> (is_terminal (p_status p) \<longrightarrow> p_status q = p_status p)"

text \<open>
  Under the primary key: statements address a row by its identifier, so what they do to the
  row that was read is what they do to the table as long as identifiers are distinct, and
  they stay distinct.
\<close>

definition primary_key :: "world \<Rightarrow> bool" where
  "primary_key w \<longleftrightarrow> distinct (map p_id (payments w))"

definition keyed :: "(payment_row \<Rightarrow> payment_row \<Rightarrow> bool) \<Rightarrow> world \<Rightarrow> world \<Rightarrow> bool" where
  "keyed r w w' \<longleftrightarrow> (primary_key w \<longrightarrow> primary_key w' \<and> rows_related r w w')"

text \<open>The audit log only grows, and keeps one event per identifier.\<close>

definition events_kept :: "world \<Rightarrow> world \<Rightarrow> bool" where
  "events_kept w w' \<longleftrightarrow> (\<exists>new. webhookEvents w' = webhookEvents w @ new)
     \<and> (distinct (map e_eventId (webhookEvents w)) \<longrightarrow> distinct (map e_eventId (webhookEvents w')))"

text \<open>Keys, settings and recorded requests are not touched.\<close>

definition accounts_kept :: "world \<Rightarrow> world \<Rightarrow> bool" where
  "accounts_kept w w' \<longleftrightarrow> apiKeys w' = apiKeys w \<and> merchantSettings w' = merchantSettings w
     \<and> apiRequests w' = apiRequests w \<and> nextKeyId w' = nextKeyId w"

lemma same_money_refl [simp, intro]: "same_money p p"
  by (simp add: same_money_def)

lemma same_money_trans: "same_money p q \<Longrightarrow> same_money q r \<Longrightarrow> same_money p r"
  by (simp add: same_money_def)

lemma settled_kept_refl [simp, intro]: "settled_kept p p"
  by (simp add: settled_kept_def)

lemma settled_kept_trans: "settled_kept p q \<Longrightarrow> settled_kept q r \<Longrightarrow> settled_kept p r"
  by (auto simp: settled_kept_def intro: same_money_trans)

text \<open>
  A relation on rows is an interface of its own: reflexive, transitive, and what every row
  relation promises about the table follows from that.
\<close>

locale row_relation =
  fixes r :: "payment_row \<Rightarrow> payment_row \<Rightarrow> bool"
  assumes row_refl: "r p p" and row_trans: "r p q \<Longrightarrow> r q s \<Longrightarrow> r p s"
    and row_id: "r p q \<Longrightarrow> p_id q = p_id p"
begin

lemma table_same: "payments w' = payments w \<Longrightarrow> rows_related r w w'"
  by (simp add: rows_related_nth row_refl)

lemma table_trans: "rows_related r u v \<Longrightarrow> rows_related r v w \<Longrightarrow> rows_related r u w"
  unfolding rows_related_nth
proof (elim conjE, intro conjI allI impI)
  fix n
  assume le: "length (payments u) \<le> length (payments v)" and n: "n < length (payments u)"
    and uv: "\<forall>n < length (payments u). r (payments u ! n) (payments v ! n)"
    and vw: "\<forall>n < length (payments v). r (payments v ! n) (payments w ! n)"
  have "r (payments v ! n) (payments w ! n)" using vw n le by simp
  with uv n show "r (payments u ! n) (payments w ! n)" by (blast intro: row_trans)
qed simp

lemma table_update:
  assumes "\<And>p. p \<in> set (payments w) \<Longrightarrow> p_id p = i \<Longrightarrow> r p (f p)"
  shows "rows_related r w (w\<lparr>payments := map (\<lambda>p. if p_id p = i then f p else p) (payments w)\<rparr>)"
  using assms by (auto simp: rows_related_nth row_refl)

lemma table_append: "rows_related r w (w\<lparr>payments := payments w @ ps\<rparr>)"
  by (simp add: rows_related_nth row_refl nth_append)

lemma keyed_same: "payments w' = payments w \<Longrightarrow> keyed r w w'"
  by (simp add: keyed_def primary_key_def table_same)

lemma keyed_trans: "keyed r u v \<Longrightarrow> keyed r v w \<Longrightarrow> keyed r u w"
  by (auto simp: keyed_def intro: table_trans)

text \<open>The row that was read is the only one an update of its identifier changes.\<close>

lemma keyed_update:
  assumes p: "p \<in> set (payments w)" "p_id p = i" and rel: "r p (f p)"
  shows "keyed r w (w\<lparr>payments := map (\<lambda>q. if p_id q = i then f q else q) (payments w)\<rparr>)"
    (is "keyed r w ?w")
  unfolding keyed_def
proof
  assume key: "primary_key w"
  have only: "q = p" if "q \<in> set (payments w)" "p_id q = i" for q
    using key that p unfolding primary_key_def distinct_map by (metis inj_onD)
  then have "rows_related r w ?w" using rel by (intro table_update) metis
  moreover have "map p_id (payments ?w) = map p_id (payments w)"
    using only row_id [OF rel] by auto
  then have "primary_key ?w" using key unfolding primary_key_def by argo
  ultimately show "primary_key ?w \<and> rows_related r w ?w" by blast
qed

lemma keyed_insert:
  assumes "find (\<lambda>p. p_id p = p_id c) (payments w) = None"
  shows "keyed r w (w\<lparr>payments := payments w @ [c]\<rparr>)"
proof -
  have "p_id c \<notin> p_id ` set (payments w)" using assms by (auto simp: find_None_iff)
  then show ?thesis by (simp add: keyed_def primary_key_def table_append)
qed

end

interpretation money: row_relation same_money
  by unfold_locales (auto intro: same_money_trans simp: same_money_def)

interpretation settled: row_relation settled_kept
  by unfold_locales (auto intro: settled_kept_trans simp: settled_kept_def same_money_def)

sublocale row_relation \<subseteq> table: world_relation "rows_related r"
proof unfold_locales
  fix u v w :: world
  show "rows_related r u v \<Longrightarrow> rows_related r v w \<Longrightarrow> rows_related r u w" by (rule table_trans)
qed (simp_all add: table_same)

sublocale row_relation \<subseteq> keyed: world_relation "keyed r"
proof unfold_locales
  fix u v w :: world
  show "keyed r u v \<Longrightarrow> keyed r v w \<Longrightarrow> keyed r u w" by (rule keyed_trans)
qed (simp_all add: keyed_same)

interpretation events_world: world_relation events_kept
  by unfold_locales (auto simp: events_kept_def)

interpretation accounts_world: world_relation accounts_kept
  by unfold_locales (auto simp: accounts_kept_def)

context row_relation begin

lemma keeps_update_payment:
  assumes "\<And>p. p_id p = i \<Longrightarrow> r p (f p)"
  shows "keeps (rows_related r) (update_payment i f)"
  unfolding update_payment_def
  by (rule table.keeps_query) (use assms in \<open>simp add: keeps_def table_update\<close>)

lemma keyed_update_payment:
  assumes "p \<in> set (payments w)" and "r p (f p)"
  shows "keyed r w (snd (update_payment (p_id p) f w))"
proof (cases "outages w")
  case Nil
  then show ?thesis using keyed_update [of p w "p_id p" f] assms
    by (simp add: update_payment_def db_query_def)
next
  case (Cons down rest)
  let ?v = "w\<lparr>outages := rest\<rparr>"
  have "keyed r w ?v" by (simp add: keyed_same)
  moreover have "keyed r ?v (snd (if down then (Inl (Error []), ?v) else
      (Inr (), ?v\<lparr>payments := map (\<lambda>q. if p_id q = p_id p then f q else q) (payments ?v)\<rparr>)))"
    using keyed_update [of p ?v "p_id p" f] assms by (simp add: keyed_same)
  ultimately have "keyed r w (snd (if down then (Inl (Error []), ?v) else
      (Inr (), ?v\<lparr>payments := map (\<lambda>q. if p_id q = p_id p then f q else q) (payments ?v)\<rparr>)))"
    by (rule keyed_trans)
  then show ?thesis using Cons by (cases down) (simp_all add: update_payment_def db_query_def)
qed

lemma keeps_upsert_payment:
  assumes "\<And>p. p_id p = p_id c \<Longrightarrow> r p (f p)"
  shows "keeps (rows_related r) (upsert_payment c f)"
  unfolding upsert_payment_def
  by (rule table.keeps_query)
    (use assms in \<open>auto simp: keeps_def table_update table_append table_same split: option.splits\<close>)

lemma keeps_insert_webhook_event:
  "keeps (rows_related r) (insert_webhook_event e)" "keeps (keyed r) (insert_webhook_event e)"
  unfolding insert_webhook_event_def
  by (rule table.keeps_query keyed.keeps_query, simp add: keeps_def table_same keyed_same)+

end

lemma same_money_conflict_set: "same_money p (conflict_set now i p)"
  by (simp add: same_money_def conflict_set_def)

text \<open>What the other relations say of the statements on payments and on the audit log.\<close>

lemma accounts_same:
  "apiKeys w' = apiKeys w \<Longrightarrow> merchantSettings w' = merchantSettings w \<Longrightarrow> apiRequests w' = apiRequests w
    \<Longrightarrow> nextKeyId w' = nextKeyId w \<Longrightarrow> accounts_kept w w'"
  by (simp add: accounts_kept_def)

lemma events_same: "webhookEvents w' = webhookEvents w \<Longrightarrow> events_kept w w'"
  by (simp add: events_kept_def)

lemma accounts_statements [intro]:
  "keeps accounts_kept (update_payment i f)" "keeps accounts_kept (upsert_payment c g)"
  "keeps accounts_kept (insert_webhook_event e)"
  unfolding update_payment_def upsert_payment_def insert_webhook_event_def
  by (rule accounts_world.keeps_query, simp add: keeps_def accounts_same split: option.splits)+

lemma events_update [intro]: "keeps events_kept (update_payment i f)"
  unfolding update_payment_def by (rule events_world.keeps_query) (simp add: keeps_def events_same)

lemma events_upsert [intro]: "keeps events_kept (upsert_payment c g)"
  unfolding upsert_payment_def
  by (rule events_world.keeps_query) (simp add: keeps_def events_same split: option.splits)

lemma events_insert [intro]: "keeps events_kept (insert_webhook_event e)"
  unfolding insert_webhook_event_def
  by (rule events_world.keeps_query) (auto simp: keeps_def events_kept_def list_ex_iff)

section \<open>What persisting returns\<close>

lemma upsert_payment_stored:
  assumes "upsert_payment c f w = (Inr (Some row), w')" and "\<And>p. p_id (f p) = p_id p"
  shows "row \<in> set (payments w') \<and> p_id row = p_id c \<and> (row = c \<or> (\<exists>old. row = f old))"
proof -
  have core: "row \<in> set (payments w') \<and> p_id row = p_id c \<and> (row = c \<or> (\<exists>old. row = f old))"
    if "(case find (\<lambda>p. p_id p = p_id c) (payments v) of
       None \<Rightarrow> if idempotency_clash c (payments v) then (Inl (Error ''unique violation''), v)
         else (Inr (Some c), v\<lparr>payments := payments v @ [c]\<rparr>)
     | Some old \<Rightarrow> if idempotency_clash (f old) (payments v) then (Inl (Error ''unique violation''), v)
         else (Inr (Some (f old)), v\<lparr>payments :=
                 map (\<lambda>p. if p_id p = p_id c then f p else p) (payments v)\<rparr>)) = (Inr (Some row), w')" for v
  proof (cases "find (\<lambda>p. p_id p = p_id c) (payments v)")
    case None
    with that show ?thesis by (auto split: if_splits)
  next
    case (Some old)
    then have "old \<in> set (payments v)" "p_id old = p_id c" by (auto simp: find_Some_iff nth_mem)
    with that Some assms(2) show ?thesis by (force split: if_splits)
  qed
  show ?thesis
  proof (cases "outages w")
    case Nil
    with assms(1) show ?thesis unfolding upsert_payment_def db_query_def by (intro core [of w]) simp
  next
    case (Cons down rest)
    with assms(1) show ?thesis unfolding upsert_payment_def db_query_def
      by (intro core [of "w\<lparr>outages := rest\<rparr>"]) (simp split: if_splits)
  qed
qed

lemma upsert_payment_not_None: "upsert_payment c f w \<noteq> (Inr None, w')"
  by (auto simp: upsert_payment_def db_query_def split: list.splits if_splits option.splits)

section \<open>A payment for the examples\<close>

definition demo_payment :: "string \<Rightarrow> string \<Rightarrow> string \<Rightarrow> payment_row" where
  "demo_payment i provider status =
     \<lparr>p_id = i, p_userId = Some ''u1'', p_apiKeyId = Some 1, p_idempotencyKey = ''k1'',
      p_requestFingerprint = ''f1'', p_provider = provider, p_providerReference = Some ''ref1'',
      p_status = status, p_amountMinorUnits = 1000, p_currency = ''EGP'',
      p_merchantReference = Some ''order1'', p_description = Some ''Payment'',
      p_customerPhone = Some ''+201'', p_customerEmail = None, p_customerName = None,
      p_nextActionType = None, p_nextActionPayload = None, p_metadataJson = Some ''{}'',
      p_environment = ''live'', p_createdAt = 0, p_updatedAt = 0\<rparr>"

definition demo_world :: "payment_row list \<Rightarrow> world" where
  "demo_world ps = empty_world\<lparr>payments := ps\<rparr>"

lemma demo_payment_simps [simp]:
  "p_id (demo_payment i provider st) = i" "p_provider (demo_payment i provider st) = provider"
  "p_status (demo_payment i provider st) = st" "p_userId (demo_payment i provider st) = Some ''u1''"
  "p_providerReference (demo_payment i provider st) = Some ''ref1''"
  "p_merchantReference (demo_payment i provider st) = Some ''order1''"
  "p_idempotencyKey (demo_payment i provider st) = ''k1''"
  "p_environment (demo_payment i provider st) = ''live''"
  "p_requestFingerprint (demo_payment i provider st) = ''f1''"
  "p_amountMinorUnits (demo_payment i provider st) = 1000"
  by (simp_all add: demo_payment_def)

lemma demo_world_simps [simp]:
  "payments (demo_world ps) = ps" "outages (demo_world ps) = []" "webhookEvents (demo_world ps) = []"
  "apiKeys (demo_world ps) = []"
  by (simp_all add: demo_world_def empty_world_def)

section \<open>Properties\<close>

text \<open>
  C19. What a payment request is answered with has been stored: for every user but the sandbox
  user, the row \<open>persistPaymentRecord\<close> returns is in the table afterwards, under the identifier it
  was given, with the status, the owner and the fingerprint it was given.
\<close>

theorem persisted_payment_is_stored:
  assumes "persistPaymentRecord now i w = (Inr row, w')" and "in_userId i \<noteq> ''usr_sandbox_demo''"
  shows "row \<in> set (payments w') \<and> p_id row = in_id i \<and> p_status row = in_status i
    \<and> p_userId row = Some (in_userId i) \<and> p_requestFingerprint row = in_requestFingerprint i"
proof -
  have "upsert_payment (inserted_row now i) (conflict_set now i) w = (Inr (Some row), w')"
    using assms upsert_payment_not_None [of "inserted_row now i" "conflict_set now i" w]
    by (auto simp: persistPaymentRecord_def db_defs split: prod.splits sum.splits option.splits)
  from upsert_payment_stored [OF this] show ?thesis
    by (auto simp: inserted_row_def conflict_set_def)
qed

definition demo_input :: "string \<Rightarrow> persist_input" where
  "demo_input user = \<lparr>in_id = ''p1'', in_userId = user, in_apiKeyId = 1, in_idempotencyKey = ''k1'',
     in_requestFingerprint = ''f1'', in_provider = ''mock'', in_providerReference = None, in_status = ''pending'',
     in_amountMinorUnits = 1000, in_currency = ''EGP'', in_merchantReference = None, in_description = ''Payment'',
     in_customerPhone = ''+201'', in_customerEmail = None, in_customerName = None, in_nextActionType = None,
     in_nextActionPayload = None, in_metadataJson = ''{}'', in_environment = Some ''live''\<rparr>"

theorem persisted_payment_is_stored_witness:
  "inserted_row 5 (demo_input ''u1'') \<in> set (payments (demo_world [inserted_row 5 (demo_input ''u1'')]))
   \<and> p_status (inserted_row 5 (demo_input ''u1'')) = ''pending''"
  using persisted_payment_is_stored [of 5 "demo_input ''u1''" "demo_world []" "inserted_row 5 (demo_input ''u1'')"
      "demo_world [inserted_row 5 (demo_input ''u1'')]"]
  by (simp add: persistPaymentRecord_def upsert_payment_def db_query_def db_defs demo_world_def
      empty_world_def idempotency_clash_def demo_input_def inserted_row_def)

end
