(* ===== verification/Request.thy ===== *)
theory Request
  imports Database
begin

text \<open>
  What a route handler is given: the functions of the platform it calls and the body of the
  request. \<open>readLimitedTextBody\<close> is \<open>apps/web/lib/request-body-reader.ts\<close>.

  The platform is a record of functions: \<open>pf_decode\<close> is \<open>TextDecoder().decode\<close>,
  \<open>pf_parse\<close> is \<open>JSON.parse\<close> (\<open>None\<close> when it throws), \<open>pf_sha\<close> and the two
  \<open>pf_hmac\<close> functions are the hexadecimal digests of \<open>node:crypto\<close>, \<open>pf_env\<close> is
  \<open>process.env\<close>. A body stream is the list of its chunks, one character per byte, and
  whether the stream fails after them.
\<close>

record platform =
  pf_decode :: "string \<Rightarrow> string"
  pf_parse :: "string \<Rightarrow> jsv option"
  pf_sha :: "string \<Rightarrow> string"
  pf_hmac_sha512 :: "string \<Rightarrow> string \<Rightarrow> string"
  pf_hmac_sha256 :: "string \<Rightarrow> string \<Rightarrow> string"
  pf_env :: env

record body_stream =
  b_chunks :: "string list"
  b_broken :: bool

definition DEFAULT_MAX_BODY_BYTES :: nat where
  "DEFAULT_MAX_BODY_BYTES = 64 * 1024"

section \<open>Reading\<close>

text \<open>The read loop: \<open>Inr None\<close> is \<open>ok: false\<close>, otherwise the chunks read and their total.\<close>

fun read_loop :: "nat \<Rightarrow> bool \<Rightarrow> string list \<Rightarrow> nat \<Rightarrow> string list \<Rightarrow> js_exn + (nat \<times> string list) option" where
  "read_loop maxBytes broken [] totalBytes chunks =
     (if broken then Inl (TypeError ''terminated'') else Inr (Some (totalBytes, chunks)))"
| "read_loop maxBytes broken (value # stream) totalBytes chunks =
     (let totalBytes' = totalBytes + length value in
      if maxBytes < totalBytes' then Inr None
      else read_loop maxBytes broken stream totalBytes' (chunks @ [value]))"

text \<open>\<open>body.set(chunk, offset)\<close> on a byte array: the bytes from \<open>offset\<close> are overwritten.\<close>

definition array_set :: "string \<Rightarrow> string \<Rightarrow> nat \<Rightarrow> string" where
  "array_set buf chunk offset = take offset buf @ chunk @ drop (offset + length chunk) buf"

fun copy_loop :: "string list \<Rightarrow> string \<Rightarrow> nat \<Rightarrow> string" where
  "copy_loop [] body offset = body"
| "copy_loop (chunk # chunks) body offset = copy_loop chunks (array_set body chunk offset) (offset + length chunk)"

definition readLimitedTextBody ::
  "(string \<Rightarrow> string) \<Rightarrow> nat \<Rightarrow> body_stream option \<Rightarrow> js_exn + string option" where
  "readLimitedTextBody decode maxBytes request =
     (case request of
        None \<Rightarrow> Inr (Some [])
      | Some s \<Rightarrow>
          (case read_loop maxBytes (b_broken s) (b_chunks s) 0 [] of
             Inl e \<Rightarrow> Inl e
           | Inr None \<Rightarrow> Inr None
           | Inr (Some (totalBytes, chunks)) \<Rightarrow>
               Inr (Some (decode (copy_loop chunks (replicate totalBytes (CHR 0x00)) 0)))))"

section \<open>Lemmas\<close>

lemma read_loop_result:
  "t \<le> m \<Longrightarrow> read_loop m broken s t cs =
     (if m < t + length (concat s) then Inr None
      else if broken then Inl (TypeError ''terminated'') else Inr (Some (t + length (concat s), cs @ s)))"
  by (induction s arbitrary: t cs) (auto simp: Let_def)

lemma copy_loop_concat:
  "length buf = length (concat cs) \<Longrightarrow> copy_loop cs (pre @ buf) (length pre) = pre @ concat cs"
proof (induction cs arbitrary: pre buf)
  case Nil
  then show ?case by simp
next
  case (Cons c cs)
  have "array_set (pre @ buf) c (length pre) = (pre @ c) @ drop (length c) buf"
    by (simp add: array_set_def)
  moreover have "length (drop (length c) buf) = length (concat cs)" using Cons.prems by simp
  ultimately show ?case using Cons.IH [of "drop (length c) buf" "pre @ c"] by simp
qed

lemma copy_loop_fresh: "copy_loop cs (replicate (length (concat cs)) c) 0 = concat cs"
  using copy_loop_concat [of "replicate (length (concat cs)) c" cs "[]"] by simp

section \<open>Properties\<close>

text \<open>
  C24. The body reader enforces its limit exactly and does not depend on how the body is cut
  into chunks: a body of more than \<open>maxBytes\<close> bytes is refused, a failing stream within the
  limit throws, and otherwise the result is the decoded concatenation of the chunks, which the
  byte array filled chunk by chunk at increasing offsets equals.
\<close>

theorem body_reader_exact:
  "readLimitedTextBody decode maxBytes (Some s) =
    (if maxBytes < length (concat (b_chunks s)) then Inr None
     else if b_broken s then Inl (TypeError ''terminated'')
     else Inr (Some (decode (concat (b_chunks s)))))"
  by (simp add: readLimitedTextBody_def read_loop_result copy_loop_fresh del: length_concat)

end
