(* ===== verification/Gateway.thy ===== *)
theory Gateway
  imports Access
begin

text \<open>
  The bridge to the Rust payment gateway (\<open>apps/web/lib/gateway-bridge.ts\<close>,
  \<open>gateway-grpc.ts\<close>) and the provider credentials (\<open>provider-credentials.ts\<close>, the
  configuration functions of \<open>paymob-rail.ts\<close>, \<open>fawry-rail.ts\<close>, \<open>stripe-rail.ts\<close>).

  Parameters: \<open>parse_url\<close> is the WHATWG parser behind \<open>new URL(...)\<close> (\<open>None\<close> when
  it throws), \<open>gw\<close> is the gateway behind \<open>fetch\<close>. The answer of the gateway is given in
  the type the code casts it to; \<open>None\<close> inside an answer is a body that is not JSON. The
  header object built by the bridge is the list of its properties, whose names are
  case-sensitive.
\<close>

section \<open>URLs\<close>

record url =
  u_protocol :: string
  u_username :: string
  u_password :: string
  u_search :: string
  u_hash :: string
  u_origin :: string
  u_href :: string

type_synonym url_parser = "string \<Rightarrow> url option"

definition getGatewayUrl :: "url_parser \<Rightarrow> env \<Rightarrow> string option" where
  "getGatewayUrl parse_url en =
     (if \<not> truthy (en ''OPENWRAPPER_GATEWAY_URL'') then None
      else case parse_url (the (en ''OPENWRAPPER_GATEWAY_URL'')) of
        None \<Rightarrow> None
      | Some u \<Rightarrow>
          if (u_protocol u \<noteq> ''http:'' \<and> u_protocol u \<noteq> ''https:'') \<or> u_username u \<noteq> [] \<or> u_password u \<noteq> []
          then None else Some (strip_trailing_slashes (u_href u)))"

section \<open>Requests and answers\<close>

record gw_customer =
  c_phone :: string
  c_email :: "string option"
  c_full_name :: "string option"

record gw_request =
  gr_provider :: string
  gr_amount_minor_units :: int
  gr_currency :: string
  gr_customer :: gw_customer
  gr_merchant_reference :: "string option"
  gr_description :: "string option"
  gr_return_url :: "string option"
  gr_metadata :: "(string \<times> string) list"

record gw_next_action =
  na_type :: string
  na_url :: "string option"
  na_reference :: "string option"

record gw_payment =
  g_payment_id :: string
  g_provider_reference :: "string option"
  g_status :: string
  g_next_action :: "gw_next_action option"

datatype gw_answer =
    GwNetworkError string
  | GwSuccess "gw_payment option"
  | GwFailure nat "(string option \<times> string option) option"

record http_request =
  h_method :: string
  h_url :: string
  h_headers :: headers
  h_payment :: "gw_request option"

type_synonym gateway = "http_request \<Rightarrow> gw_answer"

datatype gateway_result =
    GOk gw_payment
  | GErr (ge_status: nat) (ge_error: string) (ge_code: "string option")

section \<open>Forwarded headers\<close>

definition FORWARDED_HEADER_PREFIXES :: "string list" where
  "FORWARDED_HEADER_PREFIXES = [''x-paymob-'', ''x-fawry-'', ''x-stripe-'', ''x-mock-'', ''x-openwrapper-'']"

definition is_forwarded :: "string \<Rightarrow> bool" where
  "is_forwarded key \<longleftrightarrow> list_ex (\<lambda>prefix. starts_with (js_lower key) prefix) FORWARDED_HEADER_PREFIXES"

definition api_key_headers :: "string option \<Rightarrow> headers \<Rightarrow> headers" where
  "api_key_headers apiKey h =
     (if \<not> truthy apiKey then h
      else let k = the apiKey;
               h1 = assoc_set ''X-API-Key'' k (assoc_set ''Authorization'' (''Bearer '' @ k) h)
           in if starts_with k ''ow_test_'' \<or> k = ''ow_test_sandbox_demo'' \<or> k = ''ow_demo_sandbox_key''
              then assoc_set ''X-OpenWrapper-Environment'' ''test'' h1 else h1)"

fun copy_forwarded :: "headers \<Rightarrow> headers \<Rightarrow> headers" where
  "copy_forwarded [] h = h"
| "copy_forwarded ((key, value) # rest) h =
     copy_forwarded rest (if is_forwarded key then assoc_set key value h else h)"

definition inject_ambient :: "env \<Rightarrow> (string \<times> string \<times> string) \<Rightarrow> headers \<Rightarrow> headers" where
  "inject_ambient en entry h =
     (case entry of (lower, name, var) \<Rightarrow>
        if \<not> truthy (map_of h lower) \<and> truthy (en var) then assoc_set name (the (en var)) h else h)"

definition AMBIENT_CREDENTIALS :: "(string \<times> string \<times> string) list" where
  "AMBIENT_CREDENTIALS =
    [(''x-paymob-secret-key'', ''X-Paymob-Secret-Key'', ''PAYMOB_SECRET_KEY''),
     (''x-paymob-public-key'', ''X-Paymob-Public-Key'', ''PAYMOB_PUBLIC_KEY''),
     (''x-paymob-hmac-secret'', ''X-Paymob-Hmac-Secret'', ''PAYMOB_HMAC_SECRET''),
     (''x-paymob-integration-id'', ''X-Paymob-Integration-Id'', ''PAYMOB_INTEGRATION_ID''),
     (''x-fawry-merchant-code'', ''X-Fawry-Merchant-Code'', ''FAWRY_MERCHANT_CODE''),
     (''x-fawry-secure-key'', ''X-Fawry-Secure-Key'', ''FAWRY_SECURE_KEY''),
     (''x-stripe-secret-key'', ''X-Stripe-Secret-Key'', ''STRIPE_SECRET_KEY'')]"

definition buildForwardHeaders :: "env \<Rightarrow> string option \<Rightarrow> headers option \<Rightarrow> headers" where
  "buildForwardHeaders en apiKey incoming =
     (let h0 = [(''Content-Type'', ''application/json'')];
          h1 = api_key_headers apiKey h0;
          h2 = (case incoming of None \<Rightarrow> h1
                | Some inc \<Rightarrow>
                    (let c = copy_forwarded inc h1 in
                     if map_option js_lower (hdr_get inc ''x-openwrapper-environment'') = Some ''test''
                     then assoc_set ''X-OpenWrapper-Environment'' ''test'' c else c))
      in fold (inject_ambient en) AMBIENT_CREDENTIALS h2)"

section \<open>Calls\<close>

definition credentials_missing :: "string \<Rightarrow> bool" where
  "credentials_missing s = js_includes (js_lower s) ''credentials missing''"

text \<open>The error text and code of a failed answer; an unreadable body has neither.\<close>

definition parseGatewayError :: "nat \<Rightarrow> (string option \<times> string option) option \<Rightarrow> string \<times> string option" where
  "parseGatewayError status body =
     (let default = ''Gateway error ('' @ nat_str status @ '')'' in
      case body of
        None \<Rightarrow> (default, None)
      | Some (msg, code) \<Rightarrow>
          (let message = or_else msg default in
           (message, if \<not> truthy code \<and> credentials_missing message
                     then Some ''missing_provider_credentials'' else code)))"

definition forwardPaymentToRustGateway ::
  "url_parser \<Rightarrow> gateway \<Rightarrow> env \<Rightarrow> gw_request \<Rightarrow> string \<Rightarrow> string option \<Rightarrow> headers option \<Rightarrow> string
    \<Rightarrow> gateway_result" where
  "forwardPaymentToRustGateway parse_url gw en req idempotencyKey apiKey incoming version =
     (case getGatewayUrl parse_url en of
        None \<Rightarrow> GErr 503 ''Rust gateway is not configured'' (Some ''gateway_unavailable'')
      | Some gatewayUrl \<Rightarrow>
          (case gw \<lparr>h_method = ''POST'',
                    h_url = strip_trailing_slashes gatewayUrl @ ''/'' @ version @ ''/payments'',
                    h_headers = assoc_set ''Idempotency-Key'' idempotencyKey
                      (buildForwardHeaders en apiKey incoming),
                    h_payment = Some req\<rparr> of
             GwNetworkError msg \<Rightarrow> GErr 502 (''Could not reach Rust gateway: '' @ msg) (Some ''gateway_unreachable'')
           | GwSuccess None \<Rightarrow> GErr 502 ''Could not reach Rust gateway: invalid JSON'' (Some ''gateway_unreachable'')
           | GwSuccess (Some data) \<Rightarrow> GOk data
           | GwFailure st body \<Rightarrow>
               (case parseGatewayError st body of (err, code) \<Rightarrow>
                  let normalizedCode =
                        (if code = Some ''validation_error'' \<and> credentials_missing err
                         then Some ''missing_provider_credentials'' else code);
                      status = (if normalizedCode = Some ''missing_provider_credentials'' then 422 else st)
                  in GErr status err normalizedCode)))"

definition getPaymentFromRustGateway ::
  "url_parser \<Rightarrow> gateway \<Rightarrow> (string \<Rightarrow> string) \<Rightarrow> env \<Rightarrow> string \<Rightarrow> string option \<Rightarrow> headers option \<Rightarrow> string
    \<Rightarrow> gateway_result" where
  "getPaymentFromRustGateway parse_url gw encode en paymentId apiKey incoming version =
     (case getGatewayUrl parse_url en of
        None \<Rightarrow> GErr 503 ''Rust gateway is not configured'' (Some ''gateway_unavailable'')
      | Some gatewayUrl \<Rightarrow>
          (case gw \<lparr>h_method = ''GET'',
                    h_url = strip_trailing_slashes gatewayUrl @ ''/'' @ version @ ''/payments/'' @ encode paymentId,
                    h_headers = buildForwardHeaders en apiKey incoming,
                    h_payment = None\<rparr> of
             GwNetworkError msg \<Rightarrow> GErr 502 (''Could not reach Rust gateway: '' @ msg) (Some ''gateway_unreachable'')
           | GwSuccess None \<Rightarrow> GErr 502 ''Could not reach Rust gateway: invalid JSON'' (Some ''gateway_unreachable'')
           | GwSuccess (Some data) \<Rightarrow> GOk data
           | GwFailure st body \<Rightarrow>
               (case parseGatewayError st body of (err, code) \<Rightarrow> GErr st err code)))"

section \<open>The gRPC facade\<close>

record grpc_config =
  grpc_address :: string
  grpc_timeoutMs :: rat

text \<open>\<open>to_num\<close> is \<open>Number(s)\<close>, \<open>None\<close> for \<open>NaN\<close>.\<close>

definition getGatewayGrpcConfig :: "(string \<Rightarrow> rat option) \<Rightarrow> env \<Rightarrow> grpc_config option" where
  "getGatewayGrpcConfig to_num en =
     (case js_or (en ''OPENWRAPPER_GATEWAY_GRPC_ADDR'') (en ''GATEWAY_GRPC_ADDR'') of
        None \<Rightarrow> None
      | Some address \<Rightarrow>
          if address = [] \<or> js_trim address = [] then None
          else Some \<lparr>grpc_address = js_trim address,
                 grpc_timeoutMs = (case Option.bind (en ''OPENWRAPPER_GRPC_TIMEOUT_MS'') to_num of
                    None \<Rightarrow> 10000 | Some t \<Rightarrow> if t = 0 then 10000 else t)\<rparr>)"

text \<open>Both branches of \<open>executeGatewayPayment\<close> call the HTTP bridge and report that transport.\<close>

definition executeGatewayPayment ::
  "(string \<Rightarrow> rat option) \<Rightarrow> url_parser \<Rightarrow> gateway \<Rightarrow> env \<Rightarrow> gw_request \<Rightarrow> string \<Rightarrow> string option
    \<Rightarrow> headers option \<Rightarrow> gateway_result \<times> string" where
  "executeGatewayPayment to_num parse_url gw en req idempotencyKey apiKey incoming =
     (case getGatewayGrpcConfig to_num en of
        Some _ \<Rightarrow> (forwardPaymentToRustGateway parse_url gw en req idempotencyKey apiKey incoming ''v1'', ''http'')
      | None \<Rightarrow> (forwardPaymentToRustGateway parse_url gw en req idempotencyKey apiKey incoming ''v1'', ''http''))"

definition fetchGatewayPayment ::
  "url_parser \<Rightarrow> gateway \<Rightarrow> (string \<Rightarrow> string) \<Rightarrow> env \<Rightarrow> string \<Rightarrow> string option \<Rightarrow> headers option
    \<Rightarrow> gateway_result \<times> string" where
  "fetchGatewayPayment parse_url gw encode en paymentId apiKey incoming =
     (getPaymentFromRustGateway parse_url gw encode en paymentId apiKey incoming ''v1'', ''http'')"

section \<open>Provider credentials\<close>

definition PAYMOB_HEADERS :: "string list" where
  "PAYMOB_HEADERS = [''x-paymob-secret-key'', ''x-paymob-public-key'', ''x-paymob-hmac-secret'',
     ''x-paymob-integration-id'']"

definition FAWRY_HEADERS :: "string list" where
  "FAWRY_HEADERS = [''x-fawry-merchant-code'', ''x-fawry-secure-key'']"

definition nonblank :: "string option \<Rightarrow> bool" where
  "nonblank v = truthy (map_option js_trim v)"

definition hasHeader :: "headers \<Rightarrow> string \<Rightarrow> bool" where
  "hasHeader h name = nonblank (hdr_get h name)"

definition hasAmbientPaymob :: "env \<Rightarrow> bool" where
  "hasAmbientPaymob en \<longleftrightarrow> nonblank (en ''PAYMOB_SECRET_KEY'') \<and> nonblank (en ''PAYMOB_PUBLIC_KEY'')
     \<and> nonblank (en ''PAYMOB_HMAC_SECRET'') \<and> nonblank (en ''PAYMOB_INTEGRATION_ID'')"

definition hasAmbientFawry :: "env \<Rightarrow> bool" where
  "hasAmbientFawry en \<longleftrightarrow> nonblank (en ''FAWRY_MERCHANT_CODE'') \<and> nonblank (en ''FAWRY_SECURE_KEY'')"

definition hasAmbientStripe :: "env \<Rightarrow> bool" where
  "hasAmbientStripe en \<longleftrightarrow> nonblank (en ''STRIPE_SECRET_KEY'')"

definition lower_header_includes :: "headers \<Rightarrow> string \<Rightarrow> string \<Rightarrow> bool" where
  "lower_header_includes h name part = (case hdr_get h name of
     None \<Rightarrow> False | Some v \<Rightarrow> js_includes (js_lower v) part)"

text \<open>
  \<open>bodyStripeKey\<close> is \<open>body?.provider_credentials?.stripe_secret_key\<close>. \<open>None\<close> is
  \<open>ok: true\<close>, \<open>Some\<close> the message of a refusal.
\<close>

definition validateProviderCredentials ::
  "env \<Rightarrow> string \<Rightarrow> headers \<Rightarrow> string option \<Rightarrow> bool \<Rightarrow> string option" where
  "validateProviderCredentials en provider h bodyStripeKey testMode =
     (let isTest = testMode
            \<or> map_option js_lower (hdr_get h ''x-openwrapper-environment'') = Some ''test''
            \<or> lower_header_includes h ''authorization'' ''ow_test_''
            \<or> lower_header_includes h ''x-api-key'' ''ow_test_''
            \<or> lower_header_includes h ''authorization'' ''sandbox''
            \<or> lower_header_includes h ''x-api-key'' ''sandbox''
      in if isTest then None
         else if provider = ''paymob'' then
           (if hasAmbientPaymob en then None
            else if filter (\<lambda>n. \<not> hasHeader h n) PAYMOB_HEADERS \<noteq> [] then
              Some ''Paymob credentials missing. Provide X-Paymob-Secret-Key, X-Paymob-Public-Key, X-Paymob-Hmac-Secret, and X-Paymob-Integration-Id headers.''
            else None)
         else if provider = ''fawry'' then
           (if hasAmbientFawry en then None
            else if filter (\<lambda>n. \<not> hasHeader h n) FAWRY_HEADERS \<noteq> [] then
              Some ''Fawry credentials missing. Provide X-Fawry-Merchant-Code and X-Fawry-Secure-Key headers.''
            else None)
         else if provider = ''stripe'' then
           (if hasAmbientStripe en then None
            else if \<not> truthy (js_or (map_option js_trim (hdr_get h ''x-stripe-secret-key''))
                             (map_option js_trim bodyStripeKey)) then
              Some ''Stripe credentials missing. Provide X-Stripe-Secret-Key header.''
            else None)
         else None)"

section \<open>Provider configuration\<close>

record paymob_config =
  pc_secretKey :: string
  pc_publicKey :: string
  pc_hmacSecret :: string
  pc_integrationIds :: "string list"
  pc_notificationUrl :: "string option"
  pc_baseUrl :: string

record paymob_override =
  po_secretKey :: "string option"
  po_publicKey :: "string option"
  po_hmacSecret :: "string option"
  po_integrationIds :: "string list"
  po_notificationUrl :: "string option"
  po_baseUrl :: "string option"

definition no_paymob_override :: paymob_override where
  "no_paymob_override = \<lparr>po_secretKey = None, po_publicKey = None, po_hmacSecret = None,
     po_integrationIds = [], po_notificationUrl = None, po_baseUrl = None\<rparr>"

definition getPaymobConfig :: "env \<Rightarrow> paymob_override \<Rightarrow> paymob_config option" where
  "getPaymobConfig en ov =
     (let secretKey = js_or (po_secretKey ov) (en ''PAYMOB_SECRET_KEY'');
          publicKey = js_or (po_publicKey ov) (en ''PAYMOB_PUBLIC_KEY'');
          hmacSecret = js_or (po_hmacSecret ov) (en ''PAYMOB_HMAC_SECRET'')
      in if \<not> truthy secretKey \<or> \<not> truthy publicKey \<or> \<not> truthy hmacSecret then None
         else Some \<lparr>pc_secretKey = the secretKey, pc_publicKey = the publicKey,
                pc_hmacSecret = the hmacSecret,
                pc_integrationIds = (if po_integrationIds ov \<noteq> [] then po_integrationIds ov
                  else filter (\<lambda>s. s \<noteq> []) (map js_trim
                         (split_on (CHR '','') (or_else (en ''PAYMOB_INTEGRATION_IDS'') [])))),
                pc_notificationUrl = js_or (po_notificationUrl ov) (en ''PAYMOB_NOTIFICATION_URL''),
                pc_baseUrl = or_else (js_or (po_baseUrl ov) (en ''PAYMOB_BASE_URL'')) ''https://accept.paymob.com''\<rparr>)"

record fawry_config =
  fc_merchantCode :: string
  fc_secureKey :: string
  fc_baseUrl :: string

definition getFawryConfig ::
  "env \<Rightarrow> string option \<Rightarrow> string option \<Rightarrow> string option \<Rightarrow> fawry_config option" where
  "getFawryConfig en ovMerchantCode ovSecureKey ovBaseUrl =
     (let merchantCode = js_or ovMerchantCode (en ''FAWRY_MERCHANT_CODE'');
          secureKey = js_or ovSecureKey (en ''FAWRY_SECURE_KEY'')
      in if \<not> truthy merchantCode \<or> \<not> truthy secureKey then None
         else Some \<lparr>fc_merchantCode = the merchantCode, fc_secureKey = the secureKey,
                fc_baseUrl = or_else (js_or ovBaseUrl (en ''FAWRY_BASE_URL''))
                  ''https://atfawry.fawrystaging.com''\<rparr>)"

text \<open>\<open>getStripeClient\<close>: the key of the client it builds, or the error it throws.\<close>

definition getStripeClient :: "env \<Rightarrow> string option \<Rightarrow> js_exn + string" where
  "getStripeClient en override =
     (case js_or override (en ''STRIPE_SECRET_KEY'') of
        None \<Rightarrow> Inl (Error ''Stripe credentials missing. Provide X-Stripe-Secret-Key header or configure STRIPE_SECRET_KEY.'')
      | Some k \<Rightarrow> if k = [] then Inl (Error ''Stripe credentials missing. Provide X-Stripe-Secret-Key header or configure STRIPE_SECRET_KEY.'')
          else Inr k)"

text \<open>The checkout session the Stripe rail asks for, given to the SDK of Stripe (a parameter).\<close>

record stripe_params =
  sp_amountMinorUnits :: int
  sp_currency :: string
  sp_description :: "string option"
  sp_customerEmail :: "string option"
  sp_successUrl :: "string option"
  sp_cancelUrl :: "string option"
  sp_idempotencyKey :: string
  sp_metadata :: "(string \<times> string) list"

record stripe_session_request =
  sr_key :: string
  sr_mode :: string
  sr_customer_email :: "string option"
  sr_success_url :: string
  sr_cancel_url :: string
  sr_quantity :: nat
  sr_currency :: string
  sr_unit_amount :: int
  sr_name :: string
  sr_metadata :: "(string \<times> string) list"
  sr_idempotencyKey :: string

record stripe_session =
  ss_id :: string
  ss_url :: "string option"
  ss_status :: "string option"

type_synonym stripe_api = "stripe_session_request \<Rightarrow> js_exn + stripe_session"

definition createStripeCheckoutSession ::
  "stripe_api \<Rightarrow> env \<Rightarrow> stripe_params \<Rightarrow> string option \<Rightarrow> js_exn + (string \<times> string option \<times> string)" where
  "createStripeCheckoutSession stripe en ps override =
     (case getStripeClient en override of
        Inl e \<Rightarrow> Inl e
      | Inr key \<Rightarrow>
          (case stripe \<lparr>sr_key = key, sr_mode = ''payment'',
                  sr_customer_email = sp_customerEmail ps,
                  sr_success_url = or_else (sp_successUrl ps)
                    ''https://example.com/payment/success?session_id={CHECKOUT_SESSION_ID}'',
                  sr_cancel_url = or_else (sp_cancelUrl ps) ''https://example.com/payment/cancel'',
                  sr_quantity = 1, sr_currency = js_lower (sp_currency ps),
                  sr_unit_amount = sp_amountMinorUnits ps,
                  sr_name = or_else (sp_description ps) ''OpenWrapper Payment'',
                  sr_metadata = sp_metadata ps, sr_idempotencyKey = sp_idempotencyKey ps\<rparr> of
             Inl e \<Rightarrow> Inl e
           | Inr s \<Rightarrow> Inr (ss_id s, ss_url s, nullish_else (ss_status s) ''open'')))"

section \<open>Lemmas on forwarded headers\<close>

lemma keys_assoc_set: "fst ` set (assoc_set k v ps) = insert k (fst ` set ps)"
  by (induction k v ps rule: assoc_set.induct) auto

lemma map_of_assoc_set: "map_of (assoc_set k v ps) a = (if a = k then Some v else map_of ps a)"
  by (simp add: assoc_set_map)

lemma keys_copy_forwarded:
  "fst ` set (copy_forwarded inc h) = fst ` set h \<union> {k \<in> fst ` set inc. is_forwarded k}"
  by (induction inc h rule: copy_forwarded.induct) (auto simp: keys_assoc_set)

lemma map_of_copy_forwarded:
  "distinct (map fst inc) \<Longrightarrow> map_of (copy_forwarded inc h) k =
     (if is_forwarded k \<and> k \<in> fst ` set inc then map_of inc k else map_of h k)"
  by (induction inc h rule: copy_forwarded.induct) (auto simp: map_of_assoc_set)

lemma keys_inject_ambient: "fst ` set (inject_ambient en e h) \<subseteq> insert (fst (snd e)) (fst ` set h)"
  by (cases e) (simp add: inject_ambient_def keys_assoc_set subset_insertI)

lemma keys_inject_all:
  "fst ` set (fold (inject_ambient en) es h) \<subseteq> (fst \<circ> snd) ` set es \<union> fst ` set h"
proof (induction es arbitrary: h)
  case (Cons e es)
  have "fst ` set (fold (inject_ambient en) (e # es) h)
      \<subseteq> (fst \<circ> snd) ` set es \<union> fst ` set (inject_ambient en e h)"
    using Cons.IH [of "inject_ambient en e h"] by simp
  also have "\<dots> \<subseteq> (fst \<circ> snd) ` set (e # es) \<union> fst ` set h" using keys_inject_ambient [of en e h] by auto
  finally show ?case .
qed simp

text \<open>The names of the ambient list: what is read, what is written.\<close>

definition ambient_names :: "string list" where
  "ambient_names = map (fst \<circ> snd) AMBIENT_CREDENTIALS"

lemma inject_all_untouched:
  "a \<notin> (fst \<circ> snd) ` set es \<Longrightarrow> map_of (fold (inject_ambient en) es h) a = map_of h a"
proof (induction es arbitrary: h)
  case (Cons e es)
  then have "map_of (fold (inject_ambient en) (e # es) h) a = map_of (inject_ambient en e h) a" by simp
  also have "\<dots> = map_of h a" using Cons.prems
    by (auto simp: inject_ambient_def map_of_assoc_set split: prod.splits)
  finally show ?case .
qed simp

text \<open>An ambient credential is not written when its lower-case name already has a value.\<close>

lemma inject_all_supplied:
  assumes "truthy (map_of h lower)" and "\<forall>e \<in> set es. fst (snd e) = name \<longrightarrow> fst e = lower"
    and "lower \<notin> (fst \<circ> snd) ` set es"
  shows "map_of (fold (inject_ambient en) es h) name = map_of h name"
  using assms
proof (induction es arbitrary: h)
  case (Cons e es)
  let ?h = "inject_ambient en e h"
  have "map_of ?h lower = map_of h lower" "map_of ?h name = map_of h name"
    using Cons.prems by (auto simp: inject_ambient_def map_of_assoc_set split: prod.splits)
  then show ?case using Cons.IH [of ?h] Cons.prems by simp
qed simp

definition base_header_names :: "string list" where
  "base_header_names = [''Content-Type'', ''Authorization'', ''X-API-Key'', ''X-OpenWrapper-Environment'']"

lemma keys_api_key_headers:
  "fst ` set (api_key_headers apiKey h) \<subseteq> set base_header_names \<union> fst ` set h"
  by (auto simp: api_key_headers_def base_header_names_def keys_assoc_set Let_def)

section \<open>Properties\<close>

text \<open>
  C24. Only allow-listed headers of the client reach the gateway: every header of the forwarded
  request is one the bridge itself sets, an ambient credential, or a client header whose name
  starts with one of the forwarded prefixes; cookies and the client's own \<open>authorization\<close> are
  never copied.
\<close>

theorem forwarded_headers_allowed:
  "fst ` set (buildForwardHeaders en apiKey (Some inc))
     \<subseteq> set base_header_names \<union> set ambient_names \<union> {k \<in> fst ` set inc. is_forwarded k}"
proof -
  let ?h1 = "api_key_headers apiKey [(''Content-Type'', ''application/json'')]"
  let ?c = "copy_forwarded inc ?h1"
  let ?h2 = "if map_option js_lower (hdr_get inc ''x-openwrapper-environment'') = Some ''test''
    then assoc_set ''X-OpenWrapper-Environment'' ''test'' ?c else ?c"
  have "fst ` set ?h1 \<subseteq> set base_header_names"
    using keys_api_key_headers [of apiKey "[(''Content-Type'', ''application/json'')]"]
    by (auto simp: base_header_names_def)
  then have "fst ` set ?h2 \<subseteq> set base_header_names \<union> {k \<in> fst ` set inc. is_forwarded k}"
    by (auto simp: keys_assoc_set keys_copy_forwarded base_header_names_def)
  moreover have "fst ` set (buildForwardHeaders en apiKey (Some inc)) \<subseteq> set ambient_names \<union> fst ` set ?h2"
    using keys_inject_all [of en AMBIENT_CREDENTIALS ?h2]
    by (simp add: buildForwardHeaders_def ambient_names_def Let_def)
  ultimately show ?thesis by blast
qed

text \<open>
  A client's own provider credential is never replaced by the ambient one: when the request
  carries a non-empty header of the ambient list, the forwarded request carries it with the
  client's value and the ambient header is not added.
\<close>

theorem client_credential_wins:
  assumes "distinct (map fst inc)" and "\<forall>k \<in> fst ` set inc. js_lower k = k"
    and "(lower, name, var) \<in> set AMBIENT_CREDENTIALS" and "hdr_get inc lower = Some v" and "v \<noteq> []"
  shows "map_of (buildForwardHeaders en apiKey (Some inc)) lower = Some v
    \<and> map_of (buildForwardHeaders en apiKey (Some inc)) name = None"
proof -
  let ?h1 = "api_key_headers apiKey [(''Content-Type'', ''application/json'')]"
  let ?c = "copy_forwarded inc ?h1"
  let ?h2 = "if map_option js_lower (hdr_get inc ''x-openwrapper-environment'') = Some ''test''
    then assoc_set ''X-OpenWrapper-Environment'' ''test'' ?c else ?c"
  have fw: "is_forwarded lower" "lower \<notin> set ambient_names" "lower \<noteq> ''X-OpenWrapper-Environment''"
    "name \<noteq> ''X-OpenWrapper-Environment''" "name \<notin> set base_header_names" "js_lower name \<noteq> name"
    "\<forall>e \<in> set AMBIENT_CREDENTIALS. fst (snd e) = name \<longrightarrow> fst e = lower"
    using assms(3) by (auto simp: AMBIENT_CREDENTIALS_def is_forwarded_def FORWARDED_HEADER_PREFIXES_def
        ambient_names_def base_header_names_def js_lower_def lower_char_def char_eval)
  have mem: "(lower, v) \<in> set inc" using assms(4) by (auto simp: hdr_get_def dest: map_of_SomeD)
  then have "map_of ?c lower = Some v"
    using assms(1,4) fw(1) by (force simp: map_of_copy_forwarded hdr_get_def)
  then have l: "map_of ?h2 lower = Some v" using fw(3) by (simp add: map_of_assoc_set)
  have "name \<notin> fst ` set ?h1"
    using keys_api_key_headers [of apiKey "[(''Content-Type'', ''application/json'')]"] fw(5)
    by (auto simp: base_header_names_def)
  then have "map_of ?h1 name = None" by (simp add: map_of_eq_None_iff)
  moreover have "name \<notin> fst ` set inc" using assms(2) fw(6) by blast
  ultimately have n: "map_of ?h2 name = None"
    using assms(1) fw(4) by (simp add: map_of_assoc_set map_of_copy_forwarded)
  have b: "buildForwardHeaders en apiKey (Some inc) = fold (inject_ambient en) AMBIENT_CREDENTIALS ?h2"
    by (simp add: buildForwardHeaders_def Let_def)
  have "map_of (buildForwardHeaders en apiKey (Some inc)) lower = Some v"
    using l fw(2) unfolding b by (subst inject_all_untouched) (auto simp: ambient_names_def)
  moreover have "map_of (buildForwardHeaders en apiKey (Some inc)) name = None"
    using n l fw(2,7) assms(5) unfolding b by (subst inject_all_supplied [where lower = lower]) (auto simp: ambient_names_def)
  ultimately show ?thesis ..
qed

theorem client_credential_wins_witness:
  "map_of (buildForwardHeaders (\<lambda>_. Some ''ambient'') (Some ''k'')
     (Some [(''cookie'', ''c''), (''x-stripe-secret-key'', ''sk_client'')])) ''x-stripe-secret-key'' = Some ''sk_client''
   \<and> map_of (buildForwardHeaders (\<lambda>_. Some ''ambient'') (Some ''k'')
     (Some [(''cookie'', ''c''), (''x-stripe-secret-key'', ''sk_client'')])) ''X-Stripe-Secret-Key'' = None"
  by (rule client_credential_wins [where var = "''STRIPE_SECRET_KEY''"])
    (auto simp: AMBIENT_CREDENTIALS_def js_lower_def lower_char_def char_eval)

end
