(* ===== verification/Signatures.thy ===== *)
theory Signatures
  imports Json Money
begin

text \<open>
  Hashes, signatures and fingerprints: \<open>apps/web/lib/cryptographic-signatures.ts\<close>, the
  signature checks of \<open>paymob-rail.ts\<close> and \<open>fawry-rail.ts\<close>, the outbound webhook
  signer of \<open>merchant-settings-service.ts\<close> and the SDK's \<open>webhooks\<close> object
  (\<open>sdk/typescript/src/client.ts\<close>).

  The digests of \<open>node:crypto\<close> are parameters: \<open>sha\<close> maps a string to the
  hexadecimal digest of its UTF-8 bytes, \<open>hmac\<close> maps a key and a string to the
  hexadecimal keyed digest. \<open>timingSafeEqual\<close> is equality of the byte sequences.
\<close>

section \<open>Constant-time comparison\<close>

definition constantTimeEqHex :: "string \<Rightarrow> string \<Rightarrow> bool" where
  "constantTimeEqHex expected received =
     (let a = utf8 (js_lower expected);
          b = utf8 (js_lower received)
      in if length a \<noteq> length b then False else a = b)"

lemma utf8_Cons: "utf8 (c # s) = utf8_char c @ utf8 s"
  by (simp add: utf8_def)

lemma utf8_char_split:
  assumes "utf8_char c @ x = utf8_char d @ y"
  shows "c = d \<and> x = y"
proof -
  let ?m = "char_code c" and ?n = "char_code d"
  have b: "?m < 256" "?n < 256" by simp_all
  have hi: "char_code (char_of (192 + k div 64) :: char) = 192 + k div 64" if "k < 256" for k :: nat
    using that by (intro char_code_char_of) linarith
  have lo: "char_code (char_of (128 + k mod 64) :: char) = 128 + k mod 64" for k :: nat
  proof (rule char_code_char_of)
    have "k mod 64 < 64" by simp
    then show "128 + k mod 64 < 256" by linarith
  qed
  show ?thesis
  proof (cases "?m < 128")
    case True
    then have "hd (utf8_char d @ y) = c" using assms
      by (auto simp: utf8_char_def Let_def split: if_splits)
    then have "?n < 128" using True hi [OF b(2)] by (auto simp: utf8_char_def Let_def split: if_splits)
    with True assms show ?thesis by (simp add: utf8_char_def Let_def)
  next
    case False
    have "\<not> ?n < 128"
    proof
      assume "?n < 128"
      then have "d = char_of (192 + ?m div 64)" using False assms by (simp add: utf8_char_def Let_def)
      then have "?n = 192 + ?m div 64" using hi [OF b(1)] by simp
      with \<open>?n < 128\<close> show False by linarith
    qed
    with False assms have e: "(char_of (192 + ?m div 64) :: char) = char_of (192 + ?n div 64)"
      "(char_of (128 + ?m mod 64) :: char) = char_of (128 + ?n mod 64)" "x = y"
      by (simp_all add: utf8_char_def Let_def)
    have "192 + ?m div 64 = 192 + ?n div 64" using arg_cong [OF e(1), of char_code] hi b by metis
    moreover have "128 + ?m mod 64 = 128 + ?n mod 64" using arg_cong [OF e(2), of char_code] lo by metis
    ultimately have "?m = ?n" by (metis add_left_cancel div_mult_mod_eq)
    with e(3) show ?thesis by simp
  qed
qed

lemma utf8_char_not_Nil [simp]: "utf8_char c \<noteq> []"
  by (simp add: utf8_char_def Let_def)

lemma utf8_inject [simp]: "utf8 s = utf8 t \<longleftrightarrow> s = t"
proof (induction s arbitrary: t)
  case Nil
  show ?case by (cases t) (auto simp: utf8_def)
next
  case (Cons c s)
  show ?case
  proof (cases t)
    case Nil
    then show ?thesis by (simp add: utf8_Cons) (simp add: utf8_def)
  next
    case (Cons d u)
    then show ?thesis using Cons.IH utf8_char_split [of c "utf8 s" d "utf8 u"] by (auto simp: utf8_Cons)
  qed
qed

lemma constantTimeEqHex_iff: "constantTimeEqHex a b \<longleftrightarrow> js_lower a = js_lower b"
  by (auto simp: constantTimeEqHex_def Let_def)

lemma constantTimeEqHex_refl [simp]: "constantTimeEqHex a a"
  by (simp add: constantTimeEqHex_iff)

section \<open>Canonical JSON and request fingerprints\<close>

primrec canonicalizeJson :: "jsv \<Rightarrow> jsv" where
  "canonicalizeJson JUndef = JUndef"
| "canonicalizeJson JNull = JNull"
| "canonicalizeJson (JBool b) = JBool b"
| "canonicalizeJson (JNum m e) = JNum m e"
| "canonicalizeJson (JStr s) = JStr s"
| "canonicalizeJson (JArr xs) = JArr (map canonicalizeJson xs)"
| "canonicalizeJson (JObj ps) = JObj (js_build (sort_key fst (map (map_prod id canonicalizeJson) ps)))"

text \<open>\<open>None\<close> is the \<open>TypeError\<close> of \<open>update(undefined)\<close>, for a payload that is \<open>undefined\<close>.\<close>

definition computeCanonicalFingerprint :: "(string \<Rightarrow> string) \<Rightarrow> jsv \<Rightarrow> string option" where
  "computeCanonicalFingerprint sha payload =
     map_option sha (js_stringify (canonicalizeJson payload))"

text \<open>
  The canonical form of the Rust core (\<open>crates/core/src/idempotency.rs\<close>), which collects
  the members of an object in a \<open>BTreeMap\<close>: all keys in ascending order.
\<close>

primrec rust_canonicalize_json :: "jsv \<Rightarrow> jsv" where
  "rust_canonicalize_json JUndef = JUndef"
| "rust_canonicalize_json JNull = JNull"
| "rust_canonicalize_json (JBool b) = JBool b"
| "rust_canonicalize_json (JNum m e) = JNum m e"
| "rust_canonicalize_json (JStr s) = JStr s"
| "rust_canonicalize_json (JArr xs) = JArr (map rust_canonicalize_json xs)"
| "rust_canonicalize_json (JObj ps) = JObj (sort_key fst (map (map_prod id rust_canonicalize_json) ps))"

text \<open>Two JSON values that differ only in the order of object members.\<close>

inductive same_json :: "jsv \<Rightarrow> jsv \<Rightarrow> bool" where
  same_refl: "same_json v v"
| same_arr: "list_all2 same_json xs ys \<Longrightarrow> same_json (JArr xs) (JArr ys)"
| same_obj: "list_all2 (\<lambda>p q. fst p = fst q \<and> same_json (snd p) (snd q)) ps qs \<Longrightarrow>
     distinct (map fst ps) \<Longrightarrow> set qs = set rs \<Longrightarrow> distinct (map fst rs) \<Longrightarrow>
     same_json (JObj ps) (JObj rs)"
monos list_all2_mono

lemma distinct_fst_sort:
  assumes "distinct (map fst ps)"
  shows "distinct (map fst (sort_key fst (map (map_prod id f) ps)))"
proof -
  let ?qs = "map (map_prod id f) ps"
  have "distinct (map fst ?qs)" using assms by simp
  then have "distinct ?qs" "inj_on fst (set ?qs)" using distinct_map [of fst ?qs] by blast+
  then show ?thesis using distinct_map [of fst "sort_key fst ?qs"] by (simp only: distinct_sort set_sort)
qed

lemma canon_build:
  assumes "distinct (map fst ps)"
  shows "canonical_order (js_build (sort_key fst (map (map_prod id canonicalizeJson) ps)))
    \<and> set (js_build (sort_key fst (map (map_prod id canonicalizeJson) ps)))
        = {p \<in> map_prod id canonicalizeJson ` set ps. fst p \<noteq> ''__proto__''}"
proof -
  from js_build_sorted [OF sorted_sort_key distinct_fst_sort [OF assms]] show ?thesis by simp
qed

lemma canon_obj_cong:
  assumes "distinct (map fst ps)" and "distinct (map fst rs)"
    and "map_prod id canonicalizeJson ` set ps = map_prod id canonicalizeJson ` set rs"
  shows "canonicalizeJson (JObj ps) = canonicalizeJson (JObj rs)"
  using canon_build [OF assms(1)] canon_build [OF assms(2)] assms(3)
  by (simp add: canonical_order_unique)

lemma same_json_canonical: "same_json v w \<Longrightarrow> canonicalizeJson v = canonicalizeJson w"
proof (induction rule: same_json.induct)
  case (same_refl v)
  show ?case ..
next
  case (same_arr xs ys)
  then have "map canonicalizeJson xs = map canonicalizeJson ys"
    by (auto simp: list_all2_conv_all_nth intro: nth_equalityI)
  then show ?case by simp
next
  case (same_obj ps qs rs)
  have "list_all2 (\<lambda>p q. map_prod id canonicalizeJson p = map_prod id canonicalizeJson q) ps qs"
    using same_obj(1) by (rule list_all2_mono) (auto intro!: prod_eqI)
  then have eq: "map (map_prod id canonicalizeJson) ps = map (map_prod id canonicalizeJson) qs"
    by (simp add: list.rel_eq [symmetric] list.rel_map)
  then have "map_prod id canonicalizeJson ` set ps = map_prod id canonicalizeJson ` set rs"
    using same_obj(3) by (metis image_set)
  with same_obj show ?case by (intro canon_obj_cong) auto
qed

lemma wf_canonical: "wf_jsv v \<Longrightarrow> wf_jsv (canonicalizeJson v)"
proof (induction v)
  case (JArr xs)
  then show ?case by (auto simp: list_all_iff)
next
  case (JObj ps)
  have d: "distinct (map fst ps)" using JObj.prems by simp
  from canonical_order_distinct [OF conjunct1 [OF canon_build [OF d]]] conjunct2 [OF canon_build [OF d]]
  show ?case using JObj by (auto simp: wf_jsv_obj list_all_iff simp del: wf_jsv.simps(7))
qed simp_all

lemma canonicalize_idem: "wf_jsv v \<Longrightarrow> canonicalizeJson (canonicalizeJson v) = canonicalizeJson v"
proof (induction v)
  case (JObj ps)
  let ?out = "js_build (sort_key fst (map (map_prod id canonicalizeJson) ps))"
  have d: "distinct (map fst ps)" using JObj.prems by simp
  note o = canon_build [OF d]
  have do: "distinct (map fst ?out)" using o canonical_order_distinct by blast
  have fix_pt: "map_prod id canonicalizeJson p = p" if "p \<in> set ?out" for p
  proof -
    from that o obtain k v where p: "p = (k, canonicalizeJson v)" "(k, v) \<in> set ps" by auto
    have "wf_jsv v" using JObj.prems p(2) by (auto simp: list_all_iff)
    then have "canonicalizeJson (canonicalizeJson v) = canonicalizeJson v"
      using JObj.IH [of "(k, v)" v] p(2) by simp
    then show ?thesis using p(1) by simp
  qed
  then have im: "map_prod id canonicalizeJson ` set ?out = set ?out" by force
  have "canonical_order (js_build (sort_key fst (map (map_prod id canonicalizeJson) ?out)))"
    "set (js_build (sort_key fst (map (map_prod id canonicalizeJson) ?out))) = set ?out"
    using canon_build [OF do] im o by auto
  then have "js_build (sort_key fst (map (map_prod id canonicalizeJson) ?out)) = ?out"
    using o by (intro canonical_order_unique) auto
  then show ?case by simp
qed (auto simp: list_all_iff)

primrec plain_keys :: "jsv \<Rightarrow> bool" where
  "plain_keys JUndef = True"
| "plain_keys JNull = True"
| "plain_keys (JBool b) = True"
| "plain_keys (JNum m e) = True"
| "plain_keys (JStr s) = True"
| "plain_keys (JArr xs) = list_all id (map plain_keys xs)"
| "plain_keys (JObj ps) = (list_all (\<lambda>p. \<not> is_index (fst p) \<and> fst p \<noteq> ''__proto__'' \<and> snd p)
     (map (map_prod id plain_keys) ps))"

lemma canonicalize_rust: "wf_jsv v \<Longrightarrow> plain_keys v \<Longrightarrow> canonicalizeJson v = rust_canonicalize_json v"
proof (induction v)
  case (JArr xs)
  then show ?case by (auto simp: list_all_iff)
next
  case (JObj ps)
  have d: "distinct (map fst ps)" using JObj.prems by simp
  have eq: "map (map_prod id rust_canonicalize_json) ps = map (map_prod id canonicalizeJson) ps"
  proof (rule map_cong [OF refl])
    fix p assume p: "p \<in> set ps"
    have "wf_jsv (snd p)" "plain_keys (snd p)" using JObj.prems p by (auto simp: list_all_iff)
    then have "canonicalizeJson (snd p) = rust_canonicalize_json (snd p)"
      using JObj.IH [of p "snd p"] p by (cases p) auto
    then show "map_prod id rust_canonicalize_json p = map_prod id canonicalizeJson p" by (cases p) simp
  qed
  let ?qs = "sort_key fst (map (map_prod id canonicalizeJson) ps)"
  have pk: "\<forall>p \<in> set ?qs. \<not> is_index (fst p) \<and> fst p \<noteq> ''__proto__''"
    using JObj.prems(2) by (auto simp: list_all_iff)
  have dq: "distinct (map fst ?qs)" using d by (rule distinct_fst_sort)
  have "canonical_order ?qs" unfolding canonical_order_def
    by (rule exI [of _ "[]"], rule exI [of _ ?qs]) (use pk dq in simp)
  moreover have "{p \<in> map_prod id canonicalizeJson ` set ps. fst p \<noteq> ''__proto__''} = set ?qs"
    using pk by auto
  ultimately have "js_build ?qs = ?qs"
    using canon_build [OF d] by (intro canonical_order_unique) auto
  then show ?case by (simp add: eq)
qed simp_all

section \<open>Paymob\<close>

definition paymob_hmac_fields :: "string list" where
  "paymob_hmac_fields =
    [''amount_cents'', ''created_at'', ''currency'', ''error_occured'', ''has_parent_transaction'',
     ''id'', ''integration_id'', ''is_3d_secure'', ''is_auth'', ''is_capture'', ''is_refunded'',
     ''is_standalone_payment'', ''is_voided'', ''order.id'', ''owner'', ''pending'',
     ''source_data.pan'', ''source_data.sub_type'', ''source_data.type'', ''success'']"

definition present_text :: "jsv \<Rightarrow> string" where
  "present_text v = (if v \<noteq> JUndef \<and> v \<noteq> JNull then js_String v else [])"

definition paymob_field_text :: "jsv \<Rightarrow> string \<Rightarrow> string" where
  "paymob_field_text obj f =
     (if js_includes f ''.'' then present_text (foldl field obj (split_on (CHR ''.'') f))
      else present_text (field obj f))"

definition paymob_concatenated :: "jsv \<Rightarrow> string" where
  "paymob_concatenated obj = js_join [] (map (paymob_field_text obj) paymob_hmac_fields)"

definition verifyPaymobHmac ::
  "(string \<Rightarrow> string \<Rightarrow> string) \<Rightarrow> env \<Rightarrow> jsv \<Rightarrow> string \<Rightarrow> string option \<Rightarrow> bool" where
  "verifyPaymobHmac hmac env payload receivedHmac hmacSecretOverride =
     (case js_or hmacSecretOverride (env ''PAYMOB_HMAC_SECRET'') of
        None \<Rightarrow> False
      | Some hmacSecret \<Rightarrow>
          if hmacSecret = [] then False
          else (let obj = jor (field payload ''obj'') payload;
                    calculatedHmac = hmac hmacSecret (paymob_concatenated obj)
                in constantTimeEqHex calculatedHmac receivedHmac))"

text \<open>The top-level members of the transaction object that the HMAC covers.\<close>

definition paymob_signed_members :: "string list" where
  "paymob_signed_members = map (\<lambda>f. hd (split_on (CHR ''.'') f)) paymob_hmac_fields"

lemma foldl_field_head:
  "field a (hd xs) = field b (hd xs) \<Longrightarrow> xs \<noteq> [] \<Longrightarrow> foldl field a xs = foldl field b xs"
  by (cases xs) simp_all

lemma dot_included: "js_includes f ''.'' \<longleftrightarrow> CHR ''.'' \<in> set f"
  by (simp add: js_includes_append in_set_conv_decomp)

lemma paymob_concatenated_cong:
  assumes "\<forall>k \<in> set paymob_signed_members. field a k = field b k"
  shows "paymob_concatenated a = paymob_concatenated b"
proof -
  have "paymob_field_text a f = paymob_field_text b f" if f: "f \<in> set paymob_hmac_fields" for f
  proof (cases "CHR ''.'' \<in> set f")
    case True
    have "field a (hd (split_on (CHR ''.'') f)) = field b (hd (split_on (CHR ''.'') f))"
      using assms f by (auto simp: paymob_signed_members_def)
    then have "foldl field a (split_on (CHR ''.'') f) = foldl field b (split_on (CHR ''.'') f)"
      by (rule foldl_field_head) simp
    with True show ?thesis by (simp add: paymob_field_text_def dot_included)
  next
    case False
    then have "hd (split_on (CHR ''.'') f) = f" by (simp add: split_on_no_sep)
    then have "field a f = field b f" using assms f by (force simp: paymob_signed_members_def)
    with False show ?thesis by (simp add: paymob_field_text_def dot_included)
  qed
  then have "map (paymob_field_text a) paymob_hmac_fields = map (paymob_field_text b) paymob_hmac_fields"
    by (rule map_cong [OF refl])
  then show ?thesis by (simp only: paymob_concatenated_def)
qed

section \<open>Fawry\<close>

definition calculateFawryChargeSignature ::
  "(string \<Rightarrow> string) \<Rightarrow> string \<Rightarrow> string \<Rightarrow> string \<Rightarrow> string \<Rightarrow> string \<Rightarrow> string \<Rightarrow> string" where
  "calculateFawryChargeSignature sha merchantCode merchantRefNum customerProfileId paymentMethod
     amount2dp secureKey =
     sha (merchantCode @ merchantRefNum @ customerProfileId @ paymentMethod @ amount2dp @ secureKey)"

definition calculateFawryWebhookSignature ::
  "(string \<Rightarrow> string) \<Rightarrow> string \<Rightarrow> string \<Rightarrow> string \<Rightarrow> string \<Rightarrow> string \<Rightarrow> string \<Rightarrow> string option
    \<Rightarrow> string \<Rightarrow> string" where
  "calculateFawryWebhookSignature sha fawryRefNumber merchantRefNumber paymentAmount2dp
     orderAmount2dp orderStatus paymentMethod paymentReferenceNumber secureKey =
     sha (fawryRefNumber @ merchantRefNumber @ paymentAmount2dp @ orderAmount2dp @ orderStatus
       @ paymentMethod @ nullish_else paymentReferenceNumber [] @ secureKey)"

definition verifyFawryWebhookSignature ::
  "(string \<Rightarrow> string) \<Rightarrow> string \<Rightarrow> string \<Rightarrow> string \<Rightarrow> string \<Rightarrow> string \<Rightarrow> string \<Rightarrow> string option
    \<Rightarrow> string \<Rightarrow> string \<Rightarrow> bool" where
  "verifyFawryWebhookSignature sha fawryRefNumber merchantRefNumber paymentAmount2dp
     orderAmount2dp orderStatus paymentMethod paymentReferenceNumber secureKey receivedSignature =
     constantTimeEqHex
       (calculateFawryWebhookSignature sha fawryRefNumber merchantRefNumber paymentAmount2dp
          orderAmount2dp orderStatus paymentMethod paymentReferenceNumber secureKey)
       receivedSignature"

definition verifyFawrySignature ::
  "(string \<Rightarrow> string) \<Rightarrow> string \<Rightarrow> string \<Rightarrow> string \<Rightarrow> string \<Rightarrow> string \<Rightarrow> string \<Rightarrow> bool" where
  "verifyFawrySignature sha fawryRefNumber merchantRefNum paymentAmount orderStatus secureKey
     receivedSignature =
     verifyFawryWebhookSignature sha fawryRefNumber merchantRefNum paymentAmount paymentAmount
       orderStatus ''PAYATFAWRY'' None secureKey receivedSignature"

section \<open>Outbound webhook signatures\<close>

text \<open>\<open>signWebhookPayload\<close> of the web application; \<open>now\<close> is \<open>Math.floor(Date.now() / 1000)\<close>.\<close>

record signed_header =
  sh_timestamp :: int
  sh_signature :: string
  sh_header :: string

definition signWebhookPayload ::
  "(string \<Rightarrow> string \<Rightarrow> string) \<Rightarrow> int \<Rightarrow> string \<Rightarrow> string \<Rightarrow> signed_header" where
  "signWebhookPayload hmac now payload secret =
     (let timestamp = now;
          signaturePayload = int_str timestamp @ ''.'' @ payload;
          h = hmac secret signaturePayload
      in \<lparr>sh_timestamp = timestamp, sh_signature = h,
          sh_header = ''t='' @ int_str timestamp @ '',v1='' @ h\<rparr>)"

definition computeSignature ::
  "(string \<Rightarrow> string \<Rightarrow> string) \<Rightarrow> string \<Rightarrow> string \<Rightarrow> int \<Rightarrow> string" where
  "computeSignature hmac payload secret timestamp =
     hmac secret (int_str timestamp @ ''.'' @ payload)"

text \<open>\<open>parseInt(s, 10)\<close>; \<open>None\<close> is \<open>NaN\<close>.\<close>

definition parse_int10 :: "string \<Rightarrow> int option" where
  "parse_int10 s =
     (let t = trim_start s;
          neg = starts_with t ''-'';
          ds = takeWhile is_digit (strip_sign t)
      in if ds = [] then None
         else Some (bigint_to_number (if neg then - int (digits_val ds) else int (digits_val ds))))"

text \<open>\<open>Buffer.from(s, "hex")\<close> decodes pairs of digits and stops at the first that is not one.\<close>

fun hex_decode :: "string \<Rightarrow> nat list" where
  "hex_decode (a # b # r) =
     (case (hex_val a, hex_val b) of
        (Some x, Some y) \<Rightarrow> (16 * x + y) # hex_decode r
      | _ \<Rightarrow> [])"
| "hex_decode _ = []"

text \<open>The loop over the items of the header: the last \<open>t\<close> and every \<open>v1\<close>.\<close>

fun parse_signature_items ::
  "string list \<Rightarrow> int option \<times> string list \<Rightarrow> int option \<times> string list" where
  "parse_signature_items [] acc = acc"
| "parse_signature_items (item # items) (timestamp, signatures) =
     parse_signature_items items
       (case split_on (CHR ''='') item of
          [k, v] \<Rightarrow>
            (let key = js_trim k; val = js_trim v in
             if key = ''t'' then (parse_int10 val, signatures)
             else if key = ''v1'' then (timestamp, signatures @ [val])
             else (timestamp, signatures))
        | _ \<Rightarrow> (timestamp, signatures))"

definition verifySignature ::
  "(string \<Rightarrow> string \<Rightarrow> string) \<Rightarrow> int \<Rightarrow> string \<Rightarrow> string \<Rightarrow> string \<Rightarrow> int \<Rightarrow> bool" where
  "verifySignature hmac now payload header secret toleranceSeconds =
     (case parse_signature_items (split_on (CHR '','') header) (None, []) of
        (timestamp, signatures) \<Rightarrow>
          (case timestamp of
             None \<Rightarrow> False
           | Some t \<Rightarrow>
               if t = 0 \<or> signatures = [] then False
               else if 0 < toleranceSeconds \<and> toleranceSeconds < \<bar>now - t\<bar> then False
               else (let expectedBuf = hex_decode (computeSignature hmac payload secret t)
                     in list_ex (\<lambda>sig. hex_decode sig = expectedBuf) signatures)))"

text \<open>What \<open>digest("hex")\<close> returns: lower-case hexadecimal digits.\<close>

definition hex_text :: "string \<Rightarrow> bool" where
  "hex_text s \<longleftrightarrow> list_all (\<lambda>c. hex_val c \<noteq> None) s"

lemma hex_char_facts:
  "hex_val c \<noteq> None \<Longrightarrow> \<not> is_ws c \<and> c \<noteq> CHR '','' \<and> c \<noteq> CHR ''=''"
proof -
  assume a: "hex_val c \<noteq> None"
  have "hex_val (CHR '','') = None" "hex_val (CHR ''='') = None"
    by (simp_all add: hex_val_def char_code_def)
  moreover have "\<not> is_ws c" using a by (auto simp: hex_val_def is_ws_def Let_def split: if_splits)
  ultimately show ?thesis using a by auto
qed

lemma nat_str_header_chars:
  "c \<in> set (nat_str n) \<Longrightarrow> \<not> is_ws c \<and> c \<noteq> CHR '','' \<and> c \<noteq> CHR ''=''"
proof -
  assume "c \<in> set (nat_str n)"
  then have "is_digit c" by (rule nat_str_digits)
  then show ?thesis by (auto simp: is_digit_def is_ws_def Let_def char_code_def)
qed

lemma parse_int10_nat_str: "n \<le> 2 ^ 53 \<Longrightarrow> parse_int10 (nat_str n) = Some (int n)"
proof -
  assume n: "n \<le> 2 ^ 53"
  obtain c r where c: "nat_str n = c # r" "is_digit c" by (rule nat_str_hd)
  have ws: "trim_start (nat_str n) = nat_str n" using c by (simp add: trim_start_def)
  have sg: "strip_sign (nat_str n) = nat_str n" "\<not> starts_with (nat_str n) ''-''"
    using c by (auto simp: strip_sign_def)
  have tw: "takeWhile is_digit (nat_str n) = nat_str n"
    using nat_str_digits by (simp add: takeWhile_eq_all_conv)
  have "bigint_to_number (int n) = int n"
  proof (rule bigint_to_number_exact)
    have "int n \<le> int (2 ^ 53)" using n by (simp only: of_nat_le_iff)
    then show "\<bar>int n\<bar> \<le> 2 ^ 53" by simp
  qed
  then show ?thesis by (simp add: parse_int10_def Let_def ws sg tw)
qed

lemma sign_header_split:
  assumes "0 \<le> t" and "hex_text h"
  shows "split_on (CHR '','') (''t='' @ int_str t @ '',v1='' @ h) = [''t='' @ int_str t, ''v1='' @ h]"
proof -
  have "CHR '','' \<notin> set (''t='' @ int_str t)"
    using nat_str_header_chars [of "CHR '',''" "nat t"] assms(1) by (auto simp: int_str_def)
  then have "split_on (CHR '','') ((''t='' @ int_str t) @ CHR '','' # (''v1='' @ h))
      = (''t='' @ int_str t) # split_on (CHR '','') (''v1='' @ h)" by (rule split_on_append_sep)
  moreover have "CHR '','' \<notin> set (''v1='' @ h)"
    using assms(2) hex_char_facts [of "CHR '',''"] by (auto simp: hex_text_def list_all_iff)
  ultimately show ?thesis by (simp add: split_on_no_sep)
qed

lemma sign_header_parse:
  assumes "0 \<le> t" and "t \<le> 2 ^ 53" and "hex_text h"
  shows "parse_signature_items (split_on (CHR '','') (''t='' @ int_str t @ '',v1='' @ h)) (None, [])
    = (Some t, [h])"
proof -
  have it: "int_str t = nat_str (nat t)" using assms(1) by (simp add: int_str_def)
  have "CHR ''='' \<notin> set (nat_str (nat t))" using nat_str_header_chars by blast
  then have s1: "split_on (CHR ''='') (''t='' @ int_str t) = [''t'', int_str t]"
    by (simp add: it split_on_no_sep)
  have nh: "CHR ''='' \<notin> set h"
    using assms(3) hex_char_facts [of "CHR ''=''"] by (auto simp: hex_text_def list_all_iff)
  then have s2: "split_on (CHR ''='') (''v1='' @ h) = [''v1'', h]" by (simp add: split_on_no_sep)
  have ws: "js_trim ''t'' = ''t''" "js_trim ''v1'' = ''v1''"
    by (rule js_trim_no_ws; auto simp: is_ws_def char_code_def)+
  have th: "js_trim h = h"
  proof (rule js_trim_no_ws)
    fix c assume "c \<in> set h"
    then have "hex_val c \<noteq> None" using assms(3) by (simp add: hex_text_def list_all_iff)
    then show "\<not> is_ws c" using hex_char_facts by blast
  qed
  have tt: "js_trim (int_str t) = int_str t"
    unfolding it by (rule js_trim_no_ws) (use nat_str_header_chars in blast)
  have "nat t \<le> 2 ^ 53" using assms(2) by simp
  then have "parse_int10 (int_str t) = Some t"
    using parse_int10_nat_str [of "nat t"] assms(1) by (simp add: it)
  then show ?thesis
    unfolding sign_header_split [OF assms(1,3)] parse_signature_items.simps s1 s2
    by (simp add: Let_def ws th tt split_on_no_sep [OF nh])
qed

section \<open>Properties\<close>

text \<open>
  The request fingerprint does not depend on the order in which the members of an object
  were written: two payloads that differ only in member order, at any depth, have the same
  canonical form, hence the same fingerprint, for every digest function.
\<close>

theorem fingerprint_member_order:
  assumes "same_json v w"
  shows "computeCanonicalFingerprint sha v = computeCanonicalFingerprint sha w"
  by (simp add: computeCanonicalFingerprint_def same_json_canonical [OF assms])

theorem fingerprint_member_order_witness:
  "computeCanonicalFingerprint id (JObj [(''b'', JNull), (''a'', JBool True)])
   = computeCanonicalFingerprint id (JObj [(''a'', JBool True), (''b'', JNull)])"
  by (rule fingerprint_member_order, rule same_obj
      [where qs = "[(''b'', JNull), (''a'', JBool True)]"]) (auto intro: same_refl)

text \<open>
  Canonicalisation is a normal form: applying it twice is applying it once, for every
  value whose objects have distinct keys.
\<close>

theorem canonicalizeJson_normal_form:
  assumes "wf_jsv v"
  shows "canonicalizeJson (canonicalizeJson v) = canonicalizeJson v \<and> wf_jsv (canonicalizeJson v)"
  using assms by (simp add: canonicalize_idem wf_canonical)

theorem canonicalizeJson_normal_form_witness:
  "canonicalizeJson (canonicalizeJson (JObj [(''10'', JNull), (''a'', JNull), (''9'', JNull)]))
     = canonicalizeJson (JObj [(''10'', JNull), (''a'', JNull), (''9'', JNull)])
   \<and> wf_jsv (canonicalizeJson (JObj [(''10'', JNull), (''a'', JNull), (''9'', JNull)]))"
  by (rule canonicalizeJson_normal_form) simp



text \<open>
  The two forms do differ on numeric keys, which JavaScript enumerates in numeric order
  whatever the order of insertion: the serialised canonical forms of the same metadata are
  then different texts.
\<close>

theorem canonicalizeJson_differs_on_numeric_keys:
  "\<exists>v. wf_jsv v \<and> js_stringify (canonicalizeJson v) \<noteq> js_stringify (rust_canonicalize_json v)"
proof -
  let ?v = "JObj [(''10'', JStr ''x''), (''9'', JStr ''y'')]"
  have d: "digits_val ''10'' = 10" "digits_val ''9'' = 9"
    by (simp_all add: digits_val_def digit_val_def char_code_def)
  have n: "nat_str 10 = ''10''" "nat_str 9 = ''9''"
    by (simp_all add: nat_str_lit digit_char_lits)
  have ix: "is_index ''10''" "is_index ''9''"
    by (simp_all add: is_index_def d n is_digit_def char_code_def)
  have so: "sort_key fst [(''10'', JStr ''x''), (''9'', JStr ''y'')]
      = [(''10'', JStr ''x''), (''9'', JStr ''y'')]" by simp
  have "canonicalizeJson ?v = JObj [(''9'', JStr ''y''), (''10'', JStr ''x'')]"
    by (simp add: so js_build_def js_set_def ix d)
  moreover have "rust_canonicalize_json ?v = ?v" by (simp add: so)
  moreover have "js_stringify ?v \<noteq> js_stringify (JObj [(''9'', JStr ''y''), (''10'', JStr ''x'')])"
    by (simp add: json_quote_def dquote_def quote_char_def char_code_def)
  moreover have "wf_jsv ?v" by simp
  ultimately show ?thesis by (intro exI [of _ ?v] conjI) simp_all
qed

text \<open>
  C22. A payload signed by the web application's outbound signer is accepted by the SDK's
  verifier with the same secret, within the tolerance, for every payload and every keyed
  digest that prints hexadecimal digits.
\<close>

theorem signed_webhook_verifies:
  assumes "0 < ts" and "ts \<le> 2 ^ 53" and "\<bar>now - ts\<bar> \<le> tol"
    and "hex_text (sh_signature (signWebhookPayload hmac ts payload secret))"
  shows "verifySignature hmac now payload
           (sh_header (signWebhookPayload hmac ts payload secret)) secret tol"
proof -
  let ?h = "hmac secret (int_str ts @ ''.'' @ payload)"
  have "hex_text ?h" using assms(4) by (simp add: signWebhookPayload_def Let_def)
  then have "parse_signature_items (split_on (CHR '','') (''t='' @ int_str ts @ '',v1='' @ ?h)) (None, [])
      = (Some ts, [?h])" using assms(1,2) by (intro sign_header_parse) auto
  then show ?thesis
    using assms(1,3) by (simp add: verifySignature_def signWebhookPayload_def computeSignature_def Let_def)
qed

theorem signed_webhook_verifies_witness:
  "verifySignature (\<lambda>k m. ''00ff'') 1000 ''{}''
     (sh_header (signWebhookPayload (\<lambda>k m. ''00ff'') 900 ''{}'' ''whsec'')) ''whsec'' 300"
  by (rule signed_webhook_verifies)
    (simp_all add: signWebhookPayload_def hex_text_def hex_val_def char_code_def Let_def)



end
