(* ===== verification/Payment_Routing.thy ===== *)
theory Payment_Routing
  imports Ledger Request Gateway Signatures "HOL-Library.Word"
begin

text \<open>
  From a validated request to the payment a rail creates: the middle part of \<open>POST\<close> in
  \<open>apps/web/app/api/[version]/payments/route.ts\<close>.

  The schema library is a parameter, \<open>sv_validate\<close>: it gives the field errors or the data in
  the types the schema declares, \<open>null\<close> and \<open>undefined\<close> members both \<open>None\<close>; what the
  schema guarantees of accepted data is \<open>input_ok\<close>. Other parameters: the URL parser, the
  gateway, the Stripe SDK, \<open>encodeURIComponent\<close>, \<open>randomUUID()\<close>, the clock, its ISO form, and
  the measured gateway latency.
\<close>

section \<open>The request\<close>

record payment_input =
  pi_provider :: string
  pi_amount_minor_units :: "int option"
  pi_amount :: "int option"
  pi_currency :: string
  pi_phone :: string
  pi_email :: "string option"
  pi_full_name :: "string option"
  pi_fullName :: "string option"
  pi_merchant_reference :: "string option"
  pi_merchantReference :: "string option"
  pi_description :: "string option"
  pi_return_url :: "string option"
  pi_returnUrl :: "string option"
  pi_metadata :: "(string \<times> string) list option"

record services =
  sv_pf :: platform
  sv_parse_url :: url_parser
  sv_gw :: gateway
  sv_stripe :: stripe_api
  sv_validate :: "jsv \<Rightarrow> jsv + payment_input"
  sv_encode :: "string \<Rightarrow> string"
  sv_iso :: "int \<Rightarrow> string"
  sv_uuid :: string
  sv_now :: int
  sv_routing :: int

text \<open>The characters \<open>sanitize\<close> removes: control characters other than tab, newline and return.\<close>

definition sanitize :: "string \<Rightarrow> string" where
  "sanitize s = filter (\<lambda>c. let n = char_code c in
     \<not> (n \<le> 8 \<or> n = 11 \<or> n = 12 \<or> (14 \<le> n \<and> n \<le> 31) \<or> n = 127)) s"

definition providers :: "string list" where
  "providers = [''paymob'', ''fawry'', ''stripe'', ''mock'']"

definition amount_ok :: "int option \<Rightarrow> bool" where
  "amount_ok a = (case a of None \<Rightarrow> True | Some n \<Rightarrow> 0 < n \<and> n \<le> 2147483647)"

definition bounded_ok :: "nat \<Rightarrow> string option \<Rightarrow> bool" where
  "bounded_ok m v = (case v of None \<Rightarrow> True | Some s \<Rightarrow> length s \<le> m \<and> sanitize s = s)"

text \<open>What the schema guarantees of data it accepts.\<close>

definition input_ok :: "payment_input \<Rightarrow> bool" where
  "input_ok d \<longleftrightarrow> pi_provider d \<in> set providers
     \<and> amount_ok (pi_amount_minor_units d) \<and> amount_ok (pi_amount d)
     \<and> length (pi_currency d) = 3 \<and> list_all (\<lambda>c. 65 \<le> char_code c \<and> char_code c \<le> 90) (pi_currency d)
     \<and> bounded_ok 32 (Some (pi_phone d)) \<and> 3 \<le> length (pi_phone d)
     \<and> bounded_ok 200 (pi_full_name d) \<and> bounded_ok 200 (pi_fullName d)
     \<and> bounded_ok 255 (pi_merchant_reference d) \<and> bounded_ok 255 (pi_merchantReference d)
     \<and> bounded_ok 500 (pi_description d)
     \<and> (case pi_metadata d of None \<Rightarrow> True | Some md \<Rightarrow> length md \<le> 50
          \<and> list_all (\<lambda>(k, v). length k \<le> 64 \<and> length v \<le> 1000) md)"

definition valid_idempotency_key :: "string \<Rightarrow> bool" where
  "valid_idempotency_key k \<longleftrightarrow> 1 \<le> length k \<and> length k \<le> 200
     \<and> list_all (\<lambda>c. 33 \<le> char_code c \<and> char_code c \<le> 126) k"

text \<open>\<open>a || b\<close> on optional numbers.\<close>

definition int_or :: "int option \<Rightarrow> int option \<Rightarrow> int option" where
  "int_or a b = (case a of Some n \<Rightarrow> if n \<noteq> 0 then a else b | None \<Rightarrow> b)"

text \<open>What the handler has computed when it starts routing.\<close>

record payment_ctx =
  x_key :: auth_key
  x_version :: string
  x_endpoint :: string
  x_headers :: headers
  x_token :: "string option"
  x_test :: bool
  x_environment :: string
  x_idempotencyKey :: string
  x_bodyStripeKey :: "string option"
  x_provider :: string
  x_amountMinorUnits :: int
  x_currency :: string
  x_merchantRef :: "string option"
  x_description :: string
  x_dataReturnUrl :: "string option"
  x_returnUrl :: "string option"
  x_customerName :: "string option"
  x_customerPhone :: string
  x_customerEmail :: "string option"
  x_metadata :: "(string \<times> string) list"

text \<open>\<open>a || b || undefined\<close>: the empty string becomes \<open>undefined\<close>.\<close>

definition or_undefined :: "string option \<Rightarrow> string option" where
  "or_undefined v = (if truthy v then v else None)"

definition payment_context ::
  "auth_key \<Rightarrow> string \<Rightarrow> headers \<Rightarrow> string \<Rightarrow> string option \<Rightarrow> payment_input \<Rightarrow> int \<Rightarrow> payment_ctx" where
  "payment_context key version h idempotencyKey bodyStripeKey d amountMinorUnits =
     \<lparr>x_key = key, x_version = version, x_endpoint = ''/api/'' @ version @ ''/payments'',
      x_headers = h, x_token = extractApiToken h, x_test = isTestMode key h (extractApiToken h),
      x_environment = request_environment key h, x_idempotencyKey = idempotencyKey,
      x_bodyStripeKey = bodyStripeKey, x_provider = pi_provider d,
      x_amountMinorUnits = amountMinorUnits, x_currency = pi_currency d,
      x_merchantRef = or_undefined (js_or (pi_merchant_reference d) (pi_merchantReference d)),
      x_description = or_else (pi_description d) ''Payment'',
      x_dataReturnUrl = pi_return_url d,
      x_returnUrl = or_undefined (js_or (pi_return_url d) (pi_returnUrl d)),
      x_customerName = or_undefined (js_or (pi_full_name d) (pi_fullName d)),
      x_customerPhone = pi_phone d, x_customerEmail = or_undefined (pi_email d),
      x_metadata = nullish_else (pi_metadata d) []\<rparr>"

section \<open>The canonical payload\<close>

definition jstr_or_undef :: "string option \<Rightarrow> jsv" where
  "jstr_or_undef v = (case v of None \<Rightarrow> JUndef | Some s \<Rightarrow> JStr s)"

definition metadata_obj :: "(string \<times> string) list \<Rightarrow> (string \<times> jsv) list" where
  "metadata_obj md = map (map_prod id JStr) md"

definition canonicalPayload :: "payment_ctx \<Rightarrow> jsv" where
  "canonicalPayload x = JObj
     [(''provider'', JStr (x_provider x)),
      (''amount_minor_units'', jint (x_amountMinorUnits x)),
      (''currency'', JStr (x_currency x)),
      (''customer'', JObj [(''phone'', JStr (x_customerPhone x)),
         (''email'', jstr_or_undef (x_customerEmail x)), (''full_name'', jstr_or_undef (x_customerName x))]),
      (''merchant_reference'', jstr_or_null (x_merchantRef x)),
      (''description'', JStr (x_description x)),
      (''return_url'', jstr_or_undef (x_returnUrl x)),
      (''metadata'', JObj (metadata_obj (x_metadata x)))]"

text \<open>The same payload in the type the bridge takes.\<close>

definition gatewayPayload :: "payment_ctx \<Rightarrow> gw_request" where
  "gatewayPayload x =
     \<lparr>gr_provider = x_provider x, gr_amount_minor_units = x_amountMinorUnits x, gr_currency = x_currency x,
      gr_customer = \<lparr>c_phone = x_customerPhone x, c_email = x_customerEmail x, c_full_name = x_customerName x\<rparr>,
      gr_merchant_reference = x_merchantRef x, gr_description = Some (x_description x),
      gr_return_url = x_returnUrl x, gr_metadata = x_metadata x\<rparr>"

definition computeFingerprint :: "platform \<Rightarrow> jsv \<Rightarrow> js_exn + string" where
  "computeFingerprint pf payload =
     (case computeCanonicalFingerprint (pf_sha pf) payload of
        None \<Rightarrow> Inl (TypeError ''update'') | Some f \<Rightarrow> Inr f)"

text \<open>\<open>JSON.stringify({ ...metadata, environment })\<close>.\<close>

definition metadata_json :: "(string \<times> string) list \<Rightarrow> string \<Rightarrow> string" where
  "metadata_json md environment =
     nullish_else (js_stringify (JObj (js_set (metadata_obj md) ''environment'' (JStr environment)))) []"

section \<open>What a rail decides\<close>

record routed =
  ro_paymentId :: string
  ro_providerReference :: "string option"
  ro_status :: string
  ro_nextActionType :: "string option"
  ro_nextActionPayload :: "string option"
  ro_routingLatencyMs :: "int option"

text \<open>A rail answers the request (\<open>Inl\<close>) or decides how the payment is stored (\<open>Inr\<close>).\<close>

type_synonym rail = "(response + routed) db"

definition new_payment_id :: "string \<Rightarrow> string" where
  "new_payment_id uuid = ''pay_'' @ take 24 (filter (\<lambda>c. c \<noteq> CHR ''-'') uuid)"

definition refuse ::
  "payment_ctx \<Rightarrow> nat \<Rightarrow> string \<Rightarrow> string \<Rightarrow> int option \<Rightarrow> rail" where
  "refuse x st code msg routing =
     db_then (scheduleApiRequestRecord (x_key x) ''POST'' (x_endpoint x) st routing None)
       (db_return (Inl (error_response st code msg)))"

definition call_gateway :: "services \<Rightarrow> payment_ctx \<Rightarrow> gateway_result" where
  "call_gateway sv x = forwardPaymentToRustGateway (sv_parse_url sv) (sv_gw sv) (pf_env (sv_pf sv))
     (gatewayPayload x) (x_idempotencyKey x) (x_token x) (Some (x_headers x)) (x_version x)"

definition gateway_url :: "services \<Rightarrow> string option" where
  "gateway_url sv = getGatewayUrl (sv_parse_url sv) (pf_env (sv_pf sv))"

text \<open>The assignments from a successful answer of the gateway.\<close>

definition from_gateway :: "gw_payment \<Rightarrow> int \<Rightarrow> routed" where
  "from_gateway g routing =
     \<lparr>ro_paymentId = g_payment_id g, ro_providerReference = g_provider_reference g,
      ro_status = g_status g,
      ro_nextActionType = or_undefined (map_option na_type (g_next_action g)),
      ro_nextActionPayload = or_undefined (js_or (Option.bind (g_next_action g) na_url)
        (Option.bind (g_next_action g) na_reference)),
      ro_routingLatencyMs = Some routing\<rparr>"

definition unreachable :: "string option \<Rightarrow> bool" where
  "unreachable code \<longleftrightarrow> code = Some ''gateway_unreachable'' \<or> code = Some ''gateway_unavailable''"

text \<open>\<open>k\<close> is what follows when the gateway did not handle the payment; it gets the latency measured.\<close>

definition try_gateway ::
  "services \<Rightarrow> payment_ctx \<Rightarrow> (gw_payment \<Rightarrow> rail option) \<Rightarrow> (int option \<Rightarrow> rail) \<Rightarrow> rail" where
  "try_gateway sv x special k =
     (if \<not> truthy (gateway_url sv) then k None
      else (let routing = sv_routing sv in
        case call_gateway sv x of
          GOk g \<Rightarrow> (case special g of Some r \<Rightarrow> r | None \<Rightarrow> db_return (Inr (from_gateway g routing)))
        | GErr st err code \<Rightarrow>
            if \<not> unreachable code then refuse x st (or_else code ''gateway_error'') err (Some routing)
            else k (Some routing)))"

section \<open>Paymob and Fawry\<close>

text \<open>\<open>((acc << 5) - acc + c) | 0\<close>, folded over the characters.\<close>

definition kiosk_step :: "32 word \<Rightarrow> char \<Rightarrow> 32 word" where
  "kiosk_step acc c = push_bit 5 acc - acc + of_nat (char_code c)"

definition kiosk_code :: "string \<Rightarrow> string" where
  "kiosk_code paymentId =
     (let num = nat \<bar>sint (foldl kiosk_step 0 paymentId)\<bar> mod 1000000
      in ''929'' @ pad_start 6 (CHR ''0'') (nat_str num))"

definition app_url :: "env \<Rightarrow> string" where
  "app_url en = strip_trailing_slashes
     (or_else (js_or (en ''NEXT_PUBLIC_APP_URL'') (en ''OPENWRAPPER_PUBLIC_URL'')) ''https://openwrapper.muejam.com'')"

definition simulate_paymob_fawry :: "services \<Rightarrow> payment_ctx \<Rightarrow> int option \<Rightarrow> routed" where
  "simulate_paymob_fawry sv x routing =
     (let paymentId = new_payment_id (sv_uuid sv);
          returnUrlParam = (if truthy (x_dataReturnUrl x)
            then ''&return_url='' @ sv_encode sv (the (x_dataReturnUrl x)) else [])
      in if x_provider x = ''fawry'' then
           \<lparr>ro_paymentId = paymentId, ro_providerReference = Some (''fawry_sim_'' @ paymentId),
            ro_status = ''pending'', ro_nextActionType = Some ''pay_at_reference'',
            ro_nextActionPayload = Some (kiosk_code paymentId), ro_routingLatencyMs = routing\<rparr>
         else
           \<lparr>ro_paymentId = paymentId, ro_providerReference = Some (''paymob_sim_'' @ paymentId),
            ro_status = ''pending'', ro_nextActionType = Some ''redirect_to_url'',
            ro_nextActionPayload = Some (app_url (pf_env (sv_pf sv)) @ ''/mock/pay/'' @ paymentId
              @ ''?provider=paymob&method=cards'' @ returnUrlParam),
            ro_routingLatencyMs = routing\<rparr>)"

definition quoted :: "string \<Rightarrow> string" where
  "quoted s = dquote @ s @ dquote"

definition paymob_fawry_rail :: "services \<Rightarrow> payment_ctx \<Rightarrow> rail" where
  "paymob_fawry_rail sv x =
     (let fallback = (\<lambda>routing.
            if \<not> x_test x \<and> \<not> truthy (gateway_url sv) then
              refuse x 503 ''gateway_required''
                (''Provider '' @ quoted (x_provider x) @ '' requires OPENWRAPPER_GATEWAY_URL. Paymob and Fawry payments are handled by the Rust gateway.'') None
            else db_return (Inr (simulate_paymob_fawry sv x routing)))
      in try_gateway sv x
           (\<lambda>g. if g_status g = ''unknown'' \<and> \<not> truthy (g_provider_reference g) \<and> g_next_action g = None then
              Some (if \<not> x_test x then
                      refuse x 502 ''provider_error''
                        (''Payment intention could not be created by provider '' @ quoted (x_provider x) @ ''. Please check provider integration credentials.'')
                        (Some (sv_routing sv))
                    else fallback (Some (sv_routing sv)))
            else None)
           fallback)"

section \<open>Stripe\<close>

text \<open>\<open>(err as Error).message\<close>.\<close>

fun exn_message :: "js_exn \<Rightarrow> string" where
  "exn_message (TypeError s) = s"
| "exn_message (RangeError s) = s"
| "exn_message SyntaxError = []"
| "exn_message (Error s) = s"

definition stripe_checkout_rail :: "services \<Rightarrow> payment_ctx \<Rightarrow> string option \<Rightarrow> int option \<Rightarrow> rail" where
  "stripe_checkout_rail sv x stripeSecretKey routing =
     (case createStripeCheckoutSession (sv_stripe sv) (pf_env (sv_pf sv))
         \<lparr>sp_amountMinorUnits = x_amountMinorUnits x, sp_currency = x_currency x,
          sp_description = Some (x_description x), sp_customerEmail = x_customerEmail x,
          sp_successUrl = x_returnUrl x, sp_cancelUrl = x_returnUrl x,
          sp_idempotencyKey = x_idempotencyKey x, sp_metadata = x_metadata x\<rparr>
         (or_undefined stripeSecretKey) of
        Inl err \<Rightarrow>
          (let errMsg = or_else (Some (exn_message err)) ''Provider error'';
               isConfigError = js_includes errMsg ''credentials missing'' \<or> js_includes errMsg ''STRIPE''
           in if isConfigError then
                refuse x 422 ''missing_provider_credentials'' ''Stripe credentials missing. Provide X-Stripe-Secret-Key header.'' None
              else refuse x 502 ''provider_error'' ''Stripe provider request failed.'' None)
      | Inr (sessionId, url, st) \<Rightarrow>
          db_return (Inr \<lparr>ro_paymentId = new_payment_id (sv_uuid sv), ro_providerReference = Some sessionId,
            ro_status = ''pending'', ro_nextActionType = Some ''redirect_to_url'',
            ro_nextActionPayload = Some (or_else url []), ro_routingLatencyMs = routing\<rparr>))"

definition stripe_rail :: "services \<Rightarrow> payment_ctx \<Rightarrow> rail" where
  "stripe_rail sv x =
     (let stripeSecretKey = js_or (hdr_get (x_headers x) ''x-stripe-secret-key'') (x_bodyStripeKey x);
          paymentId = new_payment_id (sv_uuid sv)
      in try_gateway sv x (\<lambda>_. None)
           (\<lambda>routing.
              if x_test x \<and> \<not> truthy stripeSecretKey \<and> \<not> truthy (pf_env (sv_pf sv) ''STRIPE_SECRET_KEY'') then
                db_return (Inr \<lparr>ro_paymentId = paymentId, ro_providerReference = Some (''cs_test_'' @ paymentId),
                  ro_status = ''pending'', ro_nextActionType = Some ''redirect_to_url'',
                  ro_nextActionPayload = Some (''https://checkout.stripe.com/c/pay/cs_test_'' @ paymentId),
                  ro_routingLatencyMs = routing\<rparr>)
              else stripe_checkout_rail sv x stripeSecretKey routing))"

section \<open>Mock\<close>

definition simulate_mock :: "services \<Rightarrow> payment_ctx \<Rightarrow> int option \<Rightarrow> routed" where
  "simulate_mock sv x routing =
     (let paymentId = new_payment_id (sv_uuid sv) in
      if starts_with (x_customerPhone x) ''+20'' \<and> \<not> truthy (x_returnUrl x) then
        (let prefix = (if 8 \<le> length paymentId then take 8 paymentId else paymentId) in
         \<lparr>ro_paymentId = paymentId, ro_providerReference = Some (''mock_ref_'' @ paymentId),
          ro_status = ''pending'', ro_nextActionType = Some ''pay_at_reference'',
          ro_nextActionPayload = Some (''MOCK-'' @ prefix), ro_routingLatencyMs = routing\<rparr>)
      else
        (let appUrl = or_else (pf_env (sv_pf sv) ''NEXT_PUBLIC_APP_URL'') ''https://openwrapper.muejam.com'';
             base = strip_trailing_slashes appUrl
         in \<lparr>ro_paymentId = paymentId, ro_providerReference = Some (''mock_ref_'' @ paymentId),
             ro_status = ''pending'', ro_nextActionType = Some ''redirect_to_url'',
             ro_nextActionPayload = Some (base @ ''/mock/pay/'' @ paymentId), ro_routingLatencyMs = routing\<rparr>))"

definition mock_rail :: "services \<Rightarrow> payment_ctx \<Rightarrow> rail" where
  "mock_rail sv x =
     try_gateway sv x (\<lambda>_. None)
       (\<lambda>routing.
          if x_amountMinorUnits x mod 100 = 99 then
            refuse x 402 ''card_declined'' ''Simulated card decline (amount ends in 99)'' None
          else if x_amountMinorUnits x mod 100 = 88 then
            refuse x 504 ''timeout'' ''Simulated network/provider timeout (amount ends in 88)'' None
          else db_return (Inr (simulate_mock sv x routing)))"

definition route_payment :: "services \<Rightarrow> payment_ctx \<Rightarrow> rail" where
  "route_payment sv x =
     (if x_provider x = ''paymob'' \<or> x_provider x = ''fawry'' then paymob_fawry_rail sv x
      else if x_provider x = ''stripe'' then stripe_rail sv x
      else if x_provider x = ''mock'' then mock_rail sv x
      else refuse x 422 ''unsupported_provider''
        (''Unsupported provider '' @ quoted (x_provider x) @ ''. Supported: paymob, fawry, stripe, mock.'') None)"

end
