(* ===== verification/Payments.thy ===== *)
theory Payments
  imports Payment_Routing
begin

text \<open>
  \<open>POST\<close> and \<open>GET\<close> of \<open>apps/web/app/api/[version]/payments/route.ts\<close>: authentication,
  idempotency, routing, storage, and the list of payments.
\<close>

section \<open>Creating a payment\<close>

record payment_request =
  rq_version :: string
  rq_headers :: headers
  rq_body :: "body_stream option"

text \<open>\<open>rawJson?.provider_credentials?.stripe_secret_key\<close>, when it is a string.\<close>

definition body_stripe_key :: "jsv \<Rightarrow> string option" where
  "body_stripe_key rawJson = (case field (field rawJson ''provider_credentials'') ''stripe_secret_key'' of
     JStr s \<Rightarrow> Some s | _ \<Rightarrow> None)"

definition payment_record :: "payment_ctx \<Rightarrow> string \<Rightarrow> routed \<Rightarrow> persist_input" where
  "payment_record x fingerprint ro =
     \<lparr>in_id = ro_paymentId ro, in_userId = a_userId (x_key x), in_apiKeyId = a_id (x_key x),
      in_idempotencyKey = x_idempotencyKey x, in_requestFingerprint = fingerprint,
      in_provider = x_provider x, in_providerReference = ro_providerReference ro,
      in_status = ro_status ro, in_amountMinorUnits = x_amountMinorUnits x, in_currency = x_currency x,
      in_merchantReference = x_merchantRef x, in_description = x_description x,
      in_customerPhone = x_customerPhone x, in_customerEmail = x_customerEmail x,
      in_customerName = x_customerName x, in_nextActionType = ro_nextActionType ro,
      in_nextActionPayload = ro_nextActionPayload ro,
      in_metadataJson = metadata_json (x_metadata x) (x_environment x),
      in_environment = Some (x_environment x)\<rparr>"

text \<open>The record a replay of a known request writes back over the stored payment.\<close>

definition attach_record :: "payment_ctx \<Rightarrow> string \<Rightarrow> payment_row \<Rightarrow> persist_input" where
  "attach_record x fingerprint existing =
     \<lparr>in_id = p_id existing, in_userId = a_userId (x_key x), in_apiKeyId = a_id (x_key x),
      in_idempotencyKey = x_idempotencyKey x, in_requestFingerprint = fingerprint,
      in_provider = p_provider existing, in_providerReference = p_providerReference existing,
      in_status = p_status existing, in_amountMinorUnits = p_amountMinorUnits existing,
      in_currency = p_currency existing, in_merchantReference = p_merchantReference existing,
      in_description = or_else (p_description existing) (x_description x),
      in_customerPhone = or_else (p_customerPhone existing) (x_customerPhone x),
      in_customerEmail = js_or (p_customerEmail existing) (x_customerEmail x),
      in_customerName = js_or (p_customerName existing) (x_customerName x),
      in_nextActionType = p_nextActionType existing, in_nextActionPayload = p_nextActionPayload existing,
      in_metadataJson = or_else (p_metadataJson existing) (metadata_json (x_metadata x) (x_environment x)),
      in_environment = Some (x_environment x)\<rparr>"

definition answer_payment :: "payment_ctx \<Rightarrow> nat \<Rightarrow> int option \<Rightarrow> payment_row \<Rightarrow> response db" where
  "answer_payment x st routing row =
     db_then (scheduleApiRequestRecord (x_key x) ''POST'' (x_endpoint x) st routing (Some (x_environment x)))
       (db_return \<lparr>r_status = st, r_body = paymentToApiResponse row (Some (x_provider x)), r_headers = []\<rparr>)"

definition refuse_in_environment :: "auth_key \<Rightarrow> string \<Rightarrow> string \<Rightarrow> response \<Rightarrow> response db" where
  "refuse_in_environment key endpoint environment r =
     db_then (scheduleApiRequestRecord key ''POST'' endpoint (r_status r) None (Some environment)) (db_return r)"

text \<open>A new payment: credentials, routing, storage.\<close>

definition create_payment :: "services \<Rightarrow> payment_ctx \<Rightarrow> string \<Rightarrow> response db" where
  "create_payment sv x fingerprint =
     (case validateProviderCredentials (pf_env (sv_pf sv)) (x_provider x) (x_headers x)
         (x_bodyStripeKey x) (x_test x) of
        Some msg \<Rightarrow>
          db_then (scheduleApiRequestRecord (x_key x) ''POST'' (x_endpoint x) 422 None None)
            (db_return (error_response 422 ''missing_provider_credentials'' msg))
      | None \<Rightarrow>
          db_bind (route_payment sv x) (\<lambda>decision.
            case decision of
              Inl r \<Rightarrow> db_return r
            | Inr ro \<Rightarrow>
                db_bind (persistPaymentRecord (sv_now sv) (payment_record x fingerprint ro)) (\<lambda>created.
                  answer_payment x 201 (ro_routingLatencyMs ro) created)))"

text \<open>The idempotency lookup and its four outcomes.\<close>

definition idempotent_payment :: "services \<Rightarrow> payment_ctx \<Rightarrow> string \<Rightarrow> response db" where
  "idempotent_payment sv x fingerprint =
     (let conflict = (\<lambda>msg. refuse_in_environment (x_key x) (x_endpoint x) (x_environment x)
            (error_response 409 ''idempotency_conflict'' msg))
      in db_bind (findIdempotentPayment (a_userId (x_key x)) (x_idempotencyKey x) (x_environment x)) (\<lambda>idemLookup.
           if il_crossTenant idemLookup then
             conflict ''Idempotency key is already in use by another account.''
           else case il_row idemLookup of
             Some existing \<Rightarrow>
               if p_requestFingerprint existing \<noteq> fingerprint then
                 conflict ''Idempotency key was already used with different request parameters.''
               else
                 db_bind (persistPaymentRecord (sv_now sv) (attach_record x fingerprint existing)) (\<lambda>attached.
                   answer_payment x 200 None attached)
           | None \<Rightarrow> create_payment sv x fingerprint))"

text \<open>The body of the request: the parsed JSON, \<open>null\<close> when it is not JSON.\<close>

definition parsed_json :: "platform \<Rightarrow> string \<Rightarrow> jsv" where
  "parsed_json pf text = (case pf_parse pf text of None \<Rightarrow> JNull | Some v \<Rightarrow> v)"

definition authenticated_post :: "services \<Rightarrow> payment_request \<Rightarrow> string \<Rightarrow> auth_key \<Rightarrow> response db" where
  "authenticated_post sv rq version key =
     (let h = rq_headers rq; endpoint = ''/api/'' @ version @ ''/payments'';
          environment = request_environment key h; pf = sv_pf sv
      in case hdr_get h ''idempotency-key'' of
           None \<Rightarrow> refuse_in_environment key endpoint environment
             (error_response 400 ''invalid_request'' ''An Idempotency-Key header (1-200 printable ASCII characters) is required.'')
         | Some idempotencyKey \<Rightarrow>
             if \<not> valid_idempotency_key idempotencyKey then
               refuse_in_environment key endpoint environment
                 (error_response 400 ''invalid_request'' ''An Idempotency-Key header (1-200 printable ASCII characters) is required.'')
             else case readLimitedTextBody (pf_decode pf) DEFAULT_MAX_BODY_BYTES (rq_body rq) of
               Inl e \<Rightarrow> db_throw e
             | Inr None \<Rightarrow> db_return (error_response 413 ''payload_too_large'' ''Request body must not exceed 64 KiB.'')
             | Inr (Some text) \<Rightarrow>
                 (let rawJson = parsed_json pf text in
                  case sv_validate sv rawJson of
                    Inl fieldErrors \<Rightarrow> refuse_in_environment key endpoint environment
                      (json_response 422 [(''error'', JObj [(''code'', JStr ''validation_error''),
                        (''message'', JStr ''Invalid payment request payload''), (''fields'', fieldErrors)])])
                  | Inr d \<Rightarrow>
                      (case int_or (pi_amount_minor_units d) (pi_amount d) of
                         None \<Rightarrow> db_return (error_response 422 ''validation_error'' ''amount_minor_units must be a positive integer'')
                       | Some amountMinorUnits \<Rightarrow>
                           if amountMinorUnits \<le> 0 then
                             db_return (error_response 422 ''validation_error'' ''amount_minor_units must be a positive integer'')
                           else
                             (let x = payment_context key version h idempotencyKey (body_stripe_key rawJson) d amountMinorUnits in
                              case computeFingerprint pf (canonicalPayload x) of
                                Inl e \<Rightarrow> db_throw e
                              | Inr fingerprint \<Rightarrow> idempotent_payment sv x fingerprint))))"

definition payments_post :: "services \<Rightarrow> payment_request \<Rightarrow> response db" where
  "payments_post sv rq =
     (case validateApiVersion (rq_version rq) of
        Inl errorResponse \<Rightarrow> db_return errorResponse
      | Inr version \<Rightarrow>
          db_catch
            (db_bind (authenticateApiRequest (pf_sha (sv_pf sv)) (pf_env (sv_pf sv)) (rq_headers rq)) (\<lambda>key.
               case key of
                 None \<Rightarrow> db_return (error_response 401 ''unauthorized''
                   ''Missing or invalid API key. Use Authorization: Bearer <key> or X-API-Key.'')
               | Some k \<Rightarrow> authenticated_post sv rq version k))
            (\<lambda>err. db_return (error_response 500 ''internal_error''
               ''An unexpected error occurred while processing the payment.'')))"

section \<open>Listing payments\<close>

text \<open>\<open>limit\<close> is the query parameter; \<open>to_num\<close> is \<open>Number(s)\<close>, \<open>None\<close> for \<open>NaN\<close>.\<close>

definition parse_limit :: "(string \<Rightarrow> rat option) \<Rightarrow> string option \<Rightarrow> nat option" where
  "parse_limit to_num limit =
     (case (case limit of None \<Rightarrow> Some 50 | Some s \<Rightarrow> to_num s) of
        None \<Rightarrow> None
      | Some q \<Rightarrow> if of_int \<lfloor>q\<rfloor> = q \<and> 1 \<le> q \<and> q \<le> 100 then Some (nat \<lfloor>q\<rfloor>) else None)"

definition select_payments ::
  "(payment_row \<Rightarrow> bool) \<Rightarrow> nat \<Rightarrow> payment_row list db" where
  "select_payments cond n = db_query (\<lambda>w.
     (Inr (take n (sort_key (\<lambda>p. - p_createdAt p) (filter cond (payments w)))), w))"

definition listed_payment :: "(int \<Rightarrow> string) \<Rightarrow> payment_row \<Rightarrow> jsv" where
  "listed_payment to_iso p = JObj
     [(''payment_id'', JStr (p_id p)), (''provider'', JStr (p_provider p)),
      (''provider_reference'', jstr_or_null (p_providerReference p)), (''status'', JStr (p_status p)),
      (''amount_minor_units'', jint (p_amountMinorUnits p)), (''currency'', JStr (p_currency p)),
      (''merchant_reference'', jstr_or_null (p_merchantReference p)),
      (''description'', jstr_or_null (p_description p)),
      (''customer'', JObj [(''phone'', jstr_or_null (p_customerPhone p)),
         (''email'', jstr_or_null (p_customerEmail p)), (''name'', jstr_or_null (p_customerName p))]),
      (''next_action'',
         if truthy (p_nextActionType p) then
           JObj [(''type'', jstr_or_null (p_nextActionType p)),
             (if p_nextActionType p = Some ''redirect_to_url'' then ''url'' else ''reference'',
              jstr_or_null (p_nextActionPayload p))]
         else JUndef),
      (''created_at'', JStr (to_iso (p_createdAt p))), (''updated_at'', JStr (to_iso (p_updatedAt p)))]"

definition payments_get ::
  "services \<Rightarrow> (string \<Rightarrow> rat option) \<Rightarrow> string \<Rightarrow> headers \<Rightarrow> string option \<Rightarrow> response db" where
  "payments_get sv to_num rawVersion h limit =
     (case validateApiVersion rawVersion of
        Inl errorResponse \<Rightarrow> db_return errorResponse
      | Inr version \<Rightarrow>
          db_bind (authenticateApiRequest (pf_sha (sv_pf sv)) (pf_env (sv_pf sv)) h) (\<lambda>key.
            case key of
              None \<Rightarrow> db_return (error_response 401 ''unauthorized'' ''Missing or invalid API key.'')
            | Some k \<Rightarrow>
                (case parse_limit to_num limit of
                   None \<Rightarrow> db_return (error_response 400 ''invalid_request'' ''limit must be an integer between 1 and 100.'')
                 | Some n \<Rightarrow>
                     (let environment = request_environment k h in
                      db_bind (select_payments (\<lambda>p. p_userId p = Some (a_userId k) \<and> p_environment p = environment) n) (\<lambda>rows.
                      db_then (scheduleApiRequestRecord k ''GET'' (''/api/'' @ version @ ''/payments'') 200 None (Some environment))
                        (db_return \<lparr>r_status = 200,
                           r_body = JObj [(''data'', JArr (map (listed_payment (sv_iso sv)) rows))],
                           r_headers = [(''Cache-Control'', ''private, no-store'')]\<rparr>))))))"

section \<open>What creation keeps\<close>

context world_relation begin

lemma keeps_find_idempotent: "keeps R (findIdempotentPayment u k e)"
  unfolding findIdempotentPayment_def
  by (rule keeps_catch) (auto intro!: keeps_intros keeps_bind split: option.splits)

lemma keeps_refuse: "keeps R (refuse x st code msg routing)"
  unfolding refuse_def by (intro keeps_intros keeps_telemetry)

lemma keeps_refuse_env: "keeps R (refuse_in_environment key endpoint environment r)"
  unfolding refuse_in_environment_def by (intro keeps_intros keeps_telemetry)

lemma keeps_answer: "keeps R (answer_payment x st routing row)"
  unfolding answer_payment_def by (intro keeps_intros keeps_telemetry)

lemma keeps_try_gateway:
  assumes "\<And>g r. special g = Some r \<Longrightarrow> keeps R r" and "\<And>routing. keeps R (k routing)"
  shows "keeps R (try_gateway sv x special k)"
  using assms by (auto simp: try_gateway_def Let_def intro!: keeps_intros keeps_refuse
      split: gateway_result.splits option.splits)

lemma keeps_route: "keeps R (route_payment sv x)"
proof -
  have pf: "keeps R (paymob_fawry_rail sv x)"
    unfolding paymob_fawry_rail_def Let_def
    by (rule keeps_try_gateway) (auto intro!: keeps_intros keeps_refuse split: if_splits)
  have "keeps R (stripe_checkout_rail sv x key routing)" for key routing
    unfolding stripe_checkout_rail_def Let_def
    by (auto intro!: keeps_intros keeps_refuse split: sum.splits prod.splits)
  then have st: "keeps R (stripe_rail sv x)"
    unfolding stripe_rail_def Let_def by (intro keeps_try_gateway) (auto intro!: keeps_intros)
  have "keeps R (mock_rail sv x)"
    unfolding mock_rail_def by (rule keeps_try_gateway) (auto intro!: keeps_intros keeps_refuse)
  with pf st show ?thesis by (simp add: route_payment_def keeps_refuse)
qed

lemma keeps_persist:
  assumes "keeps R (upsert_payment (inserted_row now i) (conflict_set now i))"
  shows "keeps R (persistPaymentRecord now i)"
  unfolding persistPaymentRecord_def
  by (rule keeps_catch, rule keeps_bind, rule assms)
    (auto intro!: keeps_intros keeps_bind split: option.splits)

text \<open>A relation that every upsert of a payment keeps is kept by the whole handler.\<close>

lemma keeps_payments_post:
  assumes "\<And>i. keeps R (upsert_payment (inserted_row (sv_now sv) i) (conflict_set (sv_now sv) i))"
  shows "keeps R (payments_post sv rq)"
proof -
  note persist = keeps_persist [OF assms]
  have create: "keeps R (create_payment sv x f)" for x f
    unfolding create_payment_def
    by (auto intro!: keeps_intros keeps_bind keeps_telemetry keeps_route persist keeps_answer
        split: option.splits sum.splits)
  have idem: "keeps R (idempotent_payment sv x f)" for x f
    unfolding idempotent_payment_def Let_def
    by (rule keeps_bind [OF keeps_find_idempotent])
      (auto intro!: keeps_bind keeps_refuse_env persist keeps_answer create split: option.splits)
  have "keeps R (authenticated_post sv rq version k)" for version k
    unfolding authenticated_post_def Let_def
    by (auto intro!: keeps_intros keeps_refuse_env idem split: option.splits sum.splits)
  then show ?thesis
    unfolding payments_post_def
    by (auto intro!: keeps_intros keeps_bind keeps_authenticate split: option.splits sum.splits)
qed

lemma keeps_payments_get: "keeps R (payments_get sv to_num rawVersion h limit)"
proof -
  have "keeps R (select_payments cond n)" for cond n
    unfolding select_payments_def by (rule keeps_query) (simp add: keeps_def rel_refl)
  then show ?thesis unfolding payments_get_def Let_def
    by (auto intro!: keeps_intros keeps_bind keeps_authenticate keeps_telemetry split: option.splits sum.splits)
qed

end

section \<open>Lemmas for the properties\<close>

text \<open>The unique index of the table: a user has one payment per idempotency key.\<close>

definition unique_keys :: "world \<Rightarrow> bool" where
  "unique_keys w \<longleftrightarrow> distinct (map (\<lambda>p. (p_userId p, p_idempotencyKey p))
     (filter (\<lambda>p. p_userId p \<noteq> None) (payments w)))"

lemma unique_keysD:
  assumes "unique_keys w" and "p \<in> set (payments w)" and "q \<in> set (payments w)"
    and "p_userId p = Some u" and "p_userId q = Some u" and "p_idempotencyKey p = p_idempotencyKey q"
  shows "p = q"
proof -
  have "inj_on (\<lambda>p. (p_userId p, p_idempotencyKey p)) (set (filter (\<lambda>p. p_userId p \<noteq> None) (payments w)))"
    using assms(1) unfolding unique_keys_def distinct_map by blast
  then show ?thesis by (rule inj_onD) (use assms(2-) in auto)
qed

lemma find_unique:
  assumes "p \<in> set xs" and "P p" and "\<And>q. q \<in> set xs \<Longrightarrow> P q \<Longrightarrow> q = p"
  shows "find P xs = Some p"
proof -
  obtain q where "find P xs = Some q" using assms(1,2) by (cases "find P xs") (auto simp: find_None_iff)
  moreover from this have "q \<in> set xs" "P q" by (auto simp: find_Some_iff nth_mem)
  ultimately show ?thesis using assms(3) by simp
qed

lemma find_idempotent_own:
  assumes "outages w = []" and "unique_keys w" and "p \<in> set (payments w)"
    and "p_userId p = Some u" and "p_idempotencyKey p = k" and "p_environment p = e"
  shows "findIdempotentPayment u k e w = (Inr \<lparr>il_row = Some p, il_crossTenant = False\<rparr>, w)"
proof -
  have "find (\<lambda>p. p_userId p = Some u \<and> p_idempotencyKey p = k \<and> p_environment p = e) (payments w) = Some p"
    using assms(3-6) unique_keysD [OF assms(2)] by (intro find_unique) auto
  then show ?thesis using assms(1)
    by (simp add: findIdempotentPayment_def select_payment_def db_query_def db_defs)
qed

lemma find_idempotent_none:
  assumes "outages w = []" and "\<forall>p \<in> set (payments w). p_idempotencyKey p = k \<longrightarrow> p_environment p \<noteq> e"
  shows "findIdempotentPayment u k e w = (Inr no_lookup, w)"
proof -
  have "find (\<lambda>p. p_userId p = Some u \<and> p_idempotencyKey p = k \<and> p_environment p = e) (payments w) = None"
    "find (\<lambda>p. p_idempotencyKey p = k \<and> p_environment p = e) (payments w) = None"
    using assms(2) by (auto simp: find_None_iff)
  then show ?thesis using assms(1)
    by (simp add: findIdempotentPayment_def select_payment_def db_query_def db_defs)
qed

lemma schedule_up:
  "scheduleApiRequestRecord key m e st r env w = (Inr (), w\<lparr>afterQueue := afterQueue w @
     [\<lparr>t_userId = a_userId key, t_apiKeyId = Some (a_id key), t_method = m, t_endpoint = e,
       t_statusCode = st, t_routingLatencyMs = r, t_environment = env\<rparr>]\<rparr>)"
  by (simp add: scheduleApiRequestRecord_def schedule_def)

lemma attach_id: "in_id (attach_record x f p) = p_id p"
  by (simp add: attach_record_def)

lemma conflict_set_attach:
  "p_id (conflict_set now (attach_record x f p) p) = p_id p"
  "p_status (conflict_set now (attach_record x f p) p) = p_status p"
  "p_amountMinorUnits (conflict_set now (attach_record x f p) p) = p_amountMinorUnits p"
  "p_currency (conflict_set now (attach_record x f p) p) = p_currency p"
  "p_provider (conflict_set now (attach_record x f p) p) = p_provider p"
  "p_providerReference (conflict_set now (attach_record x f p) p) = p_providerReference p"
  "p_idempotencyKey (conflict_set now (attach_record x f p) p) = p_idempotencyKey p"
  "p_userId (conflict_set now (attach_record x f p) p) = Some (a_userId (x_key x))"
  by (simp_all add: conflict_set_def attach_record_def)

lemma persist_attached:
  assumes "outages w = []" and "primary_key w" and "unique_keys w" and "p \<in> set (payments w)"
    and "p_userId p = Some (a_userId (x_key x))"
  shows "persistPaymentRecord now (attach_record x f p) w =
    (Inr (conflict_set now (attach_record x f p) p), w\<lparr>payments := map (\<lambda>q. if p_id q = p_id p
       then conflict_set now (attach_record x f p) q else q) (payments w)\<rparr>)"
proof -
  have "find (\<lambda>q. p_id q = p_id p) (payments w) = Some p"
    using assms(2,4) unfolding primary_key_def distinct_map
    by (intro find_unique) (auto dest: inj_onD)
  moreover have "\<not> idempotency_clash (conflict_set now (attach_record x f p) p) (payments w)"
    using unique_keysD [OF assms(3,4) _ assms(5)] assms(5)
    by (auto simp: idempotency_clash_def list_ex_iff conflict_set_attach) metis
  ultimately show ?thesis using assms(1)
    by (simp add: persistPaymentRecord_def upsert_payment_def db_query_def db_defs inserted_row_def attach_id)
qed

section \<open>Values for the examples\<close>

definition demo_ctx :: "string \<Rightarrow> bool \<Rightarrow> payment_ctx" where
  "demo_ctx provider test =
     \<lparr>x_key = \<lparr>a_id = 1, a_userId = ''u1'', a_environment = ''live''\<rparr>, x_version = ''v1'',
      x_endpoint = ''/api/v1/payments'', x_headers = [], x_token = None, x_test = test,
      x_environment = (if test then ''test'' else ''live''), x_idempotencyKey = ''k1'',
      x_bodyStripeKey = None, x_provider = provider, x_amountMinorUnits = 1000, x_currency = ''EGP'',
      x_merchantRef = None, x_description = ''Payment'', x_dataReturnUrl = None, x_returnUrl = None,
      x_customerName = None, x_customerPhone = ''+201'', x_customerEmail = None, x_metadata = []\<rparr>"

definition demo_pf :: "env \<Rightarrow> platform" where
  "demo_pf en = \<lparr>pf_decode = (\<lambda>s. s), pf_parse = (\<lambda>_. None), pf_sha = (\<lambda>s. s),
     pf_hmac_sha512 = (\<lambda>k s. k @ s), pf_hmac_sha256 = (\<lambda>k s. k @ s), pf_env = en\<rparr>"

definition demo_url :: url where
  "demo_url = \<lparr>u_protocol = ''http:'', u_username = [], u_password = [], u_search = [], u_hash = [],
     u_origin = ''http://gw'', u_href = ''http://gw''\<rparr>"

definition demo_services :: "env \<Rightarrow> services" where
  "demo_services en =
     \<lparr>sv_pf = demo_pf en, sv_parse_url = (\<lambda>_. Some demo_url), sv_gw = (\<lambda>_. GwNetworkError ''down''),
      sv_stripe = (\<lambda>_. Inl (Error ''down'')), sv_validate = (\<lambda>_. Inl JUndef), sv_encode = (\<lambda>s. s),
      sv_iso = (\<lambda>n. []), sv_uuid = ''0123-4567'', sv_now = 9, sv_routing = 3\<rparr>"

lemma demo_ctx_simps [simp]:
  "x_key (demo_ctx pr t) = \<lparr>a_id = 1, a_userId = ''u1'', a_environment = ''live''\<rparr>"
  "x_idempotencyKey (demo_ctx pr t) = ''k1''" "x_environment (demo_ctx pr t) = (if t then ''test'' else ''live'')"
  "x_provider (demo_ctx pr t) = pr" "x_test (demo_ctx pr t) = t" "x_headers (demo_ctx pr t) = []"
  "x_bodyStripeKey (demo_ctx pr t) = None" "x_amountMinorUnits (demo_ctx pr t) = 1000"
  by (simp_all add: demo_ctx_def)

lemma demo_url_ok:
  "en ''OPENWRAPPER_GATEWAY_URL'' = Some ''u'' \<Longrightarrow> gateway_url (demo_services en) = Some ''http://gw''"
  by (simp add: gateway_url_def demo_services_def demo_pf_def getGatewayUrl_def demo_url_def strip_trailing_slashes_def)

lemma demo_no_url: "gateway_url (demo_services (\<lambda>_. None)) = None"
  by (simp add: gateway_url_def demo_services_def demo_pf_def getGatewayUrl_def)

section \<open>Properties\<close>

text \<open>
  Creating payments never alters money: whatever the request, the gateway, Stripe, the schema
  library and the database answer, every stored payment keeps its identifier, rail, amount,
  currency, idempotency key and creation time, no payment disappears, and API keys, settings and
  the audit log are untouched.
\<close>

theorem payments_post_keeps_money:
  "rows_related same_money w (snd (run_handler (payments_post sv rq) w))
   \<and> accounts_kept w (snd (run_handler (payments_post sv rq) w))
   \<and> events_kept w (snd (run_handler (payments_post sv rq) w))"
proof (intro conjI)
  show "rows_related same_money w (snd (run_handler (payments_post sv rq) w))"
    by (rule money.table.keeps_handler, rule money.table.keeps_payments_post, rule money.keeps_upsert_payment)
      (rule same_money_conflict_set)
  show "accounts_kept w (snd (run_handler (payments_post sv rq) w))"
    by (rule accounts_world.keeps_handler, rule accounts_world.keeps_payments_post) (rule accounts_statements)
  show "events_kept w (snd (run_handler (payments_post sv rq) w))"
    by (rule events_world.keeps_handler, rule events_world.keeps_payments_post) (rule events_upsert)
qed

text \<open>
  C13. A repeated request creates nothing: when the caller already has a payment under the same
  idempotency key, environment and fingerprint, the answer is 200 with that payment, its status,
  amount, currency and references as stored, no rail is asked, and the table keeps its rows.
\<close>

theorem idempotent_replay:
  assumes "outages w = []" and "primary_key w" and "unique_keys w" and "p \<in> set (payments w)"
    and "p_userId p = Some (a_userId (x_key x))" and "p_idempotencyKey p = x_idempotencyKey x"
    and "p_environment p = x_environment x" and "p_requestFingerprint p = fingerprint"
  shows "\<exists>row. fst (run_handler (idempotent_payment sv x fingerprint) w)
      = \<lparr>r_status = 200, r_body = paymentToApiResponse row (Some (x_provider x)), r_headers = []\<rparr>
    \<and> same_money p row \<and> p_status row = p_status p \<and> p_providerReference row = p_providerReference p
    \<and> map p_id (payments (snd (run_handler (idempotent_payment sv x fingerprint) w))) = map p_id (payments w)
    \<and> map p_status (payments (snd (run_handler (idempotent_payment sv x fingerprint) w))) = map p_status (payments w)"
proof -
  let ?row = "conflict_set (sv_now sv) (attach_record x fingerprint p) p"
  have run: "run_handler (idempotent_payment sv x fingerprint) w =
      (\<lparr>r_status = 200, r_body = paymentToApiResponse ?row (Some (x_provider x)), r_headers = []\<rparr>,
       w\<lparr>payments := map (\<lambda>q. if p_id q = p_id p then conflict_set (sv_now sv) (attach_record x fingerprint p) q else q)
          (payments w),
         afterQueue := afterQueue w @ [\<lparr>t_userId = a_userId (x_key x), t_apiKeyId = Some (a_id (x_key x)),
           t_method = ''POST'', t_endpoint = x_endpoint x, t_statusCode = 200, t_routingLatencyMs = None,
           t_environment = Some (x_environment x)\<rparr>]\<rparr>)"
    using find_idempotent_own [OF assms(1,3-7)] persist_attached [OF assms(1-5), of "sv_now sv" fingerprint] assms(8)
    by (simp add: idempotent_payment_def run_handler_def db_defs answer_payment_def schedule_up Let_def)
  have only: "q = p" if "q \<in> set (payments w)" "p_id q = p_id p" for q
    using assms(2,4) that unfolding primary_key_def distinct_map by (auto dest: inj_onD)
  show ?thesis
    by (rule exI [of _ ?row])
      (use only in \<open>auto simp: run conflict_set_attach same_money_conflict_set dest!: only\<close>)
qed

theorem idempotent_replay_witness:
  "\<exists>row. fst (run_handler (idempotent_payment (demo_services (\<lambda>_. None)) (demo_ctx ''mock'' False) ''f1'')
       (demo_world [demo_payment ''p1'' ''mock'' ''succeeded'']))
      = \<lparr>r_status = 200, r_body = paymentToApiResponse row (Some ''mock''), r_headers = []\<rparr>
    \<and> p_status row = ''succeeded''"
  using idempotent_replay [of "demo_world [demo_payment ''p1'' ''mock'' ''succeeded'']"
      "demo_payment ''p1'' ''mock'' ''succeeded''" "demo_ctx ''mock'' False" "''f1''" "demo_services (\<lambda>_. None)"]
  by (auto simp: primary_key_def unique_keys_def)

text \<open>
  C14. An idempotency key is bound to its request: when the caller's key is stored with another
  fingerprint the answer is 409 and no payment changes.
\<close>

theorem idempotency_conflict:
  assumes "outages w = []" and "unique_keys w" and "p \<in> set (payments w)"
    and "p_userId p = Some (a_userId (x_key x))" and "p_idempotencyKey p = x_idempotencyKey x"
    and "p_environment p = x_environment x" and "p_requestFingerprint p \<noteq> fingerprint"
  shows "fst (run_handler (idempotent_payment sv x fingerprint) w) = error_response 409 ''idempotency_conflict''
       ''Idempotency key was already used with different request parameters.''
    \<and> payments (snd (run_handler (idempotent_payment sv x fingerprint) w)) = payments w"
  using find_idempotent_own [OF assms(1-6)] assms(7)
  by (simp add: idempotent_payment_def run_handler_def db_defs refuse_in_environment_def schedule_up Let_def)

theorem idempotency_conflict_witness:
  "r_status (fst (run_handler (idempotent_payment (demo_services (\<lambda>_. None)) (demo_ctx ''mock'' False) ''f2'')
       (demo_world [demo_payment ''p1'' ''mock'' ''succeeded'']))) = 409"
  using idempotency_conflict [of "demo_world [demo_payment ''p1'' ''mock'' ''succeeded'']"
      "demo_payment ''p1'' ''mock'' ''succeeded''" "demo_ctx ''mock'' False" "''f2''" "demo_services (\<lambda>_. None)"]
  by (simp add: unique_keys_def error_response_def json_response_def)

text \<open>
  Without a valid API key nothing is created: a request that authenticates nobody is answered
  401 and leaves every table as it was.
\<close>

theorem unauthenticated_post:
  assumes "validateApiVersion (rq_version rq) = Inr version"
    and "authenticateApiRequest (pf_sha (sv_pf sv)) (pf_env (sv_pf sv)) (rq_headers rq) w = (Inr None, w)"
  shows "run_handler (payments_post sv rq) w = (error_response 401 ''unauthorized''
    ''Missing or invalid API key. Use Authorization: Bearer <key> or X-API-Key.'', w)"
  using assms by (simp add: payments_post_def run_handler_def db_defs)

theorem unauthenticated_post_witness:
  "r_status (fst (run_handler (payments_post (demo_services (\<lambda>_. None))
      \<lparr>rq_version = ''v1'', rq_headers = [], rq_body = None\<rparr>) (demo_world []))) = 401"
proof -
  have "validateApiVersion ''v1'' = Inr ''v1''"
    by (simp add: validateApiVersion_def SUPPORTED_API_VERSIONS_def js_lower_def lower_char_def js_trim_def
        trim_start_def trim_end_def is_ws_def char_eval)
  then show ?thesis
    using unauthenticated_post [of "\<lparr>rq_version = ''v1'', rq_headers = [], rq_body = None\<rparr>" "''v1''"
        "demo_services (\<lambda>_. None)" "demo_world []"]
    by (simp add: authenticateApiRequest_def request_token_def db_return_def Let_def error_response_def json_response_def)
qed

text \<open>
  In the live environment a Paymob or Fawry payment is simulated when the configured gateway
  cannot be reached: the rail decides on a pending payment with a made-up reference, where it
  refuses with 503 only when no gateway is configured.
\<close>

theorem live_gateway_outage_is_simulated:
  assumes "x_provider x = ''paymob'' \<or> x_provider x = ''fawry''" and "\<not> x_test x"
    and "truthy (gateway_url sv)" and "\<And>req. sv_gw sv req = GwNetworkError msg"
  shows "route_payment sv x w = (Inr (Inr (simulate_paymob_fawry sv x (Some (sv_routing sv)))), w)
    \<and> ro_status (simulate_paymob_fawry sv x (Some (sv_routing sv))) = ''pending''
    \<and> ro_providerReference (simulate_paymob_fawry sv x (Some (sv_routing sv)))
        = Some (x_provider x @ ''_sim_'' @ new_payment_id (sv_uuid sv))"
proof -
  obtain u where u: "gateway_url sv = Some u" using assms(3) by (cases "gateway_url sv") auto
  have "call_gateway sv x = GErr 502 (''Could not reach Rust gateway: '' @ msg) (Some ''gateway_unreachable'')"
    using u assms(4) by (simp add: call_gateway_def forwardPaymentToRustGateway_def gateway_url_def)
  then have "paymob_fawry_rail sv x w = (Inr (Inr (simulate_paymob_fawry sv x (Some (sv_routing sv)))), w)"
    using assms(2,3) by (simp add: paymob_fawry_rail_def try_gateway_def unreachable_def db_return_def Let_def)
  then show ?thesis using assms(1) by (auto simp: route_payment_def simulate_paymob_fawry_def Let_def)
qed

theorem live_gateway_outage_is_simulated_witness:
  "ro_providerReference (simulate_paymob_fawry (demo_services (\<lambda>_. Some ''u'')) (demo_ctx ''fawry'' False) (Some 3))
     = Some ''fawry_sim_pay_01234567''"
proof -
  have "new_payment_id (sv_uuid (demo_services (\<lambda>_. Some ''u''))) = ''pay_01234567''"
    by (simp add: new_payment_id_def demo_services_def)
  then show ?thesis
    using live_gateway_outage_is_simulated [of "demo_ctx ''fawry'' False" "demo_services (\<lambda>_. Some ''u'')"
        "''down''" "demo_world []"] demo_url_ok [of "\<lambda>_. Some ''u''"]
    by (simp add: demo_services_def)
qed

text \<open>
  Listing shows only the caller's payments: an answer 200 lists at most as many payments as the
  limit, which is between 1 and 100, every one stored, owned by the authenticated user and of
  the environment of the request, newest first.
\<close>

theorem list_only_own_payments:
  assumes "payments_get sv to_num rawVersion h limit w = (Inr r, w')" and "r_status r = 200"
  shows "\<exists>k n rows. (\<exists>u. authenticateApiRequest (pf_sha (sv_pf sv)) (pf_env (sv_pf sv)) h w = (Inr (Some k), u))
    \<and> parse_limit to_num limit = Some n \<and> 1 \<le> n \<and> n \<le> 100 \<and> length rows \<le> n
    \<and> r_body r = JObj [(''data'', JArr (map (listed_payment (sv_iso sv)) rows))]
    \<and> set rows \<subseteq> {p \<in> set (payments w'). p_userId p = Some (a_userId k) \<and> p_environment p = request_environment k h}
    \<and> sorted (map (\<lambda>p. - p_createdAt p) rows)"
proof -
  obtain version where v: "validateApiVersion rawVersion = Inr version"
    using assms by (cases "validateApiVersion rawVersion")
      (auto simp: payments_get_def db_return_def validateApiVersion_def error_response_def json_response_def Let_def
        split: if_splits)
  obtain x u where a: "authenticateApiRequest (pf_sha (sv_pf sv)) (pf_env (sv_pf sv)) h w = (x, u)"
    by (cases "authenticateApiRequest (pf_sha (sv_pf sv)) (pf_env (sv_pf sv)) h w")
  obtain k where k: "x = Inr (Some k)"
    using assms v a by (cases x) (auto simp: payments_get_def db_defs error_response_def json_response_def
        split: option.splits)
  obtain n where n: "parse_limit to_num limit = Some n"
    using assms v a k by (cases "parse_limit to_num limit")
      (auto simp: payments_get_def db_defs error_response_def json_response_def)
  have n1: "1 \<le> n \<and> n \<le> 100" using n by (auto simp: parse_limit_def split: if_splits option.splits)
  let ?cond = "\<lambda>p. p_userId p = Some (a_userId k) \<and> p_environment p = request_environment k h"
  obtain rows t where s: "select_payments ?cond n u = (Inr rows, t)"
    using assms v a k n by (cases "select_payments ?cond n u")
      (auto simp: payments_get_def db_defs schedule_up Let_def split: sum.splits)
  then have rows: "rows = take n (sort_key (\<lambda>p. - p_createdAt p) (filter ?cond (payments t)))"
    by (auto simp: select_payments_def db_query_def split: list.splits if_splits)
  have r: "r_body r = JObj [(''data'', JArr (map (listed_payment (sv_iso sv)) rows))]" "payments w' = payments t"
    using assms v a k n s by (auto simp: payments_get_def db_defs schedule_up Let_def)
  have "set rows \<subseteq> set (filter ?cond (payments t))" using set_take_subset unfolding rows by fastforce
  moreover have "sorted (map (\<lambda>p. - p_createdAt p) rows)"
    unfolding rows take_map [symmetric] by (rule sorted_wrt_take) simp
  moreover have "length rows \<le> n" by (simp add: rows)
  ultimately show ?thesis using a k n n1 r by auto
qed

theorem list_only_own_payments_witness:
  "\<exists>(k::auth_key) rows. length rows \<le> 50 \<and> set rows \<subseteq> {p \<in> {demo_payment ''p1'' ''mock'' ''pending''}. p_userId p = Some (a_userId k)}
     \<and> r_body (fst (run_handler (payments_get (demo_services (\<lambda>_. None)) (\<lambda>_. None) ''v1''
          [(''x-api-key'', ''ow_test_sandbox_demo'')] None) (demo_world [demo_payment ''p1'' ''mock'' ''pending''])))
       = JObj [(''data'', JArr (map (listed_payment (sv_iso (demo_services (\<lambda>_. None)))) rows))]"
proof -
  let ?h = "[(''x-api-key'', ''ow_test_sandbox_demo'')] :: headers" and ?w = "demo_world [demo_payment ''p1'' ''mock'' ''pending'']"
  let ?g = "payments_get (demo_services (\<lambda>_. None)) (\<lambda>_. None) ''v1'' ?h None"
  have v: "validateApiVersion ''v1'' = Inr ''v1''"
    by (simp add: validateApiVersion_def SUPPORTED_API_VERSIONS_def js_lower_def lower_char_def js_trim_def
        trim_start_def trim_end_def is_ws_def char_eval)
  have "js_trim ''ow_test_sandbox_demo'' = ''ow_test_sandbox_demo''"
    by (rule js_trim_no_ws) (auto simp: is_ws_def char_code_def)
  then have "\<exists>k. authenticateApiRequest (pf_sha (demo_pf (\<lambda>_. None))) (\<lambda>_. None) ?h ?w = (Inr (Some k), ?w)"
    by (simp add: authenticateApiRequest_def request_token_def is_demo_token_def db_return_def Let_def)
  then obtain k where a: "authenticateApiRequest (pf_sha (demo_pf (\<lambda>_. None))) (\<lambda>_. None) ?h ?w = (Inr (Some k), ?w)" ..
  have pf: "pf_env (demo_pf en) = en" "sv_pf (demo_services en) = demo_pf en" for en
    by (simp_all add: demo_pf_def demo_services_def)
  have run: "\<exists>r w'. ?g ?w = (Inr r, w') \<and> r_status r = 200 \<and> payments w' = payments ?w"
    using a by (simp add: payments_get_def v parse_limit_def select_payments_def db_query_def schedule_up db_defs pf Let_def)
  then obtain r w' where g: "?g ?w = (Inr r, w')" and r: "r_status r = 200" and w: "payments w' = payments ?w" by blast
  have pl: "parse_limit (\<lambda>_. None) None = Some 50" by (simp add: parse_limit_def)
  from list_only_own_payments [OF g r] obtain k n rows where n: "parse_limit (\<lambda>_. None) None = Some n"
    and l: "length rows \<le> n"
    and b: "r_body r = JObj [(''data'', JArr (map (listed_payment (sv_iso (demo_services (\<lambda>_. None)))) rows))]"
    and s: "set rows \<subseteq> {p \<in> set (payments w'). p_userId p = Some (a_userId k) \<and> p_environment p = request_environment k ?h}"
    by blast
  have "length rows \<le> 50" "set rows \<subseteq> {p \<in> set (payments w'). p_userId p = Some (a_userId k)}"
    using n l s pl by auto
  with g w b show ?thesis
    by - (rule exI [of _ k], rule exI [of _ rows], simp add: run_handler_def)
qed

text \<open>
  An idempotency key of the live environment cannot be used in the test environment: the lookup is per
  environment but the unique index of the table is not, so the second request, though it finds no
  payment and its rail accepts it, fails while storing; no payment is created.
\<close>

theorem key_reuse_across_environments:
  assumes "outages w = []" and "p \<in> set (payments w)"
    and "p_userId p = Some (a_userId (x_key x))" and "p_idempotencyKey p = x_idempotencyKey x"
    and "a_userId (x_key x) \<noteq> ''usr_sandbox_demo''"
    and "\<forall>q \<in> set (payments w). p_idempotencyKey q = x_idempotencyKey x \<longrightarrow> p_environment q \<noteq> x_environment x"
    and "validateProviderCredentials (pf_env (sv_pf sv)) (x_provider x) (x_headers x) (x_bodyStripeKey x) (x_test x) = None"
    and "route_payment sv x w = (Inr (Inr ro), w)" and "ro_paymentId ro \<notin> p_id ` set (payments w)"
  shows "idempotent_payment sv x fingerprint w = (Inl (Error ''unique violation''), w)"
proof -
  let ?c = "inserted_row (sv_now sv) (payment_record x fingerprint ro)"
  have c: "p_id ?c = ro_paymentId ro" "p_userId ?c = Some (a_userId (x_key x))"
    "p_idempotencyKey ?c = x_idempotencyKey x" by (simp_all add: inserted_row_def payment_record_def)
  have ne: "p_id p \<noteq> ro_paymentId ro" using assms(2,9) by (metis imageI)
  have "find (\<lambda>q. p_id q = p_id ?c) (payments w) = None" using assms(9) by (force simp: find_None_iff c)
  moreover have "idempotency_clash ?c (payments w)"
    using assms(2-4) ne by (auto simp: idempotency_clash_def list_ex_iff c intro!: bexI [of _ p])
  moreover have "in_userId (payment_record x fingerprint ro) \<noteq> ''usr_sandbox_demo''"
    using assms(5) by (simp add: payment_record_def)
  ultimately have "persistPaymentRecord (sv_now sv) (payment_record x fingerprint ro) w
      = (Inl (Error ''unique violation''), w)"
    using assms(1) by (simp add: persistPaymentRecord_def upsert_payment_def db_query_def db_defs)
  then show ?thesis
    using find_idempotent_none [OF assms(1,6)] assms(7,8)
    by (simp add: idempotent_payment_def create_payment_def db_defs no_lookup_def Let_def)
qed

theorem key_reuse_across_environments_witness:
  "idempotent_payment (demo_services (\<lambda>_. None)) (demo_ctx ''mock'' True) ''f1''
     (demo_world [demo_payment ''p1'' ''mock'' ''pending''])
   = (Inl (Error ''unique violation''), demo_world [demo_payment ''p1'' ''mock'' ''pending''])"
proof (rule key_reuse_across_environments [where p = "demo_payment ''p1'' ''mock'' ''pending''"])
  show "validateProviderCredentials (pf_env (sv_pf (demo_services (\<lambda>_. None)))) (x_provider (demo_ctx ''mock'' True))
      (x_headers (demo_ctx ''mock'' True)) (x_bodyStripeKey (demo_ctx ''mock'' True)) (x_test (demo_ctx ''mock'' True)) = None"
    by (simp add: validateProviderCredentials_def)
  show "route_payment (demo_services (\<lambda>_. None)) (demo_ctx ''mock'' True) (demo_world [demo_payment ''p1'' ''mock'' ''pending''])
      = (Inr (Inr (simulate_mock (demo_services (\<lambda>_. None)) (demo_ctx ''mock'' True) None)),
         demo_world [demo_payment ''p1'' ''mock'' ''pending''])"
    by (simp add: route_payment_def mock_rail_def try_gateway_def demo_no_url db_return_def)
  show "ro_paymentId (simulate_mock (demo_services (\<lambda>_. None)) (demo_ctx ''mock'' True) None)
      \<notin> p_id ` set (payments (demo_world [demo_payment ''p1'' ''mock'' ''pending'']))"
    by (simp add: simulate_mock_def new_payment_id_def Let_def)
qed simp_all

text \<open>
  The kiosk code of a simulated Fawry payment has a fixed form whatever the payment identifier:
  nine digits that start with 929, also where the 32-bit hash is the most negative integer.
\<close>

theorem kiosk_code_form:
  "length (kiosk_code paymentId) = 9 \<and> list_all is_digit (kiosk_code paymentId)
   \<and> starts_with (kiosk_code paymentId) ''929''"
proof -
  let ?n = "nat \<bar>sint (foldl kiosk_step 0 paymentId)\<bar> mod 1000000"
  have "?n < 10 ^ 6" by simp
  then have len: "length (nat_str ?n) \<le> 6" by (rule nat_str_length) simp
  have d: "is_digit c" if "c \<in> set (pad_start 6 (CHR ''0'') (nat_str ?n))" for c
  proof -
    have "c = CHR ''0'' \<or> c \<in> set (nat_str ?n)" using that set_pad_start by fastforce
    then show ?thesis using nat_str_digits by (auto simp: is_digit_def char_code_def)
  qed
  have "kiosk_code paymentId = ''929'' @ pad_start 6 (CHR ''0'') (nat_str ?n)"
    by (simp add: kiosk_code_def Let_def)
  moreover have "list_all is_digit ''929''" by (simp add: is_digit_def char_code_def)
  ultimately show ?thesis using len d by (simp add: length_pad_start list_all_iff)
qed

end
