(* ===== verification/Payment_Get.thy ===== *)
theory Payment_Get
  imports Payments
begin

text \<open>
  Reading one payment and reconciling it: \<open>apps/web/app/api/[version]/payments/[id]/route.ts\<close>.
  An open payment is refreshed from the gateway and, for Stripe, from the checkout session;
  \<open>retrieve\<close> is the Stripe SDK's \<open>checkout.sessions.retrieve\<close> under a secret key.
\<close>

section \<open>The handler\<close>

record stripe_status_view =
  sv_payment_status :: string
  sv_session_status :: "string option"

type_synonym stripe_retrieve = "string \<Rightarrow> string \<Rightarrow> js_exn + stripe_status_view"

definition valid_payment_id :: "string \<Rightarrow> bool" where
  "valid_payment_id s \<longleftrightarrow> 1 \<le> length s \<and> length s \<le> 128
     \<and> list_all (\<lambda>c. let n = char_code c in (65 \<le> n \<and> n \<le> 90) \<or> (97 \<le> n \<and> n \<le> 122) \<or> is_digit c
          \<or> c = CHR ''_'' \<or> c = CHR ''-'') s"

definition find_payment :: "string \<Rightarrow> string \<Rightarrow> payment_row option db" where
  "find_payment userId i =
     db_bind (select_payment (\<lambda>p. p_id p = i \<and> p_userId p = Some userId)) (\<lambda>payment.
       case payment of
         Some p \<Rightarrow> db_return (Some p)
       | None \<Rightarrow> select_payment (\<lambda>p. (p_merchantReference p = Some i \<or> p_providerReference p = Some i)
                   \<and> p_userId p = Some userId))"

record resolution =
  rs_status :: string
  rs_providerReference :: "string option"
  rs_nextActionType :: "string option"
  rs_nextActionPayload :: "string option"

definition stored_resolution :: "payment_row \<Rightarrow> resolution" where
  "stored_resolution p = \<lparr>rs_status = p_status p, rs_providerReference = p_providerReference p,
     rs_nextActionType = p_nextActionType p, rs_nextActionPayload = p_nextActionPayload p\<rparr>"

text \<open>The variables after a successful answer of the gateway.\<close>

definition gateway_resolution :: "payment_row \<Rightarrow> gw_payment \<Rightarrow> resolution" where
  "gateway_resolution p g =
     \<lparr>rs_status = g_status g,
      rs_providerReference = js_or (g_provider_reference g) (p_providerReference p),
      rs_nextActionType = (if is_terminal (g_status g) then None
        else js_or (map_option na_type (g_next_action g)) (p_nextActionType p)),
      rs_nextActionPayload = (if is_terminal (g_status g) then None
        else js_or (js_or (Option.bind (g_next_action g) na_url) (Option.bind (g_next_action g) na_reference))
          (p_nextActionPayload p))\<rparr>"

definition store_resolution :: "int \<Rightarrow> resolution \<Rightarrow> payment_row \<Rightarrow> payment_row" where
  "store_resolution now rs row = row\<lparr>p_status := rs_status rs, p_providerReference := rs_providerReference rs,
     p_nextActionType := rs_nextActionType rs, p_nextActionPayload := rs_nextActionPayload rs, p_updatedAt := now\<rparr>"

definition gateway_refresh :: "services \<Rightarrow> headers \<Rightarrow> string \<Rightarrow> string \<Rightarrow> payment_row \<Rightarrow> resolution db" where
  "gateway_refresh sv h version i p =
     (case getPaymentFromRustGateway (sv_parse_url sv) (sv_gw sv) (sv_encode sv) (pf_env (sv_pf sv)) i
         (extractApiToken h) (Some h) version of
        GErr st err code \<Rightarrow> db_return (stored_resolution p)
      | GOk g \<Rightarrow>
          (let rs = gateway_resolution p g in
           if rs_status rs \<noteq> p_status p \<or> rs_providerReference rs \<noteq> p_providerReference p then
             db_then (update_payment (p_id p) (store_resolution (sv_now sv) rs)) (db_return rs)
           else db_return rs))"

definition session_outcome :: "stripe_status_view \<Rightarrow> string option" where
  "session_outcome s =
     (if sv_payment_status s = ''paid'' \<or> sv_session_status s = Some ''complete'' then Some ''succeeded''
      else if sv_session_status s = Some ''expired'' then Some ''failed'' else None)"

definition settle_session :: "int \<Rightarrow> string \<Rightarrow> payment_row \<Rightarrow> payment_row" where
  "settle_session now status row = row\<lparr>p_status := status, p_nextActionType := None,
     p_nextActionPayload := None, p_updatedAt := now\<rparr>"

text \<open>The update runs in the \<open>try\<close> block: its failure is logged, the variables keep their values.\<close>

definition stripe_refresh ::
  "services \<Rightarrow> stripe_retrieve \<Rightarrow> headers \<Rightarrow> payment_row \<Rightarrow> resolution \<Rightarrow> resolution db" where
  "stripe_refresh sv retrieve h p rs =
     (let stripeSecretKey = js_or (js_or (hdr_get h ''x-stripe-secret-key'') (hdr_get h ''stripe-secret-key''))
            (pf_env (sv_pf sv) ''STRIPE_SECRET_KEY'')
      in if rs_status rs = ''pending'' \<and> p_provider p = ''stripe''
            \<and> (case rs_providerReference rs of None \<Rightarrow> False | Some r \<Rightarrow> starts_with r ''cs_'')
            \<and> truthy stripeSecretKey then
           (case retrieve (the stripeSecretKey) (the (rs_providerReference rs)) of
              Inl err \<Rightarrow> db_return rs
            | Inr session \<Rightarrow>
                (case session_outcome session of
                   None \<Rightarrow> db_return rs
                 | Some status \<Rightarrow>
                     db_then (db_catch (update_payment (p_id p) (settle_session (sv_now sv) status)) (\<lambda>_. db_return ()))
                       (db_return (rs\<lparr>rs_status := status, rs_nextActionType := None, rs_nextActionPayload := None\<rparr>))))
         else db_return rs)"

definition refreshed_payment ::
  "services \<Rightarrow> stripe_retrieve \<Rightarrow> headers \<Rightarrow> string \<Rightarrow> string \<Rightarrow> payment_row \<Rightarrow> resolution db" where
  "refreshed_payment sv retrieve h version i p =
     (if p_provider p \<in> set providers \<and> (p_status p = ''unknown'' \<or> p_status p = ''pending'') then
        db_bind (gateway_refresh sv h version i p) (stripe_refresh sv retrieve h p)
      else db_return (stored_resolution p))"

definition payment_view :: "(int \<Rightarrow> string) \<Rightarrow> payment_row \<Rightarrow> resolution \<Rightarrow> jsv" where
  "payment_view to_iso p rs = JObj
     ([(''payment_id'', JStr (p_id p)), (''provider'', JStr (p_provider p)),
       (''provider_reference'', jstr_or_null (rs_providerReference rs)), (''status'', JStr (rs_status rs)),
       (''amount_minor_units'', jint (p_amountMinorUnits p)), (''currency'', JStr (p_currency p)),
       (''merchant_reference'', jstr_or_null (p_merchantReference p)),
       (''description'', jstr_or_null (p_description p)),
       (''customer'', JObj [(''phone'', jstr_or_null (p_customerPhone p)),
          (''email'', jstr_or_null (p_customerEmail p)), (''name'', jstr_or_null (p_customerName p))])] @
      (if truthy (rs_nextActionType rs) then
         [(''next_action'',
           if rs_nextActionType rs = Some ''redirect_to_url'' then
             JObj [(''type'', JStr ''redirect_to_url''), (''url'', jstr_or_null (rs_nextActionPayload rs))]
           else
             JObj [(''type'', JStr ''pay_at_reference''), (''reference'', jstr_or_null (rs_nextActionPayload rs)),
               (''instructions'', JStr (or_else (p_description p) (''Pay reference code: ''
                  @ (case rs_nextActionPayload rs of None \<Rightarrow> ''null'' | Some r \<Rightarrow> r))))])]
       else []) @
      [(''created_at'', JStr (to_iso (p_createdAt p))), (''updated_at'', JStr (to_iso (p_updatedAt p)))])"

definition payment_get ::
  "services \<Rightarrow> stripe_retrieve \<Rightarrow> string \<Rightarrow> string \<Rightarrow> headers \<Rightarrow> response db" where
  "payment_get sv retrieve rawVersion rawId h =
     (case validateApiVersion rawVersion of
        Inl errorResponse \<Rightarrow> db_return errorResponse
      | Inr version \<Rightarrow>
          (let endpoint = ''/api/'' @ version @ ''/payments/:id'' in
           db_bind (authenticateApiRequest (pf_sha (sv_pf sv)) (pf_env (sv_pf sv)) h) (\<lambda>key.
             case key of
               None \<Rightarrow> db_return (error_response 401 ''unauthorized'' ''Missing or invalid API key.'')
             | Some k \<Rightarrow>
                 if \<not> valid_payment_id rawId then
                   db_return (error_response 400 ''invalid_request'' ''Invalid payment ID.'')
                 else
                   db_bind (find_payment (a_userId k) rawId) (\<lambda>payment.
                     case payment of
                       None \<Rightarrow>
                         db_then (scheduleApiRequestRecord k ''GET'' endpoint 404 None None)
                           (db_return (error_response 404 ''not_found''
                             (''Payment with id '' @ [CHR 0x27] @ rawId @ [CHR 0x27] @ '' not found.'')))
                     | Some p \<Rightarrow>
                         db_bind (refreshed_payment sv retrieve h version rawId p) (\<lambda>rs.
                         db_then (scheduleApiRequestRecord k ''GET'' endpoint 200 None None)
                           (db_return \<lparr>r_status = 200, r_body = payment_view (sv_iso sv) p rs,
                              r_headers = [(''Cache-Control'', ''private, no-store'')]\<rparr>))))))"

section \<open>What a read keeps\<close>

lemma find_payment_found:
  assumes "find_payment u i w = (Inr r, w')"
  shows "found_in r w'" and "r = Some p \<Longrightarrow> p_userId p = Some u"
    and "r = Some p \<Longrightarrow> p_id p = i \<or> p_merchantReference p = Some i \<or> p_providerReference p = Some i"
proof -
  obtain x v where first: "select_payment (\<lambda>p. p_id p = i \<and> p_userId p = Some u) w = (Inr x, v)"
    using assms by (cases "select_payment (\<lambda>p. p_id p = i \<and> p_userId p = Some u) w")
      (auto simp: find_payment_def db_bind_def split: sum.splits)
  show "found_in r w'" "r = Some p \<Longrightarrow> p_userId p = Some u"
    "r = Some p \<Longrightarrow> p_id p = i \<or> p_merchantReference p = Some i \<or> p_providerReference p = Some i"
    using assms first select_payment_found [OF first]
    by (cases x; auto simp: find_payment_def db_bind_def db_return_def
        dest: select_payment_found select_payment_cond)+
qed

lemma update_payment_rows:
  "payments (snd (update_payment i f w)) = payments w
   \<or> payments (snd (update_payment i f w)) = map (\<lambda>p. if p_id p = i then f p else p) (payments w)"
  by (auto simp: update_payment_def db_query_def split: list.splits)

lemma snd_catch_return: "snd (db_catch m (\<lambda>_. db_return x) w) = snd (m w)"
  by (auto simp: db_defs split: prod.splits sum.splits)

text \<open>The payment that was read is still open in the table.\<close>

definition still_open :: "payment_row \<Rightarrow> world \<Rightarrow> bool" where
  "still_open p w \<longleftrightarrow> (\<exists>q \<in> set (payments w). p_id q = p_id p \<and> \<not> is_terminal (p_status q))"

lemma update_open:
  assumes "still_open p w" and "\<And>q. same_money q (f q)"
  shows "keyed settled_kept w (snd (update_payment (p_id p) f w))"
proof -
  obtain q where q: "q \<in> set (payments w)" "p_id q = p_id p" "\<not> is_terminal (p_status q)"
    using assms(1) by (auto simp: still_open_def)
  have "settled_kept q (f q)" using q(3) assms(2) by (simp add: settled_kept_def)
  from settled.keyed_update_payment [of q w f, OF q(1) this] show ?thesis by (simp add: q(2))
qed


lemma gateway_refresh_settled:
  assumes "p \<in> set (payments w)" and "\<not> is_terminal (p_status p)"
  shows "keyed settled_kept w (snd (gateway_refresh sv h version i p w))"
    and "gateway_refresh sv h version i p w = (Inr rs, v) \<Longrightarrow> rs_status rs = ''pending'' \<Longrightarrow> still_open p v"
proof -
  have o: "still_open p w" using assms by (auto simp: still_open_def)
  have money: "same_money q (store_resolution now r q)" for now r q
    by (simp add: same_money_def store_resolution_def)
  show "keyed settled_kept w (snd (gateway_refresh sv h version i p w))"
    using update_open [of p w "store_resolution now r" for now r, OF o money]
    by (auto simp: gateway_refresh_def settled.keyed_same Let_def split: gateway_result.splits)
  assume run: "gateway_refresh sv h version i p w = (Inr rs, v)" and pend: "rs_status rs = ''pending''"
  from run consider "v = w"
    | "v = snd (update_payment (p_id p) (store_resolution (sv_now sv) rs) w)"
    by (auto simp: gateway_refresh_def db_defs Let_def split: gateway_result.splits if_splits prod.splits sum.splits)
  then show "still_open p v"
  proof cases
    case 1
    with o show ?thesis by simp
  next
    case 2
    let ?f = "store_resolution (sv_now sv) rs"
    have "p_id (?f p) = p_id p" "\<not> is_terminal (p_status (?f p))"
      using pend by (simp_all add: store_resolution_def is_terminal_def)
    moreover have "p \<in> set (payments v) \<or> ?f p \<in> set (payments v)"
      using update_payment_rows [of "p_id p" ?f w] assms(1) unfolding 2 by force
    ultimately show ?thesis using assms(2) by (auto simp: still_open_def)
  qed
qed

lemma stripe_refresh_settled:
  assumes "rs_status rs = ''pending'' \<longrightarrow> still_open p v"
  shows "keyed settled_kept v (snd (stripe_refresh sv retrieve h p rs v))"
proof (cases "rs_status rs = ''pending''")
  case True
  then have o: "still_open p v" using assms by blast
  have "keyed settled_kept v (snd (update_payment (p_id p) (settle_session now status) v))" for now status
    by (rule update_open [OF o]) (simp add: same_money_def settle_session_def)
  then show ?thesis
    by (auto simp: stripe_refresh_def Let_def snd_catch_return settled.keyed_same
        split: sum.splits option.splits)
qed (simp add: stripe_refresh_def settled.keyed_same Let_def)

lemma refresh_open:
  assumes "p \<in> set (payments w)" and "\<not> is_terminal (p_status p)"
  shows "keyed settled_kept w (snd (refreshed_payment sv retrieve h version i p w))"
proof -
  obtain r v where g: "gateway_refresh sv h version i p w = (r, v)" by (cases "gateway_refresh sv h version i p w")
  have wv: "keyed settled_kept w v" using gateway_refresh_settled(1) [OF assms, of sv h version i] g by simp
  show ?thesis
  proof (cases r)
    case (Inl e)
    with g wv show ?thesis by (auto simp: refreshed_payment_def db_bind_def db_return_def settled.keyed_same)
  next
    case (Inr rs)
    from g [unfolded Inr] have "rs_status rs = ''pending'' \<longrightarrow> still_open p v"
      using gateway_refresh_settled(2) [OF assms] by blast
    from settled.keyed_trans [OF wv stripe_refresh_settled [OF this]] g Inr show ?thesis
      by (auto simp: refreshed_payment_def db_bind_def db_return_def settled.keyed_same)
  qed
qed

lemma refresh_settled:
  assumes "found_in (Some p) w"
  shows "keyed settled_kept w (snd (refreshed_payment sv retrieve h version i p w))"
proof (cases "is_terminal (p_status p)")
  case True
  then show ?thesis by (auto simp: refreshed_payment_def db_return_def is_terminal_def settled.keyed_same)
next
  case False
  then show ?thesis using refresh_open assms by (simp add: found_in_def)
qed

lemma payment_get_settled: "keeps (keyed settled_kept) (payment_get sv retrieve rawVersion rawId h)"
proof -
  have find_keeps: "keeps (keyed settled_kept) (find_payment u i)" for u i
    unfolding find_payment_def
    by (auto intro!: settled.keyed.keeps_intros settled.keyed.keeps_bind split: option.splits)
  have body: "keeps (keyed settled_kept) (db_bind (find_payment u rawId) (\<lambda>payment. case payment of
      None \<Rightarrow> db_then (scheduleApiRequestRecord k ''GET'' e 404 None None) (db_return r)
    | Some p \<Rightarrow> db_bind (refreshed_payment sv retrieve h version rawId p) (\<lambda>rs.
        db_then (scheduleApiRequestRecord k ''GET'' e 200 None None) (db_return (f p rs)))))" for u k e r version f
  proof (rule settled.keyed.keeps_bind_yield [OF find_keeps])
    fix w x w'
    assume x: "find_payment u rawId w = (Inr x, w')"
    show "keyed settled_kept w' (snd ((case x of
          None \<Rightarrow> db_then (scheduleApiRequestRecord k ''GET'' e 404 None None) (db_return r)
        | Some p \<Rightarrow> db_bind (refreshed_payment sv retrieve h version rawId p) (\<lambda>rs.
            db_then (scheduleApiRequestRecord k ''GET'' e 200 None None) (db_return (f p rs)))) w'))"
    proof (cases x)
      case None
      then show ?thesis by (simp add: db_defs scheduleApiRequestRecord_def schedule_def settled.keyed_same)
    next
      case (Some p)
      have "keyed settled_kept w' (snd (refreshed_payment sv retrieve h version rawId p w'))"
        using find_payment_found(1) [OF x] Some by (simp add: refresh_settled)
      then show ?thesis unfolding Some option.case
        by (rule settled.keyed.rel_bind) (intro settled.keyed.keeps_intros settled.keyed.keeps_telemetry)
    qed
  qed
  show ?thesis
    unfolding payment_get_def Let_def
    by (auto intro!: settled.keyed.keeps_intros settled.keyed.keeps_bind settled.keyed.keeps_authenticate body
        split: sum.splits option.splits)
qed

section \<open>Properties\<close>

text \<open>
  C15. Reading a payment never unsettles one: whatever the gateway, Stripe and the database answer, a
  payment that is succeeded or failed keeps its status over any number of reads, no payment
  disappears, and all keep their money.
\<close>

theorem payment_get_keeps_settled:
  assumes "primary_key w"
  shows "primary_key (snd (run_handler (payment_get sv retrieve rawVersion rawId h) w))
    \<and> rows_related settled_kept w (snd (run_handler (payment_get sv retrieve rawVersion rawId h) w))"
  using settled.keyed.keeps_handler [OF payment_get_settled] assms by (auto simp: keyed_def)

theorem payment_get_keeps_settled_witness:
  "primary_key (snd (run_handler (payment_get (demo_services (\<lambda>_. None)) (\<lambda>_ _. Inl SyntaxError) ''v1'' ''p1'' [])
     (demo_world [demo_payment ''p1'' ''stripe'' ''failed''])))"
  using payment_get_keeps_settled [of "demo_world [demo_payment ''p1'' ''stripe'' ''failed'']"]
  by (simp add: primary_key_def)

end
