(* ===== verification/Accounts.thy ===== *)
theory Accounts
  imports Dashboard Signatures
begin

text \<open>
  What a signed-in merchant does to the account: \<open>app/api/api-keys/route.ts\<close>,
  \<open>app/actions/api-keys.ts\<close>, \<open>lib/merchant-settings-service.ts\<close>,
  \<open>app/api/merchant/settings/route.ts\<close>, \<open>app/api/merchant/settings/test-webhook/route.ts\<close> and
  \<open>app/actions/merchant-settings.ts\<close>.

  The session of the authentication library is an argument: the user, or \<open>None\<close>. So are
  random bytes, digests, the clock, \<open>Number\<close>, and the email and URL checks of the schema
  library. A body is the parsed JSON, \<open>None\<close> when it is not JSON. A handler returns what it
  answers with what it asks of the dashboard cache. The unique constraint on key hashes that
  \<open>schema.ts\<close> declares is not created by \<open>db/init.ts\<close>, so inserting does not check it.
\<close>

section \<open>Sessions and the cache\<close>

record session_user =
  su_id :: string
  su_name :: "string option"
  su_email :: "string option"

datatype invalidation = Invalidate "string option" "string option"

text \<open>Invalidations are applied in order.\<close>

definition apply_invalidations :: "invalidation list \<Rightarrow> cache \<Rightarrow> cache" where
  "apply_invalidations = fold (\<lambda>i c. case i of Invalidate u e \<Rightarrow> invalidateDashboardData u e c)"

definition answer :: "response \<Rightarrow> (response \<times> invalidation list) db" where
  "answer r = db_return (r, [])"

definition error_text :: "nat \<Rightarrow> string \<Rightarrow> response" where
  "error_text st msg = json_response st [(''error'', JStr msg)]"

definition no_store :: "nat \<Rightarrow> jsv \<Rightarrow> response" where
  "no_store st body = \<lparr>r_status = st, r_body = body, r_headers = [(''Cache-Control'', ''no-store'')]\<rparr>"

section \<open>Keys\<close>

text \<open>\<open>z.string().trim().min(a).max(b)\<close> on a JSON value.\<close>

definition trimmed_string :: "nat \<Rightarrow> nat \<Rightarrow> jsv \<Rightarrow> string option" where
  "trimmed_string a b v = (case v of
     JStr s \<Rightarrow> (let t = js_trim s in if a \<le> length t \<and> length t \<le> b then Some t else None)
   | _ \<Rightarrow> None)"

definition createKeySchema :: "jsv \<Rightarrow> (string \<times> string) option" where
  "createKeySchema body = (case body of
     JObj _ \<Rightarrow>
       (case (trimmed_string 2 40 (field body ''name''), field body ''environment'') of
          (Some name, JUndef) \<Rightarrow> Some (name, ''live'')
        | (Some name, JStr e) \<Rightarrow> if e = ''live'' \<or> e = ''test'' then Some (name, e) else None
        | _ \<Rightarrow> None)
   | _ \<Rightarrow> None)"

definition new_key_row :: "int \<Rightarrow> string \<Rightarrow> string \<Rightarrow> issued_key \<Rightarrow> int \<Rightarrow> api_key_row" where
  "new_key_row i userId name generated now =
     \<lparr>k_id = i, k_userId = userId, k_name = name, k_keyHash = i_keyHash generated, k_prefix = i_prefix generated,
      k_lastFour = i_lastFour generated, k_environment = i_environment generated, k_createdAt = now,
      k_lastUsedAt = None, k_revokedAt = None\<rparr>"

definition insert_api_key :: "string \<Rightarrow> string \<Rightarrow> issued_key \<Rightarrow> int \<Rightarrow> api_key_row db" where
  "insert_api_key userId name generated now = db_query (\<lambda>w.
     let row = new_key_row (nextKeyId w) userId name generated now
     in (Inr row, w\<lparr>apiKeys := apiKeys w @ [row], nextKeyId := nextKeyId w + 1\<rparr>))"

definition delete_api_keys :: "(api_key_row \<Rightarrow> bool) \<Rightarrow> unit db" where
  "delete_api_keys cond = db_query (\<lambda>w. (Inr (), w\<lparr>apiKeys := filter (\<lambda>k. \<not> cond k) (apiKeys w)\<rparr>))"

definition key_view :: "(int \<Rightarrow> string) \<Rightarrow> string \<Rightarrow> api_key_row \<Rightarrow> jsv" where
  "key_view to_iso environment k = JObj
     [(''id'', jint (k_id k)), (''name'', JStr (k_name k)), (''prefix'', JStr (k_prefix k)),
      (''lastFour'', JStr (k_lastFour k)), (''environment'', JStr environment),
      (''createdAt'', JStr (to_iso (k_createdAt k))),
      (''lastUsedAt'', case k_lastUsedAt k of None \<Rightarrow> JNull | Some t \<Rightarrow> JStr (to_iso t))]"

definition keys_get ::
  "(int \<Rightarrow> string) \<Rightarrow> session_user option \<Rightarrow> string option \<Rightarrow> (response \<times> invalidation list) db" where
  "keys_get to_iso session envParam =
     db_then schema_gate
       (case session of
          None \<Rightarrow> answer (error_text 401 ''Unauthorized'')
        | Some user \<Rightarrow>
            (let envFilter = (if envParam = Some ''live'' \<or> envParam = Some ''test'' then envParam else None);
                 cond = (\<lambda>k. k_userId k = su_id user \<and> k_revokedAt k = None
                   \<and> (case envFilter of None \<Rightarrow> True | Some e \<Rightarrow> k_environment k = e))
             in db_bind (read_db (\<lambda>w. latest k_createdAt (filter cond (apiKeys w)))) (\<lambda>rawKeys.
                  answer (no_store 200 (JObj [(''keys'', JArr (map (\<lambda>k. key_view to_iso
                    (if k_environment k \<noteq> [] then k_environment k else getApiKeyEnvironment (k_prefix k)) k) rawKeys))])))))"

definition keys_post ::
  "(int \<Rightarrow> string) \<Rightarrow> (string \<Rightarrow> string) \<Rightarrow> string \<Rightarrow> int \<Rightarrow> session_user option \<Rightarrow> jsv option
    \<Rightarrow> (response \<times> invalidation list) db" where
  "keys_post to_iso sha secret now session body =
     db_then schema_gate
       (case session of
          None \<Rightarrow> answer (error_text 401 ''Unauthorized'')
        | Some user \<Rightarrow>
            (case body of
               None \<Rightarrow> answer (error_text 400 ''Invalid JSON payload'')
             | Some v \<Rightarrow>
                 (case createKeySchema v of
                    None \<Rightarrow> answer (error_text 400 ''Provide a valid name (2-40 characters) and environment.'')
                  | Some (name, environment) \<Rightarrow>
                      (let generated = issueApiKey sha secret environment in
                       db_bind (insert_api_key (su_id user) name generated now) (\<lambda>inserted.
                         db_return
                           (no_store 201 (JObj [(''key'', JStr (i_key generated)),
                              (''keyRow'', key_view to_iso (k_environment inserted) inserted),
                              (''environment'', JStr (i_environment generated))]),
                            [Invalidate (Some (su_id user)) (Some (i_environment generated))]))))))"

definition keys_delete ::
  "(jsv \<Rightarrow> rat option) \<Rightarrow> session_user option \<Rightarrow> jsv option \<Rightarrow> (response \<times> invalidation list) db" where
  "keys_delete to_number session body =
     db_then schema_gate
       (case session of
          None \<Rightarrow> answer (error_text 401 ''Unauthorized'')
        | Some user \<Rightarrow>
            (case body of
               None \<Rightarrow> answer (error_text 400 ''Invalid JSON payload'')
             | Some v \<Rightarrow>
                 if v = JNull then db_throw (TypeError ''properties of null'')
                 else if field v ''all'' = JBool True then
                   db_then (delete_api_keys (\<lambda>k. k_userId k = su_id user))
                     (db_return (no_store 200 (JObj [(''success'', JBool True), (''message'', JStr ''All keys removed'')]),
                        [Invalidate (Some (su_id user)) None]))
                 else
                   (let i = to_number (field v ''id'') in
                    case i of
                      None \<Rightarrow> answer (error_text 400 ''Invalid key ID.'')
                    | Some x \<Rightarrow>
                        if of_int \<lfloor>x\<rfloor> \<noteq> x \<or> x \<le> 0 then answer (error_text 400 ''Invalid key ID.'')
                        else
                          db_then (delete_api_keys (\<lambda>k. k_id k = \<lfloor>x\<rfloor> \<and> k_userId k = su_id user))
                            (db_return (no_store 200 (JObj [(''success'', JBool True)]),
                               [Invalidate (Some (su_id user)) None])))))"

section \<open>The server actions on keys\<close>

datatype key_action = KeyRefused string | KeyIssued issued_key api_key_row | KeysRemoved

text \<open>\<open>getUserId\<close> throws without a session.\<close>

definition getUserId :: "session_user option \<Rightarrow> string db" where
  "getUserId session = (case session of None \<Rightarrow> db_throw (Error ''Unauthorized'') | Some user \<Rightarrow> db_return (su_id user))"

definition createApiKey ::
  "(string \<Rightarrow> string) \<Rightarrow> string \<Rightarrow> int \<Rightarrow> session_user option \<Rightarrow> string \<Rightarrow> string \<Rightarrow> (key_action \<times> invalidation list) db" where
  "createApiKey sha secret now session name environment =
     db_then schema_gate (db_bind (getUserId session) (\<lambda>userId.
       case trimmed_string 2 40 (JStr name) of
         None \<Rightarrow> db_return (KeyRefused ''Use a name between 2 and 40 characters.'', [])
       | Some parsed \<Rightarrow>
           (let generated = issueApiKey sha secret environment in
            db_bind (insert_api_key userId parsed generated now) (\<lambda>row.
              db_return (KeyIssued generated row, [Invalidate (Some userId) None])))))"

definition revokeApiKey ::
  "session_user option \<Rightarrow> rat option \<Rightarrow> (key_action \<times> invalidation list) db" where
  "revokeApiKey session i =
     db_bind (getUserId session) (\<lambda>userId.
       if (case i of None \<Rightarrow> True | Some x \<Rightarrow> of_int \<lfloor>x\<rfloor> \<noteq> x \<or> x \<le> 0) then db_return (KeyRefused ''Invalid key.'', [])
       else db_then (delete_api_keys (\<lambda>k. k_id k = \<lfloor>the i\<rfloor> \<and> k_userId k = userId))
              (db_return (KeysRemoved, [Invalidate (Some userId) None])))"

definition removeAllKeysAction :: "session_user option \<Rightarrow> (key_action \<times> invalidation list) db" where
  "removeAllKeysAction session =
     db_bind (getUserId session) (\<lambda>userId.
       db_then (delete_api_keys (\<lambda>k. k_userId k = userId))
         (db_return (KeysRemoved, [Invalidate (Some userId) None])))"

end
