(* ===== verification/Settings.thy ===== *)
theory Settings
  imports Accounts
begin

text \<open>
  Merchant settings and the test ping: \<open>lib/merchant-settings-service.ts\<close>,
  \<open>app/api/merchant/settings/route.ts\<close>, \<open>settings/test-webhook/route.ts\<close> and
  \<open>app/actions/merchant-settings.ts\<close>.
\<close>

section \<open>The service\<close>

record settings_data =
  sd_userId :: string
  sd_orgName :: string
  sd_billingEmail :: string
  sd_currency :: string
  sd_webhookUrl :: string
  sd_webhookSecret :: string
  sd_brandLogoUrl :: string
  sd_brandColor :: string
  sd_brandName :: string
  sd_createdAt :: "int option"
  sd_updatedAt :: "int option"

text \<open>The members of a partial update; \<open>None\<close> is \<open>undefined\<close>.\<close>

record settings_patch =
  sp_orgName :: "string option"
  sp_billingEmail :: "string option"
  sp_currency :: "string option"
  sp_webhookUrl :: "string option"
  sp_webhookSecret :: "string option"
  sp_brandLogoUrl :: "string option"
  sp_brandColor :: "string option"
  sp_brandName :: "string option"

definition generateWebhookSecret :: "string \<Rightarrow> string" where
  "generateWebhookSecret bytes_hex = ''whsec_'' @ bytes_hex"

definition DEFAULT_COLOR :: string where "DEFAULT_COLOR = ''#6366f1''"

definition stored_settings :: "string option \<Rightarrow> string option \<Rightarrow> merchant_settings_row \<Rightarrow> settings_data" where
  "stored_settings defaultName defaultEmail row =
     \<lparr>sd_userId = m_userId row, sd_orgName = m_orgName row,
      sd_billingEmail = nullish_else (m_billingEmail row) (nullish_else defaultEmail []),
      sd_currency = m_currency row, sd_webhookUrl = nullish_else (m_webhookUrl row) [],
      sd_webhookSecret = m_webhookSecret row, sd_brandLogoUrl = nullish_else (m_brandLogoUrl row) [],
      sd_brandColor = nullish_else (m_brandColor row) DEFAULT_COLOR,
      sd_brandName = nullish_else (m_brandName row) (nullish_else defaultName []),
      sd_createdAt = Some (m_createdAt row), sd_updatedAt = Some (m_updatedAt row)\<rparr>"

definition initial_settings :: "string \<Rightarrow> string option \<Rightarrow> string option \<Rightarrow> string \<Rightarrow> settings_data" where
  "initial_settings userId defaultName defaultEmail secret =
     \<lparr>sd_userId = userId,
      sd_orgName = (if truthy defaultName then the defaultName @ [CHR 0x27] @ ''s Organization'' else ''My Organization''),
      sd_billingEmail = nullish_else defaultEmail [], sd_currency = ''EGP'', sd_webhookUrl = [],
      sd_webhookSecret = secret, sd_brandLogoUrl = [], sd_brandColor = DEFAULT_COLOR,
      sd_brandName = nullish_else defaultName ''My Brand'', sd_createdAt = None, sd_updatedAt = None\<rparr>"

definition settings_row :: "int \<Rightarrow> settings_data \<Rightarrow> merchant_settings_row" where
  "settings_row now d =
     \<lparr>m_userId = sd_userId d, m_orgName = sd_orgName d, m_billingEmail = Some (sd_billingEmail d),
      m_currency = sd_currency d, m_webhookUrl = Some (sd_webhookUrl d), m_webhookSecret = sd_webhookSecret d,
      m_brandLogoUrl = Some (sd_brandLogoUrl d), m_brandColor = Some (sd_brandColor d),
      m_brandName = Some (sd_brandName d), m_createdAt = now, m_updatedAt = now\<rparr>"

definition select_settings :: "string \<Rightarrow> merchant_settings_row option db" where
  "select_settings userId = read_db (\<lambda>w. find (\<lambda>m. m_userId m = userId) (merchantSettings w))"

text \<open>\<open>insert ... on conflict do nothing\<close> and \<open>... do update set ...\<close>, on the primary key.\<close>

definition insert_settings :: "merchant_settings_row \<Rightarrow> unit db" where
  "insert_settings row = db_query (\<lambda>w. (Inr (),
     if list_ex (\<lambda>m. m_userId m = m_userId row) (merchantSettings w) then w
     else w\<lparr>merchantSettings := merchantSettings w @ [row]\<rparr>))"

definition upsert_settings :: "merchant_settings_row \<Rightarrow> (merchant_settings_row \<Rightarrow> merchant_settings_row) \<Rightarrow> unit db" where
  "upsert_settings row f = db_query (\<lambda>w. (Inr (),
     if list_ex (\<lambda>m. m_userId m = m_userId row) (merchantSettings w) then
       w\<lparr>merchantSettings := map (\<lambda>m. if m_userId m = m_userId row then f m else m) (merchantSettings w)\<rparr>
     else w\<lparr>merchantSettings := merchantSettings w @ [row]\<rparr>))"

text \<open>What follows the first statement, on its result.\<close>

definition settings_or_create ::
  "int \<Rightarrow> string \<Rightarrow> string \<Rightarrow> string option \<Rightarrow> string option \<Rightarrow> merchant_settings_row option \<Rightarrow> settings_data db" where
  "settings_or_create now secret userId defaultName defaultEmail existing =
     (case existing of
        Some row \<Rightarrow> db_return (stored_settings defaultName defaultEmail row)
      | None \<Rightarrow>
          (let d = initial_settings userId defaultName defaultEmail secret
           in db_then (insert_settings (settings_row now d)) (db_return d)))"

definition getMerchantSettings ::
  "int \<Rightarrow> string \<Rightarrow> string \<Rightarrow> string option \<Rightarrow> string option \<Rightarrow> settings_data db" where
  "getMerchantSettings now secret userId defaultName defaultEmail =
     db_then schema_gate (db_bind (select_settings userId)
       (settings_or_create now secret userId defaultName defaultEmail))"

definition patch_row :: "int \<Rightarrow> settings_patch \<Rightarrow> merchant_settings_row \<Rightarrow> merchant_settings_row" where
  "patch_row now d m = m
     \<lparr>m_orgName := nullish_else (sp_orgName d) (m_orgName m),
      m_billingEmail := (case sp_billingEmail d of None \<Rightarrow> m_billingEmail m | Some v \<Rightarrow> Some v),
      m_currency := nullish_else (sp_currency d) (m_currency m),
      m_webhookUrl := (case sp_webhookUrl d of None \<Rightarrow> m_webhookUrl m | Some v \<Rightarrow> Some v),
      m_webhookSecret := nullish_else (sp_webhookSecret d) (m_webhookSecret m),
      m_brandLogoUrl := (case sp_brandLogoUrl d of None \<Rightarrow> m_brandLogoUrl m | Some v \<Rightarrow> Some v),
      m_brandColor := (case sp_brandColor d of None \<Rightarrow> m_brandColor m | Some v \<Rightarrow> Some v),
      m_brandName := (case sp_brandName d of None \<Rightarrow> m_brandName m | Some v \<Rightarrow> Some v),
      m_updatedAt := now\<rparr>"

definition patched_defaults :: "int \<Rightarrow> string \<Rightarrow> string \<Rightarrow> settings_patch \<Rightarrow> merchant_settings_row" where
  "patched_defaults now secret userId d =
     \<lparr>m_userId = userId, m_orgName = nullish_else (sp_orgName d) ''My Organization'',
      m_billingEmail = Some (nullish_else (sp_billingEmail d) []), m_currency = nullish_else (sp_currency d) ''EGP'',
      m_webhookUrl = Some (nullish_else (sp_webhookUrl d) []), m_webhookSecret = nullish_else (sp_webhookSecret d) secret,
      m_brandLogoUrl = Some (nullish_else (sp_brandLogoUrl d) []),
      m_brandColor = Some (nullish_else (sp_brandColor d) DEFAULT_COLOR),
      m_brandName = Some (nullish_else (sp_brandName d) []), m_createdAt = now, m_updatedAt = now\<rparr>"

text \<open>\<open>secret\<close> and \<open>secret'\<close> are what the two calls of \<open>generateWebhookSecret\<close> would give.\<close>

definition updateMerchantSettings ::
  "int \<Rightarrow> string \<Rightarrow> string \<Rightarrow> string \<Rightarrow> settings_patch \<Rightarrow> settings_data db" where
  "updateMerchantSettings now secret secret' userId d =
     db_then schema_gate
       (db_then (upsert_settings (patched_defaults now secret userId d) (patch_row now d))
         (getMerchantSettings now secret' userId None None))"

section \<open>The route and the actions\<close>

text \<open>An optional member: absent, or a value the check turns into what is stored.\<close>

definition optional :: "(jsv \<Rightarrow> string option) \<Rightarrow> jsv \<Rightarrow> string option option" where
  "optional check v = (if v = JUndef then Some None else map_option Some (check v))"

text \<open>\<open>z.string().trim()\<close> with a check on the result.\<close>

definition checked_string :: "(string \<Rightarrow> bool) \<Rightarrow> jsv \<Rightarrow> string option" where
  "checked_string P v = (case v of JStr s \<Rightarrow> if P (js_trim s) then Some (js_trim s) else None | _ \<Rightarrow> None)"

text \<open>\<open>.or(z.literal(""))\<close>: the empty string passes although the check refuses it.\<close>

definition or_empty :: "(jsv \<Rightarrow> string option) \<Rightarrow> jsv \<Rightarrow> string option" where
  "or_empty check v = (case check v of Some s \<Rightarrow> Some s | None \<Rightarrow> if v = JStr [] then Some [] else None)"

definition currencies :: "string list" where
  "currencies = [''EGP'', ''SAR'', ''AED'', ''USD'', ''EUR'']"

definition currency_member :: "jsv \<Rightarrow> string option" where
  "currency_member v = (case v of JStr s \<Rightarrow> if s \<in> set currencies then Some s else None | _ \<Rightarrow> None)"

definition is_hex_char :: "char \<Rightarrow> bool" where
  "is_hex_char c \<longleftrightarrow> (let n = char_code c in is_digit c \<or> (65 \<le> n \<and> n \<le> 70) \<or> (97 \<le> n \<and> n \<le> 102))"

definition color_ok :: "string \<Rightarrow> bool" where
  "color_ok s = (case s of [] \<Rightarrow> False
     | c # cs \<Rightarrow> c = CHR ''#'' \<and> (length cs = 3 \<or> length cs = 6) \<and> list_all is_hex_char cs)"

definition settingsUpdateSchema ::
  "(string \<Rightarrow> bool) \<Rightarrow> (string \<Rightarrow> bool) \<Rightarrow> jsv \<Rightarrow> settings_patch option" where
  "settingsUpdateSchema email_ok url_ok body = (case body of
     JObj _ \<Rightarrow>
       Option.bind (optional (trimmed_string 2 100) (field body ''orgName'')) (\<lambda>orgName.
       Option.bind (optional (or_empty (checked_string email_ok)) (field body ''billingEmail'')) (\<lambda>billingEmail.
       Option.bind (optional currency_member (field body ''currency'')) (\<lambda>currency.
       Option.bind (optional (or_empty (checked_string url_ok)) (field body ''webhookUrl'')) (\<lambda>webhookUrl.
       Option.bind (optional (checked_string (\<lambda>s. 16 \<le> length s)) (field body ''webhookSecret'')) (\<lambda>webhookSecret.
       Option.bind (optional (trimmed_string 0 500000) (field body ''brandLogoUrl'')) (\<lambda>brandLogoUrl.
       Option.bind (optional (checked_string color_ok) (field body ''brandColor'')) (\<lambda>brandColor.
       Option.bind (optional (trimmed_string 0 100) (field body ''brandName'')) (\<lambda>brandName.
         Some \<lparr>sp_orgName = orgName, sp_billingEmail = billingEmail, sp_currency = currency, sp_webhookUrl = webhookUrl,
               sp_webhookSecret = webhookSecret, sp_brandLogoUrl = brandLogoUrl, sp_brandColor = brandColor,
               sp_brandName = brandName\<rparr>))))))))
   | _ \<Rightarrow> None)"

definition settings_json :: "(int \<Rightarrow> string) \<Rightarrow> settings_data \<Rightarrow> jsv" where
  "settings_json to_iso d = JObj
     [(''userId'', JStr (sd_userId d)), (''orgName'', JStr (sd_orgName d)), (''billingEmail'', JStr (sd_billingEmail d)),
      (''currency'', JStr (sd_currency d)), (''webhookUrl'', JStr (sd_webhookUrl d)),
      (''webhookSecret'', JStr (sd_webhookSecret d)), (''brandLogoUrl'', JStr (sd_brandLogoUrl d)),
      (''brandColor'', JStr (sd_brandColor d)), (''brandName'', JStr (sd_brandName d)),
      (''createdAt'', case sd_createdAt d of None \<Rightarrow> JUndef | Some t \<Rightarrow> JStr (to_iso t)),
      (''updatedAt'', case sd_updatedAt d of None \<Rightarrow> JUndef | Some t \<Rightarrow> JStr (to_iso t))]"

definition settings_get :: "(int \<Rightarrow> string) \<Rightarrow> int \<Rightarrow> string \<Rightarrow> session_user option \<Rightarrow> response db" where
  "settings_get to_iso now secret session = (case session of
     None \<Rightarrow> db_return (error_text 401 ''Unauthorized'')
   | Some user \<Rightarrow>
       db_bind (getMerchantSettings now secret (su_id user) (su_name user) (su_email user)) (\<lambda>settings.
         db_return (no_store 200 (JObj [(''settings'', settings_json to_iso settings)]))))"

text \<open>\<open>details\<close> is the schema library's account of the errors.\<close>

definition settings_patch_route ::
  "(int \<Rightarrow> string) \<Rightarrow> (string \<Rightarrow> bool) \<Rightarrow> (string \<Rightarrow> bool) \<Rightarrow> (jsv \<Rightarrow> jsv) \<Rightarrow> int \<Rightarrow> string \<Rightarrow> string
    \<Rightarrow> session_user option \<Rightarrow> jsv option \<Rightarrow> response db" where
  "settings_patch_route to_iso email_ok url_ok details now secret secret' session body = (case session of
     None \<Rightarrow> db_return (error_text 401 ''Unauthorized'')
   | Some user \<Rightarrow>
       (case body of
          None \<Rightarrow> db_return (error_text 400 ''Invalid JSON payload'')
        | Some v \<Rightarrow>
            (case settingsUpdateSchema email_ok url_ok v of
               None \<Rightarrow> db_return (json_response 400 [(''error'', JStr ''Invalid settings data''), (''details'', details v)])
             | Some d \<Rightarrow>
                 db_bind (updateMerchantSettings now secret secret' (su_id user) d) (\<lambda>updated.
                   db_return (no_store 200 (JObj [(''settings'', settings_json to_iso updated), (''success'', JBool True)]))))))"

definition saveMerchantSettingsAction ::
  "int \<Rightarrow> string \<Rightarrow> string \<Rightarrow> session_user option \<Rightarrow> settings_patch \<Rightarrow> settings_data db" where
  "saveMerchantSettingsAction now secret secret' session d =
     db_bind (getUserId session) (\<lambda>userId. updateMerchantSettings now secret secret' userId d)"

definition no_patch :: settings_patch where
  "no_patch = \<lparr>sp_orgName = None, sp_billingEmail = None, sp_currency = None, sp_webhookUrl = None,
     sp_webhookSecret = None, sp_brandLogoUrl = None, sp_brandColor = None, sp_brandName = None\<rparr>"

definition regenerateWebhookSecretAction ::
  "int \<Rightarrow> string \<Rightarrow> string \<Rightarrow> string \<Rightarrow> session_user option \<Rightarrow> (string \<times> settings_data) db" where
  "regenerateWebhookSecretAction now newSecret secret secret' session =
     db_bind (getUserId session) (\<lambda>userId.
       db_bind (updateMerchantSettings now secret secret' userId (no_patch\<lparr>sp_webhookSecret := Some newSecret\<rparr>)) (\<lambda>updated.
         db_return (newSecret, updated)))"

section \<open>The test ping\<close>

datatype ping_result = Delivered nat string | NotDelivered string

definition testWebhookSchema :: "(string \<Rightarrow> bool) \<Rightarrow> jsv \<Rightarrow> (string \<times> string) option" where
  "testWebhookSchema url_ok body = (case body of
     JObj _ \<Rightarrow>
       (case (checked_string url_ok (field body ''webhookUrl''),
              checked_string (\<lambda>s. 16 \<le> length s) (field body ''webhookSecret'')) of
          (Some u, Some s) \<Rightarrow> Some (u, s)
        | _ \<Rightarrow> None)
   | _ \<Rightarrow> None)"

definition ping_payload :: "string \<Rightarrow> string \<Rightarrow> string \<Rightarrow> int \<Rightarrow> string" where
  "ping_payload eventId iso_now userId now_ms = nullish_else (js_stringify (JObj
     [(''event_id'', JStr eventId), (''event_type'', JStr ''openwrapper.ping''), (''created_at'', JStr iso_now),
      (''environment'', JStr ''live''),
      (''data'', JObj [(''message'', JStr ''OpenWrapper webhook verification ping''),
         (''merchant_id'', JStr userId), (''timestamp'', jint now_ms)])])) []"

definition ping_headers :: "string \<Rightarrow> headers" where
  "ping_headers header = [(''Content-Type'', ''application/json''),
     (''User-Agent'', ''OpenWrapper-Webhook-Notifier/1.0''), (''X-OpenWrapper-Signature'', header)]"

definition ping_answer :: "ping_result \<Rightarrow> int \<Rightarrow> response" where
  "ping_answer result latencyMs = (case result of
     NotDelivered errorMessage \<Rightarrow>
       json_response 200 [(''success'', JBool False), (''delivered'', JBool False), (''status'', jint 0),
         (''latencyMs'', jint latencyMs), (''error'', JStr errorMessage),
         (''message'', JStr (''Failed to deliver ping: '' @ errorMessage @ '' ('' @ int_str latencyMs @ ''ms)''))]
   | Delivered st text \<Rightarrow>
       (let isSuccess = 200 \<le> st \<and> st < 300 in
        json_response 200 [(''success'', JBool isSuccess), (''delivered'', JBool True), (''status'', jint (int st)),
          (''latencyMs'', jint latencyMs), (''responseSnippet'', JStr (take 100 text)),
          (''message'', JStr (if isSuccess
             then ''Ping delivered successfully (HTTP '' @ nat_str st @ '' OK, latency: '' @ int_str latencyMs @ ''ms)''
             else ''Destination responded with HTTP '' @ nat_str st @ '' in '' @ int_str latencyMs @ ''ms''))]))"

text \<open>
  \<open>post\<close> is the destination: URL, headers and body to the answer, or the message of the failure
  (a timeout is \<open>Request timed out after 10 seconds.\<close>). \<open>now_ms\<close> is the clock.
\<close>

definition test_webhook_post ::
  "(string \<Rightarrow> bool) \<Rightarrow> (string \<Rightarrow> headers \<Rightarrow> string \<Rightarrow> ping_result) \<Rightarrow> (string \<Rightarrow> string \<Rightarrow> string) \<Rightarrow> string \<Rightarrow> string
    \<Rightarrow> int \<Rightarrow> int \<Rightarrow> session_user option \<Rightarrow> jsv option \<Rightarrow> response db" where
  "test_webhook_post url_ok post hmac bytes_hex iso_now now_ms latencyMs session body =
     db_then schema_gate (case session of
       None \<Rightarrow> db_return (error_text 401 ''Unauthorized'')
     | Some user \<Rightarrow>
         (case body of
            None \<Rightarrow> db_return (error_text 400 ''Invalid JSON payload'')
          | Some v \<Rightarrow>
              (case testWebhookSchema url_ok v of
                 None \<Rightarrow> db_return (error_text 400
                   ''Please enter a valid Webhook Destination URL (e.g. https://your-domain.com/webhook).'')
               | Some (webhookUrl, webhookSecret) \<Rightarrow>
                   (let eventId = ''evt_ping_'' @ bytes_hex;
                        pingPayload = ping_payload eventId iso_now (su_id user) now_ms;
                        header = sh_header (signWebhookPayload hmac (now_ms div 1000) pingPayload webhookSecret);
                        result = post webhookUrl (ping_headers header) pingPayload
                    in db_then
                         (db_catch (insert_webhook_event \<lparr>e_eventId = eventId, e_provider = ''openwrapper_system'',
                            e_paymentId = None, e_payloadJson = Some pingPayload, e_signature = Some header,
                            e_receivedAt = now_ms\<rparr>) (\<lambda>_. db_return ()))
                         (db_return (ping_answer result latencyMs))))))"

end
