(* ===== verification/Account_Safety.thy ===== *)
theory Account_Safety
  imports Settings Ledger
begin

text \<open>
  What the account operations guarantee: they stay within the account of the session, a key is
  usable and visible as soon as it is issued, and stored settings satisfy the schema of the route.
\<close>

section \<open>Staying within the account\<close>

text \<open>Payments, recorded requests, and the keys and settings of everybody else are the same.\<close>

definition others_kept :: "string \<Rightarrow> world \<Rightarrow> world \<Rightarrow> bool" where
  "others_kept u w w' \<longleftrightarrow> payments w' = payments w \<and> apiRequests w' = apiRequests w
     \<and> filter (\<lambda>k. k_userId k \<noteq> u) (apiKeys w') = filter (\<lambda>k. k_userId k \<noteq> u) (apiKeys w)
     \<and> filter (\<lambda>m. m_userId m \<noteq> u) (merchantSettings w') = filter (\<lambda>m. m_userId m \<noteq> u) (merchantSettings w)"

interpretation others_world: world_relation "others_kept u"
  by unfold_locales (auto simp: others_kept_def)

context world_relation begin

lemma keeps_read: "keeps R (read_db f)"
  unfolding read_db_def by (rule keeps_query) (simp add: keeps_def rel_refl)

lemma keeps_gate: "keeps R schema_gate"
  unfolding schema_gate_def by (rule keeps_read)

lemma keeps_answer_now: "keeps R (answer r)"
  unfolding answer_def by (rule keeps_return)

end

lemmas others_intros = others_world.keeps_return others_world.keeps_throw others_world.keeps_then
  others_world.keeps_bind others_world.keeps_catch others_world.keeps_read others_world.keeps_gate
  others_world.keeps_answer_now

lemma others_insert_key: "keeps (others_kept u) (insert_api_key u name generated now)"
  unfolding insert_api_key_def
  by (rule others_world.keeps_query) (simp add: keeps_def others_kept_def new_key_row_def Let_def)

lemma others_delete_keys: "(\<And>k. cond k \<Longrightarrow> k_userId k = u) \<Longrightarrow> keeps (others_kept u) (delete_api_keys cond)"
  unfolding delete_api_keys_def
proof (rule others_world.keeps_query)
  assume c: "\<And>k. cond k \<Longrightarrow> k_userId k = u"
  have "filter (\<lambda>k. k_userId k \<noteq> u) (filter (\<lambda>k. \<not> cond k) ks) = filter (\<lambda>k. k_userId k \<noteq> u) ks" for ks
    unfolding filter_filter using c by (intro filter_cong) auto
  then show "keeps (others_kept u) (\<lambda>w. (Inr (), w\<lparr>apiKeys := filter (\<lambda>k. \<not> cond k) (apiKeys w)\<rparr>))"
    by (simp add: keeps_def others_kept_def)
qed

lemma others_insert_settings: "m_userId row = u \<Longrightarrow> keeps (others_kept u) (insert_settings row)"
  unfolding insert_settings_def
  by (rule others_world.keeps_query) (auto simp: keeps_def others_kept_def)

lemma filter_map_same:
  "(\<And>m. m_userId m = u \<Longrightarrow> m_userId (f m) = u)
    \<Longrightarrow> filter (\<lambda>m. m_userId m \<noteq> u) (map (\<lambda>m. if m_userId m = u then f m else m) ms) = filter (\<lambda>m. m_userId m \<noteq> u) ms"
  by (induction ms) auto

lemma others_upsert_settings:
  assumes "m_userId row = u" "\<And>m. m_userId m = u \<Longrightarrow> m_userId (f m) = u"
  shows "keeps (others_kept u) (upsert_settings row f)"
  unfolding upsert_settings_def
  by (rule others_world.keeps_query) (use assms filter_map_same[OF assms(2)] in \<open>auto simp: keeps_def others_kept_def\<close>)

lemma others_get_settings: "keeps (others_kept u) (getMerchantSettings now secret u name email)"
  unfolding getMerchantSettings_def select_settings_def settings_or_create_def
  by (auto intro!: others_intros others_insert_settings split: option.splits
      simp: Let_def settings_row_def initial_settings_def)

lemma others_update_settings: "keeps (others_kept u) (updateMerchantSettings now secret secret' u d)"
  unfolding updateMerchantSettings_def
  by (intro others_intros others_get_settings others_upsert_settings)
     (simp_all add: patched_defaults_def patch_row_def)

lemma others_keys_post: "keeps (others_kept (su_id user)) (keys_post to_iso sha secret now (Some user) body)"
  unfolding keys_post_def
  by (auto intro!: others_intros others_insert_key split: option.splits simp: Let_def)

lemma others_keys_delete: "keeps (others_kept (su_id user)) (keys_delete to_number (Some user) body)"
  unfolding keys_delete_def
  by (auto intro!: others_intros others_delete_keys split: option.splits simp: Let_def)

lemma bind_return [simp]: "db_bind (db_return x) f = f x"
  by (simp add: db_bind_def db_return_def)

lemma session_id [simp]: "getUserId (Some user) = db_return (su_id user)"
  by (simp add: getUserId_def)

lemma others_actions:
  "keeps (others_kept (su_id user)) (createApiKey sha secret now (Some user) name environment)"
  "keeps (others_kept (su_id user)) (revokeApiKey (Some user) i)"
  "keeps (others_kept (su_id user)) (removeAllKeysAction (Some user))"
  unfolding createApiKey_def revokeApiKey_def removeAllKeysAction_def session_id bind_return
  by (auto intro!: others_intros others_insert_key others_delete_keys split: option.splits simp: Let_def)

lemma others_settings_handlers:
  "keeps (others_kept (su_id user)) (settings_get to_iso now secret (Some user))"
  "keeps (others_kept (su_id user)) (settings_patch_route to_iso email_ok url_ok details now secret secret' (Some user) body)"
  "keeps (others_kept (su_id user)) (saveMerchantSettingsAction now secret secret' (Some user) d)"
  "keeps (others_kept (su_id user)) (regenerateWebhookSecretAction now s secret secret' (Some user))"
  unfolding settings_get_def settings_patch_route_def saveMerchantSettingsAction_def regenerateWebhookSecretAction_def
    session_id bind_return
  by (auto intro!: others_intros others_get_settings others_update_settings split: option.splits)

text \<open>
  Every account operation stays within the account of its session: whatever the body and
  whatever fails, issuing, revoking and removing keys and reading or changing settings leave
  the keys and settings of every other user, all payments and all recorded requests as they
  were. In particular a key identifier of somebody else deletes nothing.
\<close>

theorem account_operations_isolated:
  "others_kept (su_id user) w (snd (keys_post to_iso sha secret now (Some user) body w))
   \<and> others_kept (su_id user) w (snd (keys_delete to_number (Some user) body w))
   \<and> others_kept (su_id user) w (snd (createApiKey sha secret now (Some user) name environment w))
   \<and> others_kept (su_id user) w (snd (revokeApiKey (Some user) i w))
   \<and> others_kept (su_id user) w (snd (removeAllKeysAction (Some user) w))
   \<and> others_kept (su_id user) w (snd (settings_get to_iso now secret (Some user) w))
   \<and> others_kept (su_id user) w (snd (settings_patch_route to_iso email_ok url_ok details now secret secret' (Some user) body w))
   \<and> others_kept (su_id user) w (snd (saveMerchantSettingsAction now secret secret' (Some user) d w))
   \<and> others_kept (su_id user) w (snd (regenerateWebhookSecretAction now s secret secret' (Some user) w))"
  by (intro conjI others_world.keepsD others_keys_post others_keys_delete others_actions others_settings_handlers)

section \<open>A key works and shows at once\<close>

lemma gate_up: "outages w = [] \<Longrightarrow> schema_gate w = (Inr (), w)"
  by (simp add: schema_gate_def read_db_up)

lemma insert_key_up:
  "outages w = [] \<Longrightarrow> insert_api_key u name generated now w
    = (Inr (new_key_row (nextKeyId w) u name generated now),
       w\<lparr>apiKeys := apiKeys w @ [new_key_row (nextKeyId w) u name generated now], nextKeyId := nextKeyId w + 1\<rparr>)"
  by (simp add: insert_api_key_def db_query_def Let_def)

text \<open>What a request that is answered 201 has done.\<close>

lemma keys_post_created:
  assumes "keys_post to_iso sha secret now (Some user) body w = (Inr (r, drops), w')" "outages w = []" "r_status r = 201"
  obtains name environment where "environment = ''live'' \<or> environment = ''test''"
    "w' = w\<lparr>apiKeys := apiKeys w @ [new_key_row (nextKeyId w) (su_id user) name (issueApiKey sha secret environment) now],
            nextKeyId := nextKeyId w + 1\<rparr>"
    "drops = [Invalidate (Some (su_id user)) (Some environment)]"
    "field (r_body r) ''key'' = JStr (i_key (issueApiKey sha secret environment))"
    "field (r_body r) ''environment'' = JStr environment"
proof -
  have env: "environment = ''live'' \<or> environment = ''test''" if "createKeySchema v = Some (name, environment)" for v name environment
    using that by (auto simp: createKeySchema_def split: jsv.splits option.splits if_splits)
  have i: "i_environment (issueApiKey sha secret e) = e" if "e = ''live'' \<or> e = ''test''" for e
    using that by (auto simp: issueApiKey_def Let_def)
  show ?thesis
  proof (cases "Option.bind body createKeySchema")
    case None
    then show ?thesis using assms
      by (auto simp: keys_post_def gate_up db_then_def db_bind_def db_return_def answer_def error_text_def
          json_response_def split: option.splits)
  next
    case (Some d)
    then obtain v name e where d: "body = Some v" "createKeySchema v = Some (name, e)"
      by (cases d) (auto simp: bind_eq_Some_conv)
    have "(r, drops) = (no_store 201 (JObj [(''key'', JStr (i_key (issueApiKey sha secret e))),
          (''keyRow'', key_view to_iso (k_environment (new_key_row (nextKeyId w) (su_id user) name (issueApiKey sha secret e) now))
             (new_key_row (nextKeyId w) (su_id user) name (issueApiKey sha secret e) now)),
          (''environment'', JStr e)]), [Invalidate (Some (su_id user)) (Some e)])"
      "w' = w\<lparr>apiKeys := apiKeys w @ [new_key_row (nextKeyId w) (su_id user) name (issueApiKey sha secret e) now],
            nextKeyId := nextKeyId w + 1\<rparr>"
      using assms(1) i[OF env[OF d(2)]]
      by (simp_all add: keys_post_def d gate_up[OF assms(2)] insert_key_up[OF assms(2)] db_then_def db_bind_def db_return_def Let_def)
    then show ?thesis using that[OF env[OF d(2)]] by (simp add: no_store_def)
  qed
qed

lemma issued_key_clean:
  assumes "\<And>c. c \<in> set secret \<Longrightarrow> \<not> is_ws c" "e = ''live'' \<or> e = ''test''"
  shows "\<And>c. c \<in> set (i_key (issueApiKey sha secret e)) \<Longrightarrow> \<not> is_ws c" "i_key (issueApiKey sha secret e) \<noteq> []"
    "i_keyHash (issueApiKey sha secret e) = hashApiKey sha (i_key (issueApiKey sha secret e))"
  using assms by (auto simp: issueApiKey_def Let_def is_ws_def char_code_def)

text \<open>
  C26. A key is usable as soon as it is issued: after a creation that is answered 201, a request
  with the returned key as its bearer token is authenticated as the user of the session, in the
  environment of the key, provided the secret has no white space, the key is no demo or
  ambient key, and its digest is not one already stored.
\<close>

theorem issued_key_authenticates:
  assumes "keys_post to_iso sha secret now (Some user) body w = (Inr (r, drops), w')" "outages w = []" "r_status r = 201"
    and "\<And>c. c \<in> set secret \<Longrightarrow> \<not> is_ws c"
    and "field (r_body r) ''key'' = JStr key" "hdr_get h ''authorization'' = Some (''Bearer '' @ key)"
    and "\<not> is_demo_token en key" "\<forall>k \<in> set (apiKeys w). k_keyHash k \<noteq> hashApiKey sha key"
  shows "\<exists>environment. field (r_body r) ''environment'' = JStr environment
    \<and> authenticateApiRequest sha en h w'
      = (Inr (Some \<lparr>a_id = nextKeyId w, a_userId = su_id user, a_environment = environment\<rparr>), w')"
proof -
  obtain name e where e: "e = ''live'' \<or> e = ''test''"
    and w': "w' = w\<lparr>apiKeys := apiKeys w @ [new_key_row (nextKeyId w) (su_id user) name (issueApiKey sha secret e) now],
        nextKeyId := nextKeyId w + 1\<rparr>"
    and r: "field (r_body r) ''key'' = JStr (i_key (issueApiKey sha secret e))" "field (r_body r) ''environment'' = JStr e"
    by (rule keys_post_created[OF assms(1-3)]) (rule that; assumption)
  have key: "key = i_key (issueApiKey sha secret e)" using assms(5) r(1) by simp
  have t: "request_token h = key"
    using request_token_bearer[OF assms(6)] issued_key_clean[OF assms(4) e, where sha = sha] unfolding key by blast
  have none: "find (\<lambda>k. k_keyHash k = hashApiKey sha key \<and> k_revokedAt k = None) (apiKeys w) = None"
    using assms(8) by (auto simp: find_None_iff)
  have snoc: "find P (xs @ [x]) = (case find P xs of None \<Rightarrow> if P x then Some x else None | Some y \<Rightarrow> Some y)" for P and x :: api_key_row and xs
    by (induction xs) auto
  let ?row = "new_key_row (nextKeyId w) (su_id user) name (issueApiKey sha secret e) now"
  have row: "k_keyHash ?row = hashApiKey sha key" "k_revokedAt ?row = None" "k_id ?row = nextKeyId w"
    "k_userId ?row = su_id user" "k_environment ?row = e"
    using issued_key_clean(3)[OF assms(4) e, where sha = sha] e by (auto simp: new_key_row_def key issueApiKey_def Let_def)
  have found: "find (\<lambda>k. k_keyHash k = hashApiKey sha key \<and> k_revokedAt k = None) (apiKeys w') = Some ?row"
    by (simp add: w' snoc none row)
  have ne: "request_token h \<noteq> []" using issued_key_clean(2)[OF assms(4) e, where sha = sha] unfolding t key .
  have up: "outages w' = []" using assms(2) by (simp add: w')
  have "e \<noteq> []" using e by auto
  then have "authenticateApiRequest sha en h w'
      = (Inr (Some \<lparr>a_id = nextKeyId w, a_userId = su_id user, a_environment = e\<rparr>), w')"
    using assms(7) by (simp add: authenticate_unfold[OF ne _ up] t found row)
  with r(2) show ?thesis by blast
qed

definition demo_user :: session_user where
  "demo_user = \<lparr>su_id = ''u1'', su_name = None, su_email = None\<rparr>"

definition demo_key_body :: jsv where
  "demo_key_body = JObj [(''name'', JStr ''ci-runner'')]"

lemma demo_key_schema: "createKeySchema demo_key_body = Some (''ci-runner'', ''live'')"
proof -
  have "js_trim ''ci-runner'' = ''ci-runner''" by (rule js_trim_no_ws) (auto simp: is_ws_def char_code_def)
  then show ?thesis by (simp add: createKeySchema_def demo_key_body_def trimmed_string_def)
qed

text \<open>The world after issuing the demo key in an empty world.\<close>

definition demo_issued_world :: world where
  "demo_issued_world = empty_world\<lparr>apiKeys := [new_key_row 1 ''u1'' ''ci-runner'' (issueApiKey (\<lambda>s. s) ''s3cret'' ''live'') 5],
     nextKeyId := 2\<rparr>"

lemma demo_keys_post:
  obtains r where "keys_post int_str (\<lambda>s. s) ''s3cret'' 5 (Some demo_user) (Some demo_key_body) empty_world
      = (Inr (r, [Invalidate (Some ''u1'') (Some ''live'')]), demo_issued_world)" "r_status r = 201"
    "field (r_body r) ''key'' = JStr ''ow_live_s3cret''"
proof -
  let ?i = "issueApiKey (\<lambda>s. s) ''s3cret'' ''live''"
  let ?row = "new_key_row 1 ''u1'' ''ci-runner'' ?i 5"
  have i: "i_key ?i = ''ow_live_s3cret''" "i_environment ?i = ''live''" by (simp_all add: issueApiKey_def Let_def)
  have up: "outages empty_world = []" and one: "nextKeyId empty_world = 1" by (simp_all add: empty_world_def)
  have "keys_post int_str (\<lambda>s. s) ''s3cret'' 5 (Some demo_user) (Some demo_key_body) empty_world
    = (Inr (no_store 201 (JObj [(''key'', JStr (i_key ?i)), (''keyRow'', key_view int_str (k_environment ?row) ?row),
          (''environment'', JStr (i_environment ?i))]),
        [Invalidate (Some ''u1'') (Some (i_environment ?i))]),
       empty_world\<lparr>apiKeys := apiKeys empty_world @ [?row], nextKeyId := nextKeyId empty_world + 1\<rparr>)"
    by (simp only: keys_post_def gate_up[OF up] insert_key_up[OF up] demo_key_schema db_then_def db_bind_def
        db_return_def Let_def option.case sum.case prod.case one) (simp add: demo_user_def)
  also have "empty_world\<lparr>apiKeys := apiKeys empty_world @ [?row], nextKeyId := nextKeyId empty_world + 1\<rparr> = demo_issued_world"
    by (simp add: demo_issued_world_def empty_world_def)
  finally show ?thesis unfolding i by (rule that) (simp_all add: no_store_def)
qed

theorem issued_key_authenticates_witness:
  "\<exists>environment. authenticateApiRequest (\<lambda>s. s) (\<lambda>_. None) [(''authorization'', ''Bearer ow_live_s3cret'')] demo_issued_world
    = (Inr (Some \<lparr>a_id = 1, a_userId = ''u1'', a_environment = environment\<rparr>), demo_issued_world)"
proof -
  obtain r where r: "keys_post int_str (\<lambda>s. s) ''s3cret'' 5 (Some demo_user) (Some demo_key_body) empty_world
      = (Inr (r, [Invalidate (Some ''u1'') (Some ''live'')]), demo_issued_world)" "r_status r = 201"
    "field (r_body r) ''key'' = JStr ''ow_live_s3cret''"
    by (rule demo_keys_post)
  have "\<not> is_ws c" if "c \<in> set ''s3cret''" for c using that by (auto simp: is_ws_def char_code_def)
  moreover have "\<not> is_demo_token (\<lambda>_. None) ''ow_live_s3cret''" by (simp add: is_demo_token_def ambient_keys_def)
  ultimately show ?thesis
    using issued_key_authenticates[OF r(1) _ r(2) _ r(3), of "[(''authorization'', ''Bearer ow_live_s3cret'')]" "\<lambda>_. None"]
    by (auto simp: empty_world_def demo_user_def hdr_get_def)
qed

text \<open>
  A new key shows on the dashboard at once, cache or not: after a creation that is answered
  201 and the invalidation it asks for, the dashboard of that user and environment is read
  afresh and lists the key.
\<close>

theorem issued_key_is_listed:
  assumes "keys_post to_iso sha secret now (Some user) body w = (Inr (r, drops), w')" "outages w = []" "r_status r = 201"
    and "field (r_body r) ''environment'' = JStr environment" "su_id user \<noteq> []"
    and "getDashboardData cal checked started stored (su_id user) environment (apply_invalidations drops c) w'
      = (Inr (d, c'), w'')"
  shows "\<exists>k \<in> set (dd_keys d). k_id k = nextKeyId w \<and> k_userId k = su_id user \<and> k_environment k = environment"
proof -
  obtain name e where e: "e = ''live'' \<or> e = ''test''"
    and w': "w' = w\<lparr>apiKeys := apiKeys w @ [new_key_row (nextKeyId w) (su_id user) name (issueApiKey sha secret e) now],
        nextKeyId := nextKeyId w + 1\<rparr>"
    and drops: "drops = [Invalidate (Some (su_id user)) (Some e)]" and r: "field (r_body r) ''environment'' = JStr e"
    by (rule keys_post_created[OF assms(1-3)]) (rule that; assumption)
  have env: "environment = e" using r assms(4) by simp
  let ?row = "new_key_row (nextKeyId w) (su_id user) name (issueApiKey sha secret e) now"
  have row: "k_environment ?row = e" "k_userId ?row = su_id user" "k_revokedAt ?row = None" "k_id ?row = nextKeyId w"
    using e by (auto simp: new_key_row_def issueApiKey_def Let_def)
  have ne: "e \<noteq> []" using e by auto
  have miss: "map_of (apply_invalidations drops c) (cache_key (su_id user) e) = None"
    using invalidate_map(2)[OF assms(5) ne, of c] by (simp add: drops apply_invalidations_def)
  have up: "outages w' = []" using assms(2) by (simp add: w')
  have "dd_keys d = map live_if_empty (own_keys (su_id user) e w')"
    using assms(6) miss
    by (auto simp: env getDashboardData_def Let_def db_bind_def db_return_def fetch_up[OF up] assemble_def
        split: prod.splits)
  moreover have "?row \<in> set (own_keys (su_id user) e w')"
    by (simp add: own_keys_def latest_def w' row)
  moreover have "live_if_empty ?row = ?row" using ne by (simp add: live_if_empty_def row)
  ultimately have "?row \<in> set (dd_keys d)" by (metis image_eqI set_map)
  with row show ?thesis unfolding env by blast
qed

theorem issued_key_is_listed_witness:
  "\<exists>d c' w''. getDashboardData demo_calendar 0 1 2 ''u1'' ''live'' [] demo_issued_world = (Inr (d, c'), w'')
    \<and> (\<exists>k \<in> set (dd_keys d). k_id k = 1 \<and> k_userId k = ''u1'' \<and> k_environment k = ''live'')"
proof -
  obtain r where r: "keys_post int_str (\<lambda>s. s) ''s3cret'' 5 (Some demo_user) (Some demo_key_body) empty_world
      = (Inr (r, [Invalidate (Some ''u1'') (Some ''live'')]), demo_issued_world)" "r_status r = 201"
    by (rule demo_keys_post)
  have up: "outages empty_world = []" "outages demo_issued_world = []" by (simp_all add: empty_world_def demo_issued_world_def)
  have env: "field (r_body r) ''environment'' = JStr ''live''"
    using keys_post_created[OF r(1) up(1) r(2)] by auto
  obtain d c' w'' where g: "getDashboardData demo_calendar 0 1 2 ''u1'' ''live'' [] demo_issued_world = (Inr (d, c'), w'')"
    by (simp add: getDashboardData_def db_bind_def fetch_up[OF up(2)] db_return_def)
  have "apply_invalidations [Invalidate (Some ''u1'') (Some ''live'')] [] = []"
    by (simp add: apply_invalidations_def invalidateDashboardData_def cache_delete_def)
  with issued_key_is_listed[OF r(1) up(1) r(2) env, of demo_calendar 0 1 2 "[]" d c' w''] g show ?thesis
    by (auto simp: demo_user_def empty_world_def)
qed

section \<open>Stored settings\<close>

text \<open>What the schema of the route promises of a stored row: currency, secret, colour.\<close>

definition settings_ok :: "merchant_settings_row \<Rightarrow> bool" where
  "settings_ok m \<longleftrightarrow> m_currency m \<in> set currencies \<and> 16 \<le> length (m_webhookSecret m)
     \<and> (case m_brandColor m of None \<Rightarrow> True | Some s \<Rightarrow> color_ok s)"

definition settings_typed :: "world \<Rightarrow> bool" where
  "settings_typed w \<longleftrightarrow> list_all settings_ok (merchantSettings w)"

definition typed_kept :: "world \<Rightarrow> world \<Rightarrow> bool" where
  "typed_kept w w' \<longleftrightarrow> (settings_typed w \<longrightarrow> settings_typed w')"

interpretation typed_world: world_relation typed_kept
  by unfold_locales (auto simp: typed_kept_def settings_typed_def)

lemmas typed_intros = typed_world.keeps_return typed_world.keeps_then typed_world.keeps_bind typed_world.keeps_read
  typed_world.keeps_gate

text \<open>The members a patch sets satisfy the schema.\<close>

definition patch_ok :: "settings_patch \<Rightarrow> bool" where
  "patch_ok d \<longleftrightarrow> (case sp_currency d of None \<Rightarrow> True | Some s \<Rightarrow> s \<in> set currencies)
     \<and> (case sp_webhookSecret d of None \<Rightarrow> True | Some s \<Rightarrow> 16 \<le> length s)
     \<and> (case sp_brandColor d of None \<Rightarrow> True | Some s \<Rightarrow> color_ok s)"

lemma default_color_ok: "color_ok DEFAULT_COLOR"
  by code_simp

lemma optional_check: "optional check v = Some (Some s) \<Longrightarrow> check v = Some s"
  by (auto simp: optional_def split: if_splits)

lemma schema_members:
  assumes "settingsUpdateSchema email_ok url_ok v = Some d"
  shows "optional currency_member (field v ''currency'') = Some (sp_currency d)"
    "optional (checked_string (\<lambda>s. 16 \<le> length s)) (field v ''webhookSecret'') = Some (sp_webhookSecret d)"
    "optional (checked_string color_ok) (field v ''brandColor'') = Some (sp_brandColor d)"
  using assms by (cases v; auto simp: settingsUpdateSchema_def bind_eq_Some_conv)+

lemma currency_member: "currency_member v = Some s \<Longrightarrow> s \<in> set currencies"
  by (simp add: currency_member_def split: jsv.splits if_splits)

lemma checked_string: "checked_string P v = Some s \<Longrightarrow> P s"
  by (auto simp: checked_string_def split: jsv.splits if_splits)

lemma schema_patch_ok:
  assumes "settingsUpdateSchema email_ok url_ok v = Some d"
  shows "patch_ok d"
proof -
  note m = schema_members[OF assms]
  have "s \<in> set currencies" if "sp_currency d = Some s" for s
    using m(1) that by (auto dest!: optional_check currency_member)
  moreover have "16 \<le> length s" if "sp_webhookSecret d = Some s" for s
    using m(2) that by (auto dest!: optional_check checked_string)
  moreover have "color_ok s" if "sp_brandColor d = Some s" for s
    using m(3) that by (auto dest!: optional_check checked_string)
  ultimately show ?thesis by (simp add: patch_ok_def split: option.splits)
qed

lemma patch_row_ok: "settings_ok m \<Longrightarrow> patch_ok d \<Longrightarrow> settings_ok (patch_row now d m)"
  by (auto simp: settings_ok_def patch_ok_def patch_row_def split: option.splits)

lemma patched_defaults_ok: "16 \<le> length secret \<Longrightarrow> patch_ok d \<Longrightarrow> settings_ok (patched_defaults now secret u d)"
  using default_color_ok
  by (auto simp: settings_ok_def patch_ok_def patched_defaults_def currencies_def split: option.splits)

lemma initial_ok: "16 \<le> length secret \<Longrightarrow> settings_ok (settings_row now (initial_settings u name email secret))"
  using default_color_ok by (simp add: settings_ok_def settings_row_def initial_settings_def currencies_def)

lemma typed_insert: "settings_ok row \<Longrightarrow> keeps typed_kept (insert_settings row)"
  unfolding insert_settings_def
  by (rule typed_world.keeps_query) (auto simp: keeps_def typed_kept_def settings_typed_def)

lemma typed_upsert:
  "settings_ok row \<Longrightarrow> (\<And>m. settings_ok m \<Longrightarrow> settings_ok (f m)) \<Longrightarrow> keeps typed_kept (upsert_settings row f)"
  unfolding upsert_settings_def
  by (rule typed_world.keeps_query) (auto simp: keeps_def typed_kept_def settings_typed_def list_all_iff)

lemma typed_get: "16 \<le> length secret \<Longrightarrow> keeps typed_kept (getMerchantSettings now secret u name email)"
  unfolding getMerchantSettings_def select_settings_def settings_or_create_def
  by (auto intro!: typed_intros typed_insert initial_ok split: option.splits simp: Let_def)

lemma typed_update:
  assumes "16 \<le> length secret" "16 \<le> length secret'" "patch_ok d"
  shows "keeps typed_kept (updateMerchantSettings now secret secret' u d)"
  unfolding updateMerchantSettings_def
  by (intro typed_intros typed_get typed_upsert patched_defaults_ok patch_row_ok assms)



lemma select_settings_up: "outages w = [] \<Longrightarrow> select_settings u w = (Inr (find (\<lambda>m. m_userId m = u) (merchantSettings w)), w)"
  by (simp add: select_settings_def read_db_up)

text \<open>The server action has no such check: its argument is stored as it comes.\<close>

lemma settings_action_untyped:
  "\<exists>d w'. saveMerchantSettingsAction 0 ''whsec_0123456789'' ''whsec_0123456789'' (Some demo_user)
       (no_patch\<lparr>sp_webhookSecret := Some ''x'', sp_currency := Some ''XXX''\<rparr>) empty_world = (Inr d, w')
     \<and> sd_webhookSecret d = ''x'' \<and> settings_typed empty_world \<and> \<not> settings_typed w'"
  by (simp add: saveMerchantSettingsAction_def updateMerchantSettings_def getMerchantSettings_def settings_or_create_def
      gate_up select_settings_up upsert_settings_def db_query_def db_then_def db_bind_def db_return_def stored_settings_def
      patched_defaults_def no_patch_def demo_user_def empty_world_def settings_typed_def settings_ok_def)

text \<open>
  The first reading of the settings answers with the defaults it tried to insert: when another
  request has inserted the row since the lookup, the secret returned is not the one stored.
\<close>

lemma settings_first_read_race:
  assumes "outages w = []" "m \<in> set (merchantSettings w)" "m_userId m = u" "m_webhookSecret m \<noteq> secret"
  shows "\<exists>d. settings_or_create now secret u name email None w = (Inr d, w) \<and> sd_webhookSecret d \<noteq> m_webhookSecret m"
proof -
  let ?d = "initial_settings u name email secret"
  have "m_userId (settings_row now ?d) = u" by (simp add: settings_row_def initial_settings_def)
  then have "list_ex (\<lambda>m. m_userId m = m_userId (settings_row now ?d)) (merchantSettings w)"
    using assms(2,3) by (auto simp: list_ex_iff)
  then have "insert_settings (settings_row now ?d) w = (Inr (), w)"
    using assms(1) by (simp add: insert_settings_def db_query_def)
  then have "settings_or_create now secret u name email None w = (Inr ?d, w)"
    by (simp add: settings_or_create_def db_then_def db_bind_def db_return_def Let_def)
  moreover have "sd_webhookSecret ?d = secret" by (simp add: initial_settings_def)
  ultimately show ?thesis using assms(4) by metis
qed

section \<open>What an update does\<close>

text \<open>
  The stored row after an update of an existing row: the members of the patch, and the old
  values elsewhere.
\<close>

lemma update_settings_reads_back:
  assumes "outages w = []" "find (\<lambda>m. m_userId m = u) (merchantSettings w) = Some m"
  shows "fst (updateMerchantSettings now secret secret' u d w) = Inr (stored_settings None None (patch_row now d m))"
proof -
  let ?g = "\<lambda>m. if m_userId m = u then patch_row now d m else m"
  have keep: "m_userId (patch_row now d x) = m_userId x" for x by (simp add: patch_row_def)
  have "find (\<lambda>m. m_userId m = u) (map ?g ms) = map_option (patch_row now d) (find (\<lambda>m. m_userId m = u) ms)" for ms
    by (induction ms) (auto simp: keep)
  moreover have "list_ex (\<lambda>m. m_userId m = u) (merchantSettings w)"
    using assms(2) by (auto simp: list_ex_iff find_Some_iff intro: nth_mem)
  ultimately show ?thesis
    using assms by (simp add: updateMerchantSettings_def getMerchantSettings_def gate_up upsert_settings_def db_query_def
        db_then_def db_bind_def db_return_def select_settings_up settings_or_create_def patched_defaults_def)
qed

end
