(* ===== verification/Tenancy.thy ===== *)
theory Tenancy
  imports Graphql Payment_Get Account_Safety
begin

text \<open>
  What a tenant can learn: the answers of the reading routes are functions of the caller's own
  rows. Two worlds look the same to a user when the user's payments, keys, requests and settings
  are the same in both; a computation respects that when it gives the same result from both and
  leaves them looking the same. The last section is the case without a user, where the GraphQL
  resolvers read everybody's rows.
\<close>

section \<open>Computations that look the same\<close>

definition confined :: "(world \<Rightarrow> world \<Rightarrow> bool) \<Rightarrow> 'a db \<Rightarrow> bool" where
  "confined V m \<longleftrightarrow> (\<forall>w v. V w v \<longrightarrow> fst (m w) = fst (m v) \<and> V (snd (m w)) (snd (m v)))"

lemma confinedI:
  "(\<And>w v. V w v \<Longrightarrow> fst (m w) = fst (m v) \<and> V (snd (m w)) (snd (m v))) \<Longrightarrow> confined V m"
  by (simp add: confined_def)

lemma confinedD: "confined V m \<Longrightarrow> V w v \<Longrightarrow> fst (m w) = fst (m v) \<and> V (snd (m w)) (snd (m v))"
  by (simp add: confined_def)

text \<open>
  The interface: a relation between worlds with the same failures to come, which neither a
  failure nor scheduled telemetry can break.
\<close>

locale world_view =
  fixes V :: "world \<Rightarrow> world \<Rightarrow> bool"
  assumes view_outages: "V w v \<Longrightarrow> outages w = outages v"
    and view_consume: "V w v \<Longrightarrow> V (w\<lparr>outages := os\<rparr>) (v\<lparr>outages := os\<rparr>)"
    and view_after: "V w v \<Longrightarrow> V (w\<lparr>afterQueue := ts\<rparr>) (v\<lparr>afterQueue := ts'\<rparr>)"
begin

lemma confined_return: "confined V (db_return x)"
  by (simp add: confined_def db_return_def)

lemma confined_throw: "confined V (db_throw e)"
  by (simp add: confined_def db_throw_def)

text \<open>One run of a sequence, when the first result is known to be the same.\<close>

lemma bind_same:
  assumes "fst (m w) = fst (m v)" "V (snd (m w)) (snd (m v))" "\<And>x. fst (m w) = Inr x \<Longrightarrow> confined V (f x)"
  shows "fst (db_bind m f w) = fst (db_bind m f v) \<and> V (snd (db_bind m f w)) (snd (db_bind m f v))"
proof -
  obtain r w' where w: "m w = (r, w')" by (cases "m w")
  obtain v' where v: "m v = (r, v')" using assms(1) w by (cases "m v") simp
  show ?thesis
    using assms(2,3) w v by (cases r) (auto simp: db_bind_def dest: confinedD)
qed

lemma confined_bind: "confined V m \<Longrightarrow> (\<And>x. confined V (f x)) \<Longrightarrow> confined V (db_bind m f)"
  by (intro confinedI bind_same) (auto dest: confinedD)

lemma confined_then: "confined V m \<Longrightarrow> confined V n \<Longrightarrow> confined V (db_then m n)"
  unfolding db_then_def by (rule confined_bind)

text \<open>A sequence whose second part relies on a fact of the first result.\<close>

lemma confined_bind_result:
  assumes "confined V m" "\<And>w x w'. m w = (Inr x, w') \<Longrightarrow> P x" "\<And>x. P x \<Longrightarrow> confined V (f x)"
  shows "confined V (db_bind m f)"
proof (rule confinedI)
  fix w v assume "V w v"
  then show "fst (db_bind m f w) = fst (db_bind m f v) \<and> V (snd (db_bind m f w)) (snd (db_bind m f v))"
    using confinedD[OF assms(1)] assms(2,3) by (intro bind_same) (auto, metis prod.collapse)
qed

lemma confined_catch:
  assumes "confined V m" "\<And>e. confined V (h e)"
  shows "confined V (db_catch m h)"
proof (rule confinedI)
  fix w v assume wv: "V w v"
  obtain r w' where w: "m w = (r, w')" by (cases "m w")
  obtain v' where v: "m v = (r, v')" using confinedD[OF assms(1) wv] w by (cases "m v") simp
  show "fst (db_catch m h w) = fst (db_catch m h v) \<and> V (snd (db_catch m h w)) (snd (db_catch m h v))"
    using confinedD[OF assms(1) wv] confinedD[OF assms(2)] w v by (cases r) (auto simp: db_catch_def)
qed

lemma confined_query:
  assumes "confined V f"
  shows "confined V (db_query f)"
proof (rule confinedI)
  fix w v assume wv: "V w v"
  show "fst (db_query f w) = fst (db_query f v) \<and> V (snd (db_query f w)) (snd (db_query f v))"
    using view_outages[OF wv] confinedD[OF assms wv] confinedD[OF assms view_consume[OF wv]] view_consume[OF wv]
    by (auto simp: db_query_def split: list.split)
qed

lemma confined_read: "(\<And>w v. V w v \<Longrightarrow> f w = f v) \<Longrightarrow> confined V (read_db f)"
  unfolding read_db_def by (rule confined_query) (auto simp: confined_def)

lemma confined_gate: "confined V schema_gate"
  unfolding schema_gate_def by (rule confined_read) simp

lemma confined_schedule: "confined V (schedule t)"
  by (simp add: confined_def schedule_def view_after)

lemma confined_telemetry: "confined V (scheduleApiRequestRecord key method endpoint st routing environment)"
  unfolding scheduleApiRequestRecord_def by (rule confined_schedule)

lemma confined_answer: "confined V (answer r)"
  unfolding answer_def by (rule confined_return)

lemma confined_both: "confined V m \<Longrightarrow> confined V n \<Longrightarrow> confined V (both m n)"
proof (rule confinedI)
  fix w v assume "confined V m" "confined V n" and wv: "V w v"
  note m = confinedD[OF this(1) wv] and n = confinedD[OF this(2)]
  obtain r w' where w: "m w = (r, w')" by (cases "m w")
  obtain v' where v: "m v = (r, v')" using m w by (cases "m v") simp
  have "V w' v'" using m w v by simp
  from n[OF this] show "fst (both m n w) = fst (both m n v) \<and> V (snd (both m n w)) (snd (both m n v))"
    by (cases "n w'"; cases "n v'") (simp add: both_def w v)
qed

text \<open>Authentication only takes the failures of its statement.\<close>

lemma authenticate_view:
  assumes "V w v"
  shows "V (snd (authenticateApiRequest sha en h w)) (snd (authenticateApiRequest sha en h v))"
proof -
  have snd: "snd (authenticateApiRequest sha en h x) = (if request_token h = [] \<or> is_demo_token en (request_token h)
      \<or> outages x = [] then x else x\<lparr>outages := tl (outages x)\<rparr>)" for x
    by (auto simp: authenticateApiRequest_def select_api_key_def db_query_def db_defs Let_def
        split: list.splits option.splits)
  show ?thesis using assms view_consume view_outages[OF assms] by (simp add: snd)
qed

lemmas confined_intros = confined_return confined_throw confined_then confined_bind confined_catch confined_read
  confined_gate confined_schedule confined_telemetry confined_answer confined_both

end

section \<open>What a user sees\<close>

definition same_view :: "string \<Rightarrow> world \<Rightarrow> world \<Rightarrow> bool" where
  "same_view u w v \<longleftrightarrow> outages w = outages v
     \<and> filter (\<lambda>p. p_userId p = Some u) (payments w) = filter (\<lambda>p. p_userId p = Some u) (payments v)
     \<and> filter (\<lambda>k. k_userId k = u) (apiKeys w) = filter (\<lambda>k. k_userId k = u) (apiKeys v)
     \<and> filter (\<lambda>q. q_userId q = u) (apiRequests w) = filter (\<lambda>q. q_userId q = u) (apiRequests v)
     \<and> filter (\<lambda>m. m_userId m = u) (merchantSettings w) = filter (\<lambda>m. m_userId m = u) (merchantSettings v)"

interpretation own_view: world_view "same_view u"
  by unfold_locales (auto simp: same_view_def)

lemmas own_intros = own_view.confined_intros

text \<open>Conditions that name the user select the same rows.\<close>

lemma filter_own: "(\<And>x. P x \<Longrightarrow> Q x) \<Longrightarrow> filter Q xs = filter Q ys \<Longrightarrow> filter P xs = filter P ys"
proof -
  assume "\<And>x. P x \<Longrightarrow> Q x" "filter Q xs = filter Q ys"
  then have "filter P (filter Q xs) = filter P (filter Q ys)" "\<And>zs. filter P (filter Q zs) = filter P zs"
    by (auto intro: filter_cong)
  then show ?thesis by simp
qed

lemma find_filter_head: "find P xs = (case filter P xs of [] \<Rightarrow> None | x # _ \<Rightarrow> Some x)"
  by (induction xs) auto

lemma find_own: "(\<And>x. P x \<Longrightarrow> Q x) \<Longrightarrow> filter Q xs = filter Q ys \<Longrightarrow> find P xs = find P ys"
  using filter_own[of P Q xs ys] by (simp add: find_filter_head)

lemma filter_update_own:
  "(\<And>p. P (f p) = P p) \<Longrightarrow> filter P (map (\<lambda>p. if c p then f p else p) xs) = map (\<lambda>p. if c p then f p else p) (filter P xs)"
  by (induction xs) auto

lemma view_payments: "same_view u w v \<Longrightarrow> (\<And>p. P p \<Longrightarrow> p_userId p = Some u) \<Longrightarrow> filter P (payments w) = filter P (payments v)"
  by (rule filter_own[of P "\<lambda>p. p_userId p = Some u"]) (auto simp: same_view_def)

lemma view_keys: "same_view u w v \<Longrightarrow> (\<And>k. P k \<Longrightarrow> k_userId k = u) \<Longrightarrow> filter P (apiKeys w) = filter P (apiKeys v)"
  by (rule filter_own[of P "\<lambda>k. k_userId k = u"]) (auto simp: same_view_def)

lemma view_requests: "same_view u w v \<Longrightarrow> (\<And>q. P q \<Longrightarrow> q_userId q = u) \<Longrightarrow> filter P (apiRequests w) = filter P (apiRequests v)"
  by (rule filter_own[of P "\<lambda>q. q_userId q = u"]) (auto simp: same_view_def)

lemma view_settings: "same_view u w v \<Longrightarrow> find (\<lambda>m. m_userId m = u) (merchantSettings w) = find (\<lambda>m. m_userId m = u) (merchantSettings v)"
  by (rule find_own[of _ "\<lambda>m. m_userId m = u"]) (auto simp: same_view_def)

lemma own_select:
  assumes "\<And>p. cond p \<Longrightarrow> p_userId p = Some u"
  shows "confined (same_view u) (select_payment cond)"
proof -
  have "find cond (payments w) = find cond (payments v)" if "same_view u w v" for w v
    by (rule find_own[of _ "\<lambda>p. p_userId p = Some u"]) (use assms that in \<open>auto simp: same_view_def\<close>)
  then show ?thesis
    unfolding select_payment_def by (intro own_view.confined_query) (simp add: confined_def)
qed

lemma own_select_list: "confined (same_view u) (select_payments (\<lambda>p. p_userId p = Some u \<and> P p) n)"
  unfolding select_payments_def
  by (rule own_view.confined_query) (auto simp: confined_def view_payments[where P = "\<lambda>p. p_userId p = Some u \<and> P p"])

lemma own_update: "(\<And>p. p_userId (f p) = p_userId p) \<Longrightarrow> confined (same_view u) (update_payment i f)"
  unfolding update_payment_def
  by (rule own_view.confined_query)
     (simp add: confined_def same_view_def filter_update_own[where P = "\<lambda>p. p_userId p = Some u"])

section \<open>The payment routes\<close>

lemma own_find: "confined (same_view u) (find_payment u i)"
  unfolding find_payment_def by (auto intro!: own_intros own_select split: option.splits)

lemma own_refreshed: "confined (same_view u) (refreshed_payment sv retrieve h version i p)"
proof -
  have "confined (same_view u) (gateway_refresh sv h version i p)"
    unfolding gateway_refresh_def Let_def
    by (auto intro!: own_intros own_update simp: store_resolution_def split: gateway_result.splits)
  moreover have "confined (same_view u) (stripe_refresh sv retrieve h p rs)" for rs
    unfolding stripe_refresh_def Let_def
    by (auto intro!: own_intros own_update simp: settle_session_def split: sum.splits option.splits)
  ultimately show ?thesis
    unfolding refreshed_payment_def by (auto intro!: own_intros)
qed

text \<open>
  C17. Reading payments reveals nothing of other tenants: when the same key is found in two worlds
  in which its user has the same rows, the list of payments and the lookup of any identifier
  are answered the same, byte for byte, whatever the payments, keys, requests and settings of
  others are, and whatever gateway, Stripe and database answer.
\<close>

theorem payment_reads_see_own_rows:
  assumes "same_view (a_userId k) w v"
    and "fst (authenticateApiRequest (pf_sha (sv_pf sv)) (pf_env (sv_pf sv)) h w) = Inr (Some k)"
    and "fst (authenticateApiRequest (pf_sha (sv_pf sv)) (pf_env (sv_pf sv)) h v) = Inr (Some k)"
  shows "fst (payments_get sv to_num rawVersion h limit w) = fst (payments_get sv to_num rawVersion h limit v)
    \<and> fst (payment_get sv retrieve rawVersion rawId h w) = fst (payment_get sv retrieve rawVersion rawId h v)"
proof -
  let ?u = "a_userId k" and ?auth = "authenticateApiRequest (pf_sha (sv_pf sv)) (pf_env (sv_pf sv)) h"
  have bind: "fst (db_bind ?auth f w) = fst (db_bind ?auth f v)" if "confined (same_view ?u) (f (Some k))" for f :: "auth_key option \<Rightarrow> response db"
    using own_view.bind_same[of ?auth w v ?u f] own_view.authenticate_view[OF assms(1)] assms(2,3) that by auto
  have "fst (payments_get sv to_num rawVersion h limit w) = fst (payments_get sv to_num rawVersion h limit v)"
    unfolding payments_get_def Let_def
    by (cases "validateApiVersion rawVersion", simp add: db_return_def)
       (auto intro!: bind own_intros own_select_list split: option.splits)
  moreover have "fst (payment_get sv retrieve rawVersion rawId h w) = fst (payment_get sv retrieve rawVersion rawId h v)"
    unfolding payment_get_def Let_def
    by (cases "validateApiVersion rawVersion", simp add: db_return_def)
       (auto intro!: bind own_intros own_find own_refreshed split: option.splits)
  ultimately show ?thesis ..
qed

lemma demo_keys_request: "fst (authenticateApiRequest (\<lambda>s. s) (\<lambda>_. None) [(''x-api-key'', ''ow_live_abc'')] (demo_keys_world\<lparr>payments := ps\<rparr>))
  = Inr (Some \<lparr>a_id = 7, a_userId = ''u1'', a_environment = ''live''\<rparr>)"
proof -
  have "\<not> is_demo_token (\<lambda>_. None) ''ow_live_abc''" by (simp add: is_demo_token_def ambient_keys_def)
  then show ?thesis by (subst authenticate_unfold) (simp_all add: demo_token demo_hash demo_keys_world_def empty_world_def)
qed

text \<open>A payment of somebody else.\<close>

definition foreign_payment :: payment_row where
  "foreign_payment = (demo_payment ''p9'' ''stripe'' ''pending'')\<lparr>p_userId := Some ''u2''\<rparr>"

theorem payment_reads_see_own_rows_witness:
  "fst (payment_get (demo_services (\<lambda>_. None)) (\<lambda>_ _. Inl SyntaxError) ''v1'' ''p9'' [(''x-api-key'', ''ow_live_abc'')]
       (demo_keys_world\<lparr>payments := [foreign_payment]\<rparr>))
   = fst (payment_get (demo_services (\<lambda>_. None)) (\<lambda>_ _. Inl SyntaxError) ''v1'' ''p9'' [(''x-api-key'', ''ow_live_abc'')]
       (demo_keys_world\<lparr>payments := []\<rparr>))"
proof -
  have "same_view ''u1'' (demo_keys_world\<lparr>payments := [foreign_payment]\<rparr>) (demo_keys_world\<lparr>payments := []\<rparr>)"
    by (simp add: same_view_def foreign_payment_def)
  then show ?thesis
    using payment_reads_see_own_rows[of "\<lparr>a_id = 7, a_userId = ''u1'', a_environment = ''live''\<rparr>"
        "demo_keys_world\<lparr>payments := [foreign_payment]\<rparr>" "demo_keys_world\<lparr>payments := []\<rparr>" "demo_services (\<lambda>_. None)"
        "[(''x-api-key'', ''ow_live_abc'')]"]
    by (simp add: demo_services_def demo_pf_def demo_keys_request)
qed

section \<open>The dashboard and the account\<close>

lemma own_fetch: "confined (same_view u) (fetchDashboardDataUncached cal now u environment)"
proof -
  have "own_payments u environment w = own_payments u environment v" "own_keys u environment w = own_keys u environment v"
    "own_requests u environment w = own_requests u environment v" if "same_view u w v" for w v
    unfolding own_payments_def own_keys_def own_requests_def
    by (auto intro!: arg_cong[where f = "latest k_createdAt"] view_payments[OF that] view_keys[OF that] view_requests[OF that])
  then show ?thesis
    unfolding fetchDashboardDataUncached_def Let_def requests_since_def payments_since_def
    by (auto intro!: own_intros split: prod.splits)
qed

lemma own_dashboard: "confined (same_view u) (getDashboardData cal checked started stored u environment c)"
  unfolding getDashboardData_def Let_def
  by (auto intro!: own_intros own_fetch split: option.splits)

lemma own_keys_get: "confined (same_view (su_id user)) (keys_get to_iso (Some user) envParam)"
  unfolding keys_get_def Let_def
  by (auto intro!: own_intros view_keys simp: view_keys)

lemma own_insert_settings: "m_userId row = u \<Longrightarrow> confined (same_view u) (insert_settings row)"
  unfolding insert_settings_def
proof (rule own_view.confined_query, rule confinedI)
  fix w v assume u: "m_userId row = u" and wv: "same_view u w v"
  have "list_ex (\<lambda>m. m_userId m = u) (merchantSettings w) = list_ex (\<lambda>m. m_userId m = u) (merchantSettings v)"
    using view_settings[OF wv] by (metis (no_types, lifting) find_None_iff list_ex_iff)
  then show "fst (Inr (), if list_ex (\<lambda>m. m_userId m = m_userId row) (merchantSettings w) then w
      else w\<lparr>merchantSettings := merchantSettings w @ [row]\<rparr>) = fst (Inr (), if list_ex (\<lambda>m. m_userId m = m_userId row) (merchantSettings v) then v
      else v\<lparr>merchantSettings := merchantSettings v @ [row]\<rparr>)
    \<and> same_view u (snd (Inr (), if list_ex (\<lambda>m. m_userId m = m_userId row) (merchantSettings w) then w
      else w\<lparr>merchantSettings := merchantSettings w @ [row]\<rparr>)) (snd (Inr (), if list_ex (\<lambda>m. m_userId m = m_userId row) (merchantSettings v) then v
      else v\<lparr>merchantSettings := merchantSettings v @ [row]\<rparr>))"
    using wv u by (simp add: same_view_def)
qed

lemma own_settings_get: "confined (same_view (su_id user)) (settings_get to_iso now secret (Some user))"
  unfolding settings_get_def getMerchantSettings_def select_settings_def settings_or_create_def Let_def
  by (auto intro!: own_intros own_insert_settings view_settings simp: settings_row_def initial_settings_def split: option.splits)

section \<open>The resolvers\<close>

text \<open>A context with a user, as a session or a key gives it.\<close>

definition user_context :: "string \<Rightarrow> gql_context \<Rightarrow> bool" where
  "user_context u ctx \<longleftrightarrow> gc_userId ctx = Some u \<and> u \<noteq> []"

lemma user_context_owned: "user_context u ctx \<Longrightarrow> owned ctx p = (p_userId p = Some u)"
  by (simp add: user_context_def owned_def)

lemma own_resolvers:
  assumes "user_context u ctx"
  shows "confined (same_view u) (resolve_payment ctx i)"
    "confined (same_view u) (resolve_payments ctx status provider limit offset)"
    "confined (same_view u) (resolve_metrics cal t1 t2 t3 ctx c)"
    "confined (same_view u) (resolve_timeline cal t1 t2 t3 ctx days c)"
proof -
  have u: "effective_user ctx = u" using assms by (simp add: effective_user_def user_context_def or_else_def)
  show "confined (same_view u) (resolve_payment ctx i)"
    unfolding resolve_payment_def using user_context_owned[OF assms] by (intro own_select) simp
  show "confined (same_view u) (resolve_payments ctx status provider limit offset)"
    unfolding resolve_payments_def user_context_owned[OF assms]
    by (intro own_view.confined_read) (simp add: view_payments)
  show "confined (same_view u) (resolve_metrics cal t1 t2 t3 ctx c)"
    "confined (same_view u) (resolve_timeline cal t1 t2 t3 ctx days c)"
    unfolding resolve_metrics_def resolve_timeline_def gql_dashboard_def u
    by (auto intro!: own_intros own_dashboard split: prod.splits)
qed

text \<open>
  C18. A signed-in user sees the own account only: when two worlds look the same to the user, the
  dashboard (from any cache), the list of keys, the settings, and the GraphQL resolvers for
  payments, metrics and timeline give the same results in both, whatever is stored for others
  and whatever fails.
\<close>

theorem session_reads_see_own_rows:
  assumes "same_view (su_id user) w v" "user_context (su_id user) ctx"
  shows "fst (getDashboardData cal t1 t2 t3 (su_id user) environment c w) = fst (getDashboardData cal t1 t2 t3 (su_id user) environment c v)
    \<and> fst (keys_get to_iso (Some user) envParam w) = fst (keys_get to_iso (Some user) envParam v)
    \<and> fst (settings_get to_iso now secret (Some user) w) = fst (settings_get to_iso now secret (Some user) v)
    \<and> fst (resolve_payment ctx i w) = fst (resolve_payment ctx i v)
    \<and> fst (resolve_payments ctx status provider limit offset w) = fst (resolve_payments ctx status provider limit offset v)
    \<and> fst (resolve_metrics cal t1 t2 t3 ctx c w) = fst (resolve_metrics cal t1 t2 t3 ctx c v)
    \<and> fst (resolve_timeline cal t1 t2 t3 ctx days c w) = fst (resolve_timeline cal t1 t2 t3 ctx days c v)"
  by (intro conjI own_resolvers[OF assms(2), THEN confinedD, OF assms(1), THEN conjunct1]
      own_dashboard[THEN confinedD, OF assms(1), THEN conjunct1] own_keys_get[THEN confinedD, OF assms(1), THEN conjunct1]
      own_settings_get[THEN confinedD, OF assms(1), THEN conjunct1])

theorem session_reads_see_own_rows_witness:
  "fst (resolve_payments (no_context\<lparr>gc_userId := Some ''u1''\<rparr>) None None None None (demo_world [foreign_payment]))
    = fst (resolve_payments (no_context\<lparr>gc_userId := Some ''u1''\<rparr>) None None None None (demo_world []))"
proof -
  have "same_view (su_id demo_user) (demo_world [foreign_payment]) (demo_world [])"
    by (simp add: same_view_def foreign_payment_def demo_world_def demo_user_def)
  moreover have "user_context (su_id demo_user) (no_context\<lparr>gc_userId := Some ''u1''\<rparr>)"
    by (simp add: user_context_def demo_user_def)
  ultimately show ?thesis using session_reads_see_own_rows by blast
qed

section \<open>Without a user\<close>

text \<open>
  The resolvers of payments restrict to the owner only when the context has a user. A request
  without session and key runs them in \<open>no_context\<close>.
\<close>

lemma no_context_not_owned [simp]: "owned no_context p"
  by (simp add: owned_def no_context_def)

lemma anonymous_context:
  assumes "request_token h = []"
  shows "request_context sha en (Inr None) h w = (Inr (no_context, None), w)"
  using assms by (simp add: request_context_def authenticateApiRequest_def db_catch_def db_bind_def db_return_def
      no_context_def)

text \<open>
  C19. An unauthenticated GraphQL request reads every tenant's payments: without a session and
  without a key the context has no user, and then any stored payment is returned by its
  identifier, and the list of payments is the page of all payments of all tenants.
\<close>

theorem graphql_anonymous_reads_all:
  assumes "request_token h = []" "outages w = []" "distinct (map p_id (payments w))" "p \<in> set (payments w)"
  shows "request_context sha en (Inr None) h w = (Inr (no_context, None), w)
    \<and> resolve_payment no_context (p_id p) w = (Inr (Some p), w)
    \<and> resolve_payments no_context None None limit offset w = (Inr (page limit offset (latest p_createdAt (payments w))), w)"
proof -
  have "q = p" if "q \<in> set (payments w)" "p_id q = p_id p" for q
    using that assms(3,4) by (auto simp: distinct_map inj_on_def)
  then have "find (\<lambda>q. p_id q = p_id p) (payments w) = Some p"
    using assms(4) by (intro find_unique) auto
  then show ?thesis
    using anonymous_context[OF assms(1)] assms(2)
    by (simp add: resolve_payment_def resolve_payments_def select_payment_def db_query_def read_db_up)
qed

theorem graphql_anonymous_reads_all_witness:
  "resolve_payment no_context ''p9'' (demo_world [foreign_payment]) = (Inr (Some foreign_payment), demo_world [foreign_payment])"
proof -
  have "p_id foreign_payment = ''p9''" by (simp add: foreign_payment_def demo_payment_def)
  moreover have "request_token [] = []" by (simp add: request_token_def hdr_get_def)
  ultimately show ?thesis
    using graphql_anonymous_reads_all[of "[]" "demo_world [foreign_payment]" foreign_payment]
    by (simp add: demo_world_def empty_world_def)
qed

end
