(* ===== verification/Webhooks.thy ===== *)
theory Webhooks
  imports Ledger Request Gateway Signatures
begin

text \<open>
  The inbound webhooks: the handlers \<open>apps/web/app/api/webhooks/{fawry,paymob,stripe,mock}/route.ts\<close>
  and their dispatcher \<open>app/api/[version]/webhooks/[provider]/route.ts\<close>.

  Every handler reads the body, verifies its signature, looks a payment up, settles it unless
  it already is in another terminal state, and records the event. \<open>now\<close> is the clock and
  \<open>uuid\<close> the value of \<open>randomUUID()\<close>. The mock handler races its database work with a
  timer and answers the same in both cases; the model runs the work to its end.
\<close>

section \<open>Shared steps\<close>

record wh_request =
  wr_headers :: headers
  wr_query_hmac :: "string option"
  wr_body :: "body_stream option"

definition plain_error :: "nat \<Rightarrow> string \<Rightarrow> response" where
  "plain_error st msg = json_response st [(''error'', JStr msg)]"

text \<open>\<open>String(payload.a || payload.b || d)\<close>.\<close>

definition text_field :: "jsv \<Rightarrow> string list \<Rightarrow> jsv \<Rightarrow> string" where
  "text_field payload names d = js_String (foldr (\<lambda>k rest. jor (field payload k) rest) names d)"

definition is_illegal :: "payment_row \<Rightarrow> string \<Rightarrow> bool" where
  "is_illegal found status \<longleftrightarrow> is_terminal (p_status found) \<and> p_status found \<noteq> status"

text \<open>
  The block after the lookup: the identifier of the payment found, which is updated unless
  that would leave a terminal state. \<open>f found\<close> are the columns set, computed from the row read.
\<close>

definition settle_found ::
  "payment_row option \<Rightarrow> string \<Rightarrow> (payment_row \<Rightarrow> payment_row \<Rightarrow> payment_row) \<Rightarrow> string option db" where
  "settle_found r status f =
     (case r of
        None \<Rightarrow> db_return None
      | Some found \<Rightarrow>
          if is_illegal found status then db_return (Some (p_id found))
          else db_then (update_payment (p_id found) (f found)) (db_return (Some (p_id found))))"

definition log_event :: "string \<Rightarrow> string \<Rightarrow> string option \<Rightarrow> int \<Rightarrow> unit db" where
  "log_event eventId provider paymentId now =
     insert_webhook_event \<lparr>e_eventId = eventId, e_provider = provider, e_paymentId = paymentId,
       e_payloadJson = None, e_signature = None, e_receivedAt = now\<rparr>"

text \<open>The body of the handler once the payload is parsed: \<open>payload.x\<close> throws on \<open>null\<close>.\<close>

definition with_payload ::
  "platform \<Rightarrow> wh_request \<Rightarrow> (string \<Rightarrow> jsv \<Rightarrow> response db) \<Rightarrow> response db" where
  "with_payload pf req k =
     (case readLimitedTextBody (pf_decode pf) 1000000 (wr_body req) of
        Inl e \<Rightarrow> db_throw e
      | Inr None \<Rightarrow> db_return (plain_error 413 ''Request body too large'')
      | Inr (Some rawBody) \<Rightarrow>
          (case pf_parse pf rawBody of
             None \<Rightarrow> db_return (plain_error 400 ''Invalid JSON'')
           | Some payload \<Rightarrow> k rawBody payload))"

section \<open>Fawry\<close>

record fawry_notice =
  fn_fawryRefNumber :: string
  fn_merchantRefNumber :: string
  fn_paymentAmount :: string
  fn_orderAmount :: string
  fn_orderStatus :: string
  fn_paymentMethod :: string
  fn_paymentRefNumber :: string
  fn_signature :: string

definition fawry_notice_of :: "jsv \<Rightarrow> fawry_notice" where
  "fawry_notice_of payload =
     (let paymentAmount = text_field payload [''paymentAmount'', ''amount''] (JStr []) in
      \<lparr>fn_fawryRefNumber = text_field payload [''fawryRefNumber'', ''referenceNumber''] (JStr []),
       fn_merchantRefNumber = text_field payload [''merchantRefNumber'', ''merchantRefNum''] (JStr []),
       fn_paymentAmount = paymentAmount,
       fn_orderAmount = text_field payload [''orderAmount''] (JStr paymentAmount),
       fn_orderStatus = text_field payload [''orderStatus'', ''paymentStatus''] (JStr []),
       fn_paymentMethod = text_field payload [''paymentMethod''] (JStr ''PAYATFAWRY''),
       fn_paymentRefNumber = text_field payload [''paymentRefrenceNumber'', ''paymentReferenceNumber''] (JStr []),
       fn_signature = text_field payload [''messageSignature'', ''signature''] (JStr [])\<rparr>)"

definition fawry_status :: "string \<Rightarrow> string" where
  "fawry_status orderStatus =
     (if js_upper orderStatus = ''PAID'' \<or> js_upper orderStatus = ''SUCCESS'' then ''succeeded''
      else if js_upper orderStatus = ''UNPAID'' \<or> js_upper orderStatus = ''NEW'' then ''pending''
      else ''failed'')"

definition fawry_verified :: "platform \<Rightarrow> string \<Rightarrow> fawry_notice \<Rightarrow> bool" where
  "fawry_verified pf secureKey n =
     verifyFawryWebhookSignature (pf_sha pf) (fn_fawryRefNumber n) (fn_merchantRefNumber n)
       (fn_paymentAmount n) (fn_orderAmount n) (fn_orderStatus n) (fn_paymentMethod n)
       (js_or (Some (fn_paymentRefNumber n)) None) secureKey (fn_signature n)"

definition set_status_and_reference ::
  "int \<Rightarrow> string \<Rightarrow> string \<Rightarrow> payment_row \<Rightarrow> payment_row \<Rightarrow> payment_row" where
  "set_status_and_reference now status reference found row =
     row\<lparr>p_status := status, p_providerReference := js_or (Some reference) (p_providerReference found),
         p_updatedAt := now\<rparr>"

definition fawry_find :: "fawry_notice \<Rightarrow> payment_row option db" where
  "fawry_find n =
     (if fn_merchantRefNumber n \<noteq> [] \<or> fn_fawryRefNumber n \<noteq> [] then
        select_payment (if fn_merchantRefNumber n \<noteq> []
          then (\<lambda>p. p_provider p = ''fawry'' \<and> p_merchantReference p = Some (fn_merchantRefNumber n))
          else (\<lambda>p. p_provider p = ''fawry'' \<and> p_providerReference p = Some (fn_fawryRefNumber n)))
      else db_return None)"

definition fawry_webhook :: "platform \<Rightarrow> int \<Rightarrow> string \<Rightarrow> wh_request \<Rightarrow> response db" where
  "fawry_webhook pf now uuid req =
     with_payload pf req (\<lambda>rawBody payload.
       if payload = JNull then db_throw (TypeError ''null payload'')
       else
         (let config = getFawryConfig (pf_env pf) None None None;
              n = fawry_notice_of payload
          in if 255 < length (fn_fawryRefNumber n) \<or> 255 < length (fn_merchantRefNumber n) then
               db_return (plain_error 400 ''Invalid webhook identifiers'')
             else case config of
               None \<Rightarrow> db_return (plain_error 503 ''Fawry webhook verification is not configured'')
             | Some c \<Rightarrow>
                 if fn_signature n = [] then db_return (plain_error 401 ''Missing signature'')
                 else if \<not> fawry_verified pf (fc_secureKey c) n then
                   db_return (plain_error 401 ''Invalid signature'')
                 else
                   (let status = fawry_status (fn_orderStatus n) in
                    db_bind (fawry_find n) (\<lambda>found.
                    db_bind (settle_found found status
                        (set_status_and_reference now status (fn_fawryRefNumber n))) (\<lambda>paymentId.
                    db_then (log_event (''fw_evt_'' @ or_else (Some (fn_fawryRefNumber n)) uuid) ''fawry'' paymentId now)
                      (db_return (json_response 200 [(''received'', JBool True), (''status'', JStr status)])))))))"

section \<open>Paymob\<close>

definition js_is_true :: "jsv \<Rightarrow> bool" where
  "js_is_true v \<longleftrightarrow> v = JBool True \<or> v = JStr ''true''"

definition paymob_status :: "jsv \<Rightarrow> string" where
  "paymob_status obj =
     (if js_is_true (field obj ''pending'') then ''pending''
      else if js_is_true (field obj ''success'') then ''succeeded'' else ''failed'')"

text \<open>\<open>queryHmac || payload.hmac || header\<close>: a member of the payload may be any value.\<close>

definition paymob_received_hmac :: "wh_request \<Rightarrow> jsv \<Rightarrow> jsv" where
  "paymob_received_hmac req payload =
     jor (jor (jstr_or_null (wr_query_hmac req)) (field payload ''hmac''))
       (jstr_or_null (hdr_get (wr_headers req) ''x-paymob-hmac''))"

text \<open>\<open>verifyPaymobHmac\<close> on that value: \<open>null\<close> payloads and digests that are no strings throw.\<close>

definition paymob_verified :: "platform \<Rightarrow> string \<Rightarrow> jsv \<Rightarrow> jsv \<Rightarrow> js_exn + bool" where
  "paymob_verified pf hmacSecret payload receivedHmac =
     (if payload = JNull then Inl (TypeError ''null payload'')
      else case receivedHmac of
        JStr s \<Rightarrow> Inr (verifyPaymobHmac (pf_hmac_sha512 pf) (pf_env pf) payload s (Some hmacSecret))
      | _ \<Rightarrow> Inl (TypeError ''toLowerCase''))"

definition paymob_find :: "string \<Rightarrow> payment_row option db" where
  "paymob_find specialReference =
     (if specialReference \<noteq> [] then
        select_payment (\<lambda>p. p_provider p = ''paymob'' \<and> p_merchantReference p = Some specialReference)
      else db_return None)"

definition paymob_webhook :: "platform \<Rightarrow> int \<Rightarrow> string \<Rightarrow> wh_request \<Rightarrow> response db" where
  "paymob_webhook pf now uuid req =
     with_payload pf req (\<lambda>rawBody payload.
       if payload = JNull \<and> \<not> truthy (wr_query_hmac req) then db_throw (TypeError ''null payload'')
       else
         (let receivedHmac = paymob_received_hmac req payload in
          case getPaymobConfig (pf_env pf) no_paymob_override of
            None \<Rightarrow> db_return (plain_error 503 ''Paymob webhook verification is not configured'')
          | Some c \<Rightarrow>
              if \<not> js_truthy receivedHmac then db_return (plain_error 401 ''Missing HMAC signature'')
              else case paymob_verified pf (pc_hmacSecret c) payload receivedHmac of
                Inl e \<Rightarrow> db_throw e
              | Inr False \<Rightarrow> db_return (plain_error 401 ''Invalid HMAC signature'')
              | Inr True \<Rightarrow>
                (let obj = jor (field payload ''obj'') payload;
                     transactionId = text_field obj [''id''] (JStr []);
                     specialReference = text_field obj [''special_reference'', ''merchant_order_id''] (JStr [])
                 in if 255 < length transactionId \<or> 255 < length specialReference then
                      db_return (plain_error 400 ''Invalid webhook identifiers'')
                    else
                      (let status = paymob_status obj in
                       db_bind (paymob_find specialReference) (\<lambda>found.
                       db_bind (settle_found found status
                           (set_status_and_reference now status transactionId)) (\<lambda>paymentId.
                       db_then (log_event (''pm_evt_'' @ or_else (Some transactionId) uuid) ''paymob'' paymentId now)
                         (db_return (json_response 200 [(''received'', JBool True), (''status'', JStr status)]))))))))"

section \<open>Stripe\<close>

text \<open>
  \<open>construct_ev\<close> is \<open>stripe.webhooks.constructEvent\<close>: the event of a body, a signature and a
  secret, \<open>None\<close> when it throws. An event has an identifier, a type and its checkout session.
\<close>

record stripe_checkout =
  sc_id :: string
  sc_payment_status :: string

record stripe_event =
  ev_id :: string
  ev_type :: string
  ev_session :: "stripe_checkout option"

type_synonym construct_event = "string \<Rightarrow> string \<Rightarrow> string \<Rightarrow> stripe_event option"

definition checkoutEvents :: "string list" where
  "checkoutEvents = [''checkout.session.completed'', ''checkout.session.async_payment_succeeded'',
     ''checkout.session.async_payment_failed'', ''checkout.session.expired'']"

definition stripe_status :: "string \<Rightarrow> stripe_checkout \<Rightarrow> string" where
  "stripe_status type session =
     (if sc_payment_status session = ''paid'' then ''succeeded''
      else if ends_with type ''failed'' \<or> ends_with type ''expired'' then ''failed'' else ''pending'')"

definition stripe_process :: "int \<Rightarrow> stripe_event \<Rightarrow> response db" where
  "stripe_process now event =
     (let settle = (case ev_session event of
            Some session \<Rightarrow>
              if ev_type event \<in> set checkoutEvents \<and> sc_id session \<noteq> [] then
                (let status = stripe_status (ev_type event) session in
                 db_bind (select_payment (\<lambda>p. p_providerReference p = Some (sc_id session))) (\<lambda>found.
                   settle_found found status (\<lambda>_ row. row\<lparr>p_status := status, p_updatedAt := now\<rparr>)))
              else db_return None
          | None \<Rightarrow> db_return None);
          eventId = or_else (Some (ev_id event)) (''evt_'' @ int_str now)
      in db_bind settle (\<lambda>paymentId.
         db_then (log_event eventId ''stripe'' paymentId now)
           (db_return (json_response 200 [(''received'', JBool True), (''eventId'', JStr eventId)]))))"

definition stripe_webhook :: "platform \<Rightarrow> construct_event \<Rightarrow> int \<Rightarrow> wh_request \<Rightarrow> response db" where
  "stripe_webhook pf construct_ev now req =
     (case readLimitedTextBody (pf_decode pf) 1000000 (wr_body req) of
        Inl e \<Rightarrow> db_return (plain_error 400 ''Failed to read request body'')
      | Inr None \<Rightarrow> db_return (plain_error 413 ''Request body too large'')
      | Inr (Some rawBody) \<Rightarrow>
          if length rawBody < 2 then db_return (plain_error 400 ''Empty request body'')
          else
            (let secret = pf_env pf ''STRIPE_WEBHOOK_SECRET'';
                 signature = hdr_get (wr_headers req) ''stripe-signature''
             in if \<not> truthy secret then
                  db_return (plain_error 503 ''Stripe webhook verification is not configured'')
                else if \<not> truthy signature then
                  db_return (plain_error 401 ''Missing stripe-signature header'')
                else case construct_ev rawBody (the signature) (the secret) of
                  None \<Rightarrow> db_return (plain_error 401 ''Invalid Stripe signature'')
                | Some event \<Rightarrow>
                    db_catch (stripe_process now event)
                      (\<lambda>err. db_return (plain_error 500 ''Webhook processing error''))))"

section \<open>Mock\<close>

definition DEFAULT_MOCK_SECRET :: string where
  "DEFAULT_MOCK_SECRET = ''mock_default_secret_key_for_testing_purposes''"

definition mock_signature_ok :: "platform \<Rightarrow> string \<Rightarrow> string \<Rightarrow> bool" where
  "mock_signature_ok pf rawBody sigHeader =
     (let secret = or_else (pf_env pf ''OPENWRAPPER_MOCK_HMAC_SECRET'') DEFAULT_MOCK_SECRET;
          cleanSig = (if starts_with sigHeader ''sha256='' then drop 7 sigHeader else sigHeader);
          expectedBuffer = utf8 (pf_hmac_sha256 pf secret rawBody);
          actualBuffer = utf8 cleanSig
      in length expectedBuffer = length actualBuffer \<and> expectedBuffer = actualBuffer)"

record mock_notice =
  mn_eventId :: string
  mn_providerRef :: string
  mn_merchantRef :: string
  mn_status :: string
  mn_paymentId :: string

definition mock_status :: "string \<Rightarrow> string" where
  "mock_status rawStatus =
     (if rawStatus = ''succeeded'' \<or> rawStatus = ''success'' \<or> rawStatus = ''paid'' then ''succeeded''
      else if rawStatus = ''pending'' then ''pending'' else ''failed'')"

definition mock_notice_of :: "string \<Rightarrow> jsv \<Rightarrow> mock_notice" where
  "mock_notice_of uuid payload =
     \<lparr>mn_eventId = text_field payload [''event_id'', ''eventId''] (JStr (''mock_evt_'' @ uuid)),
      mn_providerRef = text_field payload [''provider_reference'', ''providerReference''] (JStr []),
      mn_merchantRef = text_field payload [''merchant_reference'', ''merchantReference''] (JStr []),
      mn_status = mock_status (js_lower (text_field payload [''status''] (JStr ''succeeded''))),
      mn_paymentId = text_field payload [''payment_id'', ''paymentId'', ''id''] (JStr [])\<rparr>"

definition mock_find :: "mock_notice \<Rightarrow> payment_row option db" where
  "mock_find n =
     db_bind (if mn_paymentId n \<noteq> [] then select_payment (\<lambda>p. p_id p = mn_paymentId n)
              else db_return None) (\<lambda>foundPayment.
       if foundPayment = None \<and> (mn_merchantRef n \<noteq> [] \<or> mn_providerRef n \<noteq> []) then
         select_payment (if mn_merchantRef n \<noteq> []
           then (\<lambda>p. p_merchantReference p = Some (mn_merchantRef n))
           else (\<lambda>p. p_providerReference p = Some (mn_providerRef n)))
       else db_return foundPayment)"

definition mock_set :: "int \<Rightarrow> mock_notice \<Rightarrow> payment_row \<Rightarrow> payment_row \<Rightarrow> payment_row" where
  "mock_set now n found row =
     row\<lparr>p_status := mn_status n,
         p_providerReference := js_or (Some (mn_providerRef n)) (p_providerReference found),
         p_nextActionType := (if is_terminal (mn_status n) then None else p_nextActionType found),
         p_nextActionPayload := (if is_terminal (mn_status n) then None else p_nextActionPayload found),
         p_updatedAt := now\<rparr>"

definition mock_work :: "int \<Rightarrow> mock_notice \<Rightarrow> unit db" where
  "mock_work now n =
     db_bind (mock_find n) (\<lambda>foundPayment.
     db_bind (settle_found foundPayment (mn_status n) (mock_set now n)) (\<lambda>paymentId.
       log_event (mn_eventId n) ''mock'' paymentId now))"

definition mock_webhook :: "platform \<Rightarrow> int \<Rightarrow> string \<Rightarrow> wh_request \<Rightarrow> response db" where
  "mock_webhook pf now uuid req =
     with_payload pf req (\<lambda>rawBody payload.
       (let sigHeader = or_else (js_or (hdr_get (wr_headers req) ''x-mock-signature'')
                (hdr_get (wr_headers req) ''x-signature'')) []
        in if sigHeader \<noteq> [] \<and> \<not> mock_signature_ok pf rawBody sigHeader then
             db_return (plain_error 401 ''Invalid signature'')
           else if payload = JNull then db_throw (TypeError ''null payload'')
           else
             (let n = mock_notice_of uuid payload in
              db_then (db_catch (mock_work now n) (\<lambda>_. db_return ()))
                (db_return (json_response 200
                  [(''received'', JBool True), (''provider'', JStr ''mock''), (''status'', JStr (mn_status n))])))))"

section \<open>The dispatcher\<close>

definition provider_webhook ::
  "platform \<Rightarrow> construct_event \<Rightarrow> int \<Rightarrow> string \<Rightarrow> string \<Rightarrow> string \<Rightarrow> wh_request \<Rightarrow> response db" where
  "provider_webhook pf construct_ev now uuid rawVersion provider req =
     (case validateApiVersion rawVersion of
        Inl errorResponse \<Rightarrow> db_return errorResponse
      | Inr version \<Rightarrow>
          (let normalized = js_trim (js_lower provider) in
           if normalized = ''fawry'' then fawry_webhook pf now uuid req
           else if normalized = ''paymob'' then paymob_webhook pf now uuid req
           else if normalized = ''stripe'' then stripe_webhook pf construct_ev now req
           else if normalized = ''mock'' then mock_webhook pf now uuid req
           else db_return (error_response 400 ''unsupported_provider''
             (''Webhook provider '' @ [CHR 0x27] @ provider @ [CHR 0x27]
               @ '' is not supported. Valid providers: paymob, fawry, stripe, mock.''))))"

section \<open>What every handler keeps\<close>

lemma settle_found_settled:
  assumes "found_in r w" and "\<And>p. p_status (f p p) = status \<and> same_money p (f p p)"
  shows "keyed settled_kept w (snd (settle_found r status f w))"
proof (cases r)
  case None
  then show ?thesis by (simp add: settle_found_def db_return_def settled.keyed_same)
next
  case (Some p)
  then have p: "p \<in> set (payments w)" using assms(1) by (simp add: found_in_def)
  show ?thesis
  proof (cases "is_illegal p status")
    case True
    with Some show ?thesis by (simp add: settle_found_def db_return_def settled.keyed_same)
  next
    case False
    then have "settled_kept p (f p p)" using assms(2) [of p] by (auto simp: settled_kept_def is_illegal_def)
    with Some False settled.keyed_update_payment [OF p] show ?thesis by (simp add: settle_found_def)
  qed
qed

lemma finds_in_table:
  "fawry_find n w = (Inr r, w') \<Longrightarrow> found_in r w'"
  "paymob_find ref w = (Inr r, w') \<Longrightarrow> found_in r w'"
  by (auto simp: fawry_find_def paymob_find_def db_return_def found_in_def [of None]
      dest: select_payment_found split: if_splits)

lemma mock_find_in_table: "mock_find n w = (Inr r, w') \<Longrightarrow> found_in r w'"
  by (auto simp: mock_find_def db_bind_def db_return_def found_in_def [of None]
      dest: select_payment_found split: if_splits prod.splits sum.splits)

context world_relation begin

lemma keeps_finds:
  "keeps R (fawry_find n)" "keeps R (paymob_find ref)" "keeps R (mock_find m)"
  by (auto simp: fawry_find_def paymob_find_def mock_find_def
      intro!: keeps_intros keeps_bind)

lemma keeps_with_payload:
  "(\<And>rawBody payload. keeps R (k rawBody payload)) \<Longrightarrow> keeps R (with_payload pf req k)"
  by (auto simp: with_payload_def intro!: keeps_intros split: sum.splits option.splits)

lemma keeps_settle_found:
  "(\<And>i f. keeps R (update_payment i f)) \<Longrightarrow> keeps R (settle_found r status g)"
  by (auto simp: settle_found_def intro!: keeps_intros split: option.splits)

text \<open>
  A relation that the event log and a settled lookup keep is kept by all four handlers:
  what is left to show for each relation are these two facts.
\<close>

lemma keeps_webhooks:
  assumes log: "\<And>i p q n. keeps R (log_event i p q n)"
    and settle: "\<And>r w status f. found_in r w \<Longrightarrow> (\<And>p. p_status (f p p) = status \<and> same_money p (f p p))
      \<Longrightarrow> R w (snd (settle_found r status f w))"
  shows "keeps R (fawry_webhook pf now uuid req)" "keeps R (paymob_webhook pf now uuid req)"
    "keeps R (stripe_webhook pf construct_ev now req)" "keeps R (mock_webhook pf now uuid req)"
proof -
  note intros = keeps_intros keeps_with_payload log keeps_finds
  have set1: "R w (snd (settle_found r st (set_status_and_reference now st ref) w))"
    if "found_in r w" for r w st ref
    by (rule settle [OF that]) (simp add: set_status_and_reference_def same_money_def)
  have set2: "R w (snd (settle_found r (mn_status n) (mock_set now n) w))" if "found_in r w" for r w n
    by (rule settle [OF that]) (simp add: mock_set_def same_money_def)
  have set3: "R w (snd (settle_found r st (\<lambda>_ row. row\<lparr>p_status := st, p_updatedAt := now\<rparr>) w))"
    if "found_in r w" for r w st
    by (rule settle [OF that]) (simp add: same_money_def)
  have fw: "keeps R (db_bind (fawry_find n) (\<lambda>found. db_bind (settle_found found st
      (set_status_and_reference now st ref)) k))" if "\<And>x. keeps R (k x)" for n st ref k
    by (rule keeps_lookup [where Q = found_in, OF _ finds_in_table(1)]) (auto intro: keeps_finds set1 that)
  show "keeps R (fawry_webhook pf now uuid req)"
    unfolding fawry_webhook_def Let_def by (auto intro!: intros fw split: option.splits)
  have pm: "keeps R (db_bind (paymob_find ref') (\<lambda>found. db_bind (settle_found found st
      (set_status_and_reference now st ref)) k))" if "\<And>x. keeps R (k x)" for ref' st ref k
    by (rule keeps_lookup [where Q = found_in, OF _ finds_in_table(2)]) (auto intro: keeps_finds set1 that)
  show "keeps R (paymob_webhook pf now uuid req)"
    unfolding paymob_webhook_def Let_def
    by (auto intro!: intros pm split: option.splits sum.splits bool.splits)
  have mf: "keeps R (db_bind (mock_find n) (\<lambda>found. db_bind (settle_found found (mn_status n) (mock_set now n)) k))"
    if "\<And>x. keeps R (k x)" for n k
    by (rule keeps_lookup [where Q = found_in, OF _ mock_find_in_table]) (auto intro: keeps_finds set2 that)
  have mw: "keeps R (mock_work now n)" for n
    unfolding mock_work_def by (rule mf) (rule log)
  show "keeps R (mock_webhook pf now uuid req)"
    unfolding mock_webhook_def Let_def by (auto intro!: intros mw)
  have st: "keeps R (db_bind (select_payment cond) (\<lambda>found. settle_found found st
      (\<lambda>_ row. row\<lparr>p_status := st, p_updatedAt := now\<rparr>)))" for cond st
    by (rule keeps_bind_yield)
      (auto intro!: keeps_intros set3 dest: select_payment_found)
  have sp: "keeps R (stripe_process now event)" for event
    unfolding stripe_process_def Let_def
    by (rule keeps_bind) (auto intro!: intros st split: option.splits)
  show "keeps R (stripe_webhook pf construct_ev now req)"
    unfolding stripe_webhook_def Let_def by (auto intro!: intros sp split: option.splits sum.splits)
qed

end

section \<open>The contract of a webhook handler\<close>

record delivery =
  d_now :: int
  d_uuid :: string
  d_version :: string
  d_provider :: string
  d_request :: wh_request

definition deliver :: "platform \<Rightarrow> construct_event \<Rightarrow> delivery \<Rightarrow> response db" where
  "deliver pf construct_ev d =
     provider_webhook pf construct_ev (d_now d) (d_uuid d) (d_version d) (d_provider d) (d_request d)"

text \<open>Deliveries handled one after the other, whatever each is answered.\<close>

primrec deliver_all :: "('d \<Rightarrow> response db) \<Rightarrow> 'd list \<Rightarrow> world \<Rightarrow> world" where
  "deliver_all handle [] w = w"
| "deliver_all handle (d # ds) w = deliver_all handle ds (snd (run_handler (handle d) w))"

locale webhook_handler =
  fixes handle :: "'d \<Rightarrow> response db"
  assumes settles: "keeps (keyed settled_kept) (handle d)"
    and logs: "keeps events_kept (handle d)"
    and others: "keeps accounts_kept (handle d)"
begin

lemma all_settled: "keyed settled_kept w (deliver_all handle ds w)"
proof (induction ds arbitrary: w)
  case Nil
  show ?case by (simp add: settled.keyed_same)
next
  case (Cons d ds)
  from settled.keyed.keeps_handler [OF settles] Cons.IH show ?case
    by (auto intro: settled.keyed_trans)
qed

lemma all_logged: "events_kept w (deliver_all handle ds w)"
proof (induction ds arbitrary: w)
  case Nil
  show ?case by (simp add: events_same)
next
  case (Cons d ds)
  from events_world.keeps_handler [OF logs] Cons.IH show ?case
    by (auto intro: events_world.rel_trans)
qed

lemma all_others: "accounts_kept w (deliver_all handle ds w)"
proof (induction ds arbitrary: w)
  case Nil
  show ?case by (simp add: accounts_same)
next
  case (Cons d ds)
  from accounts_world.keeps_handler [OF others] Cons.IH show ?case
    by (auto intro: accounts_world.rel_trans)
qed

end

lemma keyed_log_event: "keeps (keyed settled_kept) (log_event i p q n)"
  unfolding log_event_def by (rule settled.keeps_insert_webhook_event(2))

lemma events_log_event: "keeps events_kept (log_event i p q n)"
  unfolding log_event_def by (rule events_insert)

lemma accounts_log_event: "keeps accounts_kept (log_event i p q n)"
  unfolding log_event_def by (rule accounts_statements)

lemma settle_found_others:
  "events_kept w (snd (settle_found r status f w))" "accounts_kept w (snd (settle_found r status f w))"
  using events_world.keeps_settle_found [OF events_update] accounts_world.keeps_settle_found [OF accounts_statements(1)]
  by (auto simp: keeps_def)

lemma settled_webhooks:
  "keeps (keyed settled_kept) (fawry_webhook pf now uuid req)"
  "keeps (keyed settled_kept) (paymob_webhook pf now uuid req)"
  "keeps (keyed settled_kept) (stripe_webhook pf construct_ev now req)"
  "keeps (keyed settled_kept) (mock_webhook pf now uuid req)"
  by (rule settled.keyed.keeps_webhooks [OF keyed_log_event], rule settle_found_settled, assumption, assumption)+

lemmas events_webhooks = events_world.keeps_webhooks [OF events_log_event settle_found_others(1)]
lemmas accounts_webhooks = accounts_world.keeps_webhooks [OF accounts_log_event settle_found_others(2)]

interpretation fawry_handler: webhook_handler "\<lambda>d. fawry_webhook pf (d_now d) (d_uuid d) (d_request d)" for pf
  by unfold_locales (rule settled_webhooks events_webhooks accounts_webhooks)+

interpretation paymob_handler: webhook_handler "\<lambda>d. paymob_webhook pf (d_now d) (d_uuid d) (d_request d)" for pf
  by unfold_locales (rule settled_webhooks events_webhooks accounts_webhooks)+

interpretation stripe_handler: webhook_handler "\<lambda>d. stripe_webhook pf construct_ev (d_now d) (d_request d)"
  for pf construct_ev
  by unfold_locales (rule settled_webhooks events_webhooks accounts_webhooks)+

interpretation mock_handler: webhook_handler "\<lambda>d. mock_webhook pf (d_now d) (d_uuid d) (d_request d)" for pf
  by unfold_locales (rule settled_webhooks events_webhooks accounts_webhooks)+

text \<open>The dispatcher hands a delivery to one of the four, or refuses it: it has the same contract.\<close>

lemma deliver_cases:
  assumes "\<And>r. P (db_return r)" and "P (fawry_webhook pf (d_now d) (d_uuid d) (d_request d))"
    and "P (paymob_webhook pf (d_now d) (d_uuid d) (d_request d))"
    and "P (stripe_webhook pf construct_ev (d_now d) (d_request d))"
    and "P (mock_webhook pf (d_now d) (d_uuid d) (d_request d))"
  shows "P (deliver pf construct_ev d)"
  using assms by (simp add: deliver_def provider_webhook_def Let_def split: sum.splits)

interpretation dispatcher: webhook_handler "deliver pf construct_ev" for pf construct_ev
proof unfold_locales
  fix d
  show "keeps (keyed settled_kept) (deliver pf construct_ev d)"
    by (rule deliver_cases) (rule settled.keyed.keeps_return settled_webhooks)+
  show "keeps events_kept (deliver pf construct_ev d)"
    by (rule deliver_cases) (rule events_world.keeps_return events_webhooks)+
  show "keeps accounts_kept (deliver pf construct_ev d)"
    by (rule deliver_cases) (rule accounts_world.keeps_return accounts_webhooks)+
qed

section \<open>Lemmas for the properties\<close>

definition demo_platform :: platform where
  "demo_platform = \<lparr>pf_decode = (\<lambda>s. s), pf_parse = (\<lambda>s. Some (JObj [(''payment_id'', JStr s)])),
     pf_sha = (\<lambda>s. s), pf_hmac_sha512 = (\<lambda>k s. k @ s), pf_hmac_sha256 = (\<lambda>k s. k @ s),
     pf_env = (\<lambda>v. if v = ''STRIPE_WEBHOOK_SECRET'' then Some ''whsec'' else None)\<rparr>"

definition demo_request :: wh_request where
  "demo_request = \<lparr>wr_headers = [(''stripe-signature'', ''t=1'')], wr_query_hmac = None,
     wr_body = Some \<lparr>b_chunks = [''pa'', ''y1''], b_broken = False\<rparr>\<rparr>"

definition demo_delivery :: "string \<Rightarrow> delivery" where
  "demo_delivery provider = \<lparr>d_now = 5, d_uuid = ''uuid'', d_version = ''v1'', d_provider = provider,
     d_request = demo_request\<rparr>"

definition demo_construct :: construct_event where
  "demo_construct body signature secret =
     Some \<lparr>ev_id = ''evt_1'', ev_type = ''checkout.session.completed'',
       ev_session = Some \<lparr>sc_id = ''ref1'', sc_payment_status = ''paid''\<rparr>\<rparr>"

lemma select_payment_up: "outages w = [] \<Longrightarrow> select_payment cond w = (Inr (find cond (payments w)), w)"
  by (simp add: select_payment_def db_query_def)

lemma update_payment_up: "outages w = [] \<Longrightarrow> update_payment i f w =
    (Inr (), w\<lparr>payments := map (\<lambda>p. if p_id p = i then f p else p) (payments w)\<rparr>)"
  by (simp add: update_payment_def db_query_def)

lemma log_event_up: "outages w = [] \<Longrightarrow> log_event i p q n w = (Inr (),
    if list_ex (\<lambda>x. e_eventId x = i) (webhookEvents w) then w
    else w\<lparr>webhookEvents := webhookEvents w @ [\<lparr>e_eventId = i, e_provider = p, e_paymentId = q,
       e_payloadJson = None, e_signature = None, e_receivedAt = n\<rparr>]\<rparr>)"
  by (simp add: log_event_def insert_webhook_event_def db_query_def)

text \<open>The table after a settlement, without database failures.\<close>

definition settled_table ::
  "payment_row option \<Rightarrow> string \<Rightarrow> (payment_row \<Rightarrow> payment_row \<Rightarrow> payment_row) \<Rightarrow> payment_row list \<Rightarrow> payment_row list" where
  "settled_table r status f ps =
     (case r of None \<Rightarrow> ps
      | Some found \<Rightarrow> if is_illegal found status then ps
          else map (\<lambda>p. if p_id p = p_id found then f found p else p) ps)"

lemma settle_found_up: "outages w = [] \<Longrightarrow> settle_found r status f w =
    (Inr (map_option p_id r), w\<lparr>payments := settled_table r status f (payments w)\<rparr>)"
  by (auto simp: settle_found_def settled_table_def update_payment_up db_defs split: option.splits)

lemma demo_deliver_stripe:
  "deliver demo_platform demo_construct (demo_delivery ''stripe'')
     = stripe_webhook demo_platform demo_construct 5 demo_request"
  by (simp add: deliver_def demo_delivery_def provider_webhook_def validateApiVersion_def
      SUPPORTED_API_VERSIONS_def js_lower_def lower_char_def js_trim_def trim_start_def trim_end_def
      is_ws_def char_eval)

lemma demo_stripe_run:
  "snd (run_handler (stripe_webhook demo_platform demo_construct 5 demo_request)
     (demo_world [demo_payment ''p1'' ''stripe'' st])) = (demo_world
        [if is_terminal st \<and> st \<noteq> ''succeeded'' then demo_payment ''p1'' ''stripe'' st
         else (demo_payment ''p1'' ''stripe'' st)\<lparr>p_status := ''succeeded'', p_updatedAt := 5\<rparr>])
     \<lparr>webhookEvents := [\<lparr>e_eventId = ''evt_1'', e_provider = ''stripe'', e_paymentId = Some ''p1'',
        e_payloadJson = None, e_signature = None, e_receivedAt = 5\<rparr>]\<rparr>"
  by (simp add: stripe_webhook_def demo_request_def demo_platform_def demo_construct_def
      readLimitedTextBody_def read_loop_result copy_loop_fresh array_set_def stripe_process_def
      checkoutEvents_def stripe_status_def select_payment_up settle_found_up settled_table_def is_illegal_def
      log_event_up run_handler_def db_defs demo_world_def empty_world_def Let_def)

text \<open>
  What the three signed providers require of a delivery: \<open>provider\<close> is the normalised name.
\<close>

definition authentic :: "platform \<Rightarrow> construct_event \<Rightarrow> wh_request \<Rightarrow> string \<Rightarrow> bool" where
  "authentic pf construct_ev req provider \<longleftrightarrow>
     (case readLimitedTextBody (pf_decode pf) 1000000 (wr_body req) of
        Inr (Some rawBody) \<Rightarrow>
          if provider = ''fawry'' then
            (case (getFawryConfig (pf_env pf) None None None, pf_parse pf rawBody) of
               (Some c, Some payload) \<Rightarrow> fawry_verified pf (fc_secureKey c) (fawry_notice_of payload)
             | _ \<Rightarrow> False)
          else if provider = ''paymob'' then
            (case (getPaymobConfig (pf_env pf) no_paymob_override, pf_parse pf rawBody) of
               (Some c, Some payload) \<Rightarrow>
                  paymob_verified pf (pc_hmacSecret c) payload (paymob_received_hmac req payload) = Inr True
             | _ \<Rightarrow> False)
          else if provider = ''stripe'' then
            (case (pf_env pf ''STRIPE_WEBHOOK_SECRET'', hdr_get (wr_headers req) ''stripe-signature'') of
               (Some secret, Some signature) \<Rightarrow> construct_ev rawBody signature secret \<noteq> None
             | _ \<Rightarrow> False)
          else False
      | _ \<Rightarrow> False)"

lemma unauthentic_fawry:
  "\<not> authentic pf construct_ev req ''fawry'' \<Longrightarrow> snd (fawry_webhook pf now uuid req w) = w"
  by (auto simp: authentic_def fawry_webhook_def with_payload_def db_return_def db_throw_def Let_def
      split: sum.splits option.splits)

lemma unauthentic_paymob:
  "\<not> authentic pf construct_ev req ''paymob'' \<Longrightarrow> snd (paymob_webhook pf now uuid req w) = w"
  by (auto simp: authentic_def paymob_webhook_def with_payload_def db_return_def db_throw_def Let_def
      split: sum.splits option.splits bool.splits)

lemma unauthentic_stripe:
  "\<not> authentic pf construct_ev req ''stripe'' \<Longrightarrow> snd (stripe_webhook pf construct_ev now req w) = w"
  by (auto simp: authentic_def stripe_webhook_def db_return_def Let_def elim!: truthyE
      split: sum.splits option.splits)

section \<open>The state machine of the core\<close>

text \<open>\<open>PaymentStatus\<close> and \<open>validate_transition\<close> of \<open>crates/core/src/payment.rs\<close>, on the stored names.\<close>

definition core_statuses :: "string list" where
  "core_statuses = [''pending'', ''succeeded'', ''failed'', ''unknown'', ''partially_refunded'', ''refunded'']"

definition core_transition :: "string \<Rightarrow> string \<Rightarrow> bool" where
  "core_transition a b \<longleftrightarrow>
     (if a = b then True
      else if a = ''pending'' then b \<in> set [''succeeded'', ''failed'', ''unknown'']
      else if a = ''unknown'' then b \<in> set [''succeeded'', ''failed'']
      else if a = ''succeeded'' then b \<in> set [''partially_refunded'', ''refunded'']
      else if a = ''partially_refunded'' then b \<in> set [''partially_refunded'', ''refunded'']
      else False)"

lemma field_assoc_set:
  "k \<noteq> a \<Longrightarrow> field (JObj (assoc_set a v ps)) k = field (JObj ps) k"
  "field (JObj (assoc_set a v ps)) a = v"
  by (induction ps rule: assoc_set.induct) (auto simp: field_def)

lemma special_reference_unsigned: "''special_reference'' \<notin> set paymob_signed_members"
  by (simp add: paymob_signed_members_def paymob_hmac_fields_def)

lemma verifyPaymobHmac_obj:
  "verifyPaymobHmac hmac en (JObj [(''obj'', JObj ps)]) h s =
     (case js_or s (en ''PAYMOB_HMAC_SECRET'') of None \<Rightarrow> False
      | Some k \<Rightarrow> k \<noteq> [] \<and> constantTimeEqHex (hmac k (paymob_concatenated (JObj ps))) h)"
  by (auto simp: verifyPaymobHmac_def jor_def Let_def split: option.splits)

section \<open>Properties\<close>

text \<open>
  C1. Terminal states are immutable: however many webhooks arrive, from any provider, signed or
  not, and however the database fails, a payment that is succeeded or failed stays so, and its
  identifier, rail, amount, currency and idempotency key never change.
\<close>

theorem webhooks_keep_terminal_states:
  assumes "primary_key w" and "n < length (payments w)"
    and "is_terminal (p_status (payments w ! n))"
  shows "n < length (payments (deliver_all (deliver pf construct_ev) ds w))
    \<and> p_status (payments (deliver_all (deliver pf construct_ev) ds w) ! n) = p_status (payments w ! n)
    \<and> same_money (payments w ! n) (payments (deliver_all (deliver pf construct_ev) ds w) ! n)"
proof -
  have "rows_related settled_kept w (deliver_all (deliver pf construct_ev) ds w)"
    using dispatcher.all_settled [of w pf construct_ev ds] assms(1) by (simp add: keyed_def)
  then show ?thesis using assms(2,3) by (auto simp: rows_related_nth settled_kept_def)
qed

theorem webhooks_keep_terminal_states_witness:
  "p_status (payments (deliver_all (deliver demo_platform demo_construct)
     [demo_delivery ''stripe'', demo_delivery ''mock''] (demo_world [demo_payment ''p1'' ''stripe'' ''failed''])) ! 0)
   = ''failed''"
  using webhooks_keep_terminal_states [of "demo_world [demo_payment ''p1'' ''stripe'' ''failed'']" 0
      demo_platform demo_construct "[demo_delivery ''stripe'', demo_delivery ''mock'']"]
  by (simp add: primary_key_def is_terminal_def)

text \<open>
  The audit log is append-only and idempotent, and webhooks touch nothing else: a
  sequence of deliveries only appends events, never two with the same identifier, and leaves
  API keys, merchant settings and recorded requests as they were.
\<close>

theorem webhooks_audit_log:
  assumes "distinct (map e_eventId (webhookEvents w))"
  shows "\<exists>new. webhookEvents (deliver_all (deliver pf construct_ev) ds w) = webhookEvents w @ new
     \<and> distinct (map e_eventId (webhookEvents (deliver_all (deliver pf construct_ev) ds w)))
     \<and> accounts_kept w (deliver_all (deliver pf construct_ev) ds w)"
  using dispatcher.all_logged [of w pf construct_ev ds] dispatcher.all_others [of w pf construct_ev ds] assms
  by (auto simp: events_kept_def)

theorem webhooks_audit_log_witness:
  "\<exists>new. webhookEvents (deliver_all (deliver demo_platform demo_construct)
       [demo_delivery ''stripe'', demo_delivery ''stripe''] (demo_world [])) = [] @ new
     \<and> distinct (map e_eventId (webhookEvents (deliver_all (deliver demo_platform demo_construct)
       [demo_delivery ''stripe'', demo_delivery ''stripe''] (demo_world []))))"
  using webhooks_audit_log [of "demo_world []" demo_platform demo_construct
      "[demo_delivery ''stripe'', demo_delivery ''stripe'']"]
  by auto

text \<open>
  C4. The webhooks of Fawry, Paymob and Stripe are authenticated: one that reaches a payment, or
  the audit log, carried a body whose signature the provider's check accepts under the
  configured secret.
\<close>

theorem signed_webhooks_authenticate:
  assumes "\<not> authentic pf construct_ev (d_request d) (js_trim (js_lower (d_provider d)))"
    and "js_trim (js_lower (d_provider d)) \<noteq> ''mock''"
  shows "snd (run_handler (deliver pf construct_ev d) w) = w"
proof -
  have run: "snd (run_handler h w) = snd (h w)" for h
    by (auto simp: run_handler_def split: prod.splits sum.splits)
  show ?thesis
    using assms unauthentic_fawry unauthentic_paymob unauthentic_stripe
    by (auto simp: run deliver_def provider_webhook_def db_return_def Let_def split: sum.splits)
qed

theorem signed_webhooks_authenticate_witness:
  "snd (run_handler (deliver demo_platform (\<lambda>_ _ _. None) (demo_delivery ''stripe''))
     (demo_world [demo_payment ''p1'' ''stripe'' ''pending'']))
   = demo_world [demo_payment ''p1'' ''stripe'' ''pending'']"
proof (rule signed_webhooks_authenticate)
  have p: "js_trim (js_lower (d_provider (demo_delivery ''stripe''))) = ''stripe''"
    by (simp add: demo_delivery_def js_lower_def lower_char_def js_trim_def trim_start_def trim_end_def
        is_ws_def char_eval)
  show "js_trim (js_lower (d_provider (demo_delivery ''stripe''))) \<noteq> ''mock''" by (simp add: p)
  show "\<not> authentic demo_platform (\<lambda>_ _ _. None) (d_request (demo_delivery ''stripe''))
      (js_trim (js_lower (d_provider (demo_delivery ''stripe''))))"
    by (simp add: p authentic_def split: sum.splits option.splits)
qed

text \<open>
  C5. A webhook of Fawry settles exactly one payment: a notification that parses, carries short
  identifiers and verifies, delivered while the database is up, is answered with its status;
  the rows with the identifier of the payment it names take that status and the Fawry reference
  unless it would leave a terminal state, and the event is recorded once.
\<close>

theorem fawry_webhook_settles:
  assumes "readLimitedTextBody (pf_decode pf) 1000000 (wr_body req) = Inr (Some rawBody)"
    and "pf_parse pf rawBody = Some payload" and "payload \<noteq> JNull"
    and "n = fawry_notice_of payload" and "fn_fawryRefNumber n \<noteq> []" and "fn_signature n \<noteq> []"
    and "length (fn_fawryRefNumber n) \<le> 255" and "length (fn_merchantRefNumber n) \<le> 255"
    and "getFawryConfig (pf_env pf) None None None = Some c" and "fawry_verified pf (fc_secureKey c) n"
    and "outages w = []"
    and "found = find (\<lambda>p. p_provider p = ''fawry''
           \<and> (if fn_merchantRefNumber n \<noteq> [] then p_merchantReference p = Some (fn_merchantRefNumber n)
               else p_providerReference p = Some (fn_fawryRefNumber n))) (payments w)"
  shows "fst (run_handler (fawry_webhook pf now uuid req) w) = json_response 200
       [(''received'', JBool True), (''status'', JStr (fawry_status (fn_orderStatus n)))]
    \<and> payments (snd (run_handler (fawry_webhook pf now uuid req) w)) =
        settled_table found (fawry_status (fn_orderStatus n))
          (\<lambda>_ row. row\<lparr>p_status := fawry_status (fn_orderStatus n),
             p_providerReference := Some (fn_fawryRefNumber n), p_updatedAt := now\<rparr>) (payments w)
    \<and> list_ex (\<lambda>e. e_eventId e = ''fw_evt_'' @ fn_fawryRefNumber n)
        (webhookEvents (snd (run_handler (fawry_webhook pf now uuid req) w)))"
proof -
  have f: "fawry_find n w = (Inr found, w)"
    unfolding fawry_find_def assms(12) using assms(5,11) by (auto simp: select_payment_up cong: if_cong)
  have g: "set_status_and_reference now st (fn_fawryRefNumber n)
      = (\<lambda>_ row. row\<lparr>p_status := st, p_providerReference := Some (fn_fawryRefNumber n), p_updatedAt := now\<rparr>)" for st
    using assms(5) by (auto simp: set_status_and_reference_def fun_eq_iff)
  from f show ?thesis using assms(1-11)
    by (simp add: fawry_webhook_def with_payload_def run_handler_def db_defs settle_found_up log_event_up g [unfolded assms(4)] Let_def
        cong: if_cong)
qed

definition demo_fawry_platform :: platform where
  "demo_fawry_platform = demo_platform
     \<lparr>pf_env := (\<lambda>v. if v = ''FAWRY_MERCHANT_CODE'' then Some ''mc'' else if v = ''FAWRY_SECURE_KEY'' then Some ''sk'' else None),
      pf_parse := (\<lambda>s. Some (JObj [(''fawryRefNumber'', JStr ''ref1''), (''orderStatus'', JStr ''PAID''),
         (''messageSignature'', JStr ''ref1PAIDPAYATFAWRYsk'')]))\<rparr>"

theorem fawry_webhook_settles_witness:
  "payments (snd (run_handler (fawry_webhook demo_fawry_platform 5 ''uuid'' demo_request)
       (demo_world [demo_payment ''p1'' ''fawry'' ''pending'', demo_payment ''p2'' ''fawry'' ''pending''])))
     = [(demo_payment ''p1'' ''fawry'' ''pending'')\<lparr>p_status := ''succeeded'', p_providerReference := Some ''ref1'', p_updatedAt := 5\<rparr>,
        demo_payment ''p2'' ''fawry'' ''pending'']"
proof -
  let ?n = "\<lparr>fn_fawryRefNumber = ''ref1'', fn_merchantRefNumber = [], fn_paymentAmount = [],
     fn_orderAmount = [], fn_orderStatus = ''PAID'', fn_paymentMethod = ''PAYATFAWRY'',
     fn_paymentRefNumber = [], fn_signature = ''ref1PAIDPAYATFAWRYsk''\<rparr>"
  have n: "?n = fawry_notice_of (JObj [(''fawryRefNumber'', JStr ''ref1''), (''orderStatus'', JStr ''PAID''),
         (''messageSignature'', JStr ''ref1PAIDPAYATFAWRYsk'')])"
    by (simp add: fawry_notice_of_def text_field_def jor_def Let_def)
  have st: "fawry_status ''PAID'' = ''succeeded''"
    by (simp add: fawry_status_def js_upper_def upper_char_def char_eval)
  show ?thesis
    using fawry_webhook_settles [of demo_fawry_platform demo_request "''pay1''" _ ?n, OF _ _ _ n]
    by (simp add: demo_fawry_platform_def demo_platform_def demo_request_def readLimitedTextBody_def
        read_loop_result copy_loop_fresh array_set_def getFawryConfig_def fawry_verified_def
        verifyFawryWebhookSignature_def calculateFawryWebhookSignature_def settled_table_def st is_illegal_def is_terminal_def)
qed

text \<open>
  C8. The guard of the webhooks against the state machine of the Rust core, on the statuses the
  core stores: every transition the core allows to a webhook status passes, and besides these
  exactly the step from unknown back to pending and every step out of a refunded or partially
  refunded payment, which the core rejects.
\<close>

theorem webhook_guard_against_core:
  assumes "p_status p \<in> set core_statuses" and "to \<in> set [''pending'', ''succeeded'', ''failed'']"
  shows "(\<not> is_illegal p to) =
    (core_transition (p_status p) to
     \<or> (p_status p = ''unknown'' \<and> to = ''pending'')
     \<or> p_status p = ''partially_refunded'' \<or> p_status p = ''refunded'')"
  using assms by (auto simp: core_statuses_def core_transition_def is_illegal_def is_terminal_def)

theorem webhook_guard_against_core_witness:
  "\<not> is_illegal (demo_payment ''p1'' ''stripe'' ''refunded'') ''failed''
   \<and> \<not> core_transition ''refunded'' ''failed''"
  using webhook_guard_against_core [of "demo_payment ''p1'' ''stripe'' ''refunded''" "''failed''"]
  by (simp add: core_statuses_def core_transition_def)

text \<open>
  The mock webhook needs no signature: a request without signature headers that names a
  payment which is not succeeded or failed settles it with the status it asks for, whatever rail
  the payment is on.
\<close>

theorem mock_webhook_unsigned_settles:
  assumes "hdr_get (wr_headers req) ''x-mock-signature'' = None" and "hdr_get (wr_headers req) ''x-signature'' = None"
    and "readLimitedTextBody (pf_decode pf) 1000000 (wr_body req) = Inr (Some rawBody)"
    and "pf_parse pf rawBody = Some payload" and "payload \<noteq> JNull"
    and "mn_paymentId (mock_notice_of uuid payload) = p_id p" and "p_id p \<noteq> []"
    and "p \<in> set (payments w)" and "primary_key w" and "outages w = []"
    and "\<not> is_terminal (p_status p)"
  shows "\<exists>q \<in> set (payments (snd (run_handler (mock_webhook pf now uuid req) w))).
    p_id q = p_id p \<and> p_provider q = p_provider p \<and> p_status q = mn_status (mock_notice_of uuid payload)"
proof -
  let ?n = "mock_notice_of uuid payload"
  have "find (\<lambda>q. p_id q = p_id p) (payments w) = Some p"
  proof -
    have "q = p" if "q \<in> set (payments w)" "p_id q = p_id p" for q
      using assms(8,9) that unfolding primary_key_def distinct_map by (metis inj_onD)
    moreover obtain q where "find (\<lambda>q. p_id q = p_id p) (payments w) = Some q"
      using assms(8) by (cases "find (\<lambda>q. p_id q = p_id p) (payments w)") (auto simp: find_None_iff)
    ultimately show ?thesis by (metis (mono_tags) find_Some_iff nth_mem)
  qed
  then have f: "mock_find ?n w = (Inr (Some p), w)"
    using assms(6,7,10) by (simp add: mock_find_def select_payment_up db_defs)
  have "payments (snd (run_handler (mock_webhook pf now uuid req) w))
      = map (\<lambda>q. if p_id q = p_id p then mock_set now ?n p q else q) (payments w)"
    using assms f by (simp add: mock_webhook_def with_payload_def run_handler_def mock_work_def db_defs
        settle_found_up log_event_up settled_table_def is_illegal_def Let_def)
  moreover have "p_id (mock_set now ?n p p) = p_id p" "p_provider (mock_set now ?n p p) = p_provider p"
    "p_status (mock_set now ?n p p) = mn_status ?n" by (simp_all add: mock_set_def)
  ultimately show ?thesis using assms(8) by force
qed

theorem mock_webhook_unsigned_settles_witness:
  "\<exists>q \<in> set (payments (snd (run_handler (mock_webhook demo_platform 5 ''uuid'' demo_request)
       (demo_world [demo_payment ''pay1'' ''stripe'' ''pending''])))).
    p_id q = ''pay1'' \<and> p_provider q = ''stripe'' \<and> p_status q = ''succeeded''"
proof -
  have n: "mn_paymentId (mock_notice_of ''uuid'' (JObj [(''payment_id'', JStr ''pay1'')])) = ''pay1''"
    "mn_status (mock_notice_of ''uuid'' (JObj [(''payment_id'', JStr ''pay1'')])) = ''succeeded''"
    by (simp_all add: mock_notice_of_def text_field_def jor_def mock_status_def js_lower_def lower_char_def char_eval)
  show ?thesis
    using mock_webhook_unsigned_settles [of demo_request demo_platform "''pay1''"
        "JObj [(''payment_id'', JStr ''pay1'')]" "''uuid''" "demo_payment ''pay1'' ''stripe'' ''pending''"
        "demo_world [demo_payment ''pay1'' ''stripe'' ''pending'']" 5]
    by (simp add: n demo_request_def demo_platform_def readLimitedTextBody_def read_loop_result copy_loop_fresh
        array_set_def primary_key_def is_terminal_def)
qed

text \<open>
  C20. Paymob's keyed digest does not cover the reference the webhook looks the payment up with:
  a notification that verifies still verifies, under the same digest, with
  \<open>special_reference\<close> replaced by any other, and the handler then reads that reference.
\<close>

theorem paymob_reference_not_signed:
  assumes "verifyPaymobHmac hmac en (JObj [(''obj'', JObj ps)]) h secret" and "r \<noteq> []"
  shows "verifyPaymobHmac hmac en (JObj [(''obj'', JObj (assoc_set ''special_reference'' (JStr r) ps))]) h secret
    \<and> text_field (JObj (assoc_set ''special_reference'' (JStr r) ps))
        [''special_reference'', ''merchant_order_id''] (JStr []) = r"
proof -
  have "paymob_concatenated (JObj (assoc_set ''special_reference'' (JStr r) ps)) = paymob_concatenated (JObj ps)"
    by (rule paymob_concatenated_cong) (metis field_assoc_set(1) special_reference_unsigned)
  then show ?thesis using assms
    by (auto simp: verifyPaymobHmac_obj text_field_def field_assoc_set(2) jor_def
        simp del: field_simps_obj split: option.splits)
qed

theorem paymob_reference_not_signed_witness:
  "verifyPaymobHmac (\<lambda>k s. k) (\<lambda>_. None) (JObj [(''obj'', JObj (assoc_set ''special_reference'' (JStr ''order2'')
     [(''id'', JStr ''9''), (''special_reference'', JStr ''order1'')]))]) ''k'' (Some ''k'')"
  using paymob_reference_not_signed [of "\<lambda>k s. k" "\<lambda>_. None"
      "[(''id'', JStr ''9''), (''special_reference'', JStr ''order1'')]" "''k''" "Some ''k''" "''order2''"]
  by (simp add: verifyPaymobHmac_obj)

end
