(* ===== verification/Interleaving.thy ===== *)
theory Interleaving
  imports Webhooks
begin

text \<open>
  Concurrent webhooks. Each handler of \<open>app/api/webhooks\<close> reads the payment with one statement
  and writes it with another, outside a transaction, so the statements of several requests may
  interleave in any order. \<open>job_step\<close> is that interleaving over the statements of the handlers:
  a request that was received runs its lookup, a request that holds a row runs the settlement,
  with the guard evaluated on the row it read.
\<close>

section \<open>The step relation\<close>

record settlement =
  st_cond :: "payment_row \<Rightarrow> bool"
  st_status :: string
  st_set :: "payment_row \<Rightarrow> payment_row \<Rightarrow> payment_row"

datatype job =
    Received settlement
  | Loaded settlement "payment_row option"
  | Answered

type_synonym conf = "world \<times> job list"

inductive job_step :: "conf \<Rightarrow> conf \<Rightarrow> bool" where
  load: "i < length jobs \<Longrightarrow> jobs ! i = Received s \<Longrightarrow> select_payment (st_cond s) w = (Inr r, w') \<Longrightarrow>
     job_step (w, jobs) (w', jobs[i := Loaded s r])"
| settle: "i < length jobs \<Longrightarrow> jobs ! i = Loaded s r \<Longrightarrow>
     settle_found r (st_status s) (st_set s) w = (answer, w') \<Longrightarrow>
     job_step (w, jobs) (w', jobs[i := Answered])"
| crash: "i < length jobs \<Longrightarrow> jobs ! i = Received s \<Longrightarrow> select_payment (st_cond s) w = (Inl e, w') \<Longrightarrow>
     job_step (w, jobs) (w', jobs[i := Answered])"

inductive reachable :: "conf \<Rightarrow> conf \<Rightarrow> bool" for start where
  reach_start: "reachable start start"
| reach_step: "reachable start c \<Longrightarrow> job_step c d \<Longrightarrow> reachable start d"

section \<open>Deliveries that agree\<close>

text \<open>
  The settlements of deliveries that report the same outcome \<open>target\<close>: their columns set that
  status and keep the money of the row.
\<close>

definition reports :: "string \<Rightarrow> settlement \<Rightarrow> bool" where
  "reports target s \<longleftrightarrow> st_status s = target
     \<and> (\<forall>found row. p_status (st_set s found row) = target \<and> same_money row (st_set s found row))"

text \<open>A row read earlier: the table still has it, unchanged in status or already settled to \<open>target\<close>.\<close>

definition still_there :: "string \<Rightarrow> world \<Rightarrow> payment_row \<Rightarrow> bool" where
  "still_there target w p \<longleftrightarrow> (\<exists>q \<in> set (payments w). p_id q = p_id p
     \<and> (p_status q = p_status p \<or> p_status q = target))"

fun job_ok :: "string \<Rightarrow> world \<Rightarrow> job \<Rightarrow> bool" where
  "job_ok target w (Received s) = reports target s"
| "job_ok target w (Loaded s r) = (reports target s \<and> (\<forall>p. r = Some p \<longrightarrow> still_there target w p))"
| "job_ok target w Answered = True"

definition conf_ok :: "string \<Rightarrow> conf \<Rightarrow> bool" where
  "conf_ok target c \<longleftrightarrow> primary_key (fst c) \<and> (\<forall>j \<in> set (snd c). job_ok target (fst c) j)"

text \<open>What one statement may do to a row while the deliveries agree.\<close>

definition moves_to :: "string \<Rightarrow> payment_row \<Rightarrow> payment_row \<Rightarrow> bool" where
  "moves_to target p q \<longleftrightarrow> settled_kept p q \<and> (p_status q = p_status p \<or> p_status q = target)"

interpretation moves: row_relation "moves_to target" for target
  by unfold_locales (auto simp: moves_to_def settled_kept_def intro: same_money_trans simp: same_money_def)

lemma key_inj: "primary_key w \<Longrightarrow> p \<in> set (payments w) \<Longrightarrow> q \<in> set (payments w) \<Longrightarrow> p_id p = p_id q \<Longrightarrow> p = q"
  unfolding primary_key_def distinct_map by (metis inj_onD)

lemma rows_member:
  assumes "rows_related r w w'" and "p \<in> set (payments w)"
  shows "\<exists>q \<in> set (payments w'). r p q"
proof -
  obtain n where "n < length (payments w)" "payments w ! n = p" using assms(2) by (auto simp: in_set_conv_nth)
  moreover from this assms(1) have "r p (payments w' ! n)" "n < length (payments w')"
    by (auto simp: rows_related_nth)
  ultimately show ?thesis using nth_mem by blast
qed

lemma still_there_moves:
  assumes "still_there target w p" and "rows_related (moves_to target) w w'"
  shows "still_there target w' p"
proof -
  obtain q where q: "q \<in> set (payments w)" "p_id q = p_id p" "p_status q = p_status p \<or> p_status q = target"
    using assms(1) by (auto simp: still_there_def)
  obtain q' where q': "q' \<in> set (payments w')" "moves_to target q q'"
    using rows_member [OF assms(2) q(1)] by blast
  then have "p_id q' = p_id p" "p_status q' = p_status p \<or> p_status q' = target"
    using q by (auto simp: moves_to_def settled_kept_def same_money_def)
  then show ?thesis using q'(1) by (auto simp: still_there_def)
qed

lemma job_ok_moves: "job_ok target w j \<Longrightarrow> rows_related (moves_to target) w w' \<Longrightarrow> job_ok target w' j"
  by (cases j) (auto intro: still_there_moves)

lemma update_payment_world:
  obtains "payments (snd (update_payment i f w)) = payments w"
  | "payments (snd (update_payment i f w)) = map (\<lambda>p. if p_id p = i then f p else p) (payments w)"
proof (cases "outages w")
  case Nil
  then show ?thesis using that(2) by (simp add: update_payment_def db_query_def)
next
  case (Cons down rest)
  then show ?thesis using that by (cases down) (auto simp: update_payment_def db_query_def)
qed

text \<open>A settlement on a row that was read earlier.\<close>

lemma settle_stale:
  assumes key: "primary_key w" and rep: "reports target s" and there: "\<forall>p. r = Some p \<longrightarrow> still_there target w p"
  shows "keyed (moves_to target) w (snd (settle_found r (st_status s) (st_set s) w))"
proof (cases r)
  case None
  then show ?thesis by (simp add: settle_found_def db_return_def moves.keyed_same)
next
  case (Some p)
  have st: "st_status s = target" using rep by (simp add: reports_def)
  show ?thesis
  proof (cases "is_illegal p target")
    case True
    then show ?thesis using Some st by (simp add: settle_found_def db_return_def moves.keyed_same)
  next
    case False
    obtain q where q: "q \<in> set (payments w)" "p_id q = p_id p" "p_status q = p_status p \<or> p_status q = target"
      using there Some by (auto simp: still_there_def)
    have set: "p_status (st_set s p q) = target" "same_money q (st_set s p q)"
      using rep by (simp_all add: reports_def)
    have "moves_to target q (st_set s p q)"
      using set q(3) False by (auto simp: moves_to_def settled_kept_def is_illegal_def)
    from moves.keyed_update_payment [of q w target "st_set s p", OF q(1) this] show ?thesis
      using Some False st q(2) by (simp add: settle_found_def)
  qed
qed

lemma select_payment_same: "select_payment cond w = (x, w') \<Longrightarrow> payments w' = payments w"
  by (auto simp: select_payment_def db_query_def split: list.splits if_splits)

lemma job_step_ok:
  assumes "job_step c d" and "conf_ok target c"
  shows "conf_ok target d \<and> rows_related (moves_to target) (fst c) (fst d)"
proof -
  have update: "\<forall>j \<in> set (jobs[i := new]). job_ok target w' j"
    if "rows_related (moves_to target) w w'" "conf_ok target (w, jobs)" "job_ok target w' new" for w w' jobs new i
    using that set_update_subset_insert [of jobs i new] job_ok_moves unfolding conf_ok_def by fastforce
  show ?thesis using assms
  proof (induction rule: job_step.induct)
    case (load i jobs s w r w')
    have same: "payments w' = payments w" using load(3) by (rule select_payment_same)
    then have rel: "rows_related (moves_to target) w w'" by (rule moves.table_same)
    have "job_ok target w (jobs ! i)" using load(4) nth_mem [OF load(1)] by (simp add: conf_ok_def)
    then have "reports target s" using load(2) by simp
    moreover have "still_there target w' p" if "r = Some p" for p
      using select_payment_found [OF load(3)] that by (auto simp: found_in_def still_there_def)
    ultimately have "job_ok target w' (Loaded s r)" by simp
    from update [OF rel load(4) this] load(4) rel same show ?case by (simp add: conf_ok_def primary_key_def)
  next
    case (settle i jobs s r w answer w')
    have "job_ok target w (jobs ! i)" using settle(4) nth_mem [OF settle(1)] by (simp add: conf_ok_def)
    then have j: "reports target s" "\<forall>p. r = Some p \<longrightarrow> still_there target w p" using settle(2) by auto
    have key: "primary_key w" using settle by (simp add: conf_ok_def)
    have "keyed (moves_to target) w w'" using settle_stale [OF key j] settle(3) by simp
    then have rel: "rows_related (moves_to target) w w'" and "primary_key w'" using key by (simp_all add: keyed_def)
    with update [OF rel settle(4), of Answered] rel show ?case by (simp add: conf_ok_def)
  next
    case (crash i jobs s w e w')
    have same: "payments w' = payments w" using crash(3) by (rule select_payment_same)
    then have rel: "rows_related (moves_to target) w w'" by (rule moves.table_same)
    with update [OF rel crash(4), of Answered] rel crash(4) same show ?case
      by (simp add: conf_ok_def primary_key_def)
  qed
qed

lemma reachable_ok:
  assumes "reachable c d" and "conf_ok target c"
  shows "conf_ok target d \<and> rows_related (moves_to target) (fst c) (fst d)"
  using assms
proof (induction rule: reachable.induct)
  case reach_start
  then show ?case by (simp add: moves.table_same)
next
  case (reach_step e d)
  then show ?case using job_step_ok moves.table_trans by blast
qed

section \<open>Progress\<close>

text \<open>The statements a request still has to run.\<close>

primrec pending_statements :: "job \<Rightarrow> nat" where
  "pending_statements (Received s) = 2"
| "pending_statements (Loaded s r) = 1"
| "pending_statements Answered = 0"

definition work_left :: "conf \<Rightarrow> nat" where
  "work_left c = sum_list (map pending_statements (snd c))"

lemma work_left_update:
  assumes "i < length jobs" and "pending_statements new < pending_statements (jobs ! i)"
  shows "sum_list (map pending_statements (jobs[i := new])) < sum_list (map pending_statements jobs)"
proof -
  have "jobs = take i jobs @ jobs ! i # drop (Suc i) jobs" using assms(1) by (rule id_take_nth_drop)
  then have "sum_list (map pending_statements jobs) = sum_list (map pending_statements (take i jobs))
      + pending_statements (jobs ! i) + sum_list (map pending_statements (drop (Suc i) jobs))"
    by (metis (no_types) add.assoc list.simps(9) map_append sum_list.Cons sum_list_append)
  then show ?thesis using assms by (simp add: upd_conv_take_nth_drop)
qed

lemma job_step_work: "job_step c d \<Longrightarrow> work_left d < work_left c"
  by (induction rule: job_step.induct) (simp_all add: work_left_def work_left_update)

lemma no_work_no_step: "job_step (w, jobs) d \<Longrightarrow> 0 < work_left (w, jobs)"
  using job_step_work by fastforce

lemma work_step:
  assumes "0 < work_left (w, jobs)"
  shows "\<exists>d. job_step (w, jobs) d"
proof -
  have "sum_list (map pending_statements jobs) = 0" if "\<forall>j \<in> set jobs. pending_statements j = 0"
    using that by (induction jobs) auto
  then have "\<exists>j \<in> set jobs. pending_statements j \<noteq> 0" using assms unfolding work_left_def snd_conv by (metis less_numeral_extra(3))
  then obtain i where i: "i < length jobs" "pending_statements (jobs ! i) \<noteq> 0"
    by (auto simp: in_set_conv_nth)
  show ?thesis
  proof (cases "jobs ! i")
    case (Received s)
    obtain x w' where x: "select_payment (st_cond s) w = (x, w')" by (cases "select_payment (st_cond s) w")
    show ?thesis
    proof (cases x)
      case (Inl e)
      from crash [OF i(1) Received x [unfolded Inl]] show ?thesis ..
    next
      case (Inr r)
      from load [OF i(1) Received x [unfolded Inr]] show ?thesis ..
    qed
  next
    case (Loaded s r)
    obtain x w' where "settle_found r (st_status s) (st_set s) w = (x, w')"
      by (cases "settle_found r (st_status s) (st_set s) w")
    from settle [OF i(1) Loaded this] show ?thesis ..
  next
    case Answered
    with i show ?thesis by simp
  qed
qed

section \<open>Properties\<close>

text \<open>
  C7. Duplicate deliveries are safe under every interleaving: when all concurrent webhooks report
  the same outcome, then however their reads and writes interleave, a settled payment keeps its
  status and every payment keeps its money.
\<close>

theorem agreeing_webhooks_interleave:
  assumes "primary_key w" and "\<forall>j \<in> set jobs. \<exists>s. j = Received s \<and> reports target s"
    and "reachable (w, jobs) (w', jobs')"
  shows "rows_related settled_kept w w'"
proof -
  have "conf_ok target (w, jobs)" using assms(1,2) by (auto simp: conf_ok_def)
  then have "rows_related (moves_to target) w w'" using reachable_ok [OF assms(3)] by simp
  then show ?thesis by (auto simp: rows_related_nth moves_to_def)
qed

definition stripe_settlement :: "string \<Rightarrow> settlement" where
  "stripe_settlement status = \<lparr>st_cond = (\<lambda>p. p_providerReference p = Some ''ref1''), st_status = status,
     st_set = (\<lambda>_ row. row\<lparr>p_status := status, p_updatedAt := 5\<rparr>)\<rparr>"

theorem agreeing_webhooks_interleave_witness:
  "rows_related settled_kept (demo_world [demo_payment ''p1'' ''stripe'' ''pending''])
     (demo_world [(demo_payment ''p1'' ''stripe'' ''pending'')\<lparr>p_status := ''succeeded'', p_updatedAt := 5\<rparr>])"
proof (rule agreeing_webhooks_interleave [where target = "''succeeded''"])
  let ?row = "demo_payment ''p1'' ''stripe'' ''pending''" and ?paid = "stripe_settlement ''succeeded''"
  have "job_step (demo_world [?row], [Received ?paid]) (demo_world [?row], [Loaded ?paid (Some ?row)])"
    using load [of 0 "[Received ?paid]" ?paid "demo_world [?row]" "Some ?row" "demo_world [?row]"]
    by (simp add: stripe_settlement_def select_payment_up)
  moreover have "job_step (demo_world [?row], [Loaded ?paid (Some ?row)])
      (demo_world [?row\<lparr>p_status := ''succeeded'', p_updatedAt := 5\<rparr>], [Answered])"
    using settle [of 0 "[Loaded ?paid (Some ?row)]" ?paid "Some ?row" "demo_world [?row]"]
    by (simp add: stripe_settlement_def settle_found_up settled_table_def is_illegal_def is_terminal_def
        demo_world_def empty_world_def)
  ultimately show "reachable (demo_world [?row], [Received ?paid])
      (demo_world [?row\<lparr>p_status := ''succeeded'', p_updatedAt := 5\<rparr>], [Answered])"
    by (blast intro: reach_start reach_step)
qed (simp_all add: primary_key_def stripe_settlement_def reports_def same_money_def)

lemma race_steps:
  fixes st0 :: string
  defines "row \<equiv> demo_payment ''p1'' ''stripe'' ''pending''"
    and "paid \<equiv> stripe_settlement ''succeeded''" and "expired \<equiv> stripe_settlement ''failed''"
  shows "reachable (demo_world [row], [Received paid, Received expired])
       (demo_world [row\<lparr>p_status := ''succeeded'', p_updatedAt := 5\<rparr>], [Answered, Loaded expired (Some row)])"
    and "job_step (demo_world [row\<lparr>p_status := ''succeeded'', p_updatedAt := 5\<rparr>], [Answered, Loaded expired (Some row)])
       (demo_world [row\<lparr>p_status := ''failed'', p_updatedAt := 5\<rparr>], [Answered, Answered])"
proof -
  have "job_step (demo_world [row], [Received paid, Received expired])
      (demo_world [row], [Loaded paid (Some row), Received expired])"
    using load [of 0 "[Received paid, Received expired]" paid "demo_world [row]" "Some row" "demo_world [row]"]
    by (simp add: paid_def stripe_settlement_def select_payment_up row_def)
  moreover have "job_step (demo_world [row], [Loaded paid (Some row), Received expired])
      (demo_world [row], [Loaded paid (Some row), Loaded expired (Some row)])"
    using load [of 1 "[Loaded paid (Some row), Received expired]" expired "demo_world [row]" "Some row" "demo_world [row]"]
    by (simp add: expired_def stripe_settlement_def select_payment_up row_def)
  moreover have "job_step (demo_world [row], [Loaded paid (Some row), Loaded expired (Some row)])
      (demo_world [row\<lparr>p_status := ''succeeded'', p_updatedAt := 5\<rparr>], [Answered, Loaded expired (Some row)])"
    using settle [of 0 "[Loaded paid (Some row), Loaded expired (Some row)]" paid "Some row" "demo_world [row]"]
    by (simp add: paid_def stripe_settlement_def settle_found_up settled_table_def is_illegal_def is_terminal_def
        row_def demo_world_def empty_world_def)
  ultimately show "reachable (demo_world [row], [Received paid, Received expired])
       (demo_world [row\<lparr>p_status := ''succeeded'', p_updatedAt := 5\<rparr>], [Answered, Loaded expired (Some row)])"
    by (blast intro: reach_start reach_step)
  show "job_step (demo_world [row\<lparr>p_status := ''succeeded'', p_updatedAt := 5\<rparr>], [Answered, Loaded expired (Some row)])
       (demo_world [row\<lparr>p_status := ''failed'', p_updatedAt := 5\<rparr>], [Answered, Answered])"
    using settle [of 1 "[Answered, Loaded expired (Some row)]" expired "Some row"
        "demo_world [row\<lparr>p_status := ''succeeded'', p_updatedAt := 5\<rparr>]"]
    by (simp add: expired_def stripe_settlement_def settle_found_up settled_table_def is_illegal_def is_terminal_def
        row_def demo_world_def empty_world_def)
qed

text \<open>
  Every webhook is answered: no interleaving runs forever, and as long as a request has
  statements left some step is possible, whatever the database answers.
\<close>

theorem webhooks_progress:
  "wfP (\<lambda>d c. job_step c d) \<and> ((\<exists>d. job_step (w, jobs) d) = (0 < work_left (w, jobs)))"
proof
  show "wfP (\<lambda>d c. job_step c d)"
    by (rule wfp_if_convertible_to_nat [where f = work_left]) (rule job_step_work)
  show "(\<exists>d. job_step (w, jobs) d) = (0 < work_left (w, jobs))"
    using work_step no_work_no_step by blast
qed

text \<open>
  Conflicting deliveries are not safe: a paid and an expired webhook of the same checkout
  session that both read the pending payment before either writes make it succeeded and then
  failed, although each handler guards against leaving a terminal state.
\<close>

theorem conflicting_webhooks_race:
  "\<exists>w0 w1 w2 jobs0 jobs1 jobs2. primary_key w0
     \<and> jobs0 = [Received (stripe_settlement ''succeeded''), Received (stripe_settlement ''failed'')]
     \<and> reachable (w0, jobs0) (w1, jobs1) \<and> map p_status (payments w1) = [''succeeded'']
     \<and> job_step (w1, jobs1) (w2, jobs2) \<and> map p_status (payments w2) = [''failed'']"
  by (rule exI, rule exI, rule exI, rule exI, rule exI, rule exI, intro conjI,
      rule_tac [2] refl, rule_tac [2] race_steps(1), rule_tac [3] race_steps(2))
    (simp_all add: primary_key_def)

end
