(* ===== verification/Dashboard_Pages.thy ===== *)
theory Dashboard_Pages
  imports Account_Safety Payment_Get
begin

text \<open>
  The server side of the dashboard's pages: \<open>app/dashboard/page.tsx\<close>, \<open>payments/page.tsx\<close>,
  \<open>requests/page.tsx\<close>, \<open>api-keys/page.tsx\<close> and \<open>settings/page.tsx\<close>: what they read, the
  reconciliation the payments page does while it is rendered, and the data it passes on. A page
  without a session redirects: the result is \<open>None\<close>. Statements awaited together run one after
  the other; the markup is left out.
\<close>

section \<open>The payments page\<close>

definition mode_of :: "string option \<Rightarrow> string" where
  "mode_of cookie = (if cookie = Some ''live'' then ''live'' else ''test'')"

record page_totals =
  pt_total :: int
  pt_settled :: int
  pt_settledVolume :: int
  pt_pending :: int

record payments_view =
  pv_settings :: settings_data
  pv_rows :: "payment_row list"
  pv_agg :: page_totals
  pv_webhooks :: "webhook_event_row list"

definition page_rows :: "string \<Rightarrow> string \<Rightarrow> world \<Rightarrow> payment_row list" where
  "page_rows userId environment w = take 200 (latest p_createdAt (own_payments userId environment w))"

definition page_agg :: "string \<Rightarrow> string \<Rightarrow> world \<Rightarrow> page_totals" where
  "page_agg userId environment w =
     (let ps = own_payments userId environment w in
      \<lparr>pt_total = int (length ps), pt_settled = counted is_settled ps, pt_settledVolume = volume (filter is_settled ps),
       pt_pending = counted is_pending ps\<rparr>)"

text \<open>The inner join with the user's payments.\<close>

definition page_webhooks :: "string \<Rightarrow> string \<Rightarrow> world \<Rightarrow> webhook_event_row list" where
  "page_webhooks userId environment w =
     take 50 (latest e_receivedAt (concat (map (\<lambda>e. map (\<lambda>p. e)
       (filter (\<lambda>p. e_paymentId e = Some (p_id p)) (own_payments userId environment w))) (webhookEvents w))))"

definition reconcilable :: "payment_row \<Rightarrow> bool" where
  "reconcilable r \<longleftrightarrow> p_status r = ''pending'' \<and> p_provider r = ''stripe''
     \<and> (case p_providerReference r of None \<Rightarrow> False | Some ref \<Rightarrow> starts_with ref ''cs_'')"

definition shown_outcome :: "string \<Rightarrow> payment_row \<Rightarrow> payment_row" where
  "shown_outcome status p = p\<lparr>p_status := status, p_nextActionType := None, p_nextActionPayload := None\<rparr>"

text \<open>The row as it is shown: it changes before the update, which may fail.\<close>

definition reconcile_one :: "int \<Rightarrow> (string \<Rightarrow> js_exn + stripe_status_view) \<Rightarrow> payment_row \<Rightarrow> payment_row db" where
  "reconcile_one now retrieve p =
     (case retrieve (the (p_providerReference p)) of
        Inl err \<Rightarrow> db_return p
      | Inr session \<Rightarrow>
          (case session_outcome session of
             None \<Rightarrow> db_return p
           | Some status \<Rightarrow>
               db_then (db_catch (update_payment (p_id p) (settle_session now status)) (\<lambda>_. db_return ()))
                 (db_return (shown_outcome status p))))"

text \<open>The first \<open>n\<close> candidates of the rows.\<close>

fun reconcile_rows :: "int \<Rightarrow> (string \<Rightarrow> js_exn + stripe_status_view) \<Rightarrow> nat \<Rightarrow> payment_row list \<Rightarrow> payment_row list db" where
  "reconcile_rows now retrieve n [] = db_return []"
| "reconcile_rows now retrieve n (p # ps) =
     (if reconcilable p \<and> 0 < n then
        db_bind (reconcile_one now retrieve p) (\<lambda>q.
        db_bind (reconcile_rows now retrieve (n - 1) ps) (\<lambda>qs. db_return (q # qs)))
      else db_bind (reconcile_rows now retrieve n ps) (\<lambda>qs. db_return (p # qs)))"

definition reconciled :: "env \<Rightarrow> stripe_retrieve \<Rightarrow> int \<Rightarrow> payment_row list \<Rightarrow> payment_row list db" where
  "reconciled en retrieve now rows =
     (if truthy (en ''STRIPE_SECRET_KEY'') then reconcile_rows now (retrieve (the (en ''STRIPE_SECRET_KEY''))) 5 rows
      else db_return rows)"

definition payments_page ::
  "env \<Rightarrow> stripe_retrieve \<Rightarrow> int \<Rightarrow> string \<Rightarrow> string option \<Rightarrow> session_user option \<Rightarrow> payments_view option db" where
  "payments_page en retrieve now secret cookie session =
     (case session of
        None \<Rightarrow> db_return None
      | Some user \<Rightarrow>
          (let environment = mode_of cookie; u = su_id user in
           db_bind (both (getMerchantSettings now secret u (su_name user) (su_email user))
             (both (read_db (page_rows u environment))
               (both (read_db (page_agg u environment)) (read_db (page_webhooks u environment)))))
           (\<lambda>(settings, rows, agg, webhooks).
             db_bind (reconciled en retrieve now rows) (\<lambda>rows'.
               db_return (Some \<lparr>pv_settings = settings, pv_rows = rows', pv_agg = agg, pv_webhooks = webhooks\<rparr>)))))"

text \<open>The cards over the table: label, value and hint.\<close>

definition shown_currency :: "settings_data \<Rightarrow> string" where
  "shown_currency d = (if sd_currency d = [] then ''EGP'' else sd_currency d)"

definition payments_cards :: "payments_view \<Rightarrow> (string \<times> string \<times> string) list" where
  "payments_cards v =
     [(''Total records'', int_str (pt_total (pv_agg v)), ''All recorded transactions''),
      (''Settled volume'', formatMinorUnits (of_int (pt_settledVolume (pv_agg v))) (shown_currency (pv_settings v)),
        int_str (pt_settled (pv_agg v)) @ '' succeeded payments''),
      (''Pending settlement'', int_str (pt_pending (pv_agg v)), ''Awaiting customer action'')]"

section \<open>The other pages\<close>

record requests_view =
  rv_rows :: "api_request_row list"
  rv_totalCount :: int
  rv_successRate :: "rat option"
  rv_samples :: "int list"

definition request_page_totals :: "string \<Rightarrow> string \<Rightarrow> world \<Rightarrow> int \<times> int" where
  "request_page_totals u environment w =
     (let qs = own_requests u environment w in
      (int (length qs), counted (\<lambda>q. 200 \<le> q_statusCode q \<and> q_statusCode q < 400) qs))"

definition requests_page :: "string option \<Rightarrow> session_user option \<Rightarrow> requests_view option db" where
  "requests_page cookie session =
     (case session of
        None \<Rightarrow> db_return None
      | Some user \<Rightarrow>
          (let environment = mode_of cookie; u = su_id user in
           db_bind (both (read_db (\<lambda>w. take 200 (latest q_createdAt (own_requests u environment w))))
             (read_db (request_page_totals u environment)))
           (\<lambda>(rows, total, successes). db_return (Some
              \<lparr>rv_rows = rows, rv_totalCount = total, rv_successRate = rate successes total,
               rv_samples = filter (\<lambda>n. 0 < n \<and> n < 2000)
                 (map (\<lambda>q. nullish_else (q_routingLatencyMs q) (q_latencyMs q)) rows)\<rparr>))))"

definition requests_card :: "requests_view \<Rightarrow> string \<times> string" where
  "requests_card v =
     (if rv_samples v = [] then (''-'', ''Awaiting latency samples'')
      else (int_str (percentile (rv_samples v) 95) @ '' ms'',
        ''P50 '' @ int_str (percentile (rv_samples v) 50) @ '' ms, max '' @ int_str (Max (set (rv_samples v))) @ '' ms''))"

definition calls_hint :: "requests_view \<Rightarrow> string" where
  "calls_hint v = (if 200 < rv_totalCount v then ''Showing latest 200 of '' @ int_str (rv_totalCount v)
     else ''All recorded requests'')"

definition active_key :: "api_key_row \<Rightarrow> api_key_row" where
  "active_key k = k\<lparr>k_environment := if k_environment k = [] then getApiKeyEnvironment (k_prefix k) else k_environment k\<rparr>"

definition api_keys_page :: "session_user option \<Rightarrow> api_key_row list option db" where
  "api_keys_page session =
     db_then schema_gate
       (case session of
          None \<Rightarrow> db_return None
        | Some user \<Rightarrow>
            db_bind (read_db (\<lambda>w. latest k_createdAt
                (filter (\<lambda>k. k_userId k = su_id user \<and> k_revokedAt k = None) (apiKeys w))))
              (\<lambda>ks. db_return (Some (map active_key ks))))"

definition settings_page :: "int \<Rightarrow> string \<Rightarrow> session_user option \<Rightarrow> settings_data option db" where
  "settings_page now secret session =
     (case session of
        None \<Rightarrow> db_return None
      | Some user \<Rightarrow>
          db_bind (getMerchantSettings now secret (su_id user) (su_name user) (su_email user)) (\<lambda>d. db_return (Some d)))"

definition dashboard_page ::
  "calendar \<Rightarrow> int \<Rightarrow> int \<Rightarrow> int \<Rightarrow> string \<Rightarrow> string option \<Rightarrow> session_user option \<Rightarrow> cache
    \<Rightarrow> ((dashboard \<times> settings_data) option \<times> cache) db" where
  "dashboard_page cal checked started stored secret cookie session c =
     (case session of
        None \<Rightarrow> db_return (None, c)
      | Some user \<Rightarrow>
          db_bind (both (getDashboardData cal checked started stored (su_id user) (mode_of cookie) c)
            (getMerchantSettings started secret (su_id user) (su_name user) (su_email user)))
          (\<lambda>((d, c'), settings). db_return (Some (d, settings), c')))"

definition overview_cards :: "dashboard \<Rightarrow> settings_data \<Rightarrow> (string \<times> string) list" where
  "overview_cards d s =
     (let m = dd_metrics d in
      [(formatMinorUnits (of_int (me_settledVolumeMinor m)) (shown_currency s), ''Succeeded payments only''),
       (int_str (me_totalPayments m), int_str (me_pendingPayments m) @ '' pending or awaiting action'')])"

definition greeting :: "session_user \<Rightarrow> string" where
  "greeting user = ''Welcome back, '' @ takeWhile (\<lambda>c. c \<noteq> CHR '' '') (nullish_else (su_name user) [])"

end
