(* ===== verification/Dashboard_Pages_Facts.thy ===== *)
theory Dashboard_Pages_Facts
  imports Dashboard_Pages Webhooks
begin

text \<open>
  What rendering a page of the dashboard does to the database and what it shows: the payments page
  settles open Stripe payments and nothing else, it shows the user's rows only, and its update is
  not guarded against what happened since the read.
\<close>

section \<open>What the reconciliation keeps\<close>

lemma settle_session_money: "same_money q (settle_session now status q)"
  by (simp add: same_money_def settle_session_def)

lemma reconcile_one_rows:
  "payments (snd (reconcile_one now retrieve p w)) = payments w
   \<or> (\<exists>status. payments (snd (reconcile_one now retrieve p w))
        = map (\<lambda>q. if p_id q = p_id p then settle_session now status q else q) (payments w))"
proof (cases "retrieve (the (p_providerReference p))")
  case (Inr session)
  show ?thesis
  proof (cases "session_outcome session")
    case (Some status)
    from update_payment_rows [of "p_id p" "settle_session now status" w] show ?thesis
      by (auto simp: reconcile_one_def Inr Some snd_catch_return)
  qed (simp add: reconcile_one_def Inr)
qed (simp add: reconcile_one_def)

lemma reconcile_one_settled: "still_open p w \<Longrightarrow> keyed settled_kept w (snd (reconcile_one now retrieve p w))"
  unfolding reconcile_one_def
  by (auto simp: settled.keyed_same snd_catch_return intro: update_open settle_session_money split: sum.splits option.splits)

lemma still_open_elsewhere:
  assumes "still_open q w" and "p_id q \<noteq> p_id p"
  shows "still_open q (snd (reconcile_one now retrieve p w))"
  using reconcile_one_rows [of now retrieve p w] assms by (fastforce simp: still_open_def)

lemma snd_bind_return: "snd (db_bind m (\<lambda>x. db_return (f x)) w) = snd (m w)"
  by (simp add: db_defs split: prod.splits sum.splits)

lemma reconcile_rows_settled:
  assumes "distinct (map p_id rows)" and "\<And>p. p \<in> set rows \<Longrightarrow> reconcilable p \<Longrightarrow> still_open p w"
  shows "keyed settled_kept w (snd (reconcile_rows now retrieve n rows w))"
  using assms
proof (induction rows arbitrary: n w)
  case Nil
  show ?case by (simp add: settled.keyed_same)
next
  case (Cons p ps)
  show ?case
  proof (cases "reconcilable p \<and> 0 < n")
    case False
    have "keyed settled_kept w (snd (reconcile_rows now retrieve n ps w))" using Cons by auto
    with False show ?thesis by (simp only: reconcile_rows.simps if_False snd_bind_return)
  next
    case True
    let ?v = "snd (reconcile_one now retrieve p w)"
    have one: "keyed settled_kept w ?v" using True Cons.prems(2) by (intro reconcile_one_settled) simp
    have "still_open q ?v" if "q \<in> set ps" "reconcilable q" for q
    proof (rule still_open_elsewhere)
      show "still_open q w" using that Cons.prems(2) by simp
      have "p_id q \<in> p_id ` set ps" using that(1) by (rule imageI)
      moreover have "p_id p \<notin> p_id ` set ps" using Cons.prems(1) by simp
      ultimately show "p_id q \<noteq> p_id p" by metis
    qed
    then have rest: "keyed settled_kept ?v (snd (reconcile_rows now retrieve (n - 1) ps ?v))"
      using Cons.prems(1) by (intro Cons.IH) auto
    show ?thesis
    proof (cases "reconcile_one now retrieve p w")
      case (Pair r v)
      then show ?thesis
        using True one rest
        by (cases r) (auto simp: db_bind_def snd_bind_return [unfolded db_bind_def] intro: settled.keyed_trans)
    qed
  qed
qed

section \<open>What the page reads\<close>

lemma own_in: "set (page_rows u environment w) \<subseteq> {p \<in> set (payments w). p_userId p = Some u}"
  by (auto simp: page_rows_def latest_def own_payments_def dest: in_set_takeD)

lemma page_rows_distinct: "primary_key w \<Longrightarrow> distinct (map p_id (page_rows u environment w))"
proof -
  assume "primary_key w"
  then have "distinct (map p_id (latest p_createdAt (own_payments u environment w)))"
    by (auto simp: primary_key_def latest_def own_payments_def distinct_map inj_on_def)
  then show ?thesis by (simp add: page_rows_def take_map distinct_take flip: take_map)
qed

lemma page_rows_payments: "payments v = payments w \<Longrightarrow> page_rows u environment v = page_rows u environment w"
  by (simp add: page_rows_def own_payments_def)

lemma page_rows_read: "read_db (page_rows u environment) w = (Inr rows, w') \<Longrightarrow> rows = page_rows u environment w"
  by (auto simp: read_db_def db_query_def page_rows_def own_payments_def split: list.splits if_splits)

lemma both_result:
  "both m n w = (Inr (x, y), w') \<Longrightarrow> \<exists>v. m w = (Inr x, v) \<and> n v = (Inr y, w')"
  by (auto simp: both_def split: prod.splits sum.splits)

abbreviation page_reads :: "int \<Rightarrow> string \<Rightarrow> string \<Rightarrow> session_user
    \<Rightarrow> (settings_data \<times> payment_row list \<times> page_totals \<times> webhook_event_row list) db" where
  "page_reads now secret environment user \<equiv>
     both (getMerchantSettings now secret (su_id user) (su_name user) (su_email user))
       (both (read_db (page_rows (su_id user) environment))
         (both (read_db (page_agg (su_id user) environment)) (read_db (page_webhooks (su_id user) environment))))"

context world_relation begin

lemma keeps_both: "keeps R m \<Longrightarrow> keeps R n \<Longrightarrow> keeps R (both m n)"
  unfolding keeps_def both_def by (auto split: prod.splits intro: rel_trans) (metis rel_trans snd_conv)

lemma keeps_page_reads:
  "keeps R (getMerchantSettings now secret (su_id user) (su_name user) (su_email user))
    \<Longrightarrow> keeps R (page_reads now secret environment user)"
  by (intro keeps_both keeps_read)

end

lemma page_reads_others: "keeps (others_kept (su_id user)) (page_reads now secret environment user)"
  by (rule others_world.keeps_page_reads) (rule others_get_settings)

lemma page_reads_rows:
  assumes "page_reads now secret environment user w = (Inr (settings, rows, agg, webhooks), w')"
  shows "payments w' = payments w" "rows = page_rows (su_id user) environment w"
proof -
  obtain v where v: "getMerchantSettings now secret (su_id user) (su_name user) (su_email user) w = (Inr settings, v)"
    "both (read_db (page_rows (su_id user) environment)) (both (read_db (page_agg (su_id user) environment))
        (read_db (page_webhooks (su_id user) environment))) v = (Inr (rows, agg, webhooks), w')"
    using both_result [OF assms] by blast
  have pv: "payments v = payments w"
    using others_world.keepsD [OF others_get_settings [of "su_id user" now secret "su_name user" "su_email user"], of w] v(1)
    by (simp add: others_kept_def)
  obtain v' where "read_db (page_rows (su_id user) environment) v = (Inr rows, v')"
    using both_result [OF v(2)] by blast
  then have "rows = page_rows (su_id user) environment v"
    by (rule page_rows_read)
  then show "rows = page_rows (su_id user) environment w" unfolding page_rows_payments [OF pv] .
  have "others_kept (su_id user) w (snd (page_reads now secret environment user w))"
    by (rule others_world.keepsD [OF page_reads_others])
  then show "payments w' = payments w" unfolding assms snd_conv by (simp only: others_kept_def)
qed

section \<open>Rendering the page\<close>

text \<open>The page after its reads: a failed read ends it, else the rows are reconciled.\<close>

lemma payments_page_runs:
  obtains (redirect) "snd (payments_page en retrieve now secret cookie session w) = w"
  | (reads) user where "session = Some user"
      "snd (payments_page en retrieve now secret cookie session w) = snd (page_reads now secret (mode_of cookie) user w)"
  | (rows) user rows v where "session = Some user"
      "v = snd (page_reads now secret (mode_of cookie) user w)" "payments v = payments w"
      "rows = page_rows (su_id user) (mode_of cookie) w"
      "snd (payments_page en retrieve now secret cookie session w) = snd (reconciled en retrieve now rows v)"
proof (cases session)
  case None
  then show ?thesis by (intro redirect) (simp add: payments_page_def)
next
  case (Some user)
  show ?thesis
  proof (cases "page_reads now secret (mode_of cookie) user w")
    case (Pair r v)
    show ?thesis
    proof (cases r)
      case (Inl e)
      then show ?thesis by (intro reads [OF Some]) (simp add: payments_page_def Some Pair Let_def db_bind_def)
    next
      case (Inr d)
      obtain settings rows' agg webhooks where d: "d = (settings, rows', agg, webhooks)" by (cases d) auto
      note res = Pair [unfolded Inr d]
      have "snd (payments_page en retrieve now secret cookie session w) = snd (reconciled en retrieve now rows' v)"
        using res by (simp add: payments_page_def Some Let_def db_bind_def [of "page_reads now secret (mode_of cookie) user"] snd_bind_return)
      then show ?thesis
        using page_reads_rows [OF res] res by (intro rows [OF Some]) simp_all
    qed
  qed
qed

lemma page_settled: "keeps (keyed settled_kept) (payments_page en retrieve now secret cookie session)"
  unfolding keeps_def
proof
  fix w
  show "keyed settled_kept w (snd (payments_page en retrieve now secret cookie session w))"
  proof (cases rule: payments_page_runs [of en retrieve now secret cookie session w])
    case redirect
    then show ?thesis by (simp add: settled.keyed_same)
  next
    case (reads user)
    have "others_kept (su_id user) w (snd (page_reads now secret (mode_of cookie) user w))"
      by (rule others_world.keepsD [OF page_reads_others])
    then have "payments (snd (payments_page en retrieve now secret cookie session w)) = payments w"
      unfolding reads(2) by (simp only: others_kept_def)
    then show ?thesis by (rule settled.keyed_same)
  next
    case (rows user ps v)
    have open': "still_open p v" if "p \<in> set ps" "reconcilable p" for p
      using that own_in [of "su_id user" "mode_of cookie" w] rows(3,4)
      by (auto simp: still_open_def reconcilable_def is_terminal_def)
    have "keyed settled_kept v (snd (reconciled en retrieve now ps v))" if "primary_key w"
      unfolding reconciled_def rows(4)
      using reconcile_rows_settled [OF page_rows_distinct [OF that], of "su_id user" "mode_of cookie" v] open' rows(4)
      by (simp add: settled.keyed_same)
    then show ?thesis
      using rows(3) unfolding rows(5) by (auto simp: keyed_def primary_key_def rows_related_nth)
  qed
qed

text \<open>
  C3. Looking at the payments page settles open payments only: rendering it, with whatever Stripe
  answers and whichever statements fail, keeps identifiers unique, keeps the money of every payment,
  and leaves every payment that had succeeded or failed as it was.
\<close>

theorem payments_page_keeps_settled:
  assumes "primary_key w"
  shows "let w' = snd (payments_page en retrieve now secret cookie session w)
    in primary_key w' \<and> rows_related settled_kept w w'"
  using settled.keyed.keepsD [OF page_settled, of w] assms by (simp add: keyed_def)

theorem payments_page_keeps_settled_witness:
  "let w' = snd (payments_page (\<lambda>_. Some ''sk'') (\<lambda>_ _. Inr \<lparr>sv_payment_status = ''paid'', sv_session_status = None\<rparr>) 9 ''s''
        (Some ''live'') (Some \<lparr>su_id = ''u1'', su_name = None, su_email = None\<rparr>)
        (demo_world [demo_payment ''p1'' ''stripe'' ''failed'', demo_payment ''p2'' ''stripe'' ''pending'']))
   in p_status (payments w' ! 0) = ''failed''"
  using payments_page_keeps_settled [of "demo_world [demo_payment ''p1'' ''stripe'' ''failed'', demo_payment ''p2'' ''stripe'' ''pending'']"
      "\<lambda>_. Some ''sk''" "\<lambda>_ _. Inr \<lparr>sv_payment_status = ''paid'', sv_session_status = None\<rparr>" 9 "''s''" "Some ''live''"
      "Some \<lparr>su_id = ''u1'', su_name = None, su_email = None\<rparr>"]
  by (simp add: primary_key_def rows_related_nth settled_kept_def is_terminal_def Let_def)

section \<open>What the page keeps elsewhere\<close>

context world_relation begin

lemma keeps_reconcile_rows:
  assumes "\<And>i f. keeps R (update_payment i f)"
  shows "keeps R (reconcile_rows now retrieve n rows)"
proof (induction rows arbitrary: n)
  case Nil
  show ?case by (simp add: keeps_return)
next
  case (Cons p ps)
  have "keeps R (reconcile_one now retrieve p)"
    unfolding reconcile_one_def
    by (auto intro!: keeps_return keeps_then keeps_catch assms split: sum.splits option.splits)
  then show ?case by (auto intro!: keeps_bind Cons.IH keeps_return)
qed

lemma keeps_payments_page:
  assumes "\<And>i f. keeps R (update_payment i f)" and "\<And>u name email. keeps R (getMerchantSettings now secret u name email)"
  shows "keeps R (payments_page en retrieve now secret cookie session)"
  unfolding payments_page_def Let_def reconciled_def
  by (auto intro!: keeps_return keeps_bind keeps_both assms keeps_read keeps_reconcile_rows split: option.splits)

lemma keeps_fetch: "keeps R (fetchDashboardDataUncached cal now u environment)"
  unfolding fetchDashboardDataUncached_def Let_def
  by (auto intro!: keeps_then keeps_gate keeps_catch keeps_bind keeps_both keeps_read keeps_return split: prod.splits)

lemma keeps_dashboard: "keeps R (getDashboardData cal checked started stored u environment c)"
  unfolding getDashboardData_def Let_def
  by (auto intro!: keeps_return keeps_bind keeps_fetch split: option.splits)

lemma keeps_dashboard_page:
  assumes "\<And>u name email. keeps R (getMerchantSettings started secret u name email)"
  shows "keeps R (dashboard_page cal checked started stored secret cookie session c)"
  unfolding dashboard_page_def
  by (auto intro!: keeps_return keeps_bind keeps_both assms keeps_dashboard split: option.splits)

lemma keeps_requests_page: "keeps R (requests_page cookie session)"
  unfolding requests_page_def Let_def
  by (auto intro!: keeps_return keeps_bind keeps_both keeps_read split: option.splits)

lemma keeps_api_keys_page: "keeps R (api_keys_page session)"
  unfolding api_keys_page_def
  by (auto intro!: keeps_return keeps_then keeps_gate keeps_bind keeps_read split: option.splits)

lemma keeps_settings_page:
  assumes "\<And>u name email. keeps R (getMerchantSettings now secret u name email)"
  shows "keeps R (settings_page now secret session)"
  unfolding settings_page_def by (auto intro!: keeps_return keeps_bind assms split: option.splits)

end

section \<open>What the page shows\<close>

text \<open>A row is shown as it is stored, or with the outcome of its session.\<close>

definition shown_row :: "(string \<Rightarrow> js_exn + stripe_status_view) \<Rightarrow> payment_row \<Rightarrow> payment_row \<Rightarrow> bool" where
  "shown_row retrieve p q \<longleftrightarrow> q = p \<or> (\<exists>session status. reconcilable p
     \<and> retrieve (the (p_providerReference p)) = Inr session \<and> session_outcome session = Some status
     \<and> q = shown_outcome status p)"

lemma db_bind_result: "db_bind m f w = (Inr y, w') \<Longrightarrow> \<exists>x v. m w = (Inr x, v) \<and> f x v = (Inr y, w')"
  by (auto simp: db_bind_def split: prod.splits sum.splits)

lemma reconcile_one_shown:
  "reconcilable p \<Longrightarrow> reconcile_one now retrieve p w = (Inr q, w') \<Longrightarrow> shown_row retrieve p q"
  unfolding shown_row_def reconcile_one_def
  by (auto simp: db_return_def db_then_def split: sum.splits option.splits dest!: db_bind_result)

lemma reconcile_rows_shown:
  "reconcile_rows now retrieve n ps w = (Inr qs, w') \<Longrightarrow> list_all2 (shown_row retrieve) ps qs"
proof (induction ps arbitrary: n w qs w')
  case Nil
  then show ?case by (simp add: db_return_def)
next
  case (Cons p ps)
  show ?case
  proof (cases "reconcilable p \<and> 0 < n")
    case True
    with Cons.prems obtain q v qs' v' where
      "reconcile_one now retrieve p w = (Inr q, v)" "reconcile_rows now retrieve (n - 1) ps v = (Inr qs', v')" "qs = q # qs'"
      by (auto simp: db_return_def dest!: db_bind_result)
    then show ?thesis using Cons.IH reconcile_one_shown True by auto
  next
    case False
    with Cons.prems obtain qs' v' where "reconcile_rows now retrieve n ps w = (Inr qs', v')" "qs = p # qs'"
      by (auto simp: db_return_def dest!: db_bind_result split: if_splits)
    then show ?thesis using Cons.IH by (auto simp: shown_row_def)
  qed
qed

lemma reconciled_shown:
  assumes "reconciled en retrieve now ps w = (Inr qs, w')"
  shows "list_all2 (shown_row (retrieve (the (en ''STRIPE_SECRET_KEY'')))) ps qs"
proof (cases "truthy (en ''STRIPE_SECRET_KEY'')")
  case True
  with assms show ?thesis by (auto simp: reconciled_def intro: reconcile_rows_shown)
next
  case False
  with assms have "qs = ps" by (simp add: reconciled_def db_return_def)
  then show ?thesis by (simp add: list_all2_same shown_row_def)
qed

lemma page_result:
  assumes "payments_page en retrieve now secret cookie (Some user) w = (Inr (Some v), w')"
  shows "list_all2 (shown_row (retrieve (the (en ''STRIPE_SECRET_KEY'')))) (page_rows (su_id user) (mode_of cookie) w) (pv_rows v)"
proof -
  obtain settings rows agg webhooks u u' where
    r: "page_reads now secret (mode_of cookie) user w = (Inr (settings, rows, agg, webhooks), u)"
    and q: "reconciled en retrieve now rows u = (Inr (pv_rows v), u')"
    using assms unfolding payments_page_def by (auto simp: Let_def db_return_def dest!: db_bind_result)
  show ?thesis using reconciled_shown [OF q] unfolding page_reads_rows(2) [OF r] .
qed


definition page_user :: session_user where
  "page_user = \<lparr>su_id = ''u1'', su_name = Some ''Ali'', su_email = None\<rparr>"

definition stripe_row :: "string \<Rightarrow> payment_row" where
  "stripe_row status = (demo_payment ''p1'' ''stripe'' status)\<lparr>p_providerReference := Some ''cs_1'', p_environment := ''test''\<rparr>"

definition paid_session :: stripe_retrieve where
  "paid_session = (\<lambda>_ _. Inr \<lparr>sv_payment_status = ''paid'', sv_session_status = None\<rparr>)"

definition stripe_env :: env where
  "stripe_env = (\<lambda>_. Some ''sk'')"

lemma page_settings:
  "outages w = [] \<Longrightarrow> merchantSettings w = [] \<Longrightarrow> getMerchantSettings 9 ''s'' ''u1'' (Some ''Ali'') None w
   = (Inr (initial_settings ''u1'' (Some ''Ali'') None ''s''),
      w\<lparr>merchantSettings := [settings_row 9 (initial_settings ''u1'' (Some ''Ali'') None ''s'')]\<rparr>)"
  by (simp add: getMerchantSettings_def schema_gate_def read_db_def select_settings_def settings_or_create_def
      insert_settings_def db_defs db_query_def Let_def)

lemma demo_page:
  "payments_page stripe_env paid_session 9 ''s'' None (Some page_user) (demo_world [stripe_row ''pending''])
   = (Inr (Some \<lparr>pv_settings = initial_settings ''u1'' (Some ''Ali'') None ''s'',
        pv_rows = [shown_outcome ''succeeded'' (stripe_row ''pending'')],
        pv_agg = page_agg ''u1'' ''test'' (demo_world [stripe_row ''pending'']), pv_webhooks = []\<rparr>),
      (demo_world [settle_session 9 ''succeeded'' (stripe_row ''pending'')])
        \<lparr>merchantSettings := [settings_row 9 (initial_settings ''u1'' (Some ''Ali'') None ''s'')]\<rparr>)"
  by (simp add: payments_page_def page_user_def mode_of_def both_def page_settings read_db_def db_query_def db_defs
      page_rows_def page_webhooks_def page_agg_def own_payments_def latest_def stripe_row_def demo_world_def empty_world_def
      reconciled_def stripe_env_def paid_session_def reconcilable_def reconcile_one_def session_outcome_def update_payment_def Let_def)


section \<open>How it falls short\<close>

text \<open>The row is shown as settled when the update is refused.\<close>

lemma page_shows_unstored:
  assumes "outages w = True # os" and "retrieve (the (p_providerReference p)) = Inr session"
    and "session_outcome session = Some status"
  shows "reconcile_one now retrieve p w = (Inr (shown_outcome status p), w\<lparr>outages := os\<rparr>)"
  using assms by (simp add: reconcile_one_def update_payment_def db_query_def db_defs)

text \<open>
  The payments page does not look before it writes. If a webhook fails the payment after the page
  has read it as pending, and Stripe has reported the session as complete, the page turns the failed payment into a
  succeeded one; the webhook routes refuse that change.
\<close>

theorem page_overwrites_failed:
  assumes "p \<in> set (payments v)" and "primary_key v" and "outages v = []" and "p_status p = ''failed''"
    and "retrieve (the (p_providerReference r)) = Inr session" and "session_outcome session = Some ''succeeded''"
    and "p_id r = p_id p"
  shows "is_illegal p ''succeeded'' \<and> (\<exists>q \<in> set (payments (snd (reconcile_one now retrieve r v))).
    p_id q = p_id p \<and> p_status q = ''succeeded'')"
proof -
  have "settle_session now ''succeeded'' p \<in> set (payments (snd (reconcile_one now retrieve r v)))"
    using assms by (auto simp: reconcile_one_def update_payment_def db_query_def db_defs)
  then have "\<exists>q \<in> set (payments (snd (reconcile_one now retrieve r v))). p_id q = p_id p \<and> p_status q = ''succeeded''"
    by (rule bexI [rotated]) (simp add: settle_session_def)
  then show ?thesis using assms(4) by (simp add: is_illegal_def is_terminal_def)
qed

theorem page_overwrites_failed_witness:
  "\<exists>q \<in> set (payments (snd (reconcile_one 9 (paid_session ''sk'') (stripe_row ''pending'') (demo_world [stripe_row ''failed''])))).
    p_id q = ''p1'' \<and> p_status q = ''succeeded''"
  using page_overwrites_failed [of "stripe_row ''failed''" "demo_world [stripe_row ''failed'']" "paid_session ''sk''" "stripe_row ''pending''"
      "\<lparr>sv_payment_status = ''paid'', sv_session_status = None\<rparr>" 9]
  by (simp add: stripe_row_def primary_key_def paid_session_def session_outcome_def)

end
