(* ===== verification/System.thy ===== *)
theory System
  imports Tenancy Interleaving Dashboard_Pages_Facts
begin

text \<open>
  The application as a whole: one step is one request that runs to its end (a route, a server action or a page of the
  dashboard), or the telemetry that runs after responses, under any answers of the gateway, of Stripe and of the database.
  The invariants of the components are put together over any number of steps. A step has an
  actor: the user whose session it carries, if it changes an account.
\<close>

section \<open>Steps\<close>

text \<open>What only reads: no table changes.\<close>

definition same_tables :: "world \<Rightarrow> world \<Rightarrow> bool" where
  "same_tables w w' \<longleftrightarrow> payments w' = payments w \<and> apiKeys w' = apiKeys w \<and> apiRequests w' = apiRequests w
     \<and> webhookEvents w' = webhookEvents w \<and> merchantSettings w' = merchantSettings w"

interpretation same_world: world_relation same_tables
  by unfold_locales (auto simp: same_tables_def)

text \<open>The telemetry of the responses so far, which empties the queue.\<close>

definition drain :: "int \<Rightarrow> rat \<Rightarrow> world \<Rightarrow> world" where
  "drain now elapsed w = run_after now elapsed (afterQueue w) (w\<lparr>afterQueue := []\<rparr>)"

inductive app_step :: "string option \<Rightarrow> world \<Rightarrow> world \<Rightarrow> bool" where
  read: "same_tables w w' \<Longrightarrow> app_step None w w'"
| webhook: "app_step None w (snd (run_handler (deliver pf construct_ev d) w))"
| create: "app_step None w (snd (run_handler (payments_post sv rq) w))"
| get: "app_step None w (snd (run_handler (payment_get sv retrieve rawVersion rawId h) w))"
| telemetry: "app_step None w (drain now elapsed w)"
| issue: "app_step (Some (su_id user)) w (snd (keys_post to_iso sha secret now (Some user) body w))"
| delete: "app_step (Some (su_id user)) w (snd (keys_delete to_number (Some user) body w))"
| issue_action: "app_step (Some (su_id user)) w (snd (createApiKey sha secret now (Some user) name environment w))"
| revoke_action: "app_step (Some (su_id user)) w (snd (revokeApiKey (Some user) i w))"
| remove_action: "app_step (Some (su_id user)) w (snd (removeAllKeysAction (Some user) w))"
| settings_read: "app_step (Some (su_id user)) w (snd (settings_get to_iso now secret (Some user) w))"
| settings_patch: "app_step (Some (su_id user)) w
    (snd (settings_patch_route to_iso email_ok url_ok details now secret secret' (Some user) body w))"
| settings_action: "app_step (Some (su_id user)) w (snd (saveMerchantSettingsAction now secret secret' (Some user) patch w))"
| settings_secret: "app_step (Some (su_id user)) w (snd (regenerateWebhookSecretAction now s secret secret' (Some user) w))"
| payments: "app_step (Some (su_id user)) w (snd (payments_page en retrieve now secret cookie (Some user) w))"
| dashboard: "app_step (Some (su_id user)) w (snd (dashboard_page cal t1 t2 t3 secret cookie (Some user) c w))"
| settings_view: "app_step (Some (su_id user)) w (snd (settings_page now secret (Some user) w))"
| ping: "app_step None w (snd (test_webhook_post url_ok post hmac bytes_hex iso_now now_ms latencyMs session body w))"

inductive app_run :: "string option set \<Rightarrow> world \<Rightarrow> world \<Rightarrow> bool" for actors where
  stay: "app_run actors w w"
| step: "app_run actors w v \<Longrightarrow> app_step a v v' \<Longrightarrow> a \<in> actors \<Longrightarrow> app_run actors w v'"

inductive_cases app_runE: "app_run actors w v"

section \<open>The routes that only read\<close>

context world_relation begin

lemma keeps_keys_get: "keeps R (keys_get to_iso session envParam)"
  unfolding keys_get_def Let_def
  by (auto intro!: keeps_then keeps_gate keeps_bind keeps_read keeps_answer_now split: option.splits)

lemma keeps_graphql:
  assumes "\<And>ctx q vs op. keeps R (graphql ctx q vs op)"
  shows "keeps R (executeGraphQL sha en graphql session h query variables operationName)"
proof -
  have "keeps R (request_context sha en session h)"
    unfolding request_context_def Let_def
    by (auto intro!: keeps_return keeps_catch keeps_bind keeps_authenticate split: option.splits sum.splits)
  then show ?thesis
    unfolding executeGraphQL_def
    by (auto intro!: keeps_bind keeps_then assms keeps_schedule keeps_return split: prod.splits)
qed

text \<open>The test delivery of the settings logs one event, which belongs to no payment.\<close>

lemma keeps_test_webhook:
  assumes "\<And>e. e_paymentId e = None \<Longrightarrow> keeps R (insert_webhook_event e)"
  shows "keeps R (test_webhook_post url_ok post hmac bytes_hex iso_now now_ms latencyMs session body)"
  unfolding test_webhook_post_def Let_def
  by (auto intro!: keeps_then keeps_gate keeps_catch keeps_return assms split: option.splits)

text \<open>A relation that every update of a payment keeps is kept by reading one payment.\<close>

lemma keeps_payment_get:
  assumes "\<And>i f. keeps R (update_payment i f)"
  shows "keeps R (payment_get sv retrieve rawVersion rawId h)"
proof -
  have "keeps R (find_payment u i)" for u i
    unfolding find_payment_def by (auto intro!: keeps_bind keeps_select keeps_return split: option.splits)
  moreover have "keeps R (refreshed_payment sv retrieve h version i p)" for version i p
  proof -
    have "keeps R (gateway_refresh sv h version i p)"
      unfolding gateway_refresh_def Let_def
      by (auto intro!: keeps_return keeps_then assms split: gateway_result.splits)
    moreover have "keeps R (stripe_refresh sv retrieve h p rs)" for rs
      unfolding stripe_refresh_def Let_def
      by (auto intro!: keeps_return keeps_then keeps_catch assms split: sum.splits option.splits)
    ultimately show ?thesis
      unfolding refreshed_payment_def by (auto intro!: keeps_bind keeps_return)
  qed
  ultimately show ?thesis
    unfolding payment_get_def Let_def
    by (auto intro!: keeps_bind keeps_return keeps_then keeps_authenticate keeps_telemetry split: option.splits sum.splits)
qed

end

text \<open>The reading routes are steps of the first kind; the GraphQL library is when its resolvers are.\<close>

lemma reading_routes:
  "keeps same_tables (payments_get sv to_num rawVersion h limit)"
  "keeps same_tables (keys_get to_iso session envParam)"
  "keeps same_tables (getDashboardData cal t1 t2 t3 u environment c)"
  "keeps same_tables (requests_page cookie session)" "keeps same_tables (api_keys_page session)"
  "keeps same_tables (resolve_payment ctx i)"
  "keeps same_tables (resolve_payments ctx status provider limit' offset)"
  "keeps same_tables (resolve_metrics cal t1 t2 t3 ctx c)"
  "keeps same_tables (resolve_timeline cal t1 t2 t3 ctx days c)"
  "(\<And>ctx q vs op. keeps same_tables (graphql ctx q vs op))
    \<Longrightarrow> keeps same_tables (executeGraphQL sha en graphql s h query variables operationName)"
  by (auto simp: resolve_payment_def resolve_payments_def resolve_metrics_def resolve_timeline_def gql_dashboard_def
      intro!: same_world.keeps_payments_get same_world.keeps_keys_get same_world.keeps_dashboard same_world.keeps_requests_page
        same_world.keeps_api_keys_page same_world.keeps_select
        same_world.keeps_read same_world.keeps_bind same_world.keeps_return same_world.keeps_graphql split: prod.splits)

section \<open>What a step keeps\<close>

lemma telemetry_rows:
  "payments (snd (recordApiRequest now elapsed t w)) = payments w"
  "webhookEvents (snd (recordApiRequest now elapsed t w)) = webhookEvents w"
  "merchantSettings (snd (recordApiRequest now elapsed t w)) = merchantSettings w"
  "map (\<lambda>k. k\<lparr>k_lastUsedAt := None\<rparr>) (apiKeys (snd (recordApiRequest now elapsed t w)))
    = map (\<lambda>k. k\<lparr>k_lastUsedAt := None\<rparr>) (apiKeys w)"
  by (auto simp: recordApiRequest_def Let_def db_query_def db_defs comp_def split: option.splits list.splits prod.splits sum.splits if_splits)

lemma drain_rows:
  "payments (drain now elapsed w) = payments w" "webhookEvents (drain now elapsed w) = webhookEvents w"
  "merchantSettings (drain now elapsed w) = merchantSettings w"
  "map (\<lambda>k. k\<lparr>k_lastUsedAt := None\<rparr>) (apiKeys (drain now elapsed w)) = map (\<lambda>k. k\<lparr>k_lastUsedAt := None\<rparr>) (apiKeys w)"
proof -
  have "payments (run_after now elapsed ts v) = payments v \<and> webhookEvents (run_after now elapsed ts v) = webhookEvents v
    \<and> merchantSettings (run_after now elapsed ts v) = merchantSettings v
    \<and> map (\<lambda>k. k\<lparr>k_lastUsedAt := None\<rparr>) (apiKeys (run_after now elapsed ts v)) = map (\<lambda>k. k\<lparr>k_lastUsedAt := None\<rparr>) (apiKeys v)" for ts v
    by (induction ts arbitrary: v) (simp_all add: telemetry_rows)
  then show "payments (drain now elapsed w) = payments w" "webhookEvents (drain now elapsed w) = webhookEvents w"
    "merchantSettings (drain now elapsed w) = merchantSettings w"
    "map (\<lambda>k. k\<lparr>k_lastUsedAt := None\<rparr>) (apiKeys (drain now elapsed w)) = map (\<lambda>k. k\<lparr>k_lastUsedAt := None\<rparr>) (apiKeys w)"
    by (simp_all add: drain_def)
qed

text \<open>Payments and audit log, over one step.\<close>

definition ledger_kept :: "world \<Rightarrow> world \<Rightarrow> bool" where
  "ledger_kept w w' \<longleftrightarrow> keyed same_money w w' \<and> events_kept w w'"

lemma ledger_kept_same: "payments w' = payments w \<Longrightarrow> webhookEvents w' = webhookEvents w \<Longrightarrow> ledger_kept w w'"
  by (simp add: ledger_kept_def money.keyed_same events_same)

lemma ledger_kept_trans: "ledger_kept u v \<Longrightarrow> ledger_kept v w \<Longrightarrow> ledger_kept u w"
  unfolding ledger_kept_def using money.keyed_trans events_world.rel_trans by blast

lemma settled_money: "keyed settled_kept w w' \<Longrightarrow> keyed same_money w w'"
  by (auto simp: keyed_def rows_related_nth settled_kept_def)

lemma keyed_upsert: "keeps (keyed same_money) (upsert_payment c (conflict_set now i))"
  unfolding upsert_payment_def
proof (rule money.keyed.keeps_query)
  let ?f = "conflict_set now i"
  have upd: "keyed same_money w (w\<lparr>payments := map (\<lambda>p. if p_id p = j then ?f p else p) (payments w)\<rparr>)" for w j
  proof -
    have "map p_id (map (\<lambda>p. if p_id p = j then ?f p else p) (payments w)) = map p_id (payments w)"
      using same_money_conflict_set by (auto simp: same_money_def)
    moreover have "rows_related same_money w (w\<lparr>payments := map (\<lambda>p. if p_id p = j then ?f p else p) (payments w)\<rparr>)"
      using same_money_conflict_set by (rule money.table_update)
    ultimately show ?thesis unfolding keyed_def primary_key_def by (simp del: map_map)
  qed
  show "keeps (keyed same_money) (\<lambda>w. case find (\<lambda>p. p_id p = p_id c) (payments w) of
      None \<Rightarrow> if idempotency_clash c (payments w) then (Inl (Error ''unique violation''), w)
        else (Inr (Some c), w\<lparr>payments := payments w @ [c]\<rparr>)
    | Some old \<Rightarrow> if idempotency_clash (?f old) (payments w) then (Inl (Error ''unique violation''), w)
        else (Inr (Some (?f old)), w\<lparr>payments := map (\<lambda>p. if p_id p = p_id c then ?f p else p) (payments w)\<rparr>))"
    unfolding keeps_def
    by (auto simp: money.keyed_same upd intro: money.keyed_insert split: option.split)
qed

lemma others_ledger: "others_kept u w w' \<Longrightarrow> webhookEvents w' = webhookEvents w \<Longrightarrow> ledger_kept w w'"
  by (simp add: others_kept_def ledger_kept_same)

text \<open>Account operations do not touch the audit log.\<close>

definition log_same :: "world \<Rightarrow> world \<Rightarrow> bool" where
  "log_same w w' \<longleftrightarrow> webhookEvents w' = webhookEvents w"

interpretation log_world: world_relation log_same
  by unfold_locales (auto simp: log_same_def)

lemma log_statements:
  "keeps log_same (insert_api_key u name generated now)" "keeps log_same (delete_api_keys cond)"
  "keeps log_same (insert_settings row)" "keeps log_same (upsert_settings row f)"
  unfolding insert_api_key_def delete_api_keys_def insert_settings_def upsert_settings_def
  by (rule log_world.keeps_query, simp add: keeps_def log_same_def Let_def)+

lemmas log_intros = log_world.keeps_return log_world.keeps_throw log_world.keeps_then log_world.keeps_bind
  log_world.keeps_read log_world.keeps_gate log_world.keeps_answer_now log_statements

lemma log_get_settings: "keeps log_same (getMerchantSettings now secret u name email)"
  unfolding getMerchantSettings_def select_settings_def settings_or_create_def
  by (auto intro!: log_intros split: option.splits simp: Let_def)

lemma log_update_settings: "keeps log_same (updateMerchantSettings now secret secret' u d)"
  unfolding updateMerchantSettings_def by (intro log_intros log_get_settings)

lemma log_accounts:
  "keeps log_same (keys_post to_iso sha secret now session body)" "keeps log_same (keys_delete to_number session body)"
  "keeps log_same (createApiKey sha secret now session name environment)" "keeps log_same (revokeApiKey session i)"
  "keeps log_same (removeAllKeysAction session)" "keeps log_same (settings_get to_iso now secret session)"
  "keeps log_same (settings_patch_route to_iso email_ok url_ok details now secret secret' session body)"
  "keeps log_same (saveMerchantSettingsAction now secret secret' session d)"
  "keeps log_same (regenerateWebhookSecretAction now s secret secret' session)"
  unfolding keys_post_def keys_delete_def createApiKey_def revokeApiKey_def removeAllKeysAction_def settings_get_def
    settings_patch_route_def saveMerchantSettingsAction_def regenerateWebhookSecretAction_def getUserId_def
  by (auto intro!: log_intros log_get_settings log_update_settings split: option.splits simp: Let_def)

lemma dashboard_pages_others:
  "keeps (others_kept (su_id user)) (dashboard_page cal t1 t2 t3 secret cookie (Some user) c)"
  "keeps (others_kept (su_id user)) (settings_page now secret (Some user))"
  by (auto simp: dashboard_page_def settings_page_def
      intro!: others_intros others_world.keeps_both others_world.keeps_dashboard others_get_settings split: prod.splits)

lemma dashboard_pages_log:
  "keeps log_same (dashboard_page cal t1 t2 t3 secret cookie session c)" "keeps log_same (settings_page now secret session)"
  by (rule log_world.keeps_dashboard_page log_world.keeps_settings_page, rule log_get_settings)+

text \<open>The payments page updates payments and may create the settings of its user.\<close>

definition settings_of_others :: "string \<Rightarrow> world \<Rightarrow> world \<Rightarrow> bool" where
  "settings_of_others u w w' \<longleftrightarrow> apiKeys w' = apiKeys w
     \<and> filter (\<lambda>m. m_userId m \<noteq> u) (merchantSettings w') = filter (\<lambda>m. m_userId m \<noteq> u) (merchantSettings w)"

interpretation settings_world: world_relation "settings_of_others u"
  by unfold_locales (auto simp: settings_of_others_def)

lemma payments_page_log: "keeps log_same (payments_page en retrieve now secret cookie session)"
proof (rule log_world.keeps_payments_page)
  show "keeps log_same (update_payment i f)" for i f
    unfolding update_payment_def by (rule log_world.keeps_query) (simp add: keeps_def log_same_def)
qed (rule log_get_settings)

lemma settings_insert: "m_userId row = u \<Longrightarrow> keeps (settings_of_others u) (insert_settings row)"
  unfolding insert_settings_def by (rule settings_world.keeps_query) (auto simp: keeps_def settings_of_others_def)

lemma settings_read: "keeps (settings_of_others u) (getMerchantSettings now secret u name email)"
  unfolding getMerchantSettings_def select_settings_def settings_or_create_def
  by (auto intro!: settings_world.keeps_then settings_world.keeps_gate settings_world.keeps_bind settings_world.keeps_read
      settings_world.keeps_return settings_insert simp: Let_def settings_row_def initial_settings_def split: option.splits)

lemma settings_update: "keeps (settings_of_others u) (update_payment i f)"
  unfolding update_payment_def by (rule settings_world.keeps_query) (simp add: keeps_def settings_of_others_def)

lemma payments_page_settings:
  "keeps (settings_of_others (su_id user)) (payments_page en retrieve now secret cookie (Some user))"
  unfolding payments_page_def Let_def reconciled_def
  by (auto intro!: settings_world.keeps_return settings_world.keeps_bind settings_world.keeps_both settings_read
      settings_world.keeps_read settings_world.keeps_reconcile_rows settings_update)

lemma payments_page_ledger: "ledger_kept w (snd (payments_page en retrieve now secret cookie session w))"
  unfolding ledger_kept_def
  by (intro conjI settled_money settled.keyed.keepsD [OF page_settled] events_same)
     (use log_world.keepsD [OF payments_page_log] in \<open>simp add: log_same_def\<close>)

lemma account_ledger:
  assumes "keeps (others_kept u) m" "keeps log_same m"
  shows "ledger_kept w (snd (m w))"
  using others_world.keepsD[OF assms(1), of w] log_world.keepsD[OF assms(2), of w] by (simp add: others_ledger log_same_def)

lemma ledger_step: "app_step a w w' \<Longrightarrow> ledger_kept w w'"
proof (induction rule: app_step.induct)
  case (read w w')
  then show ?case by (simp add: same_tables_def ledger_kept_same)
next
  case (webhook w pf ce d)
  show ?case unfolding ledger_kept_def
    by (intro conjI settled_money[OF settled.keyed.keeps_handler] events_world.keeps_handler dispatcher.settles dispatcher.logs)
next
  case (create w sv rq)
  show ?case unfolding ledger_kept_def
    by (intro conjI money.keyed.keeps_handler events_world.keeps_handler money.keyed.keeps_payments_post
        events_world.keeps_payments_post keyed_upsert events_upsert)
next
  case (get w sv retrieve rawVersion rawId h)
  show ?case unfolding ledger_kept_def
    by (intro conjI settled_money[OF settled.keyed.keeps_handler] events_world.keeps_handler payment_get_settled
        events_world.keeps_payment_get events_update)
next
  case (telemetry w now elapsed)
  show ?case by (simp add: ledger_kept_same drain_rows)
next
  case (payments user w en retrieve now secret cookie)
  show ?case by (rule payments_page_ledger)
next
  case (ping w url_ok post hmac bytes_hex iso_now now_ms latencyMs session body)
  show ?case unfolding ledger_kept_def
    by (intro conjI settled_money settled.keyed.keepsD [OF settled.keyed.keeps_test_webhook]
        events_world.keepsD [OF events_world.keeps_test_webhook] settled.keeps_insert_webhook_event(2) events_insert)
qed (rule account_ledger, rule others_keys_post others_keys_delete others_actions others_settings_handlers dashboard_pages_others,
    rule log_accounts dashboard_pages_log)+

text \<open>The keys of a user, but for when they were last used, and the user's settings.\<close>

definition credentials :: "string \<Rightarrow> world \<Rightarrow> api_key_row list \<times> merchant_settings_row list" where
  "credentials u w = (filter (\<lambda>k. k_userId k = u) (map (\<lambda>k. k\<lparr>k_lastUsedAt := None\<rparr>) (apiKeys w)),
     filter (\<lambda>m. m_userId m = u) (merchantSettings w))"

lemma credentials_same: "apiKeys w' = apiKeys w \<Longrightarrow> merchantSettings w' = merchantSettings w \<Longrightarrow> credentials u w' = credentials u w"
  by (simp add: credentials_def)

lemma accounts_credentials: "accounts_kept w w' \<Longrightarrow> credentials u w' = credentials u w"
  by (rule credentials_same) (simp_all add: accounts_kept_def)

lemma others_credentials:
  assumes "others_kept v w w'" "v \<noteq> u"
  shows "credentials u w' = credentials u w"
proof -
  have "filter (\<lambda>k. k_userId k = u) (apiKeys w') = filter (\<lambda>k. k_userId k = u) (apiKeys w)"
    "filter (\<lambda>m. m_userId m = u) (merchantSettings w') = filter (\<lambda>m. m_userId m = u) (merchantSettings w)"
    by (rule filter_own[where Q = "\<lambda>k. k_userId k \<noteq> v"], use assms in \<open>auto simp: others_kept_def\<close>)
       (rule filter_own[where Q = "\<lambda>m. m_userId m \<noteq> v"], use assms in \<open>auto simp: others_kept_def\<close>)
  note eqs = this
  have k: "filter (\<lambda>k. k_userId k = u) (map (\<lambda>k. k\<lparr>k_lastUsedAt := None\<rparr>) ks)
      = map (\<lambda>k. k\<lparr>k_lastUsedAt := None\<rparr>) (filter (\<lambda>k. k_userId k = u) ks)" for ks
    by (induction ks) auto
  show ?thesis unfolding credentials_def k eqs by (rule refl)
qed

lemma settings_credentials:
  assumes "settings_of_others v w w'" "v \<noteq> u"
  shows "credentials u w' = credentials u w"
proof -
  have "filter (\<lambda>m. m_userId m = u) (merchantSettings w') = filter (\<lambda>m. m_userId m = u) (merchantSettings w)"
    by (rule filter_own [where Q = "\<lambda>m. m_userId m \<noteq> v"], use assms in \<open>auto simp: settings_of_others_def\<close>)
  then show ?thesis using assms(1) by (simp add: credentials_def settings_of_others_def)
qed

lemma account_credentials: "keeps (others_kept v) m \<Longrightarrow> v \<noteq> u \<Longrightarrow> credentials u (snd (m w)) = credentials u w"
  by (rule others_credentials[OF others_world.keepsD])

lemma credentials_step: "app_step a w w' \<Longrightarrow> a \<noteq> Some u \<Longrightarrow> credentials u w' = credentials u w"
proof (induction rule: app_step.induct)
  case (read w w')
  then show ?case by (intro credentials_same) (simp_all add: same_tables_def)
next
  case (webhook w pf ce d)
  show ?case by (intro accounts_credentials accounts_world.keeps_handler dispatcher.others)
next
  case (create w sv rq)
  show ?case by (intro accounts_credentials accounts_world.keeps_handler accounts_world.keeps_payments_post accounts_statements)
next
  case (get w sv retrieve rawVersion rawId h)
  show ?case by (intro accounts_credentials accounts_world.keeps_handler accounts_world.keeps_payment_get accounts_statements)
next
  case (telemetry w now elapsed)
  show ?case by (simp add: credentials_def drain_rows)
next
  case (payments user w en retrieve now secret cookie)
  then show ?case
    using settings_credentials [OF settings_world.keepsD [OF payments_page_settings]] by simp
next
  case (ping w url_ok post hmac bytes_hex iso_now now_ms latencyMs session body)
  show ?case by (intro accounts_credentials accounts_world.keepsD accounts_world.keeps_test_webhook accounts_statements)
qed (rule account_credentials, rule others_keys_post others_keys_delete others_actions others_settings_handlers
    dashboard_pages_others, simp)+

section \<open>Properties\<close>

lemma ledger_run: "app_run actors w w' \<Longrightarrow> ledger_kept w w'"
proof (induction rule: app_run.induct)
  case (stay w)
  show ?case by (simp add: ledger_kept_same)
next
  case (step w v a v')
  then show ?case using ledger_step ledger_kept_trans by blast
qed

text \<open>
  C2. The ledger holds over the life of the application: after any number of requests of any kind,
  with any failures, identifiers of payments are still unique, every payment there was has its
  identifier, rail, amount, currency, idempotency key and creation time, and the audit log has
  only grown, with one event per identifier.
\<close>

theorem application_keeps_ledger:
  assumes "app_run actors w w'" "primary_key w" "distinct (map e_eventId (webhookEvents w))"
  shows "primary_key w' \<and> rows_related same_money w w'
    \<and> (\<exists>new. webhookEvents w' = webhookEvents w @ new) \<and> distinct (map e_eventId (webhookEvents w'))"
  using ledger_run[OF assms(1)] assms(2,3) by (simp add: ledger_kept_def keyed_def events_kept_def)


definition demo_next_world :: world where
  "demo_next_world = snd (run_handler (deliver demo_platform demo_construct (demo_delivery ''stripe''))
     (demo_world [demo_payment ''p1'' ''stripe'' ''pending'']))"

lemma demo_run: "app_run {None} (demo_world [demo_payment ''p1'' ''stripe'' ''pending'']) demo_next_world"
  unfolding demo_next_world_def by (rule app_run.step[OF app_run.stay app_step.webhook]) simp

theorem application_keeps_ledger_witness:
  "primary_key demo_next_world \<and> rows_related same_money (demo_world [demo_payment ''p1'' ''stripe'' ''pending'']) demo_next_world"
  using application_keeps_ledger[OF demo_run] by (simp add: primary_key_def demo_world_def empty_world_def)


end
