(* ===== verification/Sdk_Client.thy ===== *)
theory Sdk_Client
  imports Json Money Gateway
begin

text \<open>
  The TypeScript SDK: \<open>sdk/typescript/src/client.ts\<close>, \<open>errors.ts\<close> and \<open>types.ts\<close>.

  A JavaScript number is its rational value, \<open>None\<close> when it is not finite; a credential that is
  \<open>None\<close> is an absent property. The server behind \<open>fetchImpl\<close> is a function of the number of
  the attempt and the request; an answer is its status, status text and JSON body, \<open>None\<close> for a
  body that is not JSON. An abort signal tells at which attempts it has fired: before the attempt,
  while it runs, or during the delay after it. A call returns its result and the trace of what
  it did: the requests sent and the delays slept.
\<close>

section \<open>Errors\<close>

datatype api_error_class =
    ValidationError | IdempotencyConflictError | AuthenticationError | AuthorizationError
  | ConfigurationError | NetworkError | TimeoutError | ProviderError | RateLimitError
  | UnsupportedCapabilityError | SecurityError | InternalError | UnknownOutcomeError
  | GatewayUnreachableError | GatewayTimeoutError

fun error_code :: "api_error_class \<Rightarrow> string" where
  "error_code ValidationError = ''validation_error''"
| "error_code IdempotencyConflictError = ''idempotency_conflict''"
| "error_code AuthenticationError = ''authentication_error''"
| "error_code AuthorizationError = ''authorization_error''"
| "error_code ConfigurationError = ''configuration_error''"
| "error_code NetworkError = ''network_error''"
| "error_code TimeoutError = ''timeout''"
| "error_code ProviderError = ''provider_error''"
| "error_code RateLimitError = ''rate_limit''"
| "error_code UnsupportedCapabilityError = ''unsupported_capability''"
| "error_code SecurityError = ''security_error''"
| "error_code InternalError = ''internal_error''"
| "error_code UnknownOutcomeError = ''unknown_outcome''"
| "error_code GatewayUnreachableError = ''gateway_unreachable''"
| "error_code GatewayTimeoutError = ''gateway_timeout''"

datatype sdk_exn =
    JsExn js_exn
  | ApiError (ae_class: api_error_class) (ae_message: string) (ae_status: nat)
  | Aborted string

definition CODE_TO_CLASS :: "(string \<times> api_error_class) list" where
  "CODE_TO_CLASS =
    [(''validation_error'', ValidationError), (''authentication_error'', AuthenticationError),
     (''authorization_error'', AuthorizationError), (''configuration_error'', ConfigurationError),
     (''network_error'', NetworkError), (''timeout'', TimeoutError), (''timeout_error'', TimeoutError),
     (''provider_error'', ProviderError), (''rate_limit'', RateLimitError), (''rate_limit_error'', RateLimitError),
     (''unsupported_capability'', UnsupportedCapabilityError), (''security_error'', SecurityError),
     (''internal_error'', InternalError), (''unknown_outcome'', UnknownOutcomeError),
     (''invalid_request'', ValidationError), (''idempotency_conflict'', IdempotencyConflictError),
     (''missing_provider_credentials'', ValidationError), (''not_found'', ValidationError),
     (''unauthorized'', AuthorizationError)]"

text \<open>\<open>code\<close> and \<open>message\<close> of the body; names of \<open>Object.prototype\<close> are not modelled as codes.\<close>

definition errorFromBody :: "string \<Rightarrow> string \<Rightarrow> nat \<Rightarrow> sdk_exn" where
  "errorFromBody code message httpStatus =
     ApiError (nullish_else (map_of CODE_TO_CLASS code) InternalError) message httpStatus"

text \<open>\<open>isErrorBody\<close>: the code and message of a well-formed error body.\<close>

definition error_body :: "jsv \<Rightarrow> (string \<times> string) option" where
  "error_body v = (case (v, field v ''error'') of
     (JObj _, JObj e) \<Rightarrow>
       (case (field (JObj e) ''code'', field (JObj e) ''message'') of
          (JStr c, JStr m) \<Rightarrow> Some (c, m)
        | _ \<Rightarrow> None)
   | _ \<Rightarrow> None)"

section \<open>Credentials\<close>

datatype text_or_number = TextId string | NumberId int

record paymob_credentials =
  cp_secretKey :: "string option"
  cp_publicKey :: "string option"
  cp_hmacSecret :: "string option"
  cp_integrationId :: "text_or_number option"
  cp_baseUrl :: "string option"

record fawry_credentials =
  cf_merchantCode :: "string option"
  cf_secureKey :: "string option"
  cf_baseUrl :: "string option"

record provider_credentials =
  pr_paymob :: "paymob_credentials option"
  pr_fawry :: "fawry_credentials option"
  pr_stripe :: "string option option"

definition override :: "'a option \<Rightarrow> 'a option \<Rightarrow> 'a option" where
  "override d v = (case v of None \<Rightarrow> d | Some x \<Rightarrow> Some x)"

definition merge_paymob :: "paymob_credentials \<Rightarrow> paymob_credentials \<Rightarrow> paymob_credentials" where
  "merge_paymob d v =
     \<lparr>cp_secretKey = override (cp_secretKey d) (cp_secretKey v), cp_publicKey = override (cp_publicKey d) (cp_publicKey v),
      cp_hmacSecret = override (cp_hmacSecret d) (cp_hmacSecret v),
      cp_integrationId = override (cp_integrationId d) (cp_integrationId v),
      cp_baseUrl = override (cp_baseUrl d) (cp_baseUrl v)\<rparr>"

definition merge_fawry :: "fawry_credentials \<Rightarrow> fawry_credentials \<Rightarrow> fawry_credentials" where
  "merge_fawry d v =
     \<lparr>cf_merchantCode = override (cf_merchantCode d) (cf_merchantCode v),
      cf_secureKey = override (cf_secureKey d) (cf_secureKey v), cf_baseUrl = override (cf_baseUrl d) (cf_baseUrl v)\<rparr>"

text \<open>Both sides present: field by field; one side: that side; none: the member is absent.\<close>

definition merge_member :: "('a \<Rightarrow> 'a \<Rightarrow> 'a) \<Rightarrow> 'a option \<Rightarrow> 'a option \<Rightarrow> 'a option" where
  "merge_member f d v = (case (d, v) of
     (Some a, Some b) \<Rightarrow> Some (f a b) | (Some a, None) \<Rightarrow> Some a | (None, b) \<Rightarrow> b)"

definition no_providers :: provider_credentials where
  "no_providers = \<lparr>pr_paymob = None, pr_fawry = None, pr_stripe = None\<rparr>"

definition mergeProviders ::
  "provider_credentials option \<Rightarrow> provider_credentials option \<Rightarrow> provider_credentials" where
  "mergeProviders defaults overrides =
     (let d = nullish_else defaults no_providers; v = nullish_else overrides no_providers
      in \<lparr>pr_paymob = merge_member merge_paymob (pr_paymob d) (pr_paymob v),
          pr_fawry = merge_member merge_fawry (pr_fawry d) (pr_fawry v),
          pr_stripe = merge_member override (pr_stripe d) (pr_stripe v)\<rparr>)"

definition header_if :: "string \<Rightarrow> string option \<Rightarrow> headers" where
  "header_if name v = (if truthy v then [(name, the v)] else [])"

definition integration_text :: "text_or_number option \<Rightarrow> string option" where
  "integration_text v = (case v of
     None \<Rightarrow> None | Some (TextId s) \<Rightarrow> Some s | Some (NumberId n) \<Rightarrow> if n = 0 then None else Some (int_str n))"

definition credential_headers :: "provider_credentials \<Rightarrow> headers" where
  "credential_headers m =
     (case pr_paymob m of None \<Rightarrow> [] | Some c \<Rightarrow>
        header_if ''X-Paymob-Secret-Key'' (cp_secretKey c) @ header_if ''X-Paymob-Public-Key'' (cp_publicKey c)
        @ header_if ''X-Paymob-Hmac-Secret'' (cp_hmacSecret c)
        @ header_if ''X-Paymob-Integration-Id'' (integration_text (cp_integrationId c))
        @ header_if ''X-Paymob-Base-Url'' (cp_baseUrl c))
     @ (case pr_fawry m of None \<Rightarrow> [] | Some c \<Rightarrow>
        header_if ''X-Fawry-Merchant-Code'' (cf_merchantCode c) @ header_if ''X-Fawry-Secure-Key'' (cf_secureKey c)
        @ header_if ''X-Fawry-Base-Url'' (cf_baseUrl c))
     @ (case pr_stripe m of None \<Rightarrow> [] | Some c \<Rightarrow> header_if ''X-Stripe-Secret-Key'' c)"

section \<open>The client\<close>

type_synonym js_num = "rat option"

text \<open>\<open>None\<close> when the value is accepted, otherwise the exception.\<close>

definition validatePositiveInteger :: "string \<Rightarrow> js_num \<Rightarrow> js_exn option" where
  "validatePositiveInteger name value =
     (if (case value of None \<Rightarrow> False | Some x \<Rightarrow> is_safe_integer x \<and> 0 < x) then None
      else Some (RangeError (name @ '' must be a positive integer in minor units (e.g. 1000 for 10.00 EGP). Never pass floating-point numbers.'')))"

definition validateIdempotencyKey :: "string \<Rightarrow> js_exn option" where
  "validateIdempotencyKey value =
     (if length value < 1 \<or> 200 < length value
         \<or> \<not> list_all (\<lambda>c. let n = char_code c in n = 33 \<or> (35 \<le> n \<and> n \<le> 126)) value
      then Some (TypeError ''idempotencyKey must be 1-200 printable ASCII characters without quotes or whitespace'')
      else None)"

definition normalizeBaseUrl :: "url_parser \<Rightarrow> string \<Rightarrow> js_exn + string" where
  "normalizeBaseUrl parse_url raw =
     (case parse_url raw of
        None \<Rightarrow> Inl (TypeError ''baseUrl must be an absolute HTTP(S) URL'')
      | Some u \<Rightarrow>
          if (u_protocol u \<noteq> ''http:'' \<and> u_protocol u \<noteq> ''https:'') \<or> u_username u \<noteq> [] \<or> u_password u \<noteq> [] then
            Inl (TypeError ''baseUrl must be an absolute HTTP(S) URL without embedded credentials'')
          else if u_search u \<noteq> [] \<or> u_hash u \<noteq> [] then
            Inl (TypeError ''baseUrl must not contain a query string or fragment'')
          else Inr (strip_trailing_slashes (u_href u)))"

record client_options =
  co_baseUrl :: "string option"
  co_apiKey :: "string option"
  co_providers :: "provider_credentials option"
  co_maxRetries :: "js_num option"
  co_retryDelayMs :: "js_num option"
  co_timeoutMs :: "js_num option"

record sdk_client =
  cl_baseUrl :: string
  cl_apiKey :: "string option"
  cl_providers :: "provider_credentials option"
  cl_maxRetries :: nat
  cl_retryDelayMs :: rat
  cl_timeoutMs :: js_num

definition new_client :: "url_parser \<Rightarrow> env \<Rightarrow> client_options \<Rightarrow> js_exn + sdk_client" where
  "new_client parse_url en options =
     (let defaultBaseUrl = or_else (en ''OPENWRAPPER_BASE_URL'') ''http://127.0.0.1:8080'';
          maxRetries = nullish_else (co_maxRetries options) (Some 0);
          retryDelayMs = nullish_else (co_retryDelayMs options) (Some 200);
          timeoutMs = nullish_else (co_timeoutMs options) (Some 30000)
      in case normalizeBaseUrl parse_url (nullish_else (co_baseUrl options) defaultBaseUrl) of
           Inl e \<Rightarrow> Inl e
         | Inr baseUrl \<Rightarrow>
             (case maxRetries of
                None \<Rightarrow> Inl (RangeError ''maxRetries must be a non-negative integer'')
              | Some r \<Rightarrow>
                  if of_int \<lfloor>r\<rfloor> \<noteq> r \<or> r < 0 then Inl (RangeError ''maxRetries must be a non-negative integer'')
                  else case retryDelayMs of
                    None \<Rightarrow> Inl (RangeError ''retryDelayMs must be a non-negative number'')
                  | Some d \<Rightarrow>
                      if d < 0 then Inl (RangeError ''retryDelayMs must be a non-negative number'')
                      else case validatePositiveInteger ''timeoutMs'' timeoutMs of
                        Some e \<Rightarrow> Inl e
                      | None \<Rightarrow> Inr \<lparr>cl_baseUrl = baseUrl,
                          cl_apiKey = (case co_apiKey options of None \<Rightarrow> en ''OPENWRAPPER_API_KEY'' | Some k \<Rightarrow> Some k),
                          cl_providers = co_providers options, cl_maxRetries = nat \<lfloor>r\<rfloor>,
                          cl_retryDelayMs = d, cl_timeoutMs = timeoutMs\<rparr>))"

definition urlFor :: "sdk_client \<Rightarrow> string \<Rightarrow> string" where
  "urlFor cl path =
     (if ends_with (cl_baseUrl cl) ''/v1'' \<and> starts_with path ''/v1/'' then cl_baseUrl cl @ drop 3 path
      else cl_baseUrl cl @ path)"

section \<open>One request and its retries\<close>

record sdk_request =
  sq_method :: string
  sq_url :: string
  sq_headers :: headers
  sq_body :: "string option"

datatype fetch_result =
    Failed string bool
  | Answered nat string "jsv option"

record abort_signal =
  sg_before :: "nat \<Rightarrow> bool"
  sg_during :: "nat \<Rightarrow> bool"
  sg_sleep :: "nat \<Rightarrow> bool"
  sg_reason :: string

definition no_signal :: abort_signal where
  "no_signal = \<lparr>sg_before = (\<lambda>_. False), sg_during = (\<lambda>_. False), sg_sleep = (\<lambda>_. False), sg_reason = []\<rparr>"

datatype sdk_event = Sent sdk_request | Slept rat

type_synonym 'a sdk_result = "(sdk_exn + 'a) \<times> sdk_event list"

definition read_answer :: "nat \<Rightarrow> string \<Rightarrow> jsv option \<Rightarrow> sdk_exn + jsv" where
  "read_answer status statusText json =
     (let body = nullish_else json JNull in
      if 200 \<le> status \<and> status \<le> 299 then
        (if status = 204 then Inr JUndef
         else if body = JNull then
           Inl (ApiError GatewayUnreachableError ''OpenWrapper gateway returned a non-JSON success response'' 0)
         else Inr body)
      else case error_body body of
        None \<Rightarrow> Inl (ApiError GatewayUnreachableError
          (''HTTP '' @ nat_str status @ '' from gateway: '' @ statusText) 0)
      | Some (code, message) \<Rightarrow> Inl (errorFromBody code message status))"

definition exhausted :: "sdk_request \<Rightarrow> js_num \<Rightarrow> string \<Rightarrow> bool \<Rightarrow> nat \<Rightarrow> sdk_exn" where
  "exhausted req timeoutMs msg timedOut attempts =
     (if timedOut then ApiError GatewayTimeoutError
        (''OpenWrapper gateway request timed out after ''
          @ (case timeoutMs of None \<Rightarrow> ''NaN'' | Some t \<Rightarrow> int_str \<lfloor>t\<rfloor>) @ ''ms'') 0
      else ApiError GatewayUnreachableError
        (''Failed to reach OpenWrapper gateway at '' @ sq_url req @ '' after '' @ nat_str attempts
          @ '' attempt(s): '' @ msg) 0)"

function request_loop ::
  "(nat \<Rightarrow> sdk_request \<Rightarrow> fetch_result) \<Rightarrow> abort_signal \<Rightarrow> sdk_request \<Rightarrow> rat \<Rightarrow> js_num \<Rightarrow> nat \<Rightarrow> nat
    \<Rightarrow> sdk_event list \<Rightarrow> jsv sdk_result" where
  "request_loop server sg req baseDelay timeoutMs maxAttempts attempt trace =
     (if attempt < maxAttempts then
        if sg_before sg attempt then (Inl (Aborted (sg_reason sg)), trace)
        else case server attempt req of
          Answered status statusText json \<Rightarrow> (read_answer status statusText json, trace @ [Sent req])
        | Failed msg timedOut \<Rightarrow>
            if sg_during sg attempt then (Inl (Aborted msg), trace @ [Sent req])
            else if maxAttempts \<le> attempt + 1 then
              (Inl (exhausted req timeoutMs msg timedOut (attempt + 1)), trace @ [Sent req])
            else if sg_sleep sg attempt then (Inl (Aborted (sg_reason sg)), trace @ [Sent req])
            else request_loop server sg req baseDelay timeoutMs maxAttempts (attempt + 1)
                   (trace @ [Sent req, Slept (baseDelay * 2 ^ attempt)])
      else (Inl (ApiError GatewayUnreachableError ''Request loop exited unexpectedly'' 0), trace))"
  by pat_completeness auto

termination by (relation "measure (\<lambda>(_, _, _, _, _, maxAttempts, attempt, _). maxAttempts - attempt)") auto

declare request_loop.simps [simp del]

record request_init =
  ri_headers :: headers
  ri_body :: "jsv option"
  ri_signal :: "abort_signal option"
  ri_timeoutMs :: "js_num option"

definition built_request :: "sdk_client \<Rightarrow> string \<Rightarrow> string \<Rightarrow> request_init \<Rightarrow> sdk_request" where
  "built_request cl meth path init =
     (let h = fold (\<lambda>(k, v) acc. assoc_set k v acc) (ri_headers init) [(''Content-Type'', ''application/json'')];
          h' = (case cl_apiKey cl of None \<Rightarrow> h | Some k \<Rightarrow> if k = [] then h
                else assoc_set ''X-API-Key'' k (assoc_set ''Authorization'' (''Bearer '' @ k) h))
      in \<lparr>sq_method = meth, sq_url = urlFor cl path, sq_headers = h',
          sq_body = Option.bind (ri_body init) js_stringify\<rparr>)"

definition sdk_request_run ::
  "sdk_client \<Rightarrow> (nat \<Rightarrow> sdk_request \<Rightarrow> fetch_result) \<Rightarrow> string \<Rightarrow> string \<Rightarrow> request_init \<Rightarrow> jsv sdk_result" where
  "sdk_request_run cl server meth path init =
     (let timeoutMs = nullish_else (ri_timeoutMs init) (cl_timeoutMs cl) in
      case validatePositiveInteger ''timeoutMs'' timeoutMs of
        Some e \<Rightarrow> (Inl (JsExn e), [])
      | None \<Rightarrow> request_loop server (nullish_else (ri_signal init) no_signal) (built_request cl meth path init)
          (cl_retryDelayMs cl) timeoutMs (cl_maxRetries cl + 1) 0 [])"

section \<open>Values read from the wire\<close>

record sdk_payment =
  sp_paymentId :: jsv
  sp_provider :: jsv
  sp_providerReference :: jsv
  sp_status :: jsv
  sp_amountMinorUnits :: jsv
  sp_currency :: jsv
  sp_merchantReference :: jsv
  sp_nextAction :: "jsv option"

text \<open>Reading a property of \<open>undefined\<close> or \<open>null\<close> throws.\<close>

definition wire_object :: "jsv \<Rightarrow> (jsv \<Rightarrow> 'a) \<Rightarrow> sdk_exn + 'a" where
  "wire_object w f = (if w = JUndef \<or> w = JNull then Inl (JsExn (TypeError ''properties of undefined'')) else Inr (f w))"

definition fromWire :: "jsv \<Rightarrow> sdk_exn + sdk_payment" where
  "fromWire v = wire_object v (\<lambda>w.
     \<lparr>sp_paymentId = field w ''payment_id'', sp_provider = field w ''provider'',
      sp_providerReference = field w ''provider_reference'', sp_status = field w ''status'',
      sp_amountMinorUnits = field w ''amount_minor_units'', sp_currency = field w ''currency'',
      sp_merchantReference = field w ''merchant_reference'',
      sp_nextAction = (if field w ''next_action'' \<noteq> JUndef then Some (field w ''next_action'') else None)\<rparr>)"

record sdk_refund =
  sf_id :: jsv
  sf_paymentId :: jsv
  sf_amountMinorUnits :: jsv
  sf_currency :: jsv
  sf_status :: jsv
  sf_reason :: jsv
  sf_providerRefundRef :: jsv
  sf_createdAt :: jsv

definition fromWireRefund :: "jsv \<Rightarrow> sdk_exn + sdk_refund" where
  "fromWireRefund v = wire_object v (\<lambda>w.
     \<lparr>sf_id = field w ''id'', sf_paymentId = field w ''payment_id'',
      sf_amountMinorUnits = field w ''amount_minor_units'', sf_currency = field w ''currency'',
      sf_status = field w ''status'', sf_reason = field w ''reason'',
      sf_providerRefundRef = field w ''provider_refund_ref'', sf_createdAt = field w ''created_at''\<rparr>)"

record sdk_event_view =
  sev_id :: jsv
  sev_userId :: jsv
  sev_eventType :: jsv
  sev_resourceId :: jsv
  sev_payload :: jsv
  sev_createdAt :: jsv

definition fromWireEvent :: "jsv \<Rightarrow> sdk_exn + sdk_event_view" where
  "fromWireEvent v = wire_object v (\<lambda>w.
     \<lparr>sev_id = field w ''id'', sev_userId = field w ''user_id'', sev_eventType = field w ''event_type'',
      sev_resourceId = field w ''resource_id'', sev_payload = field w ''payload'', sev_createdAt = field w ''created_at''\<rparr>)"

record sdk_endpoint =
  sep_id :: jsv
  sep_userId :: jsv
  sep_url :: jsv
  sep_secret :: jsv
  sep_events :: jsv
  sep_isActive :: jsv
  sep_createdAt :: jsv

definition fromWireEndpoint :: "jsv \<Rightarrow> sdk_exn + sdk_endpoint" where
  "fromWireEndpoint v = wire_object v (\<lambda>w.
     \<lparr>sep_id = field w ''id'', sep_userId = field w ''user_id'', sep_url = field w ''url'',
      sep_secret = field w ''secret'', sep_events = field w ''events'', sep_isActive = field w ''is_active'',
      sep_createdAt = field w ''created_at''\<rparr>)"

text \<open>\<open>wire.data.map(f)\<close>.\<close>

fun map_wire :: "(jsv \<Rightarrow> sdk_exn + 'a) \<Rightarrow> jsv list \<Rightarrow> sdk_exn + 'a list" where
  "map_wire f [] = Inr []"
| "map_wire f (v # vs) = (case f v of Inl e \<Rightarrow> Inl e
     | Inr a \<Rightarrow> (case map_wire f vs of Inl e \<Rightarrow> Inl e | Inr xs \<Rightarrow> Inr (a # xs)))"

definition wire_data :: "(jsv \<Rightarrow> sdk_exn + 'a) \<Rightarrow> jsv \<Rightarrow> sdk_exn + 'a list" where
  "wire_data f v = (if v = JUndef then Inl (JsExn (TypeError ''properties of undefined''))
     else case field v ''data'' of JArr xs \<Rightarrow> map_wire f xs | _ \<Rightarrow> Inl (JsExn (TypeError ''map is not a function'')))"

text \<open>The rest of a method once its request has returned.\<close>

definition after_request :: "jsv sdk_result \<Rightarrow> (jsv \<Rightarrow> sdk_exn + 'a) \<Rightarrow> 'a sdk_result" where
  "after_request r f = (case r of (Inl e, t) \<Rightarrow> (Inl e, t) | (Inr v, t) \<Rightarrow> (f v, t))"

section \<open>The methods\<close>

record payment_params =
  pp_provider :: string
  pp_amountMinorUnits :: js_num
  pp_currency :: "string option"
  pp_phone :: string
  pp_email :: "string option"
  pp_fullName :: "string option"
  pp_merchantReference :: "string option"
  pp_description :: "string option"
  pp_returnUrl :: "string option"
  pp_metadata :: "(string \<times> jsv) list option"

record call_options =
  op_signal :: "abort_signal option"
  op_timeoutMs :: "js_num option"
  op_idempotencyKey :: "string option"
  op_providers :: "provider_credentials option"

text \<open>Amounts the SDK lets through: the exception, or the integer.\<close>

definition checked_amount :: "js_num \<Rightarrow> js_exn + int" where
  "checked_amount amount =
     (case validatePositiveInteger ''amountMinorUnits'' amount of
        Some e \<Rightarrow> Inl e
      | None \<Rightarrow> (case amount of
          None \<Rightarrow> Inl (RangeError [])
        | Some x \<Rightarrow> if 1000000000 < x then
              Inl (RangeError ''amountMinorUnits exceeds the gateway maximum of 1000000000'')
            else Inr \<lfloor>x\<rfloor>))"

definition opt_member :: "string \<Rightarrow> string option \<Rightarrow> (string \<times> jsv) list" where
  "opt_member k v = [(k, case v of None \<Rightarrow> JUndef | Some s \<Rightarrow> JStr s)]"

definition create_body :: "payment_params \<Rightarrow> int \<Rightarrow> jsv" where
  "create_body ps amount = JObj
     ([(''provider'', JStr (pp_provider ps)), (''amount_minor_units'', JNum amount 0)]
      @ opt_member ''currency'' (pp_currency ps)
      @ [(''customer'', JObj ([(''phone'', JStr (pp_phone ps))] @ opt_member ''email'' (pp_email ps)
          @ opt_member ''full_name'' (pp_fullName ps)))]
      @ opt_member ''merchant_reference'' (pp_merchantReference ps)
      @ opt_member ''description'' (pp_description ps) @ opt_member ''return_url'' (pp_returnUrl ps)
      @ [(''metadata'', case pp_metadata ps of None \<Rightarrow> JUndef | Some md \<Rightarrow> JObj md)])"

definition payments_create ::
  "sdk_client \<Rightarrow> (nat \<Rightarrow> sdk_request \<Rightarrow> fetch_result) \<Rightarrow> string \<Rightarrow> payment_params \<Rightarrow> call_options
    \<Rightarrow> sdk_payment sdk_result" where
  "payments_create cl server uuid ps options =
     (case checked_amount (pp_amountMinorUnits ps) of
        Inl e \<Rightarrow> (Inl (JsExn e), [])
      | Inr amount \<Rightarrow>
          (let idempotencyKey = nullish_else (op_idempotencyKey options) uuid in
           case validateIdempotencyKey idempotencyKey of
             Some e \<Rightarrow> (Inl (JsExn e), [])
           | None \<Rightarrow>
               after_request (sdk_request_run cl server ''POST'' ''/v1/payments''
                   \<lparr>ri_headers = (''Idempotency-Key'', idempotencyKey)
                      # credential_headers (mergeProviders (cl_providers cl) (op_providers options)),
                    ri_body = Some (create_body ps amount), ri_signal = op_signal options,
                    ri_timeoutMs = op_timeoutMs options\<rparr>)
                 fromWire))"

definition plain_init :: "call_options \<Rightarrow> jsv option \<Rightarrow> request_init" where
  "plain_init options body = \<lparr>ri_headers = [], ri_body = body, ri_signal = op_signal options,
     ri_timeoutMs = op_timeoutMs options\<rparr>"

definition payments_get_sdk ::
  "sdk_client \<Rightarrow> (nat \<Rightarrow> sdk_request \<Rightarrow> fetch_result) \<Rightarrow> (string \<Rightarrow> string) \<Rightarrow> string \<Rightarrow> call_options
    \<Rightarrow> sdk_payment sdk_result" where
  "payments_get_sdk cl server encode paymentId options =
     (if paymentId = [] then (Inl (JsExn (TypeError ''paymentId must not be empty'')), [])
      else after_request (sdk_request_run cl server ''GET'' (''/v1/payments/'' @ encode paymentId) (plain_init options None))
        fromWire)"

definition refunds_create ::
  "sdk_client \<Rightarrow> (nat \<Rightarrow> sdk_request \<Rightarrow> fetch_result) \<Rightarrow> (string \<Rightarrow> string) \<Rightarrow> string \<Rightarrow> js_num \<Rightarrow> string option
    \<Rightarrow> call_options \<Rightarrow> sdk_refund sdk_result" where
  "refunds_create cl server encode paymentId amount reason options =
     (if paymentId = [] then (Inl (JsExn (TypeError ''paymentId must not be empty'')), [])
      else case checked_amount amount of
        Inl e \<Rightarrow> (Inl (JsExn e), [])
      | Inr n \<Rightarrow>
          after_request (sdk_request_run cl server ''POST'' (''/v1/payments/'' @ encode paymentId @ ''/refunds'')
              \<lparr>ri_headers = header_if ''Idempotency-Key'' (op_idempotencyKey options),
               ri_body = Some (JObj ([(''amount_minor_units'', JNum n 0)] @ opt_member ''reason'' reason)),
               ri_signal = op_signal options, ri_timeoutMs = op_timeoutMs options\<rparr>)
            fromWireRefund)"

definition refunds_list ::
  "sdk_client \<Rightarrow> (nat \<Rightarrow> sdk_request \<Rightarrow> fetch_result) \<Rightarrow> (string \<Rightarrow> string) \<Rightarrow> string \<Rightarrow> call_options
    \<Rightarrow> sdk_refund list sdk_result" where
  "refunds_list cl server encode paymentId options =
     (if paymentId = [] then (Inl (JsExn (TypeError ''paymentId must not be empty'')), [])
      else after_request (sdk_request_run cl server ''GET'' (''/v1/payments/'' @ encode paymentId @ ''/refunds'')
          (plain_init options None)) (wire_data fromWireRefund))"

text \<open>\<open>form_encode\<close> is the serialisation of a \<open>URLSearchParams\<close>.\<close>

definition events_path :: "((string \<times> string) list \<Rightarrow> string) \<Rightarrow> int option \<Rightarrow> string option \<Rightarrow> string" where
  "events_path form_encode limit startingAfter =
     (let qs = form_encode ((case limit of None \<Rightarrow> [] | Some n \<Rightarrow> [(''limit'', int_str n)])
            @ header_if ''starting_after'' startingAfter)
      in if qs \<noteq> [] then ''/v1/events?'' @ qs else ''/v1/events'')"

definition events_list ::
  "sdk_client \<Rightarrow> (nat \<Rightarrow> sdk_request \<Rightarrow> fetch_result) \<Rightarrow> ((string \<times> string) list \<Rightarrow> string) \<Rightarrow> int option
    \<Rightarrow> string option \<Rightarrow> call_options \<Rightarrow> (sdk_event_view list \<times> jsv) sdk_result" where
  "events_list cl server form_encode limit startingAfter options =
     after_request (sdk_request_run cl server ''GET'' (events_path form_encode limit startingAfter) (plain_init options None))
       (\<lambda>v. case wire_data fromWireEvent v of Inl e \<Rightarrow> Inl e | Inr es \<Rightarrow> Inr (es, field v ''has_more''))"

definition events_get ::
  "sdk_client \<Rightarrow> (nat \<Rightarrow> sdk_request \<Rightarrow> fetch_result) \<Rightarrow> (string \<Rightarrow> string) \<Rightarrow> string \<Rightarrow> call_options
    \<Rightarrow> sdk_event_view sdk_result" where
  "events_get cl server encode eventId options =
     (if eventId = [] then (Inl (JsExn (TypeError ''eventId must not be empty'')), [])
      else after_request (sdk_request_run cl server ''GET'' (''/v1/events/'' @ encode eventId) (plain_init options None))
        fromWireEvent)"

definition endpoints_create ::
  "sdk_client \<Rightarrow> (nat \<Rightarrow> sdk_request \<Rightarrow> fetch_result) \<Rightarrow> string \<Rightarrow> string list option \<Rightarrow> call_options
    \<Rightarrow> sdk_endpoint sdk_result" where
  "endpoints_create cl server url events options =
     after_request (sdk_request_run cl server ''POST'' ''/v1/webhook_endpoints''
         (plain_init options (Some (JObj [(''url'', JStr url),
            (''events'', case events of None \<Rightarrow> JUndef | Some es \<Rightarrow> JArr (map JStr es))]))))
       fromWireEndpoint"

definition endpoints_list ::
  "sdk_client \<Rightarrow> (nat \<Rightarrow> sdk_request \<Rightarrow> fetch_result) \<Rightarrow> call_options \<Rightarrow> sdk_endpoint list sdk_result" where
  "endpoints_list cl server options =
     after_request (sdk_request_run cl server ''GET'' ''/v1/webhook_endpoints'' (plain_init options None))
       (wire_data fromWireEndpoint)"

definition endpoints_delete ::
  "sdk_client \<Rightarrow> (nat \<Rightarrow> sdk_request \<Rightarrow> fetch_result) \<Rightarrow> (string \<Rightarrow> string) \<Rightarrow> string \<Rightarrow> call_options
    \<Rightarrow> unit sdk_result" where
  "endpoints_delete cl server encode endpointId options =
     (if endpointId = [] then (Inl (JsExn (TypeError ''endpointId must not be empty'')), [])
      else after_request (sdk_request_run cl server ''DELETE'' (''/v1/webhook_endpoints/'' @ encode endpointId)
          (plain_init options None)) (\<lambda>_. Inr ()))"

section \<open>Lemmas on the loop\<close>

text \<open>What \<open>n\<close> failed attempts leave in the trace.\<close>

definition failed_attempts :: "sdk_request \<Rightarrow> rat \<Rightarrow> nat \<Rightarrow> sdk_event list" where
  "failed_attempts req baseDelay n = concat (map (\<lambda>k. [Sent req, Slept (baseDelay * 2 ^ k)]) [0..<n])"

definition sent :: "sdk_event list \<Rightarrow> sdk_request list" where
  "sent t = concat (map (\<lambda>e. case e of Sent r \<Rightarrow> [r] | Slept _ \<Rightarrow> []) t)"

lemma failed_attempts_0 [simp]: "failed_attempts req d 0 = []"
  by (simp add: failed_attempts_def)

lemma failed_attempts_Suc: "failed_attempts req d (Suc n) = failed_attempts req d n @ [Sent req, Slept (d * 2 ^ n)]"
  by (simp add: failed_attempts_def)

lemma sent_append [simp]: "sent (a @ b) = sent a @ sent b"
  and sent_Sent [simp]: "sent [Sent r] = [r]"
  and sent_Nil [simp]: "sent [] = []"
  by (simp_all add: sent_def)

lemma sent_failed_attempts [simp]: "sent (failed_attempts req d n) = replicate n req"
  by (induction n) (simp_all add: failed_attempts_Suc sent_def replicate_append_same)

text \<open>A failed attempt that is followed by another one: neither aborted nor the last.\<close>

definition retried :: "(nat \<Rightarrow> sdk_request \<Rightarrow> fetch_result) \<Rightarrow> abort_signal \<Rightarrow> sdk_request \<Rightarrow> nat \<Rightarrow> bool" where
  "retried server sg req k \<longleftrightarrow> \<not> sg_before sg k \<and> \<not> sg_during sg k \<and> \<not> sg_sleep sg k
     \<and> (case server k req of Failed _ _ \<Rightarrow> True | Answered _ _ _ \<Rightarrow> False)"

lemma request_loop_retry:
  assumes "retried server sg req n" "Suc n < m"
  shows "request_loop server sg req d tm m n (failed_attempts req d n)
    = request_loop server sg req d tm m (Suc n) (failed_attempts req d (Suc n))"
  using assms
  by (subst request_loop.simps)
     (auto simp: retried_def failed_attempts_Suc split: fetch_result.splits)

lemma request_loop_retries:
  assumes "\<And>k. k < n \<Longrightarrow> retried server sg req k" "n < m"
  shows "request_loop server sg req d tm m 0 [] = request_loop server sg req d tm m n (failed_attempts req d n)"
  using assms
proof (induction n)
  case (Suc n)
  then show ?case using request_loop_retry[of server sg req n m d tm] by simp
qed simp

text \<open>A call whose last round is the attempt \<open>n\<close>, before which it has failed \<open>n\<close> times.\<close>

definition ended_at :: "(nat \<Rightarrow> sdk_request \<Rightarrow> fetch_result) \<Rightarrow> abort_signal \<Rightarrow> sdk_request \<Rightarrow> rat \<Rightarrow> js_num \<Rightarrow> nat \<Rightarrow> nat
    \<Rightarrow> sdk_event list \<Rightarrow> jsv sdk_result" where
  "ended_at server sg req d tm m n t =
    (if sg_before sg n then (Inl (Aborted (sg_reason sg)), t)
     else (case server n req of
         Answered st text json \<Rightarrow> read_answer st text json
       | Failed msg timedOut \<Rightarrow> Inl (if sg_during sg n then Aborted msg
           else if m \<le> Suc n then exhausted req tm msg timedOut (Suc n) else Aborted (sg_reason sg)),
       t @ [Sent req]))"

lemma request_loop_last:
  assumes "n < m" "\<not> (retried server sg req n \<and> Suc n < m)"
  shows "request_loop server sg req d tm m n t = ended_at server sg req d tm m n t"
  using assms by (subst request_loop.simps) (auto simp: retried_def ended_at_def split: fetch_result.splits)

lemma last_round:
  assumes "0 < m"
  obtains n where "n < m" "\<And>k. k < n \<Longrightarrow> retried server sg req k"
    "\<not> (retried server sg req n \<and> Suc n < m)"
proof -
  define n where "n = (LEAST n. \<not> (retried server sg req n \<and> Suc n < m))"
  have ex: "\<not> (retried server sg req (m - 1) \<and> Suc (m - 1) < m)" using assms by simp
  have "n \<le> m - 1" unfolding n_def by (rule Least_le) (rule ex)
  moreover have "\<not> (retried server sg req n \<and> Suc n < m)" unfolding n_def by (rule LeastI) (rule ex)
  moreover have "retried server sg req k" if "k < n" for k
    using not_less_Least[of k "\<lambda>n. \<not> (retried server sg req n \<and> Suc n < m)"] that by (auto simp: n_def)
  moreover have "n < m" using calculation(1) assms by simp
  ultimately show ?thesis using that by blast
qed

lemma request_loop_cases:
  assumes "0 < m"
  obtains n where "n < m" "\<And>k. k < n \<Longrightarrow> retried server sg req k"
    "request_loop server sg req d tm m 0 [] = ended_at server sg req d tm m n (failed_attempts req d n)"
proof -
  obtain n where n: "n < m" "\<And>k. k < n \<Longrightarrow> retried server sg req k"
    "\<not> (retried server sg req n \<and> Suc n < m)" using last_round[OF assms] by metis
  show ?thesis
    using that[OF n(1,2)] request_loop_retries[of n server sg req m d tm, OF n(2) n(1)]
      request_loop_last[OF n(1,3), of d tm "failed_attempts req d n"] by simp
qed

lemma errorFromBody_class: "\<exists>k. k \<noteq> GatewayUnreachableError \<and> errorFromBody c m st = ApiError k m st"
proof -
  have "map_of CODE_TO_CLASS c \<noteq> Some GatewayUnreachableError"
    by (auto simp: CODE_TO_CLASS_def dest!: map_of_SomeD)
  then show ?thesis
    by (cases "map_of CODE_TO_CLASS c") (auto simp: errorFromBody_def)
qed

lemma read_answer_not_exhausted:
  "read_answer st text json \<noteq> Inl (ApiError GatewayUnreachableError ''Request loop exited unexpectedly'' 0)"
proof -
  have "errorFromBody c m st \<noteq> ApiError GatewayUnreachableError x 0" for c m x
    using errorFromBody_class[of c m st] by auto
  then show ?thesis
    by (auto simp: read_answer_def Let_def split: option.splits if_splits prod.splits)
qed

section \<open>Retries\<close>

lemma sdk_request_run_cases:
  obtains (bad) e where "sdk_request_run cl server meth path init = (Inl (JsExn e), [])"
  | (run) n sg tm where "n < Suc (cl_maxRetries cl)"
      "\<And>k. k < n \<Longrightarrow> retried server sg (built_request cl meth path init) k"
      "sdk_request_run cl server meth path init =
        ended_at server sg (built_request cl meth path init) (cl_retryDelayMs cl) tm (Suc (cl_maxRetries cl)) n
          (failed_attempts (built_request cl meth path init) (cl_retryDelayMs cl) n)"
proof (cases "validatePositiveInteger ''timeoutMs'' (nullish_else (ri_timeoutMs init) (cl_timeoutMs cl))")
  case None
  have "sdk_request_run cl server meth path init
    = request_loop server (nullish_else (ri_signal init) no_signal) (built_request cl meth path init) (cl_retryDelayMs cl)
        (nullish_else (ri_timeoutMs init) (cl_timeoutMs cl)) (Suc (cl_maxRetries cl)) 0 []"
    using None by (simp add: sdk_request_run_def Let_def)
  then show ?thesis
    by (metis run request_loop_cases[OF zero_less_Suc])
qed (auto simp: sdk_request_run_def Let_def intro: bad)

text \<open>
  C30. Whatever the server, the abort signal and the arguments, a call of the SDK sends one request,
  repeated at most \<open>maxRetries\<close> times: the trace is a number of failed attempts, each followed by
  the exponential delay \<open>retryDelayMs * 2^k\<close>, then at most one more attempt. Only failures of the
  transport are repeated, so a request the server answered is the last one sent; and the loop
  is never left through its last line.
\<close>

theorem sdk_retries_bounded:
  "\<exists>n \<le> cl_maxRetries cl. let req = built_request cl meth path init; r = sdk_request_run cl server meth path init in
     (snd r = failed_attempts req (cl_retryDelayMs cl) n
        \<or> snd r = failed_attempts req (cl_retryDelayMs cl) n @ [Sent req])
     \<and> sent (snd r) = replicate (length (sent (snd r))) req
     \<and> length (sent (snd r)) \<le> cl_maxRetries cl + 1
     \<and> list_all (\<lambda>k. case server k req of Failed _ _ \<Rightarrow> True | Answered _ _ _ \<Rightarrow> False) [0..<n]
     \<and> fst r \<noteq> Inl (ApiError GatewayUnreachableError ''Request loop exited unexpectedly'' 0)"
proof (cases rule: sdk_request_run_cases[of cl server meth path init])
  case (bad e)
  then show ?thesis by (intro exI[of _ 0]) simp
next
  case (run n sg tm)
  then show ?thesis
    by (intro exI[of _ n])
       (auto simp: retried_def list_all_iff ended_at_def replicate_append_same exhausted_def read_answer_not_exhausted
          Let_def split: fetch_result.splits)
qed

text \<open>
  C37. A call reaches the first answer within its retries: when the transport fails \<open>n\<close> times,
  with \<open>n\<close> at most \<open>maxRetries\<close>, nobody aborts, and the server then answers, the call gives
  exactly what that answer says after \<open>n + 1\<close> requests; it does not give up, or resend, before or
  after it.
\<close>

theorem sdk_reaches_answer:
  assumes "n \<le> cl_maxRetries cl"
    and "\<And>k. k < n \<Longrightarrow> \<exists>msg t. server k (built_request cl meth path init) = Failed msg t"
    and "server n (built_request cl meth path init) = Answered st text json"
    and "ri_signal init = None"
    and "validatePositiveInteger ''timeoutMs'' (nullish_else (ri_timeoutMs init) (cl_timeoutMs cl)) = None"
  shows "sdk_request_run cl server meth path init
    = (read_answer st text json, failed_attempts (built_request cl meth path init) (cl_retryDelayMs cl) n
         @ [Sent (built_request cl meth path init)])"
proof -
  let ?r = "built_request cl meth path init" and ?m = "Suc (cl_maxRetries cl)"
  have r: "retried server no_signal ?r k" if "k < n" for k
    using assms(2)[OF that] by (auto simp: retried_def no_signal_def)
  have "\<not> (retried server no_signal ?r n \<and> Suc n < ?m)" using assms(3) by (simp add: retried_def)
  then show ?thesis
    using request_loop_retries[of n server no_signal ?r ?m, OF r] request_loop_last[of n ?m server no_signal ?r] assms
    by (simp add: sdk_request_run_def Let_def no_signal_def ended_at_def)
qed

definition demo_client :: "nat \<Rightarrow> sdk_client" where
  "demo_client retries = \<lparr>cl_baseUrl = ''https://pay.example/v1'', cl_apiKey = Some ''ow_live_1'', cl_providers = None,
     cl_maxRetries = retries, cl_retryDelayMs = 200, cl_timeoutMs = Some 30000\<rparr>"

definition demo_init :: request_init where
  "demo_init = \<lparr>ri_headers = [], ri_body = None, ri_signal = None, ri_timeoutMs = None\<rparr>"

lemma positive_30000: "validatePositiveInteger n (Some 30000) = None"
  by (simp add: validatePositiveInteger_def is_safe_integer_def max_safe_integer_def)

theorem sdk_reaches_answer_witness:
  "sdk_request_run (demo_client 2) (\<lambda>k _. if k < 2 then Failed ''ECONNRESET'' False else Answered 404 ''Not Found''
       (Some (JObj [(''error'', JObj [(''code'', JStr ''not_found''), (''message'', JStr ''no payment'')])])))
     ''GET'' ''/v1/payments/p1'' demo_init
   = (Inl (ApiError ValidationError ''no payment'' 404),
      let r = built_request (demo_client 2) ''GET'' ''/v1/payments/p1'' demo_init
      in [Sent r, Slept 200, Sent r, Slept 400, Sent r])"
  by (subst sdk_reaches_answer[of 2 "demo_client 2" _ "''GET''" "''/v1/payments/p1''" demo_init 404 "''Not Found''"
        "Some (JObj [(''error'', JObj [(''code'', JStr ''not_found''), (''message'', JStr ''no payment'')])])"])
     (simp_all add: demo_client_def demo_init_def positive_30000 read_answer_def error_body_def errorFromBody_def
        CODE_TO_CLASS_def failed_attempts_def upt_conv_Cons Let_def ex_bool_eq)

section \<open>What the methods send\<close>

lemma fold_set_lookup:
  "map_of (fold (\<lambda>(k, v) acc. assoc_set k v acc) kvs h) = map_of h ++ map_of (rev kvs)"
proof (induction kvs arbitrary: h)
  case (Cons kv kvs)
  then show ?case by (cases kv) (auto simp: assoc_set_map map_add_def fun_eq_iff split: option.splits)
qed simp

lemma built_header:
  assumes "k \<notin> {''Content-Type'', ''X-API-Key'', ''Authorization''}"
  shows "map_of (sq_headers (built_request cl meth path init)) k = map_of (rev (ri_headers init)) k"
proof -
  have "map_of (fold (\<lambda>(k, v) acc. assoc_set k v acc) (ri_headers init) [(''Content-Type'', ''application/json'')]) k
    = map_of (rev (ri_headers init)) k"
    using assms by (simp only: fold_set_lookup) (simp add: map_add_def split: option.splits)
  then show ?thesis using assms by (simp add: built_request_def Let_def assoc_set_map split: option.splits)
qed

lemma checked_amount_range: "checked_amount a = Inr n \<longleftrightarrow> a = Some (of_int n) \<and> 1 \<le> n \<and> n \<le> 1000000000"
proof (cases a)
  case (Some x)
  have big: "\<bar>x\<bar> \<le> of_int max_safe_integer" if "x = of_int n" "1 \<le> n" "n \<le> 1000000000"
  proof -
    have "of_int n \<le> (of_int 1000000000 :: rat)" using that(3) by (subst of_int_le_iff)
    then show ?thesis using that by (simp add: max_safe_integer_def)
  qed
  show ?thesis
  proof
    assume "checked_amount a = Inr n"
    then have "x = of_int \<lfloor>x\<rfloor>" "0 < x" "x \<le> 1000000000" "\<lfloor>x\<rfloor> = n"
      by (simp_all add: checked_amount_def validatePositiveInteger_def is_safe_integer_def Some split: if_splits)
    then have "x = of_int n" "(0 :: rat) < of_int n" "of_int n \<le> (1000000000 :: rat)" by simp_all
    then show "a = Some (of_int n) \<and> 1 \<le> n \<and> n \<le> 1000000000" by (simp add: Some)
  next
    assume *: "a = Some (of_int n) \<and> 1 \<le> n \<and> n \<le> 1000000000"
    then have "x = of_int n" by (simp add: Some)
    with * big show "checked_amount a = Inr n"
      by (simp add: checked_amount_def validatePositiveInteger_def is_safe_integer_def)
  qed
qed (simp add: checked_amount_def validatePositiveInteger_def)

lemma after_request_trace [simp]: "snd (after_request r f) = snd r"
  by (auto simp: after_request_def split: prod.splits sum.splits)

lemma after_request_error: "fst r = Inl e \<Longrightarrow> fst (after_request r f) = Inl e"
  by (auto simp: after_request_def split: prod.splits sum.splits)

lemma run_sends_built:
  "r \<in> set (sent (snd (sdk_request_run cl server meth path init))) \<Longrightarrow> r = built_request cl meth path init"
  by (cases rule: sdk_request_run_cases[of cl server meth path init])
     (auto simp: ended_at_def split: if_splits)

lemma credential_header_names:
  "(k, v) \<in> set (credential_headers m) \<Longrightarrow> k \<noteq> ''Idempotency-Key''"
  by (auto simp: credential_headers_def header_if_def split: option.splits if_splits)

lemma create_key_header:
  "map_of (sq_headers (built_request cl meth path \<lparr>ri_headers = (''Idempotency-Key'', key) # credential_headers m,
      ri_body = body, ri_signal = sg, ri_timeoutMs = tm\<rparr>)) ''Idempotency-Key'' = Some key"
proof -
  have "map_of (rev (credential_headers m)) ''Idempotency-Key'' = None"
    using credential_header_names by (force simp: map_of_eq_None_iff)
  then show ?thesis by (simp add: built_header map_add_def)
qed

text \<open>What \<open>payments.create\<close> does once its arguments are accepted.\<close>

lemma payments_create_accepted:
  assumes "r \<in> set (sent (snd (payments_create cl server uuid ps options)))"
  obtains n key where "checked_amount (pp_amountMinorUnits ps) = Inr n"
    "key = nullish_else (op_idempotencyKey options) uuid" "validateIdempotencyKey key = None"
    "r = built_request cl ''POST'' ''/v1/payments''
       \<lparr>ri_headers = (''Idempotency-Key'', key) # credential_headers (mergeProviders (cl_providers cl) (op_providers options)),
        ri_body = Some (create_body ps n), ri_signal = op_signal options, ri_timeoutMs = op_timeoutMs options\<rparr>"
  using assms
  by (auto simp: payments_create_def Let_def dest: run_sends_built split: sum.splits option.splits)

section \<open>Refunds without a key\<close>

lemma refund_without_key:
  assumes "paymentId \<noteq> []" "checked_amount amount = Inr n" "op_idempotencyKey options = None"
  shows "refunds_create cl server encode paymentId amount reason options
    = after_request (sdk_request_run cl server ''POST'' (''/v1/payments/'' @ encode paymentId @ ''/refunds'')
        (plain_init options (Some (JObj ([(''amount_minor_units'', JNum n 0)] @ opt_member ''reason'' reason))))) fromWireRefund"
  using assms by (simp add: refunds_create_def plain_init_def header_if_def)

text \<open>
  C35. A refund without an idempotency key is sent again when its transport fails: with
  \<open>maxRetries\<close> at least one, a first attempt whose answer is lost and a second one that is
  answered, the same POST goes out twice, neither carrying an \<open>Idempotency-Key\<close>, so nothing lets
  the server recognise the second refund as the first.
\<close>

theorem sdk_refund_retried_without_key:
  assumes "1 \<le> cl_maxRetries cl" "paymentId \<noteq> []" "checked_amount amount = Inr n"
    and "op_idempotencyKey options = None" "op_signal options = None"
    and "validatePositiveInteger ''timeoutMs'' (nullish_else (op_timeoutMs options) (cl_timeoutMs cl)) = None"
    and "\<And>r. \<exists>msg t. server 0 r = Failed msg t" "\<And>r. server (Suc 0) r = Answered st text json"
  shows "\<exists>r. sent (snd (refunds_create cl server encode paymentId amount reason options)) = [r, r]
    \<and> sq_method r = ''POST'' \<and> map_of (sq_headers r) ''Idempotency-Key'' = None"
proof -
  let ?path = "''/v1/payments/'' @ encode paymentId @ ''/refunds''"
  let ?init = "plain_init options (Some (JObj ([(''amount_minor_units'', JNum n 0)] @ opt_member ''reason'' reason)))"
  let ?r = "built_request cl ''POST'' ?path ?init"
  have r: "retried server no_signal ?r k" if "k < Suc 0" for k
    using assms(7)[of ?r] that by (auto simp: retried_def no_signal_def)
  have last: "\<not> (retried server no_signal ?r (Suc 0) \<and> Suc (Suc 0) < Suc (cl_maxRetries cl))"
    using assms(8) by (simp add: retried_def)
  have "sdk_request_run cl server ''POST'' ?path ?init
    = request_loop server no_signal ?r (cl_retryDelayMs cl)
        (nullish_else (op_timeoutMs options) (cl_timeoutMs cl)) (Suc (cl_maxRetries cl)) 0 []"
    using assms(5,6) by (simp add: sdk_request_run_def plain_init_def Let_def)
  then have "snd (sdk_request_run cl server ''POST'' ?path ?init) = failed_attempts ?r (cl_retryDelayMs cl) (Suc 0) @ [Sent ?r]"
    using request_loop_retries[of "Suc 0" server no_signal ?r "Suc (cl_maxRetries cl)", OF r]
      request_loop_last[OF _ last] assms(1,8)
    by (simp add: ended_at_def no_signal_def)
  moreover have "map_of (sq_headers ?r) ''Idempotency-Key'' = None" "sq_method ?r = ''POST''"
    by (simp_all add: built_header plain_init_def) (simp add: built_request_def Let_def)
  ultimately show ?thesis
    using refund_without_key[OF assms(2,3,4), of cl server encode reason] by simp
qed

definition demo_options :: call_options where
  "demo_options = \<lparr>op_signal = None, op_timeoutMs = None, op_idempotencyKey = None, op_providers = None\<rparr>"

theorem sdk_refund_retried_without_key_witness:
  "\<exists>r. sent (snd (refunds_create (demo_client 2)
        (\<lambda>k _. if k = 0 then Failed ''socket hang up'' False else Answered 502 ''Bad Gateway'' None)
        (\<lambda>s. s) ''p1'' (Some 500) None demo_options)) = [r, r]
    \<and> sq_method r = ''POST'' \<and> map_of (sq_headers r) ''Idempotency-Key'' = None"
proof (rule sdk_refund_retried_without_key[where n = 500])
  show "checked_amount (Some 500) = Inr 500" by (simp add: checked_amount_range)
qed (simp_all add: demo_client_def demo_options_def positive_30000 ex_bool_eq)

end
