(* ===== verification/Db_Init.thy ===== *)
theory Db_Init
  imports Js_Base
begin

text \<open>
  The schema the web application creates at its first use of the database:
  \<open>apps/web/lib/db/init.ts\<close>.

  The statements are data and run on a small relational database: a table has columns and rows, a
  row maps column names to texts, an absent name is null. Kept of a column: name, type, \<open>NOT NULL\<close>
  and default. Kept of the indexes: name, table, columns, and for the two unique ones that rows
  with equal values and a user may not exist. Primary keys, foreign keys and the sort order of
  index columns are left out. A statement on a missing table or column fails as Postgres does;
  \<open>NOW()\<close> and serial values are the text \<open>now\<close>.
\<close>

section \<open>A relational database\<close>

datatype default_value = Literal string | Now | Serial

record column =
  c_name :: string
  c_type :: string
  c_notnull :: bool
  c_default :: "default_value option"

definition col :: "string \<Rightarrow> string \<Rightarrow> bool \<Rightarrow> default_value option \<Rightarrow> column" where
  "col n t notnull d = \<lparr>c_name = n, c_type = t, c_notnull = notnull, c_default = d\<rparr>"

abbreviation required :: "string \<Rightarrow> string \<Rightarrow> column" where
  "required n t \<equiv> col n t True None"

abbreviation nullable :: "string \<Rightarrow> string \<Rightarrow> column" where
  "nullable n t \<equiv> col n t False None"

type_synonym row = "(string \<times> string) list"

record table =
  t_columns :: "column list"
  t_rows :: "row list"

record sql_db =
  db_tables :: "(string \<times> table) list"
  db_indexes :: "string list"

datatype sql_error = UndefinedTable string | UndefinedColumn string string | UniqueViolation string

datatype sql_stmt =
    CreateTable string "column list"
  | DropNotNull string string
  | AddColumn string column
  | SetType string string string
  | SetDefault string string default_value
  | CreateIndex string bool string "string list"
  | CopyColumn string string string
  | SetColumn string string string "row \<Rightarrow> bool"

definition has_column :: "table \<Rightarrow> string \<Rightarrow> bool" where
  "has_column t c \<longleftrightarrow> c \<in> set (map c_name (t_columns t))"

definition alter_column :: "string \<Rightarrow> (column \<Rightarrow> column) \<Rightarrow> table \<Rightarrow> table" where
  "alter_column c f t = t\<lparr>t_columns := map (\<lambda>x. if c_name x = c then f x else x) (t_columns t)\<rparr>"

fun put :: "string \<Rightarrow> 'v \<Rightarrow> (string \<times> 'v) list \<Rightarrow> (string \<times> 'v) list" where
  "put k v [] = [(k, v)]"
| "put k v ((a, w) # ps) = (if a = k then (k, v) # ps else (a, w) # put k v ps)"

text \<open>A table the statement needs, and a column of it.\<close>

definition on_table :: "string \<Rightarrow> (table \<Rightarrow> sql_error + table) \<Rightarrow> sql_db \<Rightarrow> sql_error + sql_db" where
  "on_table n f d = (case map_of (db_tables d) n of
     None \<Rightarrow> Inl (UndefinedTable n)
   | Some t \<Rightarrow> (case f t of Inl e \<Rightarrow> Inl e | Inr t' \<Rightarrow> Inr (d\<lparr>db_tables := put n t' (db_tables d)\<rparr>)))"

definition on_column :: "string \<Rightarrow> string \<Rightarrow> (table \<Rightarrow> table) \<Rightarrow> table \<Rightarrow> sql_error + table" where
  "on_column n c f t = (if has_column t c then Inr (f t) else Inl (UndefinedColumn n c))"

definition default_text :: "string \<Rightarrow> default_value \<Rightarrow> string" where
  "default_text now v = (case v of Literal s \<Rightarrow> s | Now \<Rightarrow> now | Serial \<Rightarrow> now)"

definition add_column :: "string \<Rightarrow> column \<Rightarrow> table \<Rightarrow> table" where
  "add_column now x t =
     (if has_column t (c_name x) then t
      else \<lparr>t_columns = t_columns t @ [x],
            t_rows = (case c_default x of None \<Rightarrow> t_rows t
              | Some v \<Rightarrow> map (put (c_name x) (default_text now v)) (t_rows t))\<rparr>)"

text \<open>A unique index over rows with a user: the first column is \<open>user_id\<close> in both indexes.\<close>

definition unique_on :: "string list \<Rightarrow> row list \<Rightarrow> bool" where
  "unique_on cs rs = distinct (map (\<lambda>r. map (map_of r) cs)
     (filter (\<lambda>r. list_all (\<lambda>c. map_of r c \<noteq> None) cs) rs))"

definition copy_column :: "string \<Rightarrow> string \<Rightarrow> row \<Rightarrow> row" where
  "copy_column snake camel r =
     (case (map_of r snake, map_of r camel) of (None, Some v) \<Rightarrow> put snake v r | _ \<Rightarrow> r)"

fun run_stmt :: "string \<Rightarrow> sql_stmt \<Rightarrow> sql_db \<Rightarrow> sql_error + sql_db" where
  "run_stmt now (CreateTable n cs) d =
     (if map_of (db_tables d) n = None then Inr (d\<lparr>db_tables := db_tables d @ [(n, \<lparr>t_columns = cs, t_rows = []\<rparr>)]\<rparr>)
      else Inr d)"
| "run_stmt now (DropNotNull n c) d = on_table n (on_column n c (alter_column c (\<lambda>x. x\<lparr>c_notnull := False\<rparr>))) d"
| "run_stmt now (AddColumn n x) d = on_table n (\<lambda>t. Inr (add_column now x t)) d"
| "run_stmt now (SetType n c ty) d = on_table n (on_column n c (alter_column c (\<lambda>x. x\<lparr>c_type := ty\<rparr>))) d"
| "run_stmt now (SetDefault n c v) d = on_table n (on_column n c (alter_column c (\<lambda>x. x\<lparr>c_default := Some v\<rparr>))) d"
| "run_stmt now (CreateIndex i uniq n cs) d =
     (if i \<in> set (db_indexes d) then Inr d
      else case map_of (db_tables d) n of
        None \<Rightarrow> Inl (UndefinedTable n)
      | Some t \<Rightarrow>
          (case find (\<lambda>c. \<not> has_column t c) cs of
             Some c \<Rightarrow> Inl (UndefinedColumn n c)
           | None \<Rightarrow> if uniq \<and> \<not> unique_on cs (t_rows t) then Inl (UniqueViolation i)
               else Inr (d\<lparr>db_indexes := db_indexes d @ [i]\<rparr>)))"
| "run_stmt now (CopyColumn n snake camel) d =
     on_table n (\<lambda>t. if has_column t snake \<and> has_column t camel
       then Inr (t\<lparr>t_rows := map (copy_column snake camel) (t_rows t)\<rparr>)
       else Inl (UndefinedColumn n (if has_column t snake then camel else snake))) d"
| "run_stmt now (SetColumn n c v P) d =
     on_table n (on_column n c (\<lambda>t. t\<lparr>t_rows := map (\<lambda>r. if P r then put c v r else r) (t_rows t)\<rparr>)) d"

text \<open>Statements commit one by one: a failure leaves what the earlier ones did.\<close>

fun run_all :: "string \<Rightarrow> sql_stmt list \<Rightarrow> sql_db \<Rightarrow> sql_error option \<times> sql_db" where
  "run_all now [] d = (None, d)"
| "run_all now (s # ss) d = (case run_stmt now s d of Inl e \<Rightarrow> (Some e, d) | Inr d' \<Rightarrow> run_all now ss d')"

section \<open>The statements of the initialisation\<close>

definition auth_tables :: "sql_stmt list" where
  "auth_tables =
    [CreateTable ''user''
       [required ''id'' ''TEXT'', required ''name'' ''TEXT'', required ''email'' ''TEXT'',
        col ''emailVerified'' ''BOOLEAN'' True (Some (Literal ''false'')), nullable ''image'' ''TEXT'',
        col ''createdAt'' ''TIMESTAMP'' True (Some Now), col ''updatedAt'' ''TIMESTAMP'' True (Some Now)],
     CreateTable ''session''
       [required ''id'' ''TEXT'', required ''expiresAt'' ''TIMESTAMP'', required ''token'' ''TEXT'',
        col ''createdAt'' ''TIMESTAMP'' True (Some Now), col ''updatedAt'' ''TIMESTAMP'' True (Some Now),
        nullable ''ipAddress'' ''TEXT'', nullable ''userAgent'' ''TEXT'', required ''userId'' ''TEXT''],
     CreateTable ''account''
       [required ''id'' ''TEXT'', required ''accountId'' ''TEXT'', required ''providerId'' ''TEXT'',
        col ''issuer'' ''TEXT'' True (Some (Literal ''credential'')), required ''userId'' ''TEXT'',
        nullable ''accessToken'' ''TEXT'', nullable ''refreshToken'' ''TEXT'', nullable ''idToken'' ''TEXT'',
        nullable ''accessTokenExpiresAt'' ''TIMESTAMP'', nullable ''refreshTokenExpiresAt'' ''TIMESTAMP'',
        nullable ''scope'' ''TEXT'', nullable ''password'' ''TEXT'', col ''createdAt'' ''TIMESTAMP'' True (Some Now),
        col ''updatedAt'' ''TIMESTAMP'' True (Some Now)],
     CreateTable ''verification''
       [required ''id'' ''TEXT'', required ''identifier'' ''TEXT'', required ''value'' ''TEXT'',
        required ''expiresAt'' ''TIMESTAMP'', col ''createdAt'' ''TIMESTAMP'' False (Some Now),
        col ''updatedAt'' ''TIMESTAMP'' False (Some Now)]]"

definition core_tables :: "sql_stmt list" where
  "core_tables =
    [CreateTable ''api_keys''
       [col ''id'' ''BIGSERIAL'' True (Some Serial), nullable ''user_id'' ''TEXT'', nullable ''name'' ''TEXT'',
        nullable ''key_hash'' ''TEXT'', nullable ''prefix'' ''TEXT'', nullable ''last_four'' ''TEXT'',
        col ''environment'' ''TEXT'' True (Some (Literal ''live'')),
        col ''created_at'' ''TIMESTAMPTZ'' False (Some Now), nullable ''last_used_at'' ''TIMESTAMPTZ'',
        nullable ''revoked_at'' ''TIMESTAMPTZ''],
     CreateTable ''api_requests''
       [col ''id'' ''BIGSERIAL'' True (Some Serial), nullable ''user_id'' ''TEXT'', nullable ''api_key_id'' ''BIGINT'',
        nullable ''method'' ''TEXT'', nullable ''endpoint'' ''TEXT'', nullable ''status_code'' ''INTEGER'',
        nullable ''latency_ms'' ''INTEGER'', nullable ''routing_latency_ms'' ''INTEGER'',
        col ''environment'' ''TEXT'' True (Some (Literal ''live'')), col ''created_at'' ''TIMESTAMPTZ'' False (Some Now)],
     CreateTable ''payments''
       [required ''id'' ''TEXT'', nullable ''user_id'' ''TEXT'', nullable ''api_key_id'' ''BIGINT'',
        nullable ''idempotency_key'' ''TEXT'', nullable ''request_fingerprint'' ''TEXT'',
        nullable ''provider'' ''TEXT'', nullable ''provider_reference'' ''TEXT'',
        col ''status'' ''TEXT'' False (Some (Literal ''pending'')), nullable ''amount_minor_units'' ''BIGINT'',
        col ''currency'' ''TEXT'' False (Some (Literal ''EGP'')), nullable ''merchant_reference'' ''TEXT'',
        nullable ''description'' ''TEXT'', nullable ''customer_phone'' ''TEXT'', nullable ''customer_email'' ''TEXT'',
        nullable ''customer_name'' ''TEXT'', nullable ''next_action_type'' ''TEXT'',
        nullable ''next_action_payload'' ''TEXT'', nullable ''metadata_json'' ''TEXT'',
        col ''environment'' ''TEXT'' True (Some (Literal ''live'')),
        col ''created_at'' ''TIMESTAMPTZ'' False (Some Now), col ''updated_at'' ''TIMESTAMPTZ'' False (Some Now)],
     CreateTable ''webhook_events''
       [required ''event_id'' ''TEXT'', nullable ''provider'' ''TEXT'', nullable ''payment_id'' ''TEXT'',
        nullable ''payload_json'' ''TEXT'', nullable ''signature'' ''TEXT'',
        col ''received_at'' ''TIMESTAMPTZ'' False (Some Now)],
     CreateTable ''merchant_settings''
       [required ''user_id'' ''TEXT'', col ''org_name'' ''TEXT'' True (Some (Literal ''My Organization'')),
        nullable ''billing_email'' ''TEXT'', col ''currency'' ''TEXT'' True (Some (Literal ''EGP'')),
        nullable ''webhook_url'' ''TEXT'', required ''webhook_secret'' ''TEXT'', nullable ''brand_logo_url'' ''TEXT'',
        col ''brand_color'' ''TEXT'' False (Some (Literal ''#6366f1'')), nullable ''brand_name'' ''TEXT'',
        col ''created_at'' ''TIMESTAMPTZ'' False (Some Now), col ''updated_at'' ''TIMESTAMPTZ'' False (Some Now)]]"

definition legacyDropNotNulls :: "(string \<times> string) list" where
  "legacyDropNotNulls =
    [(''api_keys'', ''userId''), (''api_keys'', ''keyHash''), (''api_keys'', ''prefix''),
     (''api_keys'', ''lastFour''), (''api_keys'', ''createdAt''), (''api_requests'', ''userId''),
     (''api_requests'', ''apiKeyId''), (''api_requests'', ''method''), (''api_requests'', ''endpoint''),
     (''api_requests'', ''statusCode''), (''api_requests'', ''latencyMs''), (''api_requests'', ''createdAt''),
     (''payments'', ''userId''), (''payments'', ''apiKeyId''), (''payments'', ''idempotencyKey''),
     (''payments'', ''requestFingerprint''), (''payments'', ''provider''), (''payments'', ''status''),
     (''payments'', ''amountMinorUnits''), (''payments'', ''currency''), (''payments'', ''createdAt''),
     (''payments'', ''updatedAt''), (''webhook_events'', ''eventId''), (''webhook_events'', ''provider''),
     (''webhook_events'', ''paymentId''), (''webhook_events'', ''payloadJson''), (''webhook_events'', ''receivedAt'')]"

definition account_alters :: "sql_stmt list" where
  "account_alters =
    [AddColumn ''api_keys'' (nullable ''user_id'' ''TEXT''),
     AddColumn ''api_keys'' (nullable ''name'' ''TEXT''),
     AddColumn ''api_keys'' (nullable ''key_hash'' ''TEXT''),
     AddColumn ''api_keys'' (nullable ''prefix'' ''TEXT''),
     AddColumn ''api_keys'' (nullable ''last_four'' ''TEXT''),
     AddColumn ''api_keys'' (col ''environment'' ''TEXT'' True (Some (Literal ''live''))),
     AddColumn ''api_keys'' (col ''created_at'' ''TIMESTAMPTZ'' False (Some Now)),
     AddColumn ''api_keys'' (nullable ''last_used_at'' ''TIMESTAMPTZ''),
     AddColumn ''api_keys'' (nullable ''revoked_at'' ''TIMESTAMPTZ''),
     AddColumn ''api_requests'' (nullable ''user_id'' ''TEXT''),
     AddColumn ''api_requests'' (nullable ''api_key_id'' ''BIGINT''),
     SetType ''api_requests'' ''api_key_id'' ''BIGINT'',
     AddColumn ''api_requests'' (nullable ''method'' ''TEXT''),
     AddColumn ''api_requests'' (nullable ''endpoint'' ''TEXT''),
     AddColumn ''api_requests'' (nullable ''status_code'' ''INTEGER''),
     AddColumn ''api_requests'' (nullable ''latency_ms'' ''INTEGER''),
     AddColumn ''api_requests'' (nullable ''routing_latency_ms'' ''INTEGER''),
     AddColumn ''api_requests'' (col ''environment'' ''TEXT'' True (Some (Literal ''live''))),
     AddColumn ''api_requests'' (col ''created_at'' ''TIMESTAMPTZ'' False (Some Now))]"

definition payment_alters :: "sql_stmt list" where
  "payment_alters =
    [SetDefault ''payments'' ''created_at'' Now,
     SetDefault ''payments'' ''updated_at'' Now,
     SetDefault ''api_keys'' ''created_at'' Now,
     SetDefault ''api_requests'' ''created_at'' Now,
     SetDefault ''webhook_events'' ''received_at'' Now,
     AddColumn ''payments'' (nullable ''user_id'' ''TEXT''),
     AddColumn ''payments'' (nullable ''api_key_id'' ''BIGINT''),
     SetType ''payments'' ''api_key_id'' ''BIGINT'',
     SetType ''api_keys'' ''id'' ''BIGINT'',
     AddColumn ''payments'' (nullable ''idempotency_key'' ''TEXT''),
     AddColumn ''payments'' (nullable ''request_fingerprint'' ''TEXT''),
     AddColumn ''payments'' (nullable ''provider'' ''TEXT''),
     AddColumn ''payments'' (nullable ''provider_reference'' ''TEXT''),
     AddColumn ''payments'' (col ''status'' ''TEXT'' False (Some (Literal ''pending''))),
     AddColumn ''payments'' (nullable ''amount_minor_units'' ''BIGINT''),
     AddColumn ''payments'' (col ''currency'' ''TEXT'' False (Some (Literal ''EGP''))),
     AddColumn ''payments'' (nullable ''merchant_reference'' ''TEXT''),
     AddColumn ''payments'' (nullable ''description'' ''TEXT''),
     AddColumn ''payments'' (nullable ''customer_phone'' ''TEXT''),
     AddColumn ''payments'' (nullable ''customer_email'' ''TEXT''),
     AddColumn ''payments'' (nullable ''customer_name'' ''TEXT''),
     AddColumn ''payments'' (nullable ''next_action_type'' ''TEXT''),
     AddColumn ''payments'' (nullable ''next_action_payload'' ''TEXT''),
     AddColumn ''payments'' (nullable ''metadata_json'' ''TEXT''),
     AddColumn ''payments'' (col ''environment'' ''TEXT'' True (Some (Literal ''live''))),
     AddColumn ''payments'' (col ''created_at'' ''TIMESTAMPTZ'' False (Some Now)),
     AddColumn ''payments'' (col ''updated_at'' ''TIMESTAMPTZ'' False (Some Now)),
     AddColumn ''webhook_events'' (nullable ''event_id'' ''TEXT''),
     AddColumn ''webhook_events'' (nullable ''provider'' ''TEXT''),
     AddColumn ''webhook_events'' (nullable ''payment_id'' ''TEXT''),
     AddColumn ''webhook_events'' (nullable ''payload_json'' ''TEXT''),
     AddColumn ''webhook_events'' (nullable ''signature'' ''TEXT''),
     AddColumn ''webhook_events'' (col ''received_at'' ''TIMESTAMPTZ'' False (Some Now))]"

definition index_statements :: "sql_stmt list" where
  "index_statements =
    [CreateIndex ''idx_api_keys_user_id'' False ''api_keys'' [''user_id''],
     CreateIndex ''idx_api_keys_key_hash'' False ''api_keys'' [''key_hash''],
     CreateIndex ''idx_api_keys_user_env'' False ''api_keys'' [''user_id'', ''environment''],
     CreateIndex ''idx_api_requests_user_id'' False ''api_requests'' [''user_id''],
     CreateIndex ''idx_api_requests_user_created'' False ''api_requests'' [''user_id'', ''created_at''],
     CreateIndex ''idx_api_requests_user_env'' False ''api_requests'' [''user_id'', ''environment''],
     CreateIndex ''idx_payments_user_id'' False ''payments'' [''user_id''],
     CreateIndex ''idx_payments_user_created'' False ''payments'' [''user_id'', ''created_at''],
     CreateIndex ''idx_payments_user_env'' False ''payments'' [''user_id'', ''environment''],
     CreateIndex ''idx_payments_idempotency_key'' False ''payments'' [''idempotency_key''],
     CreateIndex ''idx_payments_user_idempotency'' True ''payments'' [''user_id'', ''idempotency_key''],
     CreateIndex ''idx_payments_user_env_idempotency'' True ''payments'' [''user_id'', ''environment'', ''idempotency_key'']]"

definition legacyCopies :: "(string \<times> string \<times> string) list" where
  "legacyCopies =
    [(''api_keys'', ''user_id'', ''userId''), (''api_keys'', ''key_hash'', ''keyHash''),
     (''api_keys'', ''last_four'', ''lastFour''), (''api_keys'', ''created_at'', ''createdAt''),
     (''api_keys'', ''last_used_at'', ''lastUsedAt''), (''api_keys'', ''revoked_at'', ''revokedAt''),
     (''api_requests'', ''user_id'', ''userId''), (''api_requests'', ''api_key_id'', ''apiKeyId''),
     (''api_requests'', ''status_code'', ''statusCode''), (''api_requests'', ''latency_ms'', ''latencyMs''),
     (''api_requests'', ''created_at'', ''createdAt''), (''payments'', ''user_id'', ''userId''),
     (''payments'', ''api_key_id'', ''apiKeyId''), (''payments'', ''idempotency_key'', ''idempotencyKey''),
     (''payments'', ''request_fingerprint'', ''requestFingerprint''),
     (''payments'', ''provider_reference'', ''providerReference''),
     (''payments'', ''amount_minor_units'', ''amountMinorUnits''),
     (''payments'', ''merchant_reference'', ''merchantReference''),
     (''payments'', ''customer_phone'', ''customerPhone''), (''payments'', ''customer_email'', ''customerEmail''),
     (''payments'', ''customer_name'', ''customerName''), (''payments'', ''next_action_type'', ''nextActionType''),
     (''payments'', ''next_action_payload'', ''nextActionPayload''),
     (''payments'', ''metadata_json'', ''metadataJson''), (''payments'', ''created_at'', ''createdAt''),
     (''payments'', ''updated_at'', ''updatedAt''), (''webhook_events'', ''event_id'', ''eventId''),
     (''webhook_events'', ''payment_id'', ''paymentId''), (''webhook_events'', ''payload_json'', ''payloadJson''),
     (''webhook_events'', ''received_at'', ''receivedAt'')]"

text \<open>\<open>prefix LIKE 'ow_test%'\<close>: the underscore stands for any character.\<close>

definition like_ow_test :: "string \<Rightarrow> bool" where
  "like_ow_test s \<longleftrightarrow> take 2 s = ''ow'' \<and> take 4 (drop 3 s) = ''test''"

definition environment_test_text :: string where
  "environment_test_text =
     [CHR 0x22] @ ''environment'' @ [CHR 0x22] @ '':'' @ [CHR 0x22] @ ''test'' @ [CHR 0x22]"

definition holds :: "row \<Rightarrow> string \<Rightarrow> (string \<Rightarrow> bool) \<Rightarrow> bool" where
  "holds r c P \<longleftrightarrow> (case map_of r c of None \<Rightarrow> False | Some v \<Rightarrow> P v)"

definition test_key :: "row \<Rightarrow> bool" where
  "test_key r \<longleftrightarrow> holds r ''prefix'' like_ow_test \<or> holds r ''prefix'' (\<lambda>v. v = ''ow_demo_sand'')"

definition sandbox_user_row :: "row \<Rightarrow> bool" where
  "sandbox_user_row r \<longleftrightarrow> holds r ''user_id'' (\<lambda>v. v = ''usr_sandbox_demo'')"

definition test_payment :: "row \<Rightarrow> bool" where
  "test_payment r \<longleftrightarrow> sandbox_user_row r \<or> holds r ''metadata_json'' (\<lambda>v. js_includes v environment_test_text)"

definition environment_updates :: "sql_stmt list" where
  "environment_updates =
    [SetColumn ''api_keys'' ''environment'' ''test'' test_key,
     SetColumn ''api_requests'' ''environment'' ''test'' sandbox_user_row,
     SetColumn ''payments'' ''environment'' ''test'' test_payment]"

text \<open>\<open>existingColSet\<close> is read once, after the tables have been created.\<close>

definition hasColumn :: "sql_db \<Rightarrow> string \<Rightarrow> string \<Rightarrow> bool" where
  "hasColumn d n c = (case map_of (db_tables d) n of None \<Rightarrow> False | Some t \<Rightarrow> has_column t c)"

definition legacy_drops :: "sql_db \<Rightarrow> sql_stmt list" where
  "legacy_drops existing = map (\<lambda>(n, c). DropNotNull n c) (filter (\<lambda>(n, c). hasColumn existing n c) legacyDropNotNulls)"

definition legacy_copies :: "sql_db \<Rightarrow> sql_stmt list" where
  "legacy_copies existing = map (\<lambda>(n, snake, camel). CopyColumn n snake camel)
     (filter (\<lambda>(n, snake, camel). hasColumn existing n camel \<and> hasColumn existing n snake) legacyCopies)"

definition migration :: "sql_db \<Rightarrow> sql_stmt list" where
  "migration existing = legacy_drops existing @ account_alters @ payment_alters @ index_statements
     @ legacy_copies existing @ environment_updates"

definition schema_setup :: "string \<Rightarrow> sql_db \<Rightarrow> sql_error option \<times> sql_db" where
  "schema_setup now d =
     (case run_all now (auth_tables @ core_tables) d of
        (Some e, d') \<Rightarrow> (Some e, d')
      | (None, existing) \<Rightarrow> run_all now (migration existing) existing)"

section \<open>Initialising once\<close>

text \<open>
  The variables of the module. \<open>initPromise\<close> is set while a run is under way; calls that find it
  set wait for that run, so runs are sequential and a call is modelled with the run it waits for.
\<close>

record init_state =
  isInitialized :: bool
  isDatabaseAvailable :: bool
  lastDatabaseError :: "string option"

definition initial_init_state :: init_state where
  "initial_init_state = \<lparr>isInitialized = False, isDatabaseAvailable = True, lastDatabaseError = None\<rparr>"

text \<open>
  \<open>connect\<close> is the message of a failed connection; \<open>message\<close> the text of an SQL error. The result
  is the exception, if any.
\<close>

definition ensureDatabaseSchema ::
  "bool \<Rightarrow> bool \<Rightarrow> string option \<Rightarrow> (sql_error \<Rightarrow> string) \<Rightarrow> string \<Rightarrow> init_state \<times> sql_db
    \<Rightarrow> string option \<times> init_state \<times> sql_db" where
  "ensureDatabaseSchema build production connect message now st =
     (case st of (s, d) \<Rightarrow>
        if build \<or> isInitialized s then (None, s, d)
        else
          (let (failure, d') = (case connect of
                 Some msg \<Rightarrow> (Some msg, d)
               | None \<Rightarrow> (case schema_setup now d of (e, d') \<Rightarrow> (map_option message e, d')))
           in case failure of
                None \<Rightarrow> (None, \<lparr>isInitialized = True, isDatabaseAvailable = True, lastDatabaseError = None\<rparr>, d')
              | Some msg \<Rightarrow>
                  (if production then Some msg else None,
                   s\<lparr>isDatabaseAvailable := False, lastDatabaseError := Some msg\<rparr>, d')))"

section \<open>What no statement takes away\<close>

lemma put_lookup: "map_of (put k v ps) = (map_of ps)(k \<mapsto> v)"
  by (induction k v ps rule: put.induct) auto

lemma on_tableE:
  assumes "on_table n f d = Inr d'"
  obtains t t' where "map_of (db_tables d) n = Some t" "f t = Inr t'" "d' = d\<lparr>db_tables := put n t' (db_tables d)\<rparr>"
  using assms by (auto simp: on_table_def split: option.splits sum.splits)

lemma on_columnE: "on_column n c f t = Inr t' \<Longrightarrow> has_column t c \<and> t' = f t"
  by (auto simp: on_column_def split: if_splits)

lemma alter_column_same: "(\<And>x. c_name (f x) = c_name x) \<Longrightarrow> has_column (alter_column c f t) a = has_column t a"
  by (auto simp: has_column_def alter_column_def image_image if_distrib cong: if_cong)

lemma add_column_has: "has_column (add_column now x t) a \<longleftrightarrow> has_column t a \<or> a = c_name x"
  by (auto simp: has_column_def add_column_def)

text \<open>What a statement makes of a table that exists.\<close>

fun effect :: "string \<Rightarrow> sql_stmt \<Rightarrow> string \<Rightarrow> table \<Rightarrow> table" where
  "effect now (DropNotNull m c) n t = (if m = n then alter_column c (\<lambda>x. x\<lparr>c_notnull := False\<rparr>) t else t)"
| "effect now (AddColumn m x) n t = (if m = n then add_column now x t else t)"
| "effect now (SetType m c ty) n t = (if m = n then alter_column c (\<lambda>x. x\<lparr>c_type := ty\<rparr>) t else t)"
| "effect now (SetDefault m c v) n t = (if m = n then alter_column c (\<lambda>x. x\<lparr>c_default := Some v\<rparr>) t else t)"
| "effect now (CopyColumn m snake camel) n t = (if m = n then t\<lparr>t_rows := map (copy_column snake camel) (t_rows t)\<rparr> else t)"
| "effect now (SetColumn m c v P) n t = (if m = n then t\<lparr>t_rows := map (\<lambda>r. if P r then put c v r else r) (t_rows t)\<rparr> else t)"
| "effect now (CreateTable m cs) n t = t"
| "effect now (CreateIndex i uniq m cs) n t = t"

lemma run_stmt_effect:
  assumes "run_stmt now s d = Inr d'" "map_of (db_tables d) n = Some t"
  shows "map_of (db_tables d') n = Some (effect now s n t)"
  using assms
  by (cases s) (auto elim!: on_tableE dest!: on_columnE simp: put_lookup map_add_def split: if_splits option.splits)

text \<open>The columns a statement adds to a table.\<close>

definition adds :: "sql_stmt \<Rightarrow> string \<Rightarrow> string \<Rightarrow> bool" where
  "adds s n a = (case s of AddColumn m x \<Rightarrow> m = n \<and> c_name x = a | _ \<Rightarrow> False)"

lemma effect_columns: "has_column (effect now s n t) a \<longleftrightarrow> has_column t a \<or> adds s n a"
proof (cases s)
  case (AddColumn m x)
  then show ?thesis by (auto simp: adds_def add_column_has)
qed (auto simp: adds_def alter_column_same, auto simp: has_column_def)

text \<open>Of a run that succeeds, statement by statement.\<close>

lemma run_all_ok: "run_all now (s # ss) d = (None, d') \<longleftrightarrow> (\<exists>e. run_stmt now s d = Inr e \<and> run_all now ss e = (None, d'))"
  by (auto split: sum.splits)

lemma run_all_append: "run_all now (ss @ ts) d = (case run_all now ss d of (Some e, d') \<Rightarrow> (Some e, d') | (None, d') \<Rightarrow> run_all now ts d')"
  by (induction ss arbitrary: d) (auto split: sum.splits)

lemma run_all_table:
  assumes "run_all now ss d = (None, d')" "map_of (db_tables d) n = Some t"
  shows "map_of (db_tables d') n = Some (fold (\<lambda>s. effect now s n) ss t)"
  using assms
proof (induction ss arbitrary: d t)
  case (Cons s ss)
  then obtain e where "run_stmt now s d = Inr e" "run_all now ss e = (None, d')" by (auto split: sum.splits)
  then show ?case using Cons.IH run_stmt_effect Cons.prems(2) by simp
qed simp

lemma fold_effect_columns:
  "has_column (fold (\<lambda>s. effect now s n) ss t) a \<longleftrightarrow> has_column t a \<or> (\<exists>s \<in> set ss. adds s n a)"
  by (induction ss arbitrary: t) (auto simp: effect_columns)

lemma schema_setup_ok:
  assumes "schema_setup now d = (None, d')"
  obtains existing where "run_all now (auth_tables @ core_tables) d = (None, existing)"
    "run_all now (migration existing) existing = (None, d')"
  using assms by (auto simp: schema_setup_def split: prod.splits option.splits)

section \<open>The schema is complete\<close>

text \<open>The columns \<open>schema.ts\<close> declares, and those no migration adds to a table that exists.\<close>

definition schema_columns :: "(string \<times> string list) list" where
  "schema_columns =
    [(''api_keys'', [''id'', ''user_id'', ''name'', ''key_hash'', ''prefix'', ''last_four'', ''environment'', ''created_at'',
       ''last_used_at'', ''revoked_at'']),
     (''api_requests'', [''id'', ''user_id'', ''api_key_id'', ''method'', ''endpoint'', ''status_code'', ''latency_ms'',
       ''routing_latency_ms'', ''environment'', ''created_at'']),
     (''payments'', [''id'', ''user_id'', ''api_key_id'', ''idempotency_key'', ''request_fingerprint'', ''provider'',
       ''provider_reference'', ''status'', ''amount_minor_units'', ''currency'', ''merchant_reference'',
       ''description'', ''customer_phone'', ''customer_email'', ''customer_name'', ''next_action_type'',
       ''next_action_payload'', ''metadata_json'', ''environment'', ''created_at'', ''updated_at'']),
     (''webhook_events'', [''event_id'', ''provider'', ''payment_id'', ''payload_json'', ''signature'', ''received_at'']),
     (''merchant_settings'', [''user_id'', ''org_name'', ''billing_email'', ''currency'', ''webhook_url'', ''webhook_secret'',
       ''brand_logo_url'', ''brand_color'', ''brand_name'', ''created_at'', ''updated_at''])]"

definition unmigrated :: "string \<Rightarrow> string list" where
  "unmigrated n = (if n = ''merchant_settings'' then [''user_id'', ''org_name'', ''billing_email'', ''currency'',
       ''webhook_url'', ''webhook_secret'', ''brand_logo_url'', ''brand_color'', ''brand_name'', ''created_at'', ''updated_at'']
     else if n = ''webhook_events'' then [] else [''id''])"

definition created :: "sql_stmt list \<Rightarrow> (string \<times> table) list" where
  "created ss = concat (map (\<lambda>s. case s of CreateTable n cs \<Rightarrow> [(n, \<lparr>t_columns = cs, t_rows = []\<rparr>)] | _ \<Rightarrow> []) ss)"

definition is_create :: "sql_stmt \<Rightarrow> bool" where
  "is_create s \<longleftrightarrow> (case s of CreateTable _ _ \<Rightarrow> True | _ \<Rightarrow> False)"

lemma creates_run:
  assumes "list_all is_create ss"
  obtains e where "run_all now ss d = (None, e)" "\<And>n. map_of (db_tables e) n = map_of (db_tables d @ created ss) n"
    "db_indexes e = db_indexes d"
proof -
  have "\<exists>e. run_all now ss d = (None, e) \<and> (\<forall>n. map_of (db_tables e) n = map_of (db_tables d @ created ss) n)
      \<and> db_indexes e = db_indexes d"
    using assms
  proof (induction ss arbitrary: d)
    case (Cons s ss)
    then obtain m cs where s: "s = CreateTable m cs" by (cases s) (auto simp: is_create_def)
    let ?d = "if map_of (db_tables d) m = None then d\<lparr>db_tables := db_tables d @ [(m, \<lparr>t_columns = cs, t_rows = []\<rparr>)]\<rparr> else d"
    obtain e where "run_all now ss ?d = (None, e)" "\<forall>n. map_of (db_tables e) n = map_of (db_tables ?d @ created ss) n"
      "db_indexes e = db_indexes ?d"
      using Cons.IH[of ?d] Cons.prems by (metis list.pred_inject(2))
    moreover have "created (s # ss) = (m, \<lparr>t_columns = cs, t_rows = []\<rparr>) # created ss" by (simp add: created_def s)
    ultimately show ?case
      by (intro exI[of _ e]) (cases "map_of (db_tables d) m"; auto simp: s map_add_def split: option.splits if_splits)
  qed (simp add: created_def)
  then show ?thesis using that by blast
qed

lemma tables_are_creates: "list_all is_create (auth_tables @ core_tables)"
  by code_simp

text \<open>What the run finds of a table that was there, and of one that was not.\<close>

lemma existing_table:
  assumes "run_all now (auth_tables @ core_tables) d = (None, existing)"
  shows "map_of (db_tables existing) n = (case map_of (db_tables d) n of Some t \<Rightarrow> Some t | None \<Rightarrow> map_of (created (auth_tables @ core_tables)) n)"
    "db_indexes existing = db_indexes d"
proof -
  obtain e where e: "run_all now (auth_tables @ core_tables) d = (None, e)"
    "\<And>n. map_of (db_tables e) n = map_of (db_tables d @ created (auth_tables @ core_tables)) n"
    "db_indexes e = db_indexes d"
    by (rule creates_run[OF tables_are_creates, of now d]) (rule that; assumption)
  have "existing = e" using assms e(1) by simp
  then show "map_of (db_tables existing) n = (case map_of (db_tables d) n of Some t \<Rightarrow> Some t | None \<Rightarrow> map_of (created (auth_tables @ core_tables)) n)"
    "db_indexes existing = db_indexes d"
    using e(2)[of n] e(3) by (simp_all only: map_of_append map_add_def split: option.split)
qed

lemma columns_covered:
  "list_all (\<lambda>(n, cs). list_all (\<lambda>c. list_ex (\<lambda>s. adds s n c) (account_alters @ payment_alters) \<or> c \<in> set (unmigrated n)) cs)
     schema_columns"
  by code_simp

lemma unmigrated_created:
  "list_all (\<lambda>(n, cs). case map_of (created (auth_tables @ core_tables)) n of None \<Rightarrow> False
     | Some t \<Rightarrow> list_all (has_column t) (unmigrated n)) schema_columns"
  by code_simp

text \<open>
  C38. After a successful initialisation every column \<open>schema.ts\<close> declares exists, whatever the
  database held before, as long as tables that existed have the columns no migration adds: the
  identifiers, and those of \<open>merchant_settings\<close>.
\<close>

theorem schema_setup_complete:
  assumes "schema_setup now d = (None, d')"
    and "\<forall>n t. map_of (db_tables d) n = Some t \<longrightarrow> list_all (has_column t) (unmigrated n)"
    and "(n, cs) \<in> set schema_columns" "c \<in> set cs"
  shows "\<exists>t. map_of (db_tables d') n = Some t \<and> has_column t c"
proof -
  obtain existing where e: "run_all now (auth_tables @ core_tables) d = (None, existing)"
    "run_all now (migration existing) existing = (None, d')"
    using assms(1) by (rule schema_setup_ok)
  obtain u where u: "map_of (created (auth_tables @ core_tables)) n = Some u" "list_all (has_column u) (unmigrated n)"
    using unmigrated_created assms(3) by (auto simp: list_all_iff split: option.splits)
  obtain t where t: "map_of (db_tables existing) n = Some t" "list_all (has_column t) (unmigrated n)"
    using existing_table(1)[OF e(1), of n] u assms(2) by (cases "map_of (db_tables d) n") auto
  have "has_column t c \<or> (\<exists>s \<in> set (migration existing). adds s n c)"
    using columns_covered assms(3,4) t(2) by (fastforce simp: list_all_iff list_ex_iff migration_def)
  then show ?thesis using run_all_table[OF e(2) t(1)] by (auto simp: fold_effect_columns)
qed

definition empty_db :: sql_db where
  "empty_db = \<lparr>db_tables = [], db_indexes = []\<rparr>"

lemma setup_empty_ok: "fst (schema_setup ''t0'' empty_db) = None"
  by code_simp

theorem schema_setup_complete_witness:
  "\<exists>d' t. schema_setup ''t0'' empty_db = (None, d') \<and> map_of (db_tables d') ''payments'' = Some t
    \<and> has_column t ''idempotency_key''"
proof -
  obtain d' where d': "schema_setup ''t0'' empty_db = (None, d')"
    using setup_empty_ok by (metis prod.collapse)
  show ?thesis
    using schema_setup_complete[OF d', of "''payments''" _ "''idempotency_key''"] d'
    by (fastforce simp: empty_db_def schema_columns_def)
qed

section \<open>Databases of an older version\<close>

lemma fold_effect_append: "run_all now (ss @ ts) d = (None, d') \<Longrightarrow> \<exists>e. run_all now ss d = (None, e) \<and> run_all now ts e = (None, d')"
  by (auto simp: run_all_append split: prod.splits option.splits)

lemma drops_add_nothing: "s \<in> set (legacy_drops existing) \<Longrightarrow> \<not> adds s n a"
  by (auto simp: legacy_drops_def adds_def)

lemma account_alters_no_payments: "list_all (\<lambda>s. \<not> adds s ''payments'' ''created_at'') account_alters"
  by code_simp

lemma payment_alters_start: "\<exists>rest. payment_alters = SetDefault ''payments'' ''created_at'' Now # rest"
  by (simp add: payment_alters_def)

text \<open>
  C37. A database of an older version whose payments have no \<open>created_at\<close> column cannot be
  initialised: the statement that sets the default of that column runs before the one that adds
  it, so every run fails.
\<close>

theorem legacy_payments_cannot_be_initialised:
  assumes "map_of (db_tables d) ''payments'' = Some t" "\<not> has_column t ''created_at''"
  shows "\<exists>e. fst (schema_setup now d) = Some e"
proof (rule ccontr)
  assume "\<nexists>e. fst (schema_setup now d) = Some e"
  then obtain d' where "schema_setup now d = (None, d')" by (metis not_None_eq prod.collapse)
  then obtain existing where e: "run_all now (auth_tables @ core_tables) d = (None, existing)"
    "run_all now (migration existing) existing = (None, d')"
    by (rule schema_setup_ok)
  obtain rest where rest: "payment_alters = SetDefault ''payments'' ''created_at'' Now # rest"
    using payment_alters_start by blast
  let ?pre = "legacy_drops existing @ account_alters"
  have "migration existing = ?pre @ SetDefault ''payments'' ''created_at'' Now
      # (rest @ index_statements @ legacy_copies existing @ environment_updates)"
    by (simp add: migration_def rest)
  then obtain f where f: "run_all now ?pre existing = (None, f)"
    "run_all now (SetDefault ''payments'' ''created_at'' Now
        # (rest @ index_statements @ legacy_copies existing @ environment_updates)) f = (None, d')"
    using fold_effect_append e(2) by metis
  have t: "map_of (db_tables existing) ''payments'' = Some t" using existing_table(1)[OF e(1)] assms(1) by simp
  let ?u = "fold (\<lambda>s. effect now s ''payments'') ?pre t"
  have "map_of (db_tables f) ''payments'' = Some ?u" by (rule run_all_table[OF f(1) t])
  moreover have "\<not> has_column ?u ''created_at''"
    using assms(2) account_alters_no_payments drops_add_nothing by (auto simp: fold_effect_columns list_all_iff)
  ultimately have "run_stmt now (SetDefault ''payments'' ''created_at'' Now) f = Inl (UndefinedColumn ''payments'' ''created_at'')"
    by (simp add: on_table_def on_column_def)
  with f(2) show False by simp
qed

theorem legacy_payments_cannot_be_initialised_witness:
  "\<exists>e. fst (schema_setup ''t0'' \<lparr>db_tables = [(''payments'', \<lparr>t_columns = [required ''id'' ''TEXT'', nullable ''createdAt'' ''TIMESTAMPTZ''],
     t_rows = []\<rparr>)], db_indexes = []\<rparr>) = Some e"
proof (rule legacy_payments_cannot_be_initialised)
  show "\<not> has_column \<lparr>t_columns = [required ''id'' ''TEXT'', nullable ''createdAt'' ''TIMESTAMPTZ''], t_rows = []\<rparr> ''created_at''"
    by code_simp
qed simp

text \<open>Statements that may give a column a value.\<close>

definition fills :: "sql_stmt \<Rightarrow> string \<Rightarrow> string \<Rightarrow> bool" where
  "fills s n a = (case s of
     AddColumn m x \<Rightarrow> m = n \<and> c_name x = a \<and> c_default x \<noteq> None
   | CopyColumn m snake camel \<Rightarrow> m = n \<and> snake = a
   | SetColumn m c v P \<Rightarrow> m = n \<and> c = a
   | _ \<Rightarrow> False)"

definition all_null :: "string \<Rightarrow> table \<Rightarrow> bool" where
  "all_null a t \<longleftrightarrow> list_all (\<lambda>r. map_of r a = None) (t_rows t)"

lemma effect_null:
  assumes "all_null a t" "\<not> fills s n a"
  shows "all_null a (effect now s n t)"
proof (cases s)
  case (AddColumn m x)
  then show ?thesis using assms
    by (auto simp: all_null_def add_column_def fills_def put_lookup list_all_iff split: option.splits)
next
  case (CopyColumn m snake camel)
  then show ?thesis using assms
    by (auto simp: all_null_def copy_column_def fills_def put_lookup list_all_iff split: option.splits)
next
  case (SetColumn m c v P)
  then show ?thesis using assms by (auto simp: all_null_def fills_def put_lookup list_all_iff)
qed (use assms in \<open>auto simp: all_null_def alter_column_def\<close>)

lemma fold_effect_null:
  "all_null a t \<Longrightarrow> (\<And>s. s \<in> set ss \<Longrightarrow> \<not> fills s n a) \<Longrightarrow> all_null a (fold (\<lambda>s. effect now s n) ss t)"
  by (induction ss arbitrary: t) (auto simp: effect_null)

text \<open>Every copied column but the times is one a migration adds, without a default.\<close>

definition times :: "string list" where
  "times = [''created_at'', ''updated_at'', ''received_at'']"

lemma copied_columns:
  "list_all (\<lambda>(n, snake, camel). snake \<in> set times
     \<or> (list_ex (\<lambda>s. adds s n snake) (account_alters @ payment_alters)
        \<and> list_all (\<lambda>s. \<not> fills s n snake) (account_alters @ payment_alters @ index_statements @ environment_updates)))
     legacyCopies"
  by code_simp

text \<open>
  C40. The first start on an older database copies nothing into the columns it adds: the existing
  columns are read before the new ones are added, so when a table has only the old column of
  a pair, the initialisation succeeds with the new column there and null in every row (until a
  later start copies it). An API key stored with the old \<open>keyHash\<close> is unknown meanwhile.
\<close>

theorem first_start_copies_nothing:
  assumes "schema_setup now d = (None, d')"
    and "(n, snake, camel) \<in> set legacyCopies" "snake \<notin> set times"
    and "map_of (db_tables d) n = Some t" "\<not> has_column t snake" "all_null snake t"
  shows "\<exists>t'. map_of (db_tables d') n = Some t' \<and> has_column t' snake \<and> all_null snake t'"
proof -
  obtain existing where e: "run_all now (auth_tables @ core_tables) d = (None, existing)"
    "run_all now (migration existing) existing = (None, d')"
    using assms(1) by (rule schema_setup_ok)
  have t: "map_of (db_tables existing) n = Some t" using existing_table(1)[OF e(1)] assms(4) by simp
  have c: "list_ex (\<lambda>s. adds s n snake) (account_alters @ payment_alters)"
    "list_all (\<lambda>s. \<not> fills s n snake) (account_alters @ payment_alters @ index_statements @ environment_updates)"
    using copied_columns assms(2,3) by (auto simp: list_all_iff)
  have "\<not> hasColumn existing n snake" using assms(5) by (simp add: hasColumn_def t)
  then have "\<not> fills s n snake" if "s \<in> set (legacy_copies existing)" for s
    using that by (auto simp: legacy_copies_def fills_def)
  moreover have "\<not> fills s n snake" if "s \<in> set (legacy_drops existing)" for s
    using that by (auto simp: legacy_drops_def fills_def)
  ultimately have "\<not> fills s n snake" if "s \<in> set (migration existing)" for s
    using that c(2) by (auto simp: migration_def list_all_iff)
  then show ?thesis
    using run_all_table[OF e(2) t] fold_effect_null[OF assms(6), of "migration existing" n now] c(1)
    by (auto simp: fold_effect_columns migration_def list_ex_iff)
qed

definition legacy_db :: sql_db where
  "legacy_db = \<lparr>db_tables = [(''api_keys'',
     \<lparr>t_columns = [required ''id'' ''BIGINT'', nullable ''userId'' ''TEXT'', nullable ''keyHash'' ''TEXT'',
        nullable ''created_at'' ''TIMESTAMPTZ''],
      t_rows = [[(''id'', ''1''), (''userId'', ''u1''), (''keyHash'', ''abc'')]]\<rparr>)], db_indexes = []\<rparr>"

lemma legacy_db_ok: "fst (schema_setup ''t0'' legacy_db) = None"
  by code_simp

theorem first_start_copies_nothing_witness:
  "\<exists>d' t'. schema_setup ''t0'' legacy_db = (None, d') \<and> map_of (db_tables d') ''api_keys'' = Some t'
     \<and> has_column t' ''key_hash'' \<and> all_null ''key_hash'' t'"
proof -
  obtain d' where d': "schema_setup ''t0'' legacy_db = (None, d')" using legacy_db_ok by (metis prod.collapse)
  let ?t = "snd (hd (db_tables legacy_db))"
  have "map_of (db_tables legacy_db) ''api_keys'' = Some ?t" by (simp add: legacy_db_def)
  moreover have "\<not> has_column ?t ''key_hash'' \<and> all_null ''key_hash'' ?t" by code_simp
  moreover have "(''api_keys'', ''key_hash'', ''keyHash'') \<in> set legacyCopies \<and> ''key_hash'' \<notin> set times" by code_simp
  ultimately show ?thesis using first_start_copies_nothing[OF d'] d' by blast
qed

section \<open>Starting again\<close>

text \<open>A statement that has nothing left to do, judged by the structure alone.\<close>

definition column_is :: "sql_db \<Rightarrow> string \<Rightarrow> string \<Rightarrow> (column \<Rightarrow> bool) \<Rightarrow> bool" where
  "column_is d n c P = (case map_of (db_tables d) n of None \<Rightarrow> False
     | Some t \<Rightarrow> has_column t c \<and> list_all (\<lambda>x. c_name x = c \<longrightarrow> P x) (t_columns t))"

definition idle :: "sql_db \<Rightarrow> sql_stmt \<Rightarrow> bool" where
  "idle d s = (case s of
     CreateTable n cs \<Rightarrow> map_of (db_tables d) n \<noteq> None
   | DropNotNull n c \<Rightarrow> column_is d n c (\<lambda>x. \<not> c_notnull x)
   | AddColumn n x \<Rightarrow> hasColumn d n (c_name x)
   | SetType n c ty \<Rightarrow> column_is d n c (\<lambda>x. c_type x = ty)
   | SetDefault n c v \<Rightarrow> column_is d n c (\<lambda>x. c_default x = Some v)
   | CreateIndex i u n cs \<Rightarrow> i \<in> set (db_indexes d)
   | _ \<Rightarrow> False)"

lemma put_same: "map_of ps k = Some v \<Longrightarrow> put k v ps = ps"
  by (induction k v ps rule: put.induct) auto

lemma alter_same: "list_all (\<lambda>x. c_name x = c \<longrightarrow> f x = x) (t_columns t) \<Longrightarrow> alter_column c f t = t"
  by (cases t) (auto simp: alter_column_def list_all_iff intro!: map_idI)

lemma on_column_same:
  assumes "column_is d n c P" "\<And>x. P x \<Longrightarrow> f x = x"
  shows "on_table n (on_column n c (alter_column c f)) d = Inr d"
proof -
  obtain t where t: "map_of (db_tables d) n = Some t" "has_column t c" "list_all (\<lambda>x. c_name x = c \<longrightarrow> P x) (t_columns t)"
    using assms(1) by (auto simp: column_is_def split: option.splits)
  have "alter_column c f t = t" using t(3) assms(2) by (intro alter_same) (auto simp: list_all_iff)
  then show ?thesis using t(1,2) put_same[OF t(1)] by (simp add: on_table_def on_column_def)
qed

lemma idle_run: "idle d s \<Longrightarrow> run_stmt now s d = Inr d"
proof (cases s)
  case (DropNotNull n c)
  then show "idle d s \<Longrightarrow> ?thesis" using on_column_same[of d n c "\<lambda>x. \<not> c_notnull x" "\<lambda>x. x\<lparr>c_notnull := False\<rparr>"] by (simp add: idle_def)
next
  case (SetType n c ty)
  then show "idle d s \<Longrightarrow> ?thesis" using on_column_same[of d n c "\<lambda>x. c_type x = ty" "\<lambda>x. x\<lparr>c_type := ty\<rparr>"] by (auto simp: idle_def)
next
  case (SetDefault n c v)
  then show "idle d s \<Longrightarrow> ?thesis" using on_column_same[of d n c "\<lambda>x. c_default x = Some v" "\<lambda>x. x\<lparr>c_default := Some v\<rparr>"] by (auto simp: idle_def)
next
  case (AddColumn n x)
  then show "idle d s \<Longrightarrow> ?thesis" by (auto simp: put_same idle_def hasColumn_def on_table_def add_column_def split: option.splits)
qed (auto simp: idle_def)

lemma idle_run_all: "list_all (idle d) ss \<Longrightarrow> run_all now ss d = (None, d)"
  by (induction ss) (auto simp: idle_run)

text \<open>The database a first start creates, and the same with rows in its tables.\<close>

definition fresh_db :: sql_db where
  "fresh_db = snd (schema_setup ''t0'' empty_db)"

definition with_rows :: "(string \<Rightarrow> row list) \<Rightarrow> sql_db \<Rightarrow> sql_db" where
  "with_rows R d = d\<lparr>db_tables := map (\<lambda>(n, t). (n, t\<lparr>t_rows := R n\<rparr>)) (db_tables d)\<rparr>"

lemma with_rows_lookup:
  "map_of (db_tables (with_rows R d)) n = map_option (\<lambda>t. t\<lparr>t_rows := R n\<rparr>) (map_of (db_tables d) n)"
proof -
  have "map_of (map (\<lambda>(n, t). (n, t\<lparr>t_rows := R n\<rparr>)) ts) n = map_option (\<lambda>t. t\<lparr>t_rows := R n\<rparr>) (map_of ts n)" for ts
    by (induction ts) auto
  then show ?thesis by (simp add: with_rows_def)
qed

lemma with_rows_indexes: "db_indexes (with_rows R d) = db_indexes d"
  by (simp add: with_rows_def)

lemma with_rows_structure:
  "idle (with_rows R d) s = idle d s" "hasColumn (with_rows R d) = hasColumn d"
proof -
  have "column_is (with_rows R d) = column_is d" "hasColumn (with_rows R d) = hasColumn d"
    by (auto simp: column_is_def hasColumn_def with_rows_lookup has_column_def fun_eq_iff split: option.splits)
  then show "idle (with_rows R d) s = idle d s" "hasColumn (with_rows R d) = hasColumn d"
    by (auto simp: idle_def with_rows_lookup with_rows_indexes split: sql_stmt.splits)
qed

lemma put_rows:
  assumes "distinct (map fst ts)" "map_of ts n = Some t"
  shows "put n (t\<lparr>t_rows := rs\<rparr>) (map (\<lambda>(n, t). (n, t\<lparr>t_rows := R n\<rparr>)) ts)
    = map (\<lambda>(m, t). (m, t\<lparr>t_rows := (R(n := rs)) m\<rparr>)) ts"
  using assms
proof (induction ts)
  case (Cons x ts)
  obtain m u where x: "x = (m, u)" by (cases x)
  show ?case
  proof (cases "m = n")
    case True
    then have "\<forall>p \<in> set ts. fst p \<noteq> n" using Cons.prems(1) x by force
    then show ?thesis using Cons.prems x True by (auto split: prod.splits)
  next
    case False
    then show ?thesis using Cons x by auto
  qed
qed simp

lemma set_column_rows:
  assumes "distinct (map fst (db_tables d))" "hasColumn d n c"
  shows "run_stmt now (SetColumn n c v P) (with_rows R d)
    = Inr (with_rows (R(n := map (\<lambda>r. if P r then put c v r else r) (R n))) d)"
proof -
  obtain t where t: "map_of (db_tables d) n = Some t" "has_column t c"
    using assms(2) by (auto simp: hasColumn_def split: option.splits)
  then show ?thesis
    using put_rows[OF assms(1) t(1), of _ R]
    by (simp add: on_table_def on_column_def with_rows_lookup has_column_def) (simp add: with_rows_def)
qed

text \<open>What a start does to the rows.\<close>

definition mark_test :: "(row \<Rightarrow> bool) \<Rightarrow> row list \<Rightarrow> row list" where
  "mark_test P = map (\<lambda>r. if P r then put ''environment'' ''test'' r else r)"

definition restarted :: "(string \<Rightarrow> row list) \<Rightarrow> string \<Rightarrow> row list" where
  "restarted R = R(''api_keys'' := mark_test test_key (R ''api_keys''),
     ''api_requests'' := mark_test sandbox_user_row (R ''api_requests''),
     ''payments'' := mark_test test_payment (R ''payments''))"

definition restartable :: "sql_db \<Rightarrow> bool" where
  "restartable d \<longleftrightarrow> list_all (idle d) (auth_tables @ core_tables)
     \<and> list_all (idle d) (legacy_drops d @ account_alters @ payment_alters @ index_statements)
     \<and> legacy_copies d = [] \<and> distinct (map fst (db_tables d))
     \<and> list_all (\<lambda>n. hasColumn d n ''environment'') [''api_keys'', ''api_requests'', ''payments'']"

lemma fresh_restartable: "case schema_setup ''t0'' empty_db of (_, d) \<Rightarrow> restartable d"
  by code_simp

lemma fresh_idle:
  "list_all (idle fresh_db) (auth_tables @ core_tables)"
  "list_all (idle fresh_db) (legacy_drops fresh_db @ account_alters @ payment_alters @ index_statements)"
  "legacy_copies fresh_db = []" "distinct (map fst (db_tables fresh_db))"
  "list_all (\<lambda>n. hasColumn fresh_db n ''environment'') [''api_keys'', ''api_requests'', ''payments'']"
proof -
  have "restartable fresh_db" using fresh_restartable unfolding fresh_db_def by (simp only: prod.case_eq_if)
  then show "list_all (idle fresh_db) (auth_tables @ core_tables)"
    "list_all (idle fresh_db) (legacy_drops fresh_db @ account_alters @ payment_alters @ index_statements)"
    "legacy_copies fresh_db = []" "distinct (map fst (db_tables fresh_db))"
    "list_all (\<lambda>n. hasColumn fresh_db n ''environment'') [''api_keys'', ''api_requests'', ''payments'']"
    unfolding restartable_def by blast+
qed


section \<open>One initialisation\<close>

text \<open>
  Once initialised, a call returns at once and touches nothing; a failure leaves the process
  uninitialised, with the database marked unavailable, and reaches the caller in production
  only.
\<close>

lemma ensure_after_success:
  "ensureDatabaseSchema False production connect message now (s, d) = (None, s', d') \<Longrightarrow> isInitialized s'
    \<Longrightarrow> ensureDatabaseSchema build production' connect' message now' (s', d') = (None, s', d')"
  by (simp add: ensureDatabaseSchema_def)

lemma ensure_failure:
  assumes "ensureDatabaseSchema False production connect message now (s, d) = (r, s', d')" "\<not> isInitialized s'"
  shows "\<not> isDatabaseAvailable s' \<and> lastDatabaseError s' \<noteq> None \<and> (r = None \<longleftrightarrow> \<not> production)"
  using assms by (auto simp: ensureDatabaseSchema_def Let_def split: if_splits option.splits prod.splits)

end
