(* ===== verification/Regex.thy ===== *)
theory Regex
  imports Js_Base
begin

text \<open>
  The regular expressions of JavaScript, as far as the sources use them: a backtracking matcher
  that lists all matches at a position in the order JavaScript tries them, the leftmost search
  of \<open>match\<close>, and \<open>replace\<close> with its replacement templates. Repetitions are greedy or lazy; an
  iteration that consumes nothing ends a repetition, so the number of iterations is at most the
  length of the text, which is the fuel of \<open>iterate\<close>.
\<close>

section \<open>Matching\<close>

datatype re =
    Eps
  | Str string
  | Cls "char \<Rightarrow> bool"
  | Seq re re
  | Alt re re
  | Star bool re
  | Grp nat re

text \<open>A match: its text, its captures (the latest first) and what follows.\<close>

type_synonym match = "string \<times> (nat \<times> string) list \<times> string"

definition after :: "match \<Rightarrow> match list \<Rightarrow> match list" where
  "after x ys = (case x of (m, c, _) \<Rightarrow> map (\<lambda>(m', c', r). (m @ m', c' @ c, r)) ys)"

fun iterate :: "bool \<Rightarrow> (string \<Rightarrow> match list) \<Rightarrow> nat \<Rightarrow> string \<Rightarrow> match list" where
  "iterate greedy f 0 s = [([], [], s)]"
| "iterate greedy f (Suc n) s =
     (let more = concat (map (\<lambda>x. if fst x = [] then [] else after x (iterate greedy f n (snd (snd x)))) (f s))
      in if greedy then more @ [([], [], s)] else ([], [], s) # more)"

primrec matches :: "re \<Rightarrow> string \<Rightarrow> match list" where
  "matches Eps s = [([], [], s)]"
| "matches (Str l) s = (if starts_with s l then [(l, [], drop (length l) s)] else [])"
| "matches (Cls P) s = (case s of [] \<Rightarrow> [] | x # r \<Rightarrow> if P x then [([x], [], r)] else [])"
| "matches (Seq a b) s = concat (map (\<lambda>x. after x (matches b (snd (snd x)))) (matches a s))"
| "matches (Alt a b) s = matches a s @ matches b s"
| "matches (Star greedy a) s = iterate greedy (matches a) (length s) s"
| "matches (Grp n a) s = map (\<lambda>(m, c, r). (m, (n, m) # c, r)) (matches a s)"

text \<open>The leftmost match from \<open>s\<close> on, with the text before it.\<close>

fun search :: "re \<Rightarrow> string \<Rightarrow> string \<Rightarrow> (string \<times> match) option" where
  "search r before s = (case matches r s of
     x # _ \<Rightarrow> Some (before, x)
   | [] \<Rightarrow> (case s of [] \<Rightarrow> None | c # rest \<Rightarrow> search r (before @ [c]) rest))"

declare search.simps [simp del]

text \<open>The capture of a group in \<open>s.match(r)\<close>.\<close>

definition js_match :: "re \<Rightarrow> nat \<Rightarrow> string \<Rightarrow> string option" where
  "js_match r n s = (case search r [] s of None \<Rightarrow> None | Some (_, _, c, _) \<Rightarrow> map_of c n)"

text \<open>\<open>^r$\<close>: a match that is the whole text.\<close>

definition full_match :: "re \<Rightarrow> string \<Rightarrow> (nat \<times> string) list option" where
  "full_match r s = map_option (\<lambda>x. fst (snd x)) (find (\<lambda>x. snd (snd x) = []) (matches r s))"

section \<open>Replacing\<close>

primrec groups :: "re \<Rightarrow> nat" where
  "groups Eps = 0"
| "groups (Str l) = 0"
| "groups (Cls P) = 0"
| "groups (Seq a b) = max (groups a) (groups b)"
| "groups (Alt a b) = max (groups a) (groups b)"
| "groups (Star greedy a) = groups a"
| "groups (Grp n a) = max n (groups a)"

text \<open>
  The template of a replacement, with \<open>n\<close> groups: \<open>$$\<close>, \<open>$&\<close>, the text before and after, and groups
  by one or two digits; a two-digit number above \<open>n\<close> is a one-digit group and a digit.
\<close>

fun expand :: "nat \<Rightarrow> (nat \<Rightarrow> string) \<Rightarrow> string \<Rightarrow> string \<Rightarrow> string \<Rightarrow> string \<Rightarrow> string" where
  "expand n c m a b [] = []"
| "expand n c m a b [x] = [x]"
| "expand n c m a b (x # y # ys) =
     (if x \<noteq> CHR ''$'' then x # expand n c m a b (y # ys)
      else if y = CHR ''$'' then y # expand n c m a b ys
      else if y = CHR ''&'' then m @ expand n c m a b ys
      else if y = CHR 0x60 then a @ expand n c m a b ys
      else if y = CHR 0x27 then b @ expand n c m a b ys
      else if is_digit y then
        (let two = (case ys of [] \<Rightarrow> 0 | z # _ \<Rightarrow> if is_digit z then 10 * digit_val y + digit_val z else 0) in
         if 1 \<le> two \<and> two \<le> n then c two @ expand n c m a b (tl ys)
         else if 1 \<le> digit_val y \<and> digit_val y \<le> n then c (digit_val y) @ expand n c m a b ys
         else x # expand n c m a b (y # ys))
      else x # expand n c m a b (y # ys))"

definition group_text :: "(nat \<times> string) list \<Rightarrow> nat \<Rightarrow> string" where
  "group_text c i = nullish_else (map_of c i) []"

definition replace_first :: "re \<Rightarrow> string \<Rightarrow> string \<Rightarrow> string" where
  "replace_first r template s = (case search r [] s of
     None \<Rightarrow> s
   | Some (a, m, c, b) \<Rightarrow> a @ expand (groups r) (group_text c) m a b template @ b)"

text \<open>With the flag \<open>g\<close>: after a match the search goes on behind it.\<close>

fun replace_from :: "nat \<Rightarrow> re \<Rightarrow> string \<Rightarrow> string \<Rightarrow> string \<Rightarrow> string" where
  "replace_from 0 r template before s = s"
| "replace_from (Suc n) r template before s = (case search r [] s of
     None \<Rightarrow> s
   | Some (a, m, c, b) \<Rightarrow>
       a @ expand (groups r) (group_text c) m (before @ a) b template @
       (if m = [] then (case b of [] \<Rightarrow> [] | x # b' \<Rightarrow> x # replace_from n r template (before @ a @ [x]) b')
        else replace_from n r template (before @ a @ m) b))"

definition replace_all :: "re \<Rightarrow> string \<Rightarrow> string \<Rightarrow> string" where
  "replace_all r template s = replace_from (Suc (length s)) r template [] s"

section \<open>Abbreviations for patterns\<close>

fun seqs :: "re list \<Rightarrow> re" where
  "seqs [] = Eps"
| "seqs [r] = r"
| "seqs (r # rs) = Seq r (seqs rs)"

definition many :: "re \<Rightarrow> re" where "many r = Star True r"
definition some_of :: "re \<Rightarrow> re" where "some_of r = Seq r (Star True r)"
definition maybe :: "re \<Rightarrow> re" where "maybe r = Alt r Eps"
definition digit :: re where "digit = Cls is_digit"
definition space :: re where "space = Cls is_ws"
definition none_of :: "string \<Rightarrow> re" where "none_of cs = Cls (\<lambda>c. c \<notin> set cs)"
definition lazy_any :: re where "lazy_any = Star False (Cls (\<lambda>_. True))"

lemmas pattern_defs = many_def some_of_def maybe_def digit_def space_def none_of_def lazy_any_def

section \<open>What a match is\<close>

lemma in_after: "y \<in> set (after (m, c, r) ys) \<longleftrightarrow> (\<exists>m' c' r'. (m', c', r') \<in> set ys \<and> y = (m @ m', c' @ c, r'))"
  by (force simp: after_def)

lemma in_seq: "(m, c, r) \<in> set (matches (Seq a b) s) \<longleftrightarrow>
  (\<exists>m1 c1 r1 m2 c2. (m1, c1, r1) \<in> set (matches a s) \<and> (m2, c2, r) \<in> set (matches b r1) \<and> m = m1 @ m2 \<and> c = c2 @ c1)"
  by (force simp: in_after)

lemma in_str: "(m, c, r) \<in> set (matches (Str l) s) \<longleftrightarrow> m = l \<and> c = [] \<and> s = l @ r"
  by (auto simp: starts_with_append)

lemma in_cls: "(m, c, r) \<in> set (matches (Cls P) s) \<longleftrightarrow> (\<exists>x. P x \<and> m = [x] \<and> c = [] \<and> s = x # r)"
  by (auto split: list.splits)

lemma in_alt: "x \<in> set (matches (Alt a b) s) \<longleftrightarrow> x \<in> set (matches a s) \<or> x \<in> set (matches b s)"
  by simp

lemma in_grp: "(m, c, r) \<in> set (matches (Grp n a) s) \<longleftrightarrow> (\<exists>c'. c = (n, m) # c' \<and> (m, c', r) \<in> set (matches a s))"
  by force

lemma in_eps: "(m, c, r) \<in> set (matches Eps s) \<longleftrightarrow> m = [] \<and> c = [] \<and> r = s"
  by auto

text \<open>Repetition of a class: any number of its characters.\<close>

lemma in_iterate_cls:
  "length s \<le> n \<Longrightarrow> (m, c, r) \<in> set (iterate g (matches (Cls P)) n s) \<longleftrightarrow> list_all P m \<and> c = [] \<and> s = m @ r"
proof (induction n arbitrary: s m)
  case (Suc n)
  show ?case
  proof (cases s)
    case (Cons x t)
    have f: "matches (Cls P) s = (if P x then [([x], [], t)] else [])" by (simp add: Cons)
    have "(m, c, r) \<in> set (iterate g (matches (Cls P)) (Suc n) s)
      \<longleftrightarrow> (m = [] \<and> c = [] \<and> r = s) \<or> P x \<and> (\<exists>m'. m = x # m' \<and> (m', c, r) \<in> set (iterate g (matches (Cls P)) n t))"
      unfolding iterate.simps f Let_def by (auto simp: in_after simp del: matches.simps split: if_splits)
    also have "\<dots> \<longleftrightarrow> list_all P m \<and> c = [] \<and> s = m @ r"
      using Suc Cons by (cases m) (auto simp del: matches.simps)
    finally show ?thesis .
  qed (auto simp: Let_def)
qed auto

lemma in_star_cls: "(m, c, r) \<in> set (matches (Star g (Cls P)) s) \<longleftrightarrow> list_all P m \<and> c = [] \<and> s = m @ r"
  using in_iterate_cls[of s "length s" m c r g P] by simp

lemma iterate_splits:
  "(\<And>m c r s. (m, c, r) \<in> set (f s) \<Longrightarrow> s = m @ r) \<Longrightarrow> (m, c, r) \<in> set (iterate g f n s) \<Longrightarrow> s = m @ r"
proof (induction n arbitrary: s m c r)
  case (Suc n)
  from Suc.prems(2) consider "m = []" "r = s"
    | m1 c1 r1 where "(m1, c1, r1) \<in> set (f s)" "(m, c, r) \<in> set (after (m1, c1, r1) (iterate g f n r1))"
    by (auto simp: Let_def split: if_splits)
  then show ?case
  proof cases
    case 2
    then obtain m2 c2 where "(m2, c2, r) \<in> set (iterate g f n r1)" "m = m1 @ m2" by (auto simp: in_after)
    then show ?thesis using Suc.IH[OF Suc.prems(1)] Suc.prems(1)[OF 2(1)] by auto
  qed simp
qed auto

text \<open>A match and what follows make up the text.\<close>

lemma matches_split: "(m, c, r) \<in> set (matches a s) \<Longrightarrow> s = m @ r"
proof (induction a arbitrary: m c r s)
  case (Star g a)
  then have "(m, c, r) \<in> set (iterate g (matches a) (length s) s)" by simp
  then show ?case by (rule iterate_splits[rotated]) (rule Star.IH)
next
  case (Seq a b)
  then obtain m1 c1 r1 m2 c2 where "(m1, c1, r1) \<in> set (matches a s)" "(m2, c2, r) \<in> set (matches b r1)" "m = m1 @ m2"
    unfolding in_seq by blast
  then have "s = m1 @ r1" "r1 = m2 @ r" using Seq.IH by blast+
  then show ?case using \<open>m = m1 @ m2\<close> by simp
next
  case (Grp n a)
  then obtain c' where "(m, c', r) \<in> set (matches a s)" unfolding in_grp by blast
  then show ?case by (rule Grp.IH)
next
  case (Alt a b)
  then show ?case unfolding in_alt by blast
qed (simp_all add: in_str in_cls in_eps del: matches.simps, auto)

lemma search_split:
  "search a before s = Some (b, m, c, r) \<Longrightarrow> before @ s = b @ m @ r \<and> (m, c, r) \<in> set (matches a (m @ r))"
proof (induction a before s rule: search.induct)
  case (1 a before s)
  show ?case
  proof (cases "matches a s")
    case Nil
    with 1(2) obtain x t where s: "s = x # t" "search a (before @ [x]) t = Some (b, m, c, r)"
      unfolding search.simps[of a before s] by (cases s) auto
    then show ?thesis using 1(1)[OF Nil s(1)] by simp
  next
    case (Cons x xs)
    then have x: "x = (m, c, r)" "b = before" using 1(2) unfolding search.simps[of a before s] by auto
    then have "(m, c, r) \<in> set (matches a s)" using Cons by simp
    moreover from this have "s = m @ r" by (rule matches_split)
    ultimately show ?thesis using x by simp
  qed
qed

text \<open>A capture that a search returns was matched by the group.\<close>

lemma js_match_capture:
  assumes "js_match a n s = Some v"
  obtains m c r t where "(m, c, r) \<in> set (matches a t)" "map_of c n = Some v"
  using assms search_split by (fastforce simp: js_match_def split: option.splits prod.splits)

lemmas in_matches = in_seq in_str in_cls in_alt in_grp in_eps in_star_cls

end
