(* ===== verification/Versioning.thy ===== *)
theory Versioning
  imports Regex Json
begin

text \<open>
  The version orchestrator \<open>scripts/version.mjs\<close>: the 35 places a version is written in, how each
  is read and rewritten, and the commands \<open>check\<close>, \<open>sync\<close> and \<open>bump\<close> on the files of the repository.

  Files are a map from paths below the root to contents; a path without content is a file that
  cannot be read. \<open>JSON.parse\<close> and \<open>cargo check\<close>, which may rewrite \<open>Cargo.lock\<close>, are parameters.
  The numbers of a version are exact: the code computes with doubles, which agrees below 2 ^ 53.
  The bullet in one pattern of \<open>index.html\<close> is no Latin-1 character, so it matches no character
  of the model. Console output is left out, except for the report of \<open>check\<close>.
\<close>

section \<open>Targets\<close>

datatype reader = Reads re | ReadsYaml re | ReadsJson

text \<open>
  A replacement of the first match, or of all, by a template that has the new version between two
  fixed parts.
\<close>

datatype edit = EditFirst re string string | EditAll re string string

record target =
  tg_id :: string
  tg_name :: string
  tg_file :: string
  tg_ecosystem :: string
  tg_category :: string
  tg_read :: reader
  tg_write :: "edit list"

definition ver :: re where
  "ver = seqs [some_of digit, Str ''.'', some_of digit, Str ''.'', some_of digit]"

definition package_manifests :: "target list" where
  \<open>package_manifests =
    [\<lparr>tg_id = ''cargo-workspace'', tg_name = ''Cargo Workspace Root'', tg_file = ''Cargo.toml'',
       tg_ecosystem = ''Rust'', tg_category = ''manifests'',
       tg_read = Reads (seqs [Str ''[workspace.package]'', lazy_any, Str ''version'', many space, Str ''='', many space, Str ''"'', Grp 1 (some_of (none_of [CHR 0x22])), Str ''"'']),
       tg_write = [EditFirst (seqs [Grp 1 (seqs [Str ''[workspace.package]'', lazy_any, Str ''version'', many space, Str ''='', many space, Str ''"'']), Grp 2 (some_of (none_of [CHR 0x22])), Grp 3 (Str ''"'')]) ''$1'' ''$3'']\<rparr>,
     \<lparr>tg_id = ''root-package-json'', tg_name = ''Monorepo Root'', tg_file = ''package.json'',
       tg_ecosystem = ''Node/pnpm'', tg_category = ''manifests'',
       tg_read = ReadsJson,
       tg_write = [EditFirst (seqs [Grp 1 (seqs [Str ''"version":'', many space, Str ''"'']), Grp 2 (some_of (none_of [CHR 0x22])), Grp 3 (Str ''"'')]) ''$1'' ''$3'']\<rparr>,
     \<lparr>tg_id = ''apps-web-package-json'', tg_name = ''Web Control Plane'', tg_file = ''apps/web/package.json'',
       tg_ecosystem = ''Next.js'', tg_category = ''manifests'',
       tg_read = ReadsJson,
       tg_write = [EditFirst (seqs [Grp 1 (seqs [Str ''"version":'', many space, Str ''"'']), Grp 2 (some_of (none_of [CHR 0x22])), Grp 3 (Str ''"'')]) ''$1'' ''$3'']\<rparr>,
     \<lparr>tg_id = ''sdk-typescript'', tg_name = ''TypeScript SDK'', tg_file = ''sdk/typescript/package.json'',
       tg_ecosystem = ''npm'', tg_category = ''manifests'',
       tg_read = ReadsJson,
       tg_write = [EditFirst (seqs [Grp 1 (seqs [Str ''"version":'', many space, Str ''"'']), Grp 2 (some_of (none_of [CHR 0x22])), Grp 3 (Str ''"'')]) ''$1'' ''$3'']\<rparr>,
     \<lparr>tg_id = ''sdk-php'', tg_name = ''PHP SDK'', tg_file = ''sdk/php/composer.json'',
       tg_ecosystem = ''Composer'', tg_category = ''manifests'',
       tg_read = ReadsJson,
       tg_write = [EditFirst (seqs [Grp 1 (seqs [Str ''"version":'', many space, Str ''"'']), Grp 2 (some_of (none_of [CHR 0x22])), Grp 3 (Str ''"'')]) ''$1'' ''$3'']\<rparr>,
     \<lparr>tg_id = ''sdk-dotnet'', tg_name = ''.NET SDK'', tg_file = ''sdk/dotnet/src/OpenWrapper/OpenWrapper.csproj'',
       tg_ecosystem = ''NuGet'', tg_category = ''manifests'',
       tg_read = Reads (seqs [Str ''<Version>'', Grp 1 (some_of (none_of [CHR ''<''])), Str ''</Version>'']),
       tg_write = [EditFirst (seqs [Grp 1 (Str ''<Version>''), Grp 2 (some_of (none_of [CHR ''<''])), Grp 3 (Str ''</Version>'')]) ''$1'' ''$3'']\<rparr>]\<close>

definition contract_manifests :: "target list" where
  \<open>contract_manifests =
    [\<lparr>tg_id = ''openapi-yaml'', tg_name = ''OpenAPI Spec (YAML)'', tg_file = ''docs/openapi/openapi.yaml'',
       tg_ecosystem = ''OpenAPI'', tg_category = ''manifests'',
       tg_read = ReadsYaml (seqs [Str ''info:'', many space, Cls (\<lambda>c. c = CHR 0x0A), some_of space, Str ''title:'', some_of (none_of [CHR 0x0A]), Cls (\<lambda>c. c = CHR 0x0A), some_of space, Str ''version:'', many space, Grp 1 (some_of (none_of [CHR 0x0A, CHR 0x0D]))]),
       tg_write = [EditFirst (seqs [Grp 1 (seqs [Str ''info:'', many space, Cls (\<lambda>c. c = CHR 0x0A), some_of space, Str ''title:'', some_of (none_of [CHR 0x0A]), Cls (\<lambda>c. c = CHR 0x0A), some_of space, Str ''version:'', many space]), Grp 2 (some_of (none_of [CHR 0x0A, CHR 0x0D]))]) ''$1'' '''',
         EditFirst (seqs [Grp 1 (seqs [Str ''example:'', many space]), Grp 2 (ver)]) ''$1'' '''']\<rparr>,
     \<lparr>tg_id = ''openapi-json'', tg_name = ''OpenAPI Spec (JSON)'', tg_file = ''docs/openapi/openapi.json'',
       tg_ecosystem = ''OpenAPI'', tg_category = ''manifests'',
       tg_read = Reads (seqs [Str ''"info":'', many space, Str ''{'', lazy_any, Str ''"version":'', many space, Str ''"'', Grp 1 (some_of (none_of [CHR 0x22])), Str ''"'']),
       tg_write = [EditFirst (seqs [Grp 1 (seqs [Str ''"info":'', many space, Str ''{'', lazy_any, Str ''"version":'', many space, Str ''"'']), Grp 2 (some_of (none_of [CHR 0x22])), Grp 3 (Str ''"'')]) ''$1'' ''$3'',
         EditFirst (seqs [Grp 1 (seqs [Str ''"example":'', many space, Str ''"'']), Grp 2 (ver), Grp 3 (Str ''"'')]) ''$1'' ''$3'']\<rparr>,
     \<lparr>tg_id = ''sdk-vectors'', tg_name = ''SDK Contract Vectors'', tg_file = ''tests/vectors/sdk-contract.json'',
       tg_ecosystem = ''Vectors'', tg_category = ''manifests'',
       tg_read = ReadsJson,
       tg_write = [EditFirst (seqs [Grp 1 (seqs [Str ''"version":'', many space, Str ''"'']), Grp 2 (some_of (none_of [CHR 0x22])), Grp 3 (Str ''"'')]) ''$1'' ''$3'']\<rparr>,
     \<lparr>tg_id = ''graphql-resolvers'', tg_name = ''GraphQL Health Resolver'', tg_file = ''apps/web/lib/graphql/resolvers.ts'',
       tg_ecosystem = ''GraphQL'', tg_category = ''manifests'',
       tg_read = Reads (seqs [Str ''version:'', many space, Str ''"'', Grp 1 (some_of (none_of [CHR 0x22])), Str ''"'']),
       tg_write = [EditFirst (seqs [Grp 1 (seqs [Str ''version:'', many space, Str ''"'']), Grp 2 (some_of (none_of [CHR 0x22])), Grp 3 (Str ''"'')]) ''$1'' ''$3'']\<rparr>,
     \<lparr>tg_id = ''graphql-test'', tg_name = ''GraphQL Health Test'', tg_file = ''apps/web/test/graphql.test.ts'',
       tg_ecosystem = ''Test'', tg_category = ''manifests'',
       tg_read = Reads (seqs [Str ''assert.equal(health.version,'', many space, Str ''"'', Grp 1 (some_of (none_of [CHR 0x22])), Str ''")'']),
       tg_write = [EditFirst (seqs [Grp 1 (seqs [Str ''assert.equal(health.version,'', many space, Str ''"'']), Grp 2 (some_of (none_of [CHR 0x22])), Grp 3 (Str ''")'')]) ''$1'' ''$3'']\<rparr>]\<close>

definition code_targets :: "target list" where
  \<open>code_targets =
    [\<lparr>tg_id = ''web-version-ts'', tg_name = ''Web Portal Runtime Version'', tg_file = ''apps/web/lib/version.ts'',
       tg_ecosystem = ''TypeScript'', tg_category = ''code'',
       tg_read = Reads (seqs [Str ''OPENWRAPPER_VERSION'', many space, Str ''='', many space, Str ''"'', Grp 1 (some_of (none_of [CHR 0x22])), Str ''"'']),
       tg_write = [EditFirst (seqs [Grp 1 (seqs [Str ''OPENWRAPPER_VERSION'', many space, Str ''='', many space, Str ''"'']), Grp 2 (some_of (none_of [CHR 0x22])), Grp 3 (Str ''"'')]) ''$1'' ''$3'',
         EditFirst (seqs [Grp 1 (seqs [Str ''OPENWRAPPER_VERSION_TAG'', many space, Str ''='', many space, Str ''"v'']), Grp 2 (some_of (none_of [CHR 0x22, CHR '' ''])), Grp 3 (Str '' LTS"'')]) ''$1'' ''$3'']\<rparr>,
     \<lparr>tg_id = ''gateway-webhook-useragent'', tg_name = ''Gateway Webhook User-Agent'', tg_file = ''apps/gateway/src/outbound_webhook.rs'',
       tg_ecosystem = ''Rust'', tg_category = ''code'',
       tg_read = Reads (seqs [Str ''OpenWrapper-Webhook/'', Grp 1 (ver)]),
       tg_write = [EditFirst (seqs [Grp 1 (Str ''OpenWrapper-Webhook/''), ver]) ''$1'' '''']\<rparr>]\<close>

definition sdks_targets :: "target list" where
  \<open>sdks_targets =
    [\<lparr>tg_id = ''sdk-ts-readme'', tg_name = ''TypeScript SDK Readme Badge'', tg_file = ''sdk/typescript/README.md'',
       tg_ecosystem = ''Markdown'', tg_category = ''sdks'',
       tg_read = Reads (seqs [Str ''badge/version-'', Grp 1 (ver)]),
       tg_write = [EditFirst (seqs [Grp 1 (Str ''badge/version-''), ver]) ''$1'' '''']\<rparr>,
     \<lparr>tg_id = ''sdk-php-readme'', tg_name = ''PHP SDK Readme Badge & Parity'', tg_file = ''sdk/php/README.md'',
       tg_ecosystem = ''Markdown'', tg_category = ''sdks'',
       tg_read = Reads (seqs [Str ''badge/version-'', Grp 1 (ver)]),
       tg_write = [EditFirst (seqs [Grp 1 (Str ''badge/version-''), ver]) ''$1'' '''',
         EditFirst (seqs [Grp 1 (Str ''Full Platform v''), ver, Grp 2 (Str '' Parity'')]) ''$1'' ''$2'']\<rparr>,
     \<lparr>tg_id = ''sdk-dotnet-readme'', tg_name = ''.NET SDK Readme & Package Reference'', tg_file = ''sdk/dotnet/README.md'',
       tg_ecosystem = ''Markdown'', tg_category = ''sdks'',
       tg_read = Reads (seqs [Str ''Version **'', Grp 1 (ver), Str ''**'']),
       tg_write = [EditFirst (seqs [Grp 1 (Str ''Version **''), ver, Grp 2 (Str ''**'')]) ''$1'' ''$2'',
         EditFirst (seqs [Grp 1 (seqs [Str ''--version'', some_of space]), ver]) ''$1'' '''']\<rparr>]\<close>

definition env_targets :: "target list" where
  \<open>env_targets =
    [\<lparr>tg_id = ''env-root'', tg_name = ''Platform Config Template (.env.example)'', tg_file = ''.env.example'',
       tg_ecosystem = ''Config'', tg_category = ''env'',
       tg_read = Reads (seqs [Str ''# Version:'', many space, Grp 1 (ver), some_of space, Str ''LTS'']),
       tg_write = [EditFirst (seqs [Grp 1 (seqs [Str ''# Version:'', many space]), ver, Grp 2 (seqs [some_of space, Str ''LTS''])]) ''$1'' ''$2'']\<rparr>,
     \<lparr>tg_id = ''env-web'', tg_name = ''Web Portal Config Template (.env.example)'', tg_file = ''apps/web/.env.example'',
       tg_ecosystem = ''Config'', tg_category = ''env'',
       tg_read = Reads (seqs [Str ''# Version:'', many space, Grp 1 (ver), some_of space, Str ''LTS'']),
       tg_write = [EditFirst (seqs [Grp 1 (seqs [Str ''# Version:'', many space]), ver, Grp 2 (seqs [some_of space, Str ''LTS''])]) ''$1'' ''$2'']\<rparr>,
     \<lparr>tg_id = ''env-sdk-ts'', tg_name = ''TypeScript SDK Config Template'', tg_file = ''sdk/typescript/.env.example'',
       tg_ecosystem = ''Config'', tg_category = ''env'',
       tg_read = Reads (seqs [Str ''Package: @openwrapper/sdk v'', Grp 1 (ver)]),
       tg_write = [EditFirst (seqs [Grp 1 (Str ''Package: @openwrapper/sdk v''), ver]) ''$1'' '''']\<rparr>,
     \<lparr>tg_id = ''env-sdk-php'', tg_name = ''PHP SDK Config Template'', tg_file = ''sdk/php/.env.example'',
       tg_ecosystem = ''Config'', tg_category = ''env'',
       tg_read = Reads (seqs [Str ''Package: openwrapper/sdk v'', Grp 1 (ver)]),
       tg_write = [EditFirst (seqs [Grp 1 (Str ''Package: openwrapper/sdk v''), ver]) ''$1'' '''']\<rparr>,
     \<lparr>tg_id = ''env-sdk-dotnet'', tg_name = ''.NET SDK Config Template'', tg_file = ''sdk/dotnet/.env.example'',
       tg_ecosystem = ''Config'', tg_category = ''env'',
       tg_read = Reads (seqs [Str ''Package: OpenWrapper v'', Grp 1 (ver)]),
       tg_write = [EditFirst (seqs [Grp 1 (Str ''Package: OpenWrapper v''), ver]) ''$1'' '''']\<rparr>]\<close>

definition infra_targets :: "target list" where
  \<open>infra_targets =
    [\<lparr>tg_id = ''k8s-deployment'', tg_name = ''Kubernetes Manifests (GHCR Images)'', tg_file = ''infra/k8s/deployment.yaml'',
       tg_ecosystem = ''Kubernetes'', tg_category = ''infra'',
       tg_read = Reads (seqs [Str ''ghcr.io/openwrapper/openwrapper-gateway:'', Grp 1 (ver)]),
       tg_write = [EditAll (seqs [Grp 1 (Str ''ghcr.io/openwrapper/openwrapper-gateway:''), ver]) ''$1'' '''',
         EditAll (seqs [Grp 1 (Str ''ghcr.io/openwrapper/openwrapper-web:''), ver]) ''$1'' '''']\<rparr>]\<close>

definition demos_targets :: "target list" where
  \<open>demos_targets =
    [\<lparr>tg_id = ''demo-ts-package'', tg_name = ''Checkout Demo (TS Manifest)'', tg_file = ''examples/checkout-demo/typescript/package.json'',
       tg_ecosystem = ''npm'', tg_category = ''demos'',
       tg_read = ReadsJson,
       tg_write = [EditFirst (seqs [Grp 1 (seqs [Str ''"version":'', many space, Str ''"'']), Grp 2 (some_of (none_of [CHR 0x22])), Grp 3 (Str ''"'')]) ''$1'' ''$3'']\<rparr>,
     \<lparr>tg_id = ''demo-ts-server'', tg_name = ''Checkout Demo (TS Server)'', tg_file = ''examples/checkout-demo/typescript/server.js'',
       tg_ecosystem = ''JavaScript'', tg_category = ''demos'',
       tg_read = Reads (seqs [Str ''version:'', many space, Str ''"'', Grp 1 (ver), Str ''"'']),
       tg_write = [EditFirst (seqs [Grp 1 (seqs [Str ''version:'', many space, Str ''"'']), ver, Grp 2 (Str ''"'')]) ''$1'' ''$2'']\<rparr>,
     \<lparr>tg_id = ''demo-ts-test-cli'', tg_name = ''Checkout Demo (TS Test CLI)'', tg_file = ''examples/checkout-demo/typescript/test-cli.js'',
       tg_ecosystem = ''JavaScript'', tg_category = ''demos'',
       tg_read = Reads (seqs [Str ''TypeScript SDK (v'', Grp 1 (ver), Str '')'']),
       tg_write = [EditAll (seqs [Grp 1 (Str ''TypeScript SDK (v''), ver, Grp 2 (Str '')'')]) ''$1'' ''$2'']\<rparr>,
     \<lparr>tg_id = ''demo-php-server'', tg_name = ''Checkout Demo (PHP Server)'', tg_file = ''examples/checkout-demo/php/server.php'',
       tg_ecosystem = ''PHP'', tg_category = ''demos'',
       tg_read = Reads (seqs [Str ([CHR 0x27] @ ''version'' @ [CHR 0x27]), many space, Str ''=>'', many space, Str ([CHR 0x27]), Grp 1 (ver), Str ([CHR 0x27])]),
       tg_write = [EditFirst (seqs [Grp 1 (seqs [Str ([CHR 0x27] @ ''version'' @ [CHR 0x27]), many space, Str ''=>'', many space, Str ([CHR 0x27])]), ver, Grp 2 (Str ([CHR 0x27]))]) ''$1'' ''$2'']\<rparr>,
     \<lparr>tg_id = ''demo-php-test-cli'', tg_name = ''Checkout Demo (PHP Test CLI)'', tg_file = ''examples/checkout-demo/php/test-cli.php'',
       tg_ecosystem = ''PHP'', tg_category = ''demos'',
       tg_read = Reads (seqs [Str ''PHP SDK (v'', Grp 1 (ver), Str '')'']),
       tg_write = [EditAll (seqs [Grp 1 (Str ''PHP SDK (v''), ver, Grp 2 (Str '')'')]) ''$1'' ''$2'']\<rparr>,
     \<lparr>tg_id = ''demo-public-html'', tg_name = ''Checkout Demo (HTML UI)'', tg_file = ''examples/checkout-demo/public/index.html'',
       tg_ecosystem = ''HTML'', tg_category = ''demos'',
       tg_read = Reads (seqs [Str ''Code Example (v'', Grp 1 (ver), Str '')'']),
       tg_write = [EditAll (seqs [Grp 1 (Str ''OpenWrapper SDK v''), ver]) ''$1'' '''',
         EditAll (seqs [Grp 1 (Str ''Code Example (v''), ver, Grp 2 (Str '')'')]) ''$1'' ''$2'',
         EditAll (seqs [Grp 1 (seqs [Cls (\<lambda>_. False), Str '' v'']), ver]) ''$1'' '''']\<rparr>,
     \<lparr>tg_id = ''demo-public-app-js'', tg_name = ''Checkout Demo (Client JS)'', tg_file = ''examples/checkout-demo/public/app.js'',
       tg_ecosystem = ''JavaScript'', tg_category = ''demos'',
       tg_read = Reads (seqs [Str ''@openwrapper/sdk (v'', Grp 1 (ver), Str '')'']),
       tg_write = [EditAll (seqs [Grp 1 (Str ''@openwrapper/sdk (v''), ver, Grp 2 (Str '')'')]) ''$1'' ''$2'',
         EditAll (seqs [Grp 1 (Str ''openwrapper/sdk (v''), ver, Grp 2 (Str '')'')]) ''$1'' ''$2'',
         EditAll (seqs [Grp 1 (Str ''OpenWrapper (v''), ver, Grp 2 (Str '')'')]) ''$1'' ''$2'',
         EditAll (seqs [Grp 1 (Str ''OpenWrapper TypeScript SDK (v''), ver, Grp 2 (Str '')'')]) ''$1'' ''$2'',
         EditAll (seqs [Grp 1 (Str ''OpenWrapper PHP 8.x SDK (v''), ver, Grp 2 (Str '')'')]) ''$1'' ''$2'',
         EditAll (seqs [Grp 1 (Str ''OpenWrapper .NET 8 / C# SDK (v''), ver, Grp 2 (Str '')'')]) ''$1'' ''$2'']\<rparr>]\<close>

definition docs_targets :: "target list" where
  \<open>docs_targets =
    [\<lparr>tg_id = ''docs-versioning'', tg_name = ''Versioning Architecture Guide'', tg_file = ''docs/VERSIONING.md'',
       tg_ecosystem = ''Markdown'', tg_category = ''docs'',
       tg_read = Reads (seqs [Str ''**Version**:'', many space, Str ''`'', Grp 1 (ver), some_of space, Str ''LTS`'']),
       tg_write = [EditFirst (seqs [Grp 1 (seqs [Str ''**Version**:'', many space, Str ''`'']), ver, Grp 2 (seqs [some_of space, Str ''LTS`''])]) ''$1'' ''$2'']\<rparr>,
     \<lparr>tg_id = ''readme-root'', tg_name = ''Platform Root Readme'', tg_file = ''README.md'',
       tg_ecosystem = ''Markdown'', tg_category = ''docs'',
       tg_read = Reads (seqs [Str ''# OpenWrapper v'', Grp 1 (ver), some_of space, Str ''LTS'']),
       tg_write = [EditFirst (seqs [Grp 1 (Str ''# OpenWrapper v''), ver, Grp 2 (seqs [some_of space, Str ''LTS''])]) ''$1'' ''$2'',
         EditFirst (seqs [Grp 1 (Str ''what v''), ver, Grp 2 (Str '' does not do'')]) ''$1'' ''$2'']\<rparr>,
     \<lparr>tg_id = ''docs-limitations'', tg_name = ''Platform Limitations Document'', tg_file = ''docs/LIMITATIONS.md'',
       tg_ecosystem = ''Markdown'', tg_category = ''docs'',
       tg_read = Reads (seqs [Str ''v'', Grp 1 (ver), Str '' is an experimentally validated foundation'']),
       tg_write = [EditFirst (seqs [Grp 1 (Str ''v''), ver, Grp 2 (Str '' is an experimentally validated foundation'')]) ''$1'' ''$2'',
         EditAll (seqs [Grp 1 (Str ''scope for v''), ver, Grp 2 (seqs [some_of space, Str ''LTS''])]) ''$1'' ''$2'',
         EditAll (seqs [Grp 1 (Str ''implemented in v''), ver]) ''$1'' '''',
         EditAll (seqs [Grp 1 (Str ''out for v''), ver, Grp 2 (Str '' regardless'')]) ''$1'' ''$2'']\<rparr>,
     \<lparr>tg_id = ''docs-contributing'', tg_name = ''Contributing Guidelines'', tg_file = ''CONTRIBUTING.md'',
       tg_ecosystem = ''Markdown'', tg_category = ''docs'',
       tg_read = Reads (seqs [Str ''OpenWrapper v'', Grp 1 (ver), some_of space, Str ''LTS exists'']),
       tg_write = [EditFirst (seqs [Grp 1 (Str ''OpenWrapper v''), ver, Grp 2 (seqs [some_of space, Str ''LTS exists''])]) ''$1'' ''$2'']\<rparr>,
     \<lparr>tg_id = ''docs-operations'', tg_name = ''Operations & Runbook Specification'', tg_file = ''docs/OPERATIONS.md'',
       tg_ecosystem = ''Markdown'', tg_category = ''docs'',
       tg_read = Reads (seqs [Str ''`{"version":'', many space, Str ''"'', Grp 1 (ver), Str ''"}`'']),
       tg_write = [EditFirst (seqs [Grp 1 (seqs [Str ''`{"version":'', many space, Str ''"'']), ver, Grp 2 (Str ''"}`'')]) ''$1'' ''$2'']\<rparr>,
     \<lparr>tg_id = ''docs-openapi-readme'', tg_name = ''OpenAPI Specification Readme'', tg_file = ''docs/openapi/README.md'',
       tg_ecosystem = ''Markdown'', tg_category = ''docs'',
       tg_read = Reads (seqs [Str ''Semantic version:'', many space, Grp 1 (ver)]),
       tg_write = [EditFirst (seqs [Grp 1 (seqs [Str ''Semantic version:'', many space]), ver]) ''$1'' '''']\<rparr>]\<close>

definition TARGETS :: "target list" where
  "TARGETS = package_manifests @ contract_manifests @ code_targets @ sdks_targets @ env_targets @ infra_targets
     @ demos_targets @ docs_targets"

section \<open>Reading and writing a target\<close>

definition is_quote :: "char \<Rightarrow> bool" where
  "is_quote c \<longleftrightarrow> c = CHR 0x27 \<or> c = CHR 0x22"

text \<open>The quotes at the start and at the end.\<close>

definition strip_quotes :: "string \<Rightarrow> string" where
  "strip_quotes s = (let t = (case s of [] \<Rightarrow> [] | c # r \<Rightarrow> if is_quote c then r else s)
     in if t \<noteq> [] \<and> is_quote (last t) then butlast t else t)"

text \<open>\<open>a || b\<close> with \<open>null\<close>, and the value of a text that may be missing.\<close>

definition text_value :: "string option \<Rightarrow> jsv" where
  "text_value v = (case v of None \<Rightarrow> JNull | Some s \<Rightarrow> JStr s)"

fun read_version :: "(string \<Rightarrow> jsv option) \<Rightarrow> reader \<Rightarrow> string \<Rightarrow> js_exn + jsv" where
  "read_version json (Reads r) content = Inr (text_value (js_match r 1 content))"
| "read_version json (ReadsYaml r) content =
     Inr (text_value (map_option (\<lambda>v. strip_quotes (js_trim v)) (js_match r 1 content)))"
| "read_version json ReadsJson content = (case json content of
     None \<Rightarrow> Inl SyntaxError
   | Some v \<Rightarrow> if v = JNull then Inl (TypeError ''version of null'')
       else Inr (if js_truthy (field v ''version'') then field v ''version'' else JNull))"

fun apply_edit :: "string \<Rightarrow> edit \<Rightarrow> string \<Rightarrow> string" where
  "apply_edit v (EditFirst r a b) content = replace_first r (a @ v @ b) content"
| "apply_edit v (EditAll r a b) content = replace_all r (a @ v @ b) content"

definition write_version :: "edit list \<Rightarrow> string \<Rightarrow> string \<Rightarrow> string" where
  "write_version es content newVersion = fold (apply_edit newVersion) es content"

section \<open>Semantic versions\<close>

definition is_nonzero_digit :: "char \<Rightarrow> bool" where
  "is_nonzero_digit c \<longleftrightarrow> is_digit c \<and> c \<noteq> CHR ''0''"

definition is_letter_or_dash :: "char \<Rightarrow> bool" where
  "is_letter_or_dash c \<longleftrightarrow> (let n = char_code c in (65 \<le> n \<and> n \<le> 90) \<or> (97 \<le> n \<and> n \<le> 122) \<or> n = 45)"

definition numeral_re :: re where
  "numeral_re = Alt (Str ''0'') (Seq (Cls is_nonzero_digit) (many digit))"

definition prerelease_part :: re where
  "prerelease_part = Alt (Str ''0'') (Alt (Seq (Cls is_nonzero_digit) (many digit))
     (seqs [many digit, Cls is_letter_or_dash, many (Cls (\<lambda>c. is_digit c \<or> is_letter_or_dash c))]))"

definition build_part :: re where
  "build_part = some_of (Cls (\<lambda>c. is_digit c \<or> is_letter_or_dash c))"

definition SEMVER_REGEX :: re where
  "SEMVER_REGEX = seqs [Grp 1 numeral_re, Str ''.'', Grp 2 numeral_re, Str ''.'', Grp 3 numeral_re,
     maybe (Seq (Str ''-'') (Grp 4 (Seq prerelease_part (many (Seq (Str ''.'') prerelease_part))))),
     maybe (Seq (Str ''+'') (Grp 5 (Seq build_part (many (Seq (Str ''.'') build_part)))))]"

record semver =
  sv_major :: nat
  sv_minor :: nat
  sv_patch :: nat
  sv_prerelease :: "string option"

definition parseSemver :: "string \<Rightarrow> semver option" where
  "parseSemver v = map_option (\<lambda>c. \<lparr>sv_major = digits_val (group_text c 1), sv_minor = digits_val (group_text c 2),
     sv_patch = digits_val (group_text c 3), sv_prerelease = js_or (map_of c 4) None\<rparr>) (full_match SEMVER_REGEX v)"

definition three :: "nat \<Rightarrow> nat \<Rightarrow> nat \<Rightarrow> string" where
  "three a b c = nat_str a @ ''.'' @ nat_str b @ ''.'' @ nat_str c"

definition bumpVersion :: "string \<Rightarrow> string \<Rightarrow> js_exn + string" where
  "bumpVersion current kind = (case parseSemver current of
     None \<Rightarrow> Inl (Error (''Current version '' @ [CHR 0x27] @ current @ [CHR 0x27] @ '' is not valid semver''))
   | Some p \<Rightarrow>
       if kind = ''major'' then Inr (three (sv_major p + 1) 0 0)
       else if kind = ''minor'' then Inr (three (sv_major p) (sv_minor p + 1) 0)
       else if kind = ''patch'' then Inr (three (sv_major p) (sv_minor p) (sv_patch p + 1))
       else if full_match SEMVER_REGEX kind \<noteq> None then Inr kind
       else Inl (Error (''Invalid bump type '' @ [CHR 0x27] @ kind @ [CHR 0x27] @ ''. Expected major, minor, patch, or x.y.z'')))"

section \<open>Commands\<close>

type_synonym files = "string \<Rightarrow> string option"

definition cargo_target :: target where
  "cargo_target = hd (filter (\<lambda>t. tg_id t = ''cargo-workspace'') TARGETS)"

definition getCanonicalVersion :: "(string \<Rightarrow> jsv option) \<Rightarrow> files \<Rightarrow> js_exn + string" where
  "getCanonicalVersion json fs = (case fs (tg_file cargo_target) of
     None \<Rightarrow> Inl (Error ''ENOENT'')
   | Some content \<Rightarrow> (case read_version json (tg_read cargo_target) content of
       Inr (JStr v) \<Rightarrow> if v \<noteq> [] then Inr v else Inl (Error ''Could not determine canonical version from Cargo.toml'')
     | _ \<Rightarrow> Inl (Error ''Could not determine canonical version from Cargo.toml'')))"

record check_result =
  cr_target :: target
  cr_resolvedVersion :: jsv
  cr_isMatch :: bool

definition in_category :: "string option \<Rightarrow> target list" where
  "in_category category = (if truthy category then filter (\<lambda>t. Some (tg_category t) = category) TARGETS else TARGETS)"

definition resolved_version :: "(string \<Rightarrow> jsv option) \<Rightarrow> files \<Rightarrow> target \<Rightarrow> jsv" where
  "resolved_version json fs t = (case fs (tg_file t) of
     None \<Rightarrow> JStr ''ERROR''
   | Some content \<Rightarrow> (case read_version json (tg_read t) content of
       Inl _ \<Rightarrow> JStr ''ERROR''
     | Inr v \<Rightarrow> if js_truthy v then v else JStr ''MISSING''))"

record check_report =
  rp_canonical :: string
  rp_coherent :: bool
  rp_total :: nat
  rp_matched :: nat
  rp_drifted :: nat
  rp_results :: "check_result list"

definition checkVersions :: "(string \<Rightarrow> jsv option) \<Rightarrow> string option \<Rightarrow> files \<Rightarrow> js_exn + check_report" where
  "checkVersions json category fs = (case getCanonicalVersion json fs of
     Inl e \<Rightarrow> Inl e
   | Inr canonical \<Rightarrow>
       (let results = map (\<lambda>t. let v = resolved_version json fs t in
              \<lparr>cr_target = t, cr_resolvedVersion = v, cr_isMatch = (v = JStr canonical)\<rparr>) (in_category category);
            matched = length (filter cr_isMatch results)
        in Inr \<lparr>rp_canonical = canonical, rp_coherent = list_all cr_isMatch results, rp_total = length results,
             rp_matched = matched, rp_drifted = length results - matched, rp_results = results\<rparr>))"

text \<open>The loop of \<open>sync\<close>: a failure leaves what has been written so far.\<close>

fun sync_targets :: "(string \<Rightarrow> jsv option) \<Rightarrow> bool \<Rightarrow> string \<Rightarrow> target list \<Rightarrow> files \<Rightarrow> (js_exn + unit) \<times> files" where
  "sync_targets json dry v [] fs = (Inr (), fs)"
| "sync_targets json dry v (t # ts) fs = (case fs (tg_file t) of
     None \<Rightarrow> (Inl (Error ''ENOENT''), fs)
   | Some content \<Rightarrow> (case read_version json (tg_read t) content of
       Inl e \<Rightarrow> (Inl e, fs)
     | Inr _ \<Rightarrow> sync_targets json dry v ts
         (if dry then fs else fs(tg_file t \<mapsto> write_version (tg_write t) content v))))"

definition syncVersions ::
  "(string \<Rightarrow> jsv option) \<Rightarrow> (files \<Rightarrow> files) \<Rightarrow> string option \<Rightarrow> bool \<Rightarrow> string option \<Rightarrow> files \<Rightarrow> (js_exn + unit) \<times> files" where
  "syncVersions json cargo_check targetVersion dry category fs =
     (case (if truthy targetVersion then Inr (the targetVersion) else getCanonicalVersion json fs) of
        Inl e \<Rightarrow> (Inl e, fs)
      | Inr v \<Rightarrow> (case sync_targets json dry v (in_category category) fs of
          (Inl e, fs') \<Rightarrow> (Inl e, fs')
        | (Inr _, fs') \<Rightarrow> (Inr (), if dry then fs' else cargo_check fs')))"

definition doBump ::
  "(string \<Rightarrow> jsv option) \<Rightarrow> (files \<Rightarrow> files) \<Rightarrow> string \<Rightarrow> bool \<Rightarrow> string option \<Rightarrow> files \<Rightarrow> (js_exn + unit) \<times> files" where
  "doBump json cargo_check bumpType dry category fs = (case getCanonicalVersion json fs of
     Inl e \<Rightarrow> (Inl e, fs)
   | Inr current \<Rightarrow> (case bumpVersion current bumpType of
       Inl e \<Rightarrow> (Inl e, fs)
     | Inr v \<Rightarrow> syncVersions json cargo_check (Some v) dry category fs))"

section \<open>The command line\<close>

definition category_arg :: "string list \<Rightarrow> string option" where
  "category_arg args = (case find (\<lambda>a. starts_with a ''--category='') args of
     None \<Rightarrow> None
   | Some a \<Rightarrow> Some (split_on (CHR ''='') a ! 1))"

definition exit_code :: "(js_exn + unit) \<times> files \<Rightarrow> nat \<times> files" where
  "exit_code x = (case x of (Inl _, fs) \<Rightarrow> (1, fs) | (Inr _, fs) \<Rightarrow> (0, fs))"

text \<open>The exit code and the files; an uncaught exception exits with 1.\<close>

definition version_cli :: "(string \<Rightarrow> jsv option) \<Rightarrow> (files \<Rightarrow> files) \<Rightarrow> string list \<Rightarrow> files \<Rightarrow> nat \<times> files" where
  "version_cli json cargo_check args fs =
     (let command = or_else (case args of [] \<Rightarrow> None | a # _ \<Rightarrow> Some a) ''check'';
          dry = (''--dry-run'' \<in> set args); category = category_arg args;
          second = (case args of _ # b # _ \<Rightarrow> if starts_with b ''--'' then None else Some b | _ \<Rightarrow> None)
      in if command = ''check'' \<or> command = ''status'' then
           (case checkVersions json category fs of
              Inl _ \<Rightarrow> (1, fs)
            | Inr r \<Rightarrow> (if rp_coherent r then 0 else 1, fs))
         else if command = ''sync'' then exit_code (syncVersions json cargo_check second dry category fs)
         else if command = ''bump'' then
           (if \<not> truthy second then (1, fs) else exit_code (doBump json cargo_check (the second) dry category fs))
         else (1, fs))"

end
