(* ===== verification/Formatting.thy ===== *)
theory Formatting
  imports Json Regex
begin

text \<open>
  Code and JSON as the pages show them: \<open>apps/web/lib/code-formatter.ts\<close> and
  \<open>apps/web/lib/code-syntax-highlighter.tsx\<close>. \<open>parse\<close> is \<open>JSON.parse\<close>, \<open>None\<close> when it throws; the
  syntax library's \<open>Prism.tokenize\<close> is the parameter \<open>tokenize\<close>. Values that \<open>JSON.parse\<close> cannot
  make (big integers, functions, cycles) are not covered.
\<close>

section \<open>Languages\<close>

definition normalizeLanguage :: "string option \<Rightarrow> string" where
  "normalizeLanguage lang =
     (if \<not> truthy lang then ''typescript''
      else let l = js_trim (js_lower (the lang)) in
        if l \<in> set [''ts'', ''typescript'', ''tsx''] then ''typescript''
        else if l \<in> set [''js'', ''javascript'', ''jsx''] then ''javascript''
        else if l \<in> set [''cs'', ''csharp'', ''dotnet'', ''.net'', ''c#''] then ''csharp''
        else if l = ''php'' then ''php''
        else if l = ''json'' then ''json''
        else if l \<in> set [''bash'', ''sh'', ''shell'', ''zsh'', ''curl'', ''terminal'', ''console''] then ''bash''
        else if l = ''sql'' then ''sql''
        else ''typescript'')"

section \<open>JSON\<close>

definition newline :: char where "newline = CHR 0x0A"

text \<open>\<open>JSON.stringify(v, null, n)\<close> below an indentation.\<close>

definition pretty_block :: "nat \<Rightarrow> nat \<Rightarrow> string \<Rightarrow> string list \<Rightarrow> string \<Rightarrow> string" where
  "pretty_block n depth open_b items close_b =
     (if items = [] then open_b @ close_b
      else let inner = newline # replicate (n * Suc depth) (CHR '' '') in
        open_b @ inner @ js_join ('','' @ inner) items @ newline # replicate (n * depth) (CHR '' '') @ close_b)"

primrec pretty :: "nat \<Rightarrow> jsv \<Rightarrow> nat \<Rightarrow> string option" where
  "pretty n JUndef = (\<lambda>depth. None)"
| "pretty n JNull = (\<lambda>depth. Some ''null'')"
| "pretty n (JBool b) = (\<lambda>depth. Some (if b then ''true'' else ''false''))"
| "pretty n (JNum m e) = (\<lambda>depth. Some (number_str m e))"
| "pretty n (JStr s) = (\<lambda>depth. Some (json_quote s))"
| "pretty n (JArr xs) = (\<lambda>depth. Some (pretty_block n depth ''[''
     (map (\<lambda>f. nullish_else (f (Suc depth)) ''null'') (map (pretty n) xs)) '']''))"
| "pretty n (JObj ps) = (\<lambda>depth. Some (pretty_block n depth ''{''
     (concat (map (\<lambda>(k, f). case f (Suc depth) of None \<Rightarrow> [] | Some s \<Rightarrow> [json_quote k @ '': '' @ s])
       (map (map_prod id (pretty n)) ps))) ''}''))"

text \<open>\<open>JSON.stringify\<close> of \<open>undefined\<close> is \<open>undefined\<close>, which these functions have excluded.\<close>

definition safeFormatJson :: "(string \<Rightarrow> jsv option) \<Rightarrow> nat \<Rightarrow> jsv \<Rightarrow> string" where
  "safeFormatJson parse n v = (case v of
     JUndef \<Rightarrow> []
   | JNull \<Rightarrow> ''null''
   | JStr s \<Rightarrow> (let trimmed = js_trim s in
       if trimmed = [] then []
       else case parse trimmed of None \<Rightarrow> s | Some p \<Rightarrow> nullish_else (pretty n p 0) [])
   | _ \<Rightarrow> nullish_else (pretty n v 0) [])"

definition squeeze_spaces :: "string \<Rightarrow> string" where
  "squeeze_spaces s = replace_all (some_of space) '' '' s"

definition safeCompactJson :: "(string \<Rightarrow> jsv option) \<Rightarrow> jsv \<Rightarrow> string" where
  "safeCompactJson parse v = (case v of
     JUndef \<Rightarrow> []
   | JNull \<Rightarrow> ''null''
   | JStr s \<Rightarrow> (let trimmed = js_trim s in
       if trimmed = [] then []
       else case parse trimmed of None \<Rightarrow> squeeze_spaces trimmed | Some p \<Rightarrow> nullish_else (js_stringify p) [])
   | _ \<Rightarrow> nullish_else (js_stringify v) [])"

text \<open>\<open>toFixed(d)\<close> of \<open>n / m\<close>: the nearest, the larger of two; exact for the powers of two here.\<close>

definition fixed :: "nat \<Rightarrow> nat \<Rightarrow> nat \<Rightarrow> string" where
  "fixed d n m = (let k = (2 * n * 10 ^ d + m) div (2 * m)
     in nat_str (k div 10 ^ d) @ CHR ''.'' # pad_start d (CHR ''0'') (nat_str (k mod 10 ^ d)))"

definition formatJsonByteSize :: "string \<Rightarrow> string" where
  "formatJsonByteSize s =
     (if s = [] then ''0 B''
      else let bytes = length (utf8 s) in
        if bytes < 1024 then nat_str bytes @ '' B''
        else if bytes < 1024 * 1024 then fixed 1 bytes 1024 @ '' KB''
        else fixed 2 bytes (1024 * 1024) @ '' MB'')"

section \<open>Snippets\<close>

text \<open>\<open>replace(/\n\s*$/, "")\<close>: from the first newline with nothing but white space behind it.\<close>

fun drop_blank_tail :: "string \<Rightarrow> string" where
  "drop_blank_tail [] = []"
| "drop_blank_tail (c # s) = (if c = newline \<and> list_all is_ws s then [] else c # drop_blank_tail s)"

definition snippet_lines :: "string \<Rightarrow> string list" where
  "snippet_lines s = split_on newline (drop_blank_tail
     (case s of [] \<Rightarrow> [] | c # r \<Rightarrow> if c = newline then r else s))"

definition indent_of :: "string \<Rightarrow> nat" where
  "indent_of line = length (takeWhile is_ws line)"

text \<open>\<open>None\<close> is \<open>Infinity\<close>: no line with more than white space.\<close>

definition min_indent :: "string list \<Rightarrow> nat option" where
  "min_indent lines = foldl (\<lambda>acc line. if js_trim line = [] then acc
     else Some (case acc of None \<Rightarrow> indent_of line | Some a \<Rightarrow> min a (indent_of line))) None lines"

definition stripIndent :: "string \<Rightarrow> string" where
  "stripIndent s = (let lines = snippet_lines s in
     case min_indent lines of
       None \<Rightarrow> js_join [newline] lines
     | Some n \<Rightarrow> if n = 0 then js_join [newline] lines else js_join [newline] (map (drop n) lines))"

definition backslash :: char where "backslash = CHR 0x5C"

text \<open>\<open>now\<close> is the text of \<open>Date.now()\<close>.\<close>

definition generateCurlSnippet :: "string \<Rightarrow> string \<Rightarrow> string \<Rightarrow> string \<Rightarrow> jsv option \<Rightarrow> string" where
  "generateCurlSnippet now endpoint method apiKey payload =
     (let isGet = (js_upper method = ''GET'');
          url = (if starts_with endpoint ''http'' then endpoint else ''https://gateway.openwrapper.muejam.com'' @ endpoint);
          lines = [''curl -X '' @ js_upper method @ '' '' @ dquote @ url @ dquote @ '' '' @ [backslash],
                   ''  -H '' @ dquote @ ''Authorization: Bearer '' @ apiKey @ dquote @ '' '' @ [backslash],
                   ''  -H '' @ dquote @ ''Content-Type: application/json'' @ dquote]
             @ (if isGet then [] else [''  -H '' @ dquote @ ''Idempotency-Key: req_'' @ now @ dquote])
             @ (case payload of
                  None \<Rightarrow> []
                | Some p \<Rightarrow>
                    if \<not> js_truthy p \<or> isGet then []
                    else [''  -d '' @ [CHR 0x27] @ js_join [newline]
                      (case split_on newline (nullish_else (pretty 2 p 0) []) of
                         [] \<Rightarrow> [] | l # ls \<Rightarrow> l # map (\<lambda>l. ''  '' @ l) ls) @ [CHR 0x27]])
      in js_join ('' '' @ [backslash, newline]) lines)"

section \<open>Highlighting\<close>

text \<open>
  Tokens of the syntax library: text, or a token with a type, an alias (none, one, a list) and
  its content, a list of tokens; content that is one text or one token is a list of length one.
\<close>

datatype token_alias = NoAlias | Alias string | Aliases "string list"
datatype token = Text string | Token "string option" token_alias "token list"

primrec token_text :: "token \<Rightarrow> string" where
  "token_text (Text s) = s"
| "token_text (Token ty al content) = concat (map token_text content)"

record span =
  sp_content :: string
  sp_type :: "string option"
  sp_alias :: "string option"

text \<open>The lines so far; the last one is open.\<close>

definition push_span :: "string \<Rightarrow> string option \<Rightarrow> string option \<Rightarrow> span list list \<Rightarrow> span list list" where
  "push_span part ty al lines = (if part = [] then lines
     else butlast lines @ [last lines @ [\<lparr>sp_content = part, sp_type = ty, sp_alias = al\<rparr>]])"

definition appendSpan :: "string \<Rightarrow> string option \<Rightarrow> string option \<Rightarrow> span list list \<Rightarrow> span list list" where
  "appendSpan s ty al lines = (if s = [] then lines
     else case split_on newline s of
       [] \<Rightarrow> lines
     | p # ps \<Rightarrow> fold (\<lambda>part ls. push_span part ty al (ls @ [[]])) ps (push_span p ty al lines))"

definition current_alias :: "token_alias \<Rightarrow> string option \<Rightarrow> string option" where
  "current_alias al parent = (case al of
     NoAlias \<Rightarrow> parent
   | Alias a \<Rightarrow> if a = [] then parent else Some a
   | Aliases as \<Rightarrow> (case as of [] \<Rightarrow> None | a # _ \<Rightarrow> Some a))"

primrec walk :: "token \<Rightarrow> string option \<Rightarrow> string option \<Rightarrow> span list list \<Rightarrow> span list list" where
  "walk (Text s) = (\<lambda>ty al lines. appendSpan s ty al lines)"
| "walk (Token t a content) = (\<lambda>ty al lines.
     fold (\<lambda>f ls. f (js_or t ty) (current_alias a al) ls) (map walk content) lines)"

text \<open>\<open>tokenize\<close> takes the code and the name of the grammar.\<close>

definition tokenizeCode :: "(string \<Rightarrow> string \<Rightarrow> token list) \<Rightarrow> string \<Rightarrow> string option \<Rightarrow> span list list" where
  "tokenizeCode tokenize code language =
     fold (\<lambda>t lines. walk t None None lines) (tokenize code (normalizeLanguage language)) [[]]"

definition default_color :: string where "default_color = ''text-[#24292f] dark:text-[#c9d1d9]''"

definition getTokenClassName :: "string option \<Rightarrow> string option \<Rightarrow> string" where
  "getTokenClassName ty al = (case js_or al ty of
     None \<Rightarrow> default_color
   | Some key \<Rightarrow>
       if key \<in> set [''comment'', ''prolog'', ''doctype'', ''cdata''] then ''text-[#6e7781] dark:text-[#8b949e] italic''
       else if key \<in> set [''keyword'', ''atrule'', ''rule''] then ''text-[#cf222e] dark:text-[#ff7b72] font-semibold''
       else if key \<in> set [''string'', ''template-string'', ''char'', ''attr-value'', ''double-quoted-string'', ''single-quoted-string'']
         then ''text-[#116329] dark:text-[#7ee787]''
       else if key = ''template-punctuation'' then ''text-[#116329] dark:text-[#7ee787]''
       else if key \<in> set [''function'', ''function-variable'', ''method''] then ''text-[#8250df] dark:text-[#d2a8ff]''
       else if key = ''number'' then ''text-[#953800] dark:text-[#ffa657] font-tnum font-medium''
       else if key = ''boolean'' then ''text-[#cf222e] dark:text-[#ff7b72] font-semibold''
       else if key = ''null'' then ''text-[#8250df] dark:text-[#d2a8ff] font-semibold''
       else if key \<in> set [''class-name'', ''builtin'', ''type''] then ''text-[#953800] dark:text-[#ffa657] font-semibold''
       else if key \<in> set [''property'', ''attr-name''] then ''text-[#0969da] dark:text-[#79c0ff] font-medium''
       else if key = ''operator'' \<or> key = ''punctuation'' then ''text-[#57606a] dark:text-[#8b949e]''
       else if key \<in> set [''variable'', ''constant'', ''parameter''] then ''text-[#953800] dark:text-[#ffa657]''
       else if key \<in> set [''regex'', ''important'', ''delimiter''] then ''text-[#116329] dark:text-[#7ee787]''
       else default_color)"

section \<open>The JSON viewer\<close>

record viewer =
  vw_compact :: bool
  vw_showLines :: bool
  vw_searchTerm :: string
  vw_isSearchOpen :: bool
  vw_copied :: bool

datatype viewer_event =
    SetCompact bool
  | ToggleLines
  | ToggleSearch
  | Typed string
  | CloseSearch
  | CopyClicked
  | CopyTimeout

definition activeJson :: "(string \<Rightarrow> jsv option) \<Rightarrow> jsv \<Rightarrow> viewer \<Rightarrow> string" where
  "activeJson parse data v = (if vw_compact v then safeCompactJson parse data else safeFormatJson parse 2 data)"

fun viewer_step :: "(string \<Rightarrow> jsv option) \<Rightarrow> jsv \<Rightarrow> viewer_event \<Rightarrow> viewer \<Rightarrow> viewer" where
  "viewer_step parse data (SetCompact b) v = v\<lparr>vw_compact := b\<rparr>"
| "viewer_step parse data ToggleLines v = v\<lparr>vw_showLines := \<not> vw_showLines v\<rparr>"
| "viewer_step parse data ToggleSearch v =
     (if vw_isSearchOpen v then v\<lparr>vw_isSearchOpen := False, vw_searchTerm := []\<rparr> else v\<lparr>vw_isSearchOpen := True\<rparr>)"
| "viewer_step parse data (Typed s) v = (if vw_isSearchOpen v then v\<lparr>vw_searchTerm := s\<rparr> else v)"
| "viewer_step parse data CloseSearch v = (if vw_isSearchOpen v then v\<lparr>vw_searchTerm := [], vw_isSearchOpen := False\<rparr> else v)"
| "viewer_step parse data CopyClicked v = (if activeJson parse data v = [] then v else v\<lparr>vw_copied := True\<rparr>)"
| "viewer_step parse data CopyTimeout v = v\<lparr>vw_copied := False\<rparr>"

definition line_count :: "string \<Rightarrow> nat" where
  "line_count s = (if s = [] then 0 else length (split_on newline s))"

definition found_lines :: "string \<Rightarrow> string \<Rightarrow> nat list" where
  "found_lines json searchTerm =
     (if js_trim searchTerm = [] then []
      else let lines = split_on newline json; query = js_trim (js_lower searchTerm)
        in map Suc (filter (\<lambda>i. js_includes (js_lower (lines ! i)) query) [0..<length lines]))"

definition download_name :: "string \<Rightarrow> string" where
  "download_name filename = (if ends_with filename ''.json'' then filename else filename @ ''.json'')"

section \<open>What is shown is the code\<close>

definition line_text :: "span list \<Rightarrow> string" where
  "line_text line = concat (map sp_content line)"

lemma split_join: "ss \<noteq> [] \<Longrightarrow> (\<And>s. s \<in> set ss \<Longrightarrow> c \<notin> set s) \<Longrightarrow> split_on c (js_join [c] ss) = ss"
proof (induction ss)
  case (Cons s ss)
  then show ?case by (cases "ss = []") (simp_all add: split_on_no_sep js_join_Cons split_on_append_sep)
qed simp

definition shown_text :: "span list list \<Rightarrow> string" where
  "shown_text lines = js_join [newline] (map line_text lines)"

text \<open>Every span is a non-empty text without a line break.\<close>

definition clean_spans :: "span list list \<Rightarrow> bool" where
  "clean_spans lines \<longleftrightarrow> (\<forall>line \<in> set lines. \<forall>sp \<in> set line. sp_content sp \<noteq> [] \<and> newline \<notin> set (sp_content sp))"

lemma join_snoc: "xs \<noteq> [] \<Longrightarrow> js_join sep (xs @ [y]) = js_join sep xs @ sep @ y"
proof (induction xs)
  case (Cons x xs)
  then show ?case by (cases "xs = []") (simp_all add: js_join_Cons)
qed simp

lemma join_last: "js_join sep (xs @ [y @ p]) = js_join sep (xs @ [y]) @ p"
  by (cases "xs = []") (simp_all add: join_snoc)

lemma push_span_shown:
  assumes "lines \<noteq> []"
  shows "push_span p ty al lines \<noteq> []" "shown_text (push_span p ty al lines) = shown_text lines @ p"
    "clean_spans lines \<Longrightarrow> newline \<notin> set p \<Longrightarrow> clean_spans (push_span p ty al lines)"
proof -
  obtain ls l where l: "lines = ls @ [l]" using assms by (cases lines rule: rev_cases) auto
  show "push_span p ty al lines \<noteq> []" "shown_text (push_span p ty al lines) = shown_text lines @ p"
    "clean_spans lines \<Longrightarrow> newline \<notin> set p \<Longrightarrow> clean_spans (push_span p ty al lines)"
    by (auto simp: l push_span_def shown_text_def line_text_def join_last clean_spans_def)
qed

lemma new_line_shown:
  assumes "lines \<noteq> []"
  shows "shown_text (lines @ [[]]) = shown_text lines @ [newline]" "clean_spans (lines @ [[]]) = clean_spans lines"
  using assms by (auto simp: shown_text_def line_text_def join_snoc clean_spans_def)

lemma append_parts:
  assumes "lines \<noteq> []" "clean_spans lines" "\<forall>p \<in> set ps. newline \<notin> set p"
  shows "let r = fold (\<lambda>part ls. push_span part ty al (ls @ [[]])) ps lines in
    r \<noteq> [] \<and> clean_spans r \<and> shown_text r = shown_text lines @ concat (map (\<lambda>p. newline # p) ps)"
  using assms
proof (induction ps arbitrary: lines)
  case (Cons p ps)
  have "push_span p ty al (lines @ [[]]) \<noteq> []" "clean_spans (push_span p ty al (lines @ [[]]))"
    "shown_text (push_span p ty al (lines @ [[]])) = shown_text lines @ newline # p"
    using push_span_shown[of "lines @ [[]]"] new_line_shown[OF Cons.prems(1)] Cons.prems by simp_all
  with Cons.IH[of "push_span p ty al (lines @ [[]])"] Cons.prems show ?case by (simp add: Let_def)
qed simp

lemma join_parts: "js_join [c] (p # ps) = p @ concat (map (\<lambda>q. c # q) ps)"
proof (induction ps arbitrary: p)
  case (Cons q ps)
  then show ?case by (simp add: js_join_Cons)
qed simp

lemma appendSpan_shown:
  assumes "lines \<noteq> []" "clean_spans lines"
  shows "appendSpan s ty al lines \<noteq> [] \<and> clean_spans (appendSpan s ty al lines)
    \<and> shown_text (appendSpan s ty al lines) = shown_text lines @ s"
proof (cases "s = []")
  case False
  obtain p ps where ps: "split_on newline s = p # ps" using split_on_not_Nil[of newline s] by (cases "split_on newline s") auto
  have n: "newline \<notin> set x" if "x \<in> set (p # ps)" for x using set_split_on[of x newline s] that ps by simp
  have "p @ concat (map (\<lambda>q. newline # q) ps) = s"
    using js_join_split_on[of newline s] join_parts[of newline p ps] ps by simp
  moreover note push_span_shown[OF assms(1), of p ty al]
  ultimately show ?thesis
    using append_parts[of "push_span p ty al lines" ps ty al] n assms False by (simp add: appendSpan_def ps Let_def)
qed (use assms in \<open>simp add: appendSpan_def\<close>)

lemma fold_walk_shown:
  assumes "lines \<noteq> []" "clean_spans lines"
    and "\<And>t lines. t \<in> set ts \<Longrightarrow> lines \<noteq> [] \<Longrightarrow> clean_spans lines \<Longrightarrow>
      f t lines \<noteq> [] \<and> clean_spans (f t lines) \<and> shown_text (f t lines) = shown_text lines @ token_text t"
  shows "fold f ts lines \<noteq> [] \<and> clean_spans (fold f ts lines)
    \<and> shown_text (fold f ts lines) = shown_text lines @ concat (map token_text ts)"
  using assms
proof (induction ts arbitrary: lines)
  case (Cons t ts)
  have "f t lines \<noteq> [] \<and> clean_spans (f t lines) \<and> shown_text (f t lines) = shown_text lines @ token_text t"
    using Cons.prems by simp
  with Cons.IH[of "f t lines"] Cons.prems(3) show ?case by simp
qed simp

lemma walk_shown:
  "lines \<noteq> [] \<Longrightarrow> clean_spans lines \<Longrightarrow>
    walk t ty al lines \<noteq> [] \<and> clean_spans (walk t ty al lines) \<and> shown_text (walk t ty al lines) = shown_text lines @ token_text t"
proof (induction t arbitrary: ty al lines)
  case (Text s)
  then show ?case using appendSpan_shown by simp
next
  case (Token ty' a content)
  have "fold (\<lambda>t. walk t (js_or ty' ty) (current_alias a al)) content lines
    = fold (\<lambda>f. f (js_or ty' ty) (current_alias a al)) (map walk content) lines"
    by (simp add: fold_map comp_def)
  moreover have "fold (\<lambda>t. walk t (js_or ty' ty) (current_alias a al)) content lines \<noteq> []
      \<and> clean_spans (fold (\<lambda>t. walk t (js_or ty' ty) (current_alias a al)) content lines)
      \<and> shown_text (fold (\<lambda>t. walk t (js_or ty' ty) (current_alias a al)) content lines) = shown_text lines @ concat (map token_text content)"
    by (rule fold_walk_shown) (use Token in auto)
  ultimately show ?case by simp
qed

text \<open>
  Highlighting loses nothing: whatever tokens the syntax library cuts the code into, nested and
  over several lines, as long as their texts make up the code, the lines shown are the lines of
  the code, and no span is empty or contains a line break.
\<close>

theorem tokenizeCode_shows_code:
  assumes "concat (map token_text (tokenize code (normalizeLanguage language))) = code"
  shows "map line_text (tokenizeCode tokenize code language) = split_on newline code
    \<and> clean_spans (tokenizeCode tokenize code language)"
proof -
  let ?lines = "tokenizeCode tokenize code language"
  have clean: "clean_spans [[]]" by (simp add: clean_spans_def)
  have "?lines \<noteq> [] \<and> clean_spans ?lines \<and> shown_text ?lines
      = shown_text [[]] @ concat (map token_text (tokenize code (normalizeLanguage language)))"
    unfolding tokenizeCode_def by (rule fold_walk_shown) (use clean walk_shown in auto)
  then have r: "?lines \<noteq> []" "clean_spans ?lines" "js_join [newline] (map line_text ?lines) = code"
    using assms by (simp_all add: shown_text_def line_text_def)
  have "newline \<notin> set t" if "t \<in> set (map line_text ?lines)" for t
    using that r(2) by (auto simp: line_text_def clean_spans_def)
  then have "split_on newline (js_join [newline] (map line_text ?lines)) = map line_text ?lines"
    using split_join[of "map line_text ?lines" newline] r(1) by simp
  with r show ?thesis by simp
qed

definition demo_tokens :: "string \<Rightarrow> string \<Rightarrow> token list" where
  "demo_tokens code grammar = [Token (Some ''string'') NoAlias [Text ''a'', Text [newline, CHR ''b'']], Text ''c'']"

theorem tokenizeCode_shows_code_witness:
  "map line_text (tokenizeCode demo_tokens [CHR ''a'', newline, CHR ''b'', CHR ''c''] None) = [''a'', ''bc'']"
  using tokenizeCode_shows_code[of demo_tokens "[CHR ''a'', newline, CHR ''b'', CHR ''c'']" None]
  by (simp add: demo_tokens_def newline_def)

section \<open>Snippets\<close>

text \<open>
  The first two lines of a snippet end with a backslash of their own, and the lines are joined
  with another: the shell reads the second-last character of the line as an escaped space.
\<close>

lemma curl_snippet_doubles_backslash:
  "\<exists>rest. generateCurlSnippet now endpoint method apiKey payload
    = ''curl -X '' @ js_upper method @ '' '' @ dquote
      @ (if starts_with endpoint ''http'' then endpoint else ''https://gateway.openwrapper.muejam.com'' @ endpoint) @ dquote
      @ '' '' @ [backslash] @ '' '' @ [backslash, newline] @ rest"
  by (simp add: generateCurlSnippet_def Let_def js_join_Cons)

text \<open>Removing the common indentation keeps the indentation of the lines to each other.\<close>

lemma min_indent_least:
  "case min_indent lines of None \<Rightarrow> \<forall>line \<in> set lines. js_trim line = []
    | Some n \<Rightarrow> \<forall>line \<in> set lines. js_trim line \<noteq> [] \<longrightarrow> n \<le> indent_of line"
  unfolding min_indent_def
  by (induction lines rule: rev_induct) (auto split: option.splits)

end
