(* ===== verification/Js_Number.thy ===== *)
theory Js_Number
  imports Json Money
begin

text \<open>
  JavaScript numbers as double-precision values: the rounding of a decimal to the nearest
  double, ties to even, and \<open>Number(v)\<close> on strings and on the values of \<open>Json\<close>.
  A finite number is the exact rational value of the double; negative zero is zero.
\<close>

datatype js_number = JFin rat | JInf bool | JNaN

definition pow_int :: "rat \<Rightarrow> int \<Rightarrow> rat" where
  "pow_int b e = (if 0 \<le> e then b ^ nat e else 1 / b ^ nat (- e))"

text \<open>The exponent of the leading binary digit of a positive value.\<close>

definition log2_floor :: "rat \<Rightarrow> int" where
  "log2_floor a = (if 1 \<le> a then int (bit_length (nat \<lfloor>a\<rfloor>)) - 1
                   else - int (bit_length (nat (\<lceil>1 / a\<rceil> - 1))))"

definition round_even :: "rat \<Rightarrow> int" where
  "round_even y = (let f = \<lfloor>y\<rfloor>; r = y - of_int f in
     if r < 1 / 2 \<or> (r = 1 / 2 \<and> even f) then f else f + 1)"

text \<open>The nearest double: 53 significant bits, the smallest exponent is that of the subnormal numbers.\<close>

definition double_of :: "rat \<Rightarrow> rat" where
  "double_of x =
     (if x = 0 then 0
      else let e = max (- 1074) (log2_floor \<bar>x\<bar> - 52)
           in sgn x * of_int (round_even (\<bar>x\<bar> / pow_int 2 e)) * pow_int 2 e)"

definition to_double :: "rat \<Rightarrow> js_number" where
  "to_double x = (let d = double_of x in if 2 ^ 1024 \<le> \<bar>d\<bar> then JInf (d < 0) else JFin d)"

definition decimal_val :: "int \<Rightarrow> int \<Rightarrow> rat" where
  "decimal_val m e = of_int m * pow_int 10 e"

section \<open>Strings as numbers\<close>

text \<open>The digits after \<open>e\<close>: an optional sign and at least one digit.\<close>

definition exponent_val :: "string \<Rightarrow> int option" where
  "exponent_val s = (let ds = strip_sign s in
     if ds \<noteq> [] \<and> list_all is_digit ds
     then Some ((if starts_with s ''-'' then - 1 else 1) * int (digits_val ds)) else None)"

definition decimal_literal :: "string \<Rightarrow> rat option" where
  "decimal_literal s =
     (let ip = takeWhile is_digit s;
          r1 = dropWhile is_digit s;
          fp = (if starts_with r1 ''.'' then takeWhile is_digit (tl r1) else []);
          r2 = (if starts_with r1 ''.'' then dropWhile is_digit (tl r1) else r1)
      in if ip = [] \<and> fp = [] then None
         else case r2 of
           [] \<Rightarrow> Some (decimal_val (int (digits_val (ip @ fp))) (- int (length fp)))
         | c # r \<Rightarrow>
             if c = CHR ''e'' \<or> c = CHR ''E'' then
               map_option (\<lambda>e. decimal_val (int (digits_val (ip @ fp))) (e - int (length fp))) (exponent_val r)
             else None)"

text \<open>\<open>Number(s)\<close> for a string.\<close>

definition string_number :: "string \<Rightarrow> js_number" where
  "string_number s =
     (let t = js_trim s; neg = starts_with t ''-''; r = strip_sign t
      in if t = [] then JFin 0
         else case prefixed_literal t of
           Some n \<Rightarrow> to_double (of_nat n)
         | None \<Rightarrow>
             if r = ''Infinity'' then JInf neg
             else case decimal_literal r of
               None \<Rightarrow> JNaN
             | Some x \<Rightarrow> to_double (if neg then - x else x))"

fun js_Number :: "jsv \<Rightarrow> js_number" where
  "js_Number JUndef = JNaN"
| "js_Number JNull = JFin 0"
| "js_Number (JBool b) = JFin (if b then 1 else 0)"
| "js_Number (JNum m e) = to_double (decimal_val m e)"
| "js_Number (JStr s) = string_number s"
| "js_Number (JArr xs) = string_number (js_String (JArr xs))"
| "js_Number (JObj ps) = JNaN"

fun number_truthy :: "js_number \<Rightarrow> bool" where
  "number_truthy (JFin x) = (x \<noteq> 0)"
| "number_truthy (JInf b) = True"
| "number_truthy JNaN = False"

section \<open>Integers are doubles\<close>

lemma round_even_int [simp]: "round_even (of_int n) = n"
  by (simp add: round_even_def Let_def)

lemma bit_length_bounds: "0 < n \<Longrightarrow> 2 ^ (bit_length n - 1) \<le> n \<and> n < 2 ^ bit_length n \<and> 0 < bit_length n"
proof (induction n rule: bit_length.induct)
  case (1 n)
  show ?case
  proof (cases "n = 1")
    case True
    then show ?thesis by (simp add: bit_length.simps)
  next
    case False
    with 1 have ih: "2 ^ (bit_length (n div 2) - 1) \<le> n div 2" "n div 2 < 2 ^ bit_length (n div 2)"
      "0 < bit_length (n div 2)" by auto
    have b: "bit_length n = Suc (bit_length (n div 2))" using 1 by (simp add: bit_length.simps)
    obtain k where k: "bit_length (n div 2) = Suc k" using ih(3) gr0_conv_Suc by blast
    from ih k have "2 ^ k \<le> n div 2" "n div 2 < 2 * 2 ^ k" by simp_all
    then have "2 * 2 ^ k \<le> n" "n < 2 * (2 * 2 ^ k)" by linarith+
    with k b show ?thesis by simp
  qed
qed

lemma log2_floor_int:
  assumes "0 < n" "n \<le> 2 ^ 53"
  shows "log2_floor (of_nat n) \<le> 53" "0 \<le> log2_floor (of_nat n)" "log2_floor (of_nat n) = 53 \<Longrightarrow> n = 2 ^ 53"
proof -
  have l: "log2_floor (of_nat n) = int (bit_length n) - 1" using assms(1) by (simp add: log2_floor_def)
  have b: "2 ^ (bit_length n - 1) \<le> n" "0 < bit_length n" using bit_length_bounds[OF assms(1)] by auto
  have "(2::nat) ^ (bit_length n - 1) \<le> 2 ^ 53" using b(1) assms(2) by linarith
  then have "bit_length n - 1 \<le> 53" by (rule power_le_imp_le_exp[rotated]) simp
  with b(2) l show "log2_floor (of_nat n) \<le> 53" "0 \<le> log2_floor (of_nat n)" by linarith+
  show "n = 2 ^ 53" if "log2_floor (of_nat n) = 53"
  proof -
    have "bit_length n - 1 = 53" using that l by linarith
    with b(1) assms(2) show ?thesis by (metis le_antisym)
  qed
qed

lemma double_of_int:
  assumes "\<bar>i\<bar> \<le> 2 ^ 53"
  shows "double_of (of_int i) = of_int i"
proof (cases "i = 0")
  case False
  define n where "n = nat \<bar>i\<bar>"
  have n: "0 < n" "n \<le> 2 ^ 53" "\<bar>rat_of_int i\<bar> = of_nat n" using assms False by (auto simp: n_def nat_le_iff)
  define e where "e = log2_floor (of_nat n) - 52"
  have e: "max (- 1074) (log2_floor (of_nat n) - 52) = e" "e \<le> 1" using log2_floor_int[OF n(1,2)] by (auto simp: e_def)
  have "rat_of_int (round_even (of_nat n / pow_int 2 e)) * pow_int 2 e = of_nat n"
  proof (cases "e = 1")
    case True
    then have "n = 2 ^ 53" using log2_floor_int(3)[OF n(1,2)] by (simp add: e_def)
    moreover have "round_even (of_nat (2 ^ 53) / pow_int 2 1) = 2 ^ 52"
      using round_even_int[of "2 ^ 52"] by (simp add: pow_int_def)
    ultimately show ?thesis using True by (simp add: pow_int_def)
  next
    case False
    then have "e \<le> 0" using e(2) by simp
    then have p: "pow_int 2 e = 1 / 2 ^ nat (- e)" by (auto simp: pow_int_def)
    have "of_nat n / pow_int 2 e = rat_of_int (int n * 2 ^ nat (- e))" by (simp add: p)
    then have "round_even (of_nat n / pow_int 2 e) = int n * 2 ^ nat (- e)" by (simp only: round_even_int)
    then show ?thesis by (simp add: p)
  qed
  moreover have "sgn (rat_of_int i) * of_nat n = of_int i" by (simp add: n(3)[symmetric] mult_sgn_abs)
  ultimately show ?thesis using False n(3) e(1) by (simp add: double_of_def Let_def mult.assoc)
qed (simp add: double_of_def)

lemma js_Number_int [simp]: "\<bar>n\<bar> \<le> 2 ^ 53 \<Longrightarrow> js_Number (JNum n 0) = JFin (of_int n)"
proof -
  assume a: "\<bar>n\<bar> \<le> 2 ^ 53"
  then have "\<bar>rat_of_int n\<bar> \<le> 2 ^ 53" by (metis of_int_abs of_int_le_iff of_int_numeral of_int_power)
  also have "\<dots> < 2 ^ 1024" by (rule power_strict_increasing) simp_all
  finally show ?thesis
    using a by (simp add: to_double_def decimal_val_def pow_int_def double_of_int Let_def)
qed

end
