(* ===== verification/Demo_Server.thy ===== *)
theory Demo_Server
  imports Js_Number Sdk_Client
begin

text \<open>
  The merchant server of the checkout demo: \<open>examples/checkout-demo/typescript/server.js\<close>, a client
  of the TypeScript SDK.

  The transaction store is a \<open>Map\<close> whose values are shared objects: one object is stored under
  several keys, and a settlement changes it in place. The model has a heap of objects, a reference
  being a position in it, and an index from keys to references; an object as a key is a new
  identity, so it is never found again.

  What the server takes from outside is in two records. \<open>demo_host\<close> is fixed while it runs: the
  environment, the SDK client, the files, \<open>JSON.parse\<close>, \<open>decodeURIComponent\<close>, SHA-256, and the
  path name of a request URL. \<open>demo_moment\<close> is what one request meets: the gateway behind the SDK,
  the services behind \<open>fetch\<close>, the random values and the clock. Texts of errors that the engine
  itself throws stand for its own; log lines are left out, and a body's members are read as own
  properties.
\<close>

type_synonym props = "(string \<times> jsv) list"

section \<open>Configuration\<close>

definition demo_decimals :: "jsv \<Rightarrow> nat" where
  "demo_decimals currency =
     (let c = (if currency = JUndef then JStr ''EGP'' else currency) in
      if c = JStr ''JPY'' then 0
      else if c = JStr ''KWD'' \<or> c = JStr ''BHD'' \<or> c = JStr ''OMR'' then 3
      else 2)"

record product =
  pd_name :: "string option"
  pd_amount :: "int option"
  pd_currency :: "string option"

text \<open>The prices are \<open>toMinorUnits\<close> of 50, 150 and 450; \<open>catalogue_prices\<close> below proves them.\<close>

definition products :: "(string \<times> product) list" where
  "products =
    [(''starter'', \<lparr>pd_name = Some ''Starter Developer Tier'', pd_amount = Some 5000, pd_currency = Some ''EGP''\<rparr>),
     (''pro'', \<lparr>pd_name = Some ''OpenWrapper Pro License'', pd_amount = Some 15000, pd_currency = Some ''EGP''\<rparr>),
     (''enterprise'', \<lparr>pd_name = Some ''Enterprise Gateway License'', pd_amount = Some 45000, pd_currency = Some ''EGP''\<rparr>)]"

text \<open>
  \<open>products[key]\<close> also finds what the object inherits from \<open>Object.prototype\<close>: functions, whose
  \<open>name\<close> is a string, and under \<open>__proto__\<close> the prototype itself.
\<close>

definition inherited_names :: "string list" where
  "inherited_names = [''toString'', ''toLocaleString'', ''valueOf'', ''hasOwnProperty'', ''isPrototypeOf'',
     ''propertyIsEnumerable'', ''__defineGetter__'', ''__defineSetter__'', ''__lookupGetter__'', ''__lookupSetter__'']"

definition product_of :: "string \<Rightarrow> product option" where
  "product_of key = (case map_of products key of
     Some p \<Rightarrow> Some p
   | None \<Rightarrow>
       if key \<in> set inherited_names then Some \<lparr>pd_name = Some key, pd_amount = None, pd_currency = None\<rparr>
       else if key = ''constructor'' then Some \<lparr>pd_name = Some ''Object'', pd_amount = None, pd_currency = None\<rparr>
       else if key = ''__proto__'' then Some \<lparr>pd_name = None, pd_amount = None, pd_currency = None\<rparr>
       else None)"

definition demo_providers :: "string list" where
  "demo_providers = [''paymob'', ''fawry'', ''stripe'', ''mock'']"

text \<open>The first of three files that sets a variable wins, and never over one that is set.\<close>

definition load_line :: "env \<Rightarrow> string \<Rightarrow> env" where
  "load_line en line =
     (let trimmed = js_trim line;
          key = js_trim (takeWhile (\<lambda>c. c \<noteq> CHR ''='') trimmed);
          val = js_trim (tl (dropWhile (\<lambda>c. c \<noteq> CHR ''='') trimmed))
      in if trimmed = [] \<or> starts_with trimmed ''#'' then en
         else if CHR ''='' \<notin> set trimmed then en
         else if truthy (en key) then en else en(key \<mapsto> val))"

definition loadEnv :: "string option list \<Rightarrow> env \<Rightarrow> env" where
  "loadEnv contents en =
     foldl (\<lambda>e content. case content of None \<Rightarrow> e
        | Some text \<Rightarrow> foldl load_line e (split_on (char_of (10 :: nat)) text)) en contents"

definition drop_tls_switch :: "env \<Rightarrow> env" where
  "drop_tls_switch en = (if en ''NODE_TLS_REJECT_UNAUTHORIZED'' = Some ''0''
     then en(''NODE_TLS_REJECT_UNAUTHORIZED'' := None) else en)"

text \<open>\<open>None\<close> accepts the certificate; \<open>original\<close> is the check of Node.\<close>

definition checkServerIdentity :: "env \<Rightarrow> (string \<Rightarrow> 'cert \<Rightarrow> 'err option) \<Rightarrow> string \<Rightarrow> 'cert \<Rightarrow> 'err option" where
  "checkServerIdentity en original host cert =
     (if en ''NODE_TLS_REJECT_UNAUTHORIZED'' = Some ''0'' \<or> js_includes host ''openwrapper.muejam.com''
         \<or> js_includes host ''railway.app'' \<or> js_includes host ''localhost''
      then None else original host cert)"

definition isConfiguredKey :: "string option \<Rightarrow> bool" where
  "isConfiguredKey v = (truthy v \<and> 5 < length (js_trim (the v)) \<and> \<not> js_includes (js_trim (the v)) ''...'')"

definition trimmed_env :: "env \<Rightarrow> string \<Rightarrow> string option" where
  "trimmed_env en k = map_option js_trim (en k)"

definition isPaymobConfigured :: "env \<Rightarrow> bool" where
  "isPaymobConfigured en =
     (let sk = trimmed_env en ''PAYMOB_SECRET_KEY''; pk = trimmed_env en ''PAYMOB_PUBLIC_KEY'' in
      truthy sk \<and> truthy pk \<and> \<not> js_includes (the sk) ''...'' \<and> \<not> js_includes (the pk) ''...''
      \<and> (starts_with (the sk) ''egy_sk_test_'' \<or> starts_with (the sk) ''egy_sk_live_''))"

definition number_text :: "string \<Rightarrow> js_number \<Rightarrow> string" where
  "number_text fallback v = (case v of JFin x \<Rightarrow> if x = 0 then fallback else int_str \<lfloor>x\<rfloor> | JInf neg \<Rightarrow> ''Infinity'' | JNaN \<Rightarrow> fallback)"

text \<open>The port as text; ports are integers.\<close>

definition demo_port :: "env \<Rightarrow> string" where
  "demo_port en = number_text ''4000'' (case en ''PORT'' of None \<Rightarrow> JNaN | Some s \<Rightarrow> string_number s)"

definition demo_base_url :: "env \<Rightarrow> string" where
  "demo_base_url en = or_else (en ''OPENWRAPPER_BASE_URL'') ''https://gateway.openwrapper.muejam.com''"

definition demo_client_options :: "env \<Rightarrow> client_options" where
  "demo_client_options en =
     \<lparr>co_baseUrl = Some (demo_base_url en), co_apiKey = js_or (en ''OPENWRAPPER_API_KEY'') None,
      co_providers = Some
        \<lparr>pr_paymob = (if isPaymobConfigured en then Some
            \<lparr>cp_secretKey = trimmed_env en ''PAYMOB_SECRET_KEY'', cp_publicKey = trimmed_env en ''PAYMOB_PUBLIC_KEY'',
             cp_hmacSecret = trimmed_env en ''PAYMOB_HMAC_SECRET'',
             cp_integrationId = map_option TextId (trimmed_env en ''PAYMOB_INTEGRATION_ID''),
             cp_baseUrl = trimmed_env en ''PAYMOB_BASE_URL''\<rparr> else None),
         pr_fawry = (if isConfiguredKey (en ''FAWRY_SECURE_KEY'') then Some
            \<lparr>cf_merchantCode = trimmed_env en ''FAWRY_MERCHANT_CODE'', cf_secureKey = trimmed_env en ''FAWRY_SECURE_KEY'',
             cf_baseUrl = trimmed_env en ''FAWRY_BASE_URL''\<rparr> else None),
         pr_stripe = (if isConfiguredKey (en ''STRIPE_SECRET_KEY'') then Some (trimmed_env en ''STRIPE_SECRET_KEY'') else None)\<rparr>,
      co_maxRetries = None, co_retryDelayMs = None, co_timeoutMs = None\<rparr>"

definition demo_start :: "url_parser \<Rightarrow> string option list \<Rightarrow> env \<Rightarrow> js_exn + (env \<times> sdk_client)" where
  "demo_start parse_url files en =
     (let e = drop_tls_switch (loadEnv files en) in
      case new_client parse_url e (demo_client_options e) of Inl x \<Rightarrow> Inl x | Inr cl \<Rightarrow> Inr (e, cl))"

section \<open>The world of a request\<close>

record outgoing =
  ou_method :: string
  ou_url :: string
  ou_headers :: headers
  ou_body :: "string option"

datatype web_answer = Unreachable string | Answer nat "jsv option"

record demo_host =
  dh_env :: env
  dh_client :: sdk_client
  dh_files :: "string \<Rightarrow> string option"
  dh_parse :: "string \<Rightarrow> jsv option"
  dh_decode :: "string \<Rightarrow> string option"
  dh_sha256 :: "string \<Rightarrow> string"
  dh_pathname :: "string \<Rightarrow> string \<Rightarrow> string option"
  dh_version :: string

record demo_moment =
  mo_server :: "nat \<Rightarrow> sdk_request \<Rightarrow> fetch_result"
  mo_fetch :: "outgoing \<Rightarrow> web_answer"
  mo_uuid :: "nat \<Rightarrow> string"
  mo_kiosk :: nat
  mo_now :: string

datatype body_end = Complete | Broken string

record demo_request =
  dq_method :: string
  dq_url :: string
  dq_host :: "string option"
  dq_forwardedProto :: "string option"
  dq_chunks :: "string list"
  dq_end :: body_end

record demo_error =
  de_httpStatus :: "nat option"
  de_code :: "string option"
  de_message :: string

fun exn_text :: "js_exn \<Rightarrow> string" where
  "exn_text (TypeError m) = m"
| "exn_text (RangeError m) = m"
| "exn_text SyntaxError = ''SyntaxError''"
| "exn_text (Error m) = m"

definition plain_error :: "string \<Rightarrow> demo_error" where
  "plain_error m = \<lparr>de_httpStatus = None, de_code = None, de_message = m\<rparr>"

fun sdk_error :: "sdk_exn \<Rightarrow> demo_error" where
  "sdk_error (JsExn e) = plain_error (exn_text e)"
| "sdk_error (ApiError c m s) = \<lparr>de_httpStatus = Some s, de_code = Some (error_code c), de_message = m\<rparr>"
| "sdk_error (Aborted m) = plain_error m"

text \<open>\<open>encodeURIComponent\<close>, and the serialisation of \<open>URLSearchParams\<close>.\<close>

definition upper_hex :: "nat \<Rightarrow> char" where
  "upper_hex n = (if n < 10 then char_of (48 + n) else char_of (55 + n))"

definition percent_bytes :: "char \<Rightarrow> string" where
  "percent_bytes c = concat (map (\<lambda>b. [CHR ''%'', upper_hex (char_code b div 16), upper_hex (char_code b mod 16)]) (utf8_char c))"

definition is_alnum :: "char \<Rightarrow> bool" where
  "is_alnum c = (let n = char_code c in is_digit c \<or> (65 \<le> n \<and> n \<le> 90) \<or> (97 \<le> n \<and> n \<le> 122))"

definition encodeURIComponent :: "string \<Rightarrow> string" where
  "encodeURIComponent s = concat (map (\<lambda>c. if is_alnum c \<or> c \<in> set (''-_.!~*()'' @ [CHR 0x27]) then [c] else percent_bytes c) s)"

definition form_part :: "string \<Rightarrow> string" where
  "form_part s = concat (map (\<lambda>c. if is_alnum c \<or> c \<in> set ''*-._'' then [c]
     else if c = CHR '' '' then ''+'' else percent_bytes c) s)"

definition form_encode :: "(string \<times> string) list \<Rightarrow> string" where
  "form_encode ps = js_join ''&'' (map (\<lambda>(k, v). form_part k @ ''='' @ form_part v) ps)"

section \<open>Reading the request\<close>

definition MAX_REQUEST_BYTES :: nat where
  "MAX_REQUEST_BYTES = 64 * 1024"

text \<open>The text so far, and whether it became too large, after one more chunk.\<close>

fun read_chunk :: "string \<times> bool \<Rightarrow> string \<Rightarrow> string \<times> bool" where
  "read_chunk (raw, tooLarge) chunk =
     (if tooLarge then (raw, tooLarge)
      else if MAX_REQUEST_BYTES < length (utf8 (raw @ chunk)) then ([], True) else (raw @ chunk, False))"

definition readJson :: "(string \<Rightarrow> jsv option) \<Rightarrow> string list \<Rightarrow> body_end \<Rightarrow> demo_error + jsv" where
  "readJson parse chunks ending =
     (let (raw, tooLarge) = foldl read_chunk ([], False) chunks in
      case ending of
        Broken m \<Rightarrow> Inl (plain_error m)
      | Complete \<Rightarrow>
          if tooLarge then Inl \<lparr>de_httpStatus = Some 413, de_code = None, de_message = ''Request body exceeds 64 KiB''\<rparr>
          else case parse (if raw = [] then ''{}'' else raw) of
            None \<Rightarrow> Inl \<lparr>de_httpStatus = Some 400, de_code = None, de_message = ''Request body must be valid JSON''\<rparr>
          | Some v \<Rightarrow> Inr v)"

record checkout_input =
  ci_product :: product
  ci_provider :: string
  ci_paymentMethod :: jsv
  ci_walletCarrier :: jsv
  ci_phone :: string
  ci_email :: string
  ci_fullName :: string
  ci_merchantReference :: string
  ci_amountMinorUnits :: int
  ci_formattedAmount :: string

fun jsv_amount :: "jsv \<Rightarrow> js_exn + js_amount" where
  "jsv_amount (JNum m e) = Inr (case to_double (decimal_val m e) of
       JFin x \<Rightarrow> ANumber x (number_str m e) | JInf neg \<Rightarrow> ANotFinite (if neg then ''-Infinity'' else ''Infinity'')
     | JNaN \<Rightarrow> ANotFinite ''NaN'')"
| "jsv_amount (JStr s) = Inr (AString s)"
| "jsv_amount _ = Inl (TypeError ''amount.trim is not a function'')"

definition minor_units :: "jsv \<Rightarrow> nat \<Rightarrow> js_exn + js_number" where
  "minor_units v decimals = (case jsv_amount v of Inl e \<Rightarrow> Inl e
     | Inr a \<Rightarrow> (case toMinorUnits a decimals of Inl e \<Rightarrow> Inl e | Inr n \<Rightarrow> Inr (JFin (of_int n))))"

definition format_number :: "js_number \<Rightarrow> nat \<Rightarrow> js_exn + string" where
  "format_number v decimals = (case v of JFin x \<Rightarrow> formatMajorUnits x decimals
     | _ \<Rightarrow> Inl (TypeError ''minorUnits must be a safe integer''))"

definition reference_ok :: "string \<Rightarrow> bool" where
  "reference_ok s \<longleftrightarrow> 1 \<le> length s \<and> length s \<le> 200
     \<and> list_all (\<lambda>c. let n = char_code c in n = 33 \<or> (35 \<le> n \<and> n \<le> 126)) s"

definition short_uuid :: "nat \<Rightarrow> string \<Rightarrow> string" where
  "short_uuid n uuid = take n (filter (\<lambda>c. c \<noteq> CHR ''-'') uuid)"

definition input_reference :: "string \<Rightarrow> jsv \<Rightarrow> string" where
  "input_reference uuid body =
     (let generated = ''ts_order_'' @ short_uuid 16 uuid in
      case jor (field body ''merchant_reference'') (field body ''merchantReference'') of
        JStr s \<Rightarrow> if reference_ok s then s else generated
      | _ \<Rightarrow> generated)"

definition input_amount :: "product \<Rightarrow> jsv \<Rightarrow> nat \<Rightarrow> js_exn + js_number" where
  "input_amount product body decimals =
     (let a = field body ''amount''; b = field body ''amount_major_units'';
          c = jor (field body ''amount_minor_units'') (field body ''amountMinorUnits'')
      in if a \<noteq> JUndef \<and> a \<noteq> JNull \<and> a \<noteq> JStr [] then minor_units a decimals
         else if b \<noteq> JUndef then minor_units b decimals
         else if js_truthy c then Inr (js_Number c)
         else Inr (case pd_amount product of None \<Rightarrow> JNaN | Some n \<Rightarrow> JFin (of_int n)))"

definition text_value :: "string option \<Rightarrow> jsv" where
  "text_value v = (case v of None \<Rightarrow> JUndef | Some s \<Rightarrow> JStr s)"

definition product_decimals :: "product \<Rightarrow> nat" where
  "product_decimals p = demo_decimals (text_value (pd_currency p))"

text \<open>Phone, email and name of the customer.\<close>

definition customer_details :: "jsv \<Rightarrow> js_exn + string \<times> string \<times> string" where
  "customer_details customer =
     (let phone = (case field customer ''phone'' of JStr s \<Rightarrow> js_trim s | _ \<Rightarrow> []);
          email = (case field customer ''email'' of JStr s \<Rightarrow> js_trim s | _ \<Rightarrow> ''customer@example.com'');
          fullName = (case jor (field customer ''full_name'') (field customer ''fullName'') of
            JStr s \<Rightarrow> js_trim s | _ \<Rightarrow> ''Ahmed Ali'')
      in if phone = [] then Inl (Error ''Customer phone is required'')
         else if 64 < length phone \<or> 254 < length email \<or> 200 < length fullName then
           Inl (Error ''Customer details exceed allowed lengths'')
         else Inr (phone, email, fullName))"

text \<open>The amount, which \<open>formatMajorUnits\<close> accepts as a safe integer, and its text.\<close>

definition priced :: "product \<Rightarrow> jsv \<Rightarrow> js_exn + int \<times> string" where
  "priced product body =
     (let decimals = product_decimals product in
      case input_amount product body decimals of
        Inl e \<Rightarrow> Inl e
      | Inr amount \<Rightarrow>
          (case format_number amount decimals of
             Inl e \<Rightarrow> Inl e
           | Inr formatted \<Rightarrow> (case amount of JFin x \<Rightarrow> Inr (\<lfloor>x\<rfloor>, formatted)
               | _ \<Rightarrow> Inl (TypeError ''minorUnits must be a safe integer''))))"

definition checkoutInput :: "string \<Rightarrow> jsv \<Rightarrow> js_exn + checkout_input" where
  "checkoutInput uuid body =
     (if \<not> (case body of JObj _ \<Rightarrow> True | JArr _ \<Rightarrow> True | _ \<Rightarrow> False) then Inl (Error ''Request body must be an object'')
      else
        let productKey = js_String (jor (jor (field body ''product_id'') (field body ''productId'')) (JStr ''pro''));
            provider = jor (field body ''provider'') (JStr ''paymob'')
        in case product_of productKey of
          None \<Rightarrow> Inl (Error (''Unknown product_id '' @ [CHR 0x27] @ productKey @ [CHR 0x27]))
        | Some product \<Rightarrow>
            if provider \<notin> set (map JStr demo_providers) then
              Inl (Error (''Unknown payment provider '' @ [CHR 0x27] @ js_String provider @ [CHR 0x27]))
            else (case customer_details (field body ''customer'') of
              Inl e \<Rightarrow> Inl e
            | Inr (phone, email, fullName) \<Rightarrow>
                (case priced product body of
                   Inl e \<Rightarrow> Inl e
                 | Inr (amount, formatted) \<Rightarrow> Inr
                     \<lparr>ci_product = product, ci_provider = js_String provider,
                      ci_paymentMethod = jor (jor (field body ''payment_method'') (field body ''paymentMethod'')) (JStr ''cards''),
                      ci_walletCarrier = jor (jor (field body ''wallet_carrier'') (field body ''walletCarrier'')) (JStr ''vodafone''),
                      ci_phone = phone, ci_email = email, ci_fullName = fullName,
                      ci_merchantReference = input_reference uuid body,
                      ci_amountMinorUnits = amount, ci_formattedAmount = formatted\<rparr>)))"

section \<open>The amounts of an order\<close>

text \<open>\<open>input.amountMinorUnits || input.product.amountMinorUnits\<close>.\<close>

definition charged_amount :: "checkout_input \<Rightarrow> int option" where
  "charged_amount i = (if ci_amountMinorUnits i \<noteq> 0 then Some (ci_amountMinorUnits i) else pd_amount (ci_product i))"

definition int_value :: "int option \<Rightarrow> jsv" where
  "int_value v = (case v of None \<Rightarrow> JUndef | Some n \<Rightarrow> JNum n 0)"

section \<open>Direct calls to the providers\<close>

text \<open>A direct call gives a record, or nothing; an error on the way is logged and is nothing too.\<close>

type_synonym attempt = "props option \<times> outgoing list"

definition or_text :: "string \<Rightarrow> string \<Rightarrow> string" where
  "or_text s d = (if s = [] then d else s)"

definition shown :: "string option \<Rightarrow> string" where
  "shown v = nullish_else v ''undefined''"

definition ok_json :: "web_answer \<Rightarrow> jsv option" where
  "ok_json a = (case a of Answer status (Some v) \<Rightarrow>
       if 200 \<le> status \<and> status \<le> 299 \<and> v \<noteq> JNull then Some v else None
     | _ \<Rightarrow> None)"

definition pending_record :: "checkout_input \<Rightarrow> string \<Rightarrow> string \<Rightarrow> jsv \<Rightarrow> jsv \<Rightarrow> props" where
  "pending_record i provider paymentId reference action =
     [(''payment_id'', JStr paymentId), (''provider'', JStr provider), (''status'', JStr ''pending''),
      (''amount_minor_units'', int_value (pd_amount (ci_product i))),
      (''currency'', text_value (pd_currency (ci_product i))),
      (''merchant_reference'', JStr (ci_merchantReference i)),
      (''provider_reference'', reference), (''next_action'', action)]"

definition redirect_to :: "jsv \<Rightarrow> jsv" where
  "redirect_to url = JObj [(''type'', JStr ''redirect_to_url''), (''url'', url)]"

text \<open>An integration identifier that is a numeral is an integer below \<open>2 ^ 53\<close>.\<close>

definition paymob_methods :: "env \<Rightarrow> checkout_input \<Rightarrow> jsv" where
  "paymob_methods en i =
     (let integrationId = (if ci_paymentMethod i = JStr ''wallet'' \<and> truthy (en ''PAYMOB_WALLET_INTEGRATION_ID'')
                           then en ''PAYMOB_WALLET_INTEGRATION_ID'' else en ''PAYMOB_INTEGRATION_ID'')
      in JArr [if truthy integrationId then
                 (case string_number (the integrationId) of
                    JFin x \<Rightarrow> if x = 0 then JStr (the integrationId) else JNum \<lfloor>x\<rfloor> 0
                  | JInf neg \<Rightarrow> JNull
                  | JNaN \<Rightarrow> JStr (the integrationId))
               else JStr ''card''])"

definition paymob_payload :: "env \<Rightarrow> checkout_input \<Rightarrow> jsv" where
  "paymob_payload en i =
     (let names = split_on (CHR '' '') (or_text (ci_fullName i) ''Ahmed Ali'');
          amount = int_value (pd_amount (ci_product i));
          name = text_value (pd_name (ci_product i))
      in JObj
       [(''amount'', amount), (''currency'', text_value (pd_currency (ci_product i))),
        (''payment_methods'', paymob_methods en i),
        (''items'', JArr [JObj [(''name'', name), (''amount'', amount),
           (''description'', JStr (''OpenWrapper Demo: '' @ shown (pd_name (ci_product i)))), (''quantity'', JNum 1 0)]]),
        (''billing_data'', JObj
          [(''first_name'', JStr (or_text (hd names) ''Ahmed'')),
           (''last_name'', JStr (or_text (js_join '' '' (tl names)) ''Ali'')),
           (''phone_number'', JStr (ci_phone i)), (''email'', JStr (or_text (ci_email i) ''customer@example.com'')),
           (''apartment'', JStr ''NA''), (''floor'', JStr ''NA''), (''street'', JStr ''NA''), (''building'', JStr ''NA''),
           (''city'', JStr ''Cairo''), (''country'', JStr ''EG''), (''state'', JStr ''Cairo'')]),
        (''special_reference'', JStr (ci_merchantReference i)),
        (''redirection_url'', JStr (''http://localhost:'' @ demo_port en @ ''/?status=success&payment_id=''
            @ encodeURIComponent (ci_merchantReference i)))])"

definition tryDirectPaymob :: "env \<Rightarrow> (outgoing \<Rightarrow> web_answer) \<Rightarrow> checkout_input \<Rightarrow> attempt" where
  "tryDirectPaymob en net i =
     (if \<not> isPaymobConfigured en then (None, [])
      else
        let secretKey = js_trim (the (en ''PAYMOB_SECRET_KEY''));
            publicKey = (if truthy (en ''PAYMOB_PUBLIC_KEY'') then js_trim (the (en ''PAYMOB_PUBLIC_KEY'')) else []);
            baseUrl = or_else (en ''PAYMOB_BASE_URL'') ''https://accept.paymob.com'';
            out = \<lparr>ou_method = ''POST'', ou_url = baseUrl @ ''/v1/intention/'',
                   ou_headers = [(''Authorization'', ''Token '' @ secretKey), (''Content-Type'', ''application/json'')],
                   ou_body = js_stringify (paymob_payload en i)\<rparr>
        in (case ok_json (net out) of
              None \<Rightarrow> None
            | Some d \<Rightarrow> Some (pending_record i ''paymob'' (''paymob_'' @ js_String (field d ''id''))
                (JStr (js_String (field d ''id'')))
                (redirect_to (JStr (baseUrl @ ''/unifiedcheckout/?publicKey='' @ publicKey @ ''&clientSecret=''
                   @ js_String (field d ''client_secret''))))),
            [out]))"

definition stripe_form :: "string \<Rightarrow> checkout_input \<Rightarrow> string \<Rightarrow> string" where
  "stripe_form port i currency = form_encode
     [(''mode'', ''payment''), (''currency'', js_lower currency),
      (''line_items[0][price_data][unit_amount]'', js_String (int_value (pd_amount (ci_product i)))),
      (''line_items[0][price_data][currency]'', js_lower currency),
      (''line_items[0][price_data][product_data][name]'', shown (pd_name (ci_product i))),
      (''line_items[0][quantity]'', ''1''),
      (''customer_email'', ci_email i), (''client_reference_id'', ci_merchantReference i),
      (''success_url'', ''http://localhost:'' @ port @ ''/?status=success&session_id={CHECKOUT_SESSION_ID}&payment_id=''
          @ encodeURIComponent (ci_merchantReference i)),
      (''cancel_url'', ''http://localhost:'' @ port @ ''/?status=cancelled&payment_id=''
          @ encodeURIComponent (ci_merchantReference i))]"

text \<open>A product without a currency makes the building of the form throw before anything is sent.\<close>

definition tryDirectStripe :: "env \<Rightarrow> (outgoing \<Rightarrow> web_answer) \<Rightarrow> checkout_input \<Rightarrow> attempt" where
  "tryDirectStripe en net i =
     (if \<not> isConfiguredKey (en ''STRIPE_SECRET_KEY'')
         \<or> \<not> starts_with (js_trim (the (en ''STRIPE_SECRET_KEY''))) ''sk_'' then (None, [])
      else case pd_currency (ci_product i) of
        None \<Rightarrow> (None, [])
      | Some currency \<Rightarrow>
        let out = \<lparr>ou_method = ''POST'', ou_url = ''https://api.stripe.com/v1/checkout/sessions'',
                   ou_headers = [(''Authorization'', ''Bearer '' @ js_trim (the (en ''STRIPE_SECRET_KEY''))),
                     (''Content-Type'', ''application/x-www-form-urlencoded'')],
                   ou_body = Some (stripe_form (demo_port en) i currency)\<rparr>
        in (case ok_json (net out) of
              None \<Rightarrow> None
            | Some d \<Rightarrow> Some (pending_record i ''stripe'' (''stripe_'' @ js_String (field d ''id'')) (field d ''id'')
                (redirect_to (field d ''url''))),
            [out]))"

definition fawry_price :: "checkout_input \<Rightarrow> string" where
  "fawry_price i = (case pd_amount (ci_product i) of None \<Rightarrow> ''NaN''
     | Some n \<Rightarrow> js_to_fixed (double_of (of_int n / 100)) [] 2)"

definition tryDirectFawry :: "env \<Rightarrow> (string \<Rightarrow> string) \<Rightarrow> (outgoing \<Rightarrow> web_answer) \<Rightarrow> checkout_input \<Rightarrow> attempt" where
  "tryDirectFawry en sha256 net i =
     (if \<not> isConfiguredKey (en ''FAWRY_SECURE_KEY'') then (None, [])
      else if \<not> truthy (trimmed_env en ''FAWRY_MERCHANT_CODE'') \<or> \<not> truthy (trimmed_env en ''FAWRY_SECURE_KEY'') then (None, [])
      else
        let merchantCode = the (trimmed_env en ''FAWRY_MERCHANT_CODE'');
            secureKey = the (trimmed_env en ''FAWRY_SECURE_KEY'');
            price = fawry_price i;
            signature = sha256 (merchantCode @ ci_merchantReference i @ ci_phone i @ price @ secureKey);
            out = \<lparr>ou_method = ''POST'',
                   ou_url = or_else (en ''FAWRY_BASE_URL'') ''https://atfawry.fawry.com'' @ ''/ECommerceWeb/Fawry/payments/charge'',
                   ou_headers = [(''Content-Type'', ''application/json'')],
                   ou_body = js_stringify (JObj
                     [(''merchantCode'', JStr merchantCode), (''merchantRefNum'', JStr (ci_merchantReference i)),
                      (''customerMobile'', JStr (ci_phone i)), (''customerEmail'', JStr (ci_email i)),
                      (''customerName'', JStr (ci_fullName i)), (''amount'', JStr price), (''currencyCode'', JStr ''EGP''),
                      (''paymentMethod'', JStr ''PAYATFAWRY''),
                      (''chargeItems'', JArr [JObj [(''itemId'', JStr ''1''), (''description'', text_value (pd_name (ci_product i))),
                         (''price'', JStr price), (''quantity'', JNum 1 0)]]),
                      (''signature'', JStr signature)])\<rparr>
        in (case ok_json (net out) of
              None \<Rightarrow> None
            | Some d \<Rightarrow>
                let r = field d ''referenceNumber'' in
                if js_truthy r then
                  Some (pending_record i ''fawry'' (''fawry_'' @ js_String r) r
                    (JObj [(''type'', JStr ''pay_at_reference''), (''reference'', r),
                       (''instructions'', JStr ''Pay with cash at any Fawry retail kiosk or Aman POS terminal across Egypt.'')]))
                else None,
            [out]))"

section \<open>The sandbox payment\<close>

text \<open>\<open>s.replace(/\/api\/?$/, "")\<close> and the same for \<open>/v1\<close>.\<close>

definition drop_segment :: "string \<Rightarrow> string \<Rightarrow> string" where
  "drop_segment seg s =
     (if ends_with s (CHR ''/'' # seg @ ''/'') then take (length s - length seg - 2) s
      else if ends_with s (CHR ''/'' # seg) then take (length s - length seg - 1) s
      else s)"

definition pay_page :: "env \<Rightarrow> string" where
  "pay_page en = strip_trailing_slashes (drop_segment ''api''
     (or_else (en ''OPENWRAPPER_PUBLIC_URL'') ''https://openwrapper.muejam.com''))"

definition success_url :: "env \<Rightarrow> checkout_input \<Rightarrow> string \<Rightarrow> string" where
  "success_url en i session = ''http://localhost:'' @ demo_port en @ ''/?status=success'' @ session @ ''&payment_id=''
     @ encodeURIComponent (ci_merchantReference i)"

definition sandbox_action :: "env \<Rightarrow> checkout_input \<Rightarrow> string \<Rightarrow> nat \<Rightarrow> jsv \<times> string" where
  "sandbox_action en i suffix kiosk =
     (let paymentId = ''pay_sim_'' @ suffix in
      if ci_provider i = ''mock'' then (JNull, ''mock_ref_'' @ suffix)
      else if ci_provider i = ''fawry'' then
        (let code = ''929'' @ nat_str kiosk in
         (JObj [(''type'', JStr ''pay_at_reference''), (''reference'', JStr code),
            (''instructions'', JStr ''Present this 9-digit code at any Fawry retail kiosk or Aman POS terminal across Egypt.'')],
          ''fawry_ref_'' @ code))
      else if ci_provider i = ''stripe'' then
        (redirect_to (JStr (pay_page en @ ''/mock/pay/'' @ paymentId @ ''?provider=stripe&method=card&return_url=''
            @ encodeURIComponent (success_url en i (''&session_id=cs_test_'' @ suffix)))),
         ''cs_test_'' @ suffix)
      else
        (redirect_to (JStr (pay_page en @ ''/mock/pay/'' @ paymentId @ ''?provider=paymob&method=''
            @ js_String (ci_paymentMethod i) @ ''&return_url='' @ encodeURIComponent (success_url en i []))),
         ''paymob_txn_'' @ suffix))"

definition generateSandboxPayment :: "env \<Rightarrow> demo_moment \<Rightarrow> checkout_input \<Rightarrow> js_exn + props" where
  "generateSandboxPayment en mo i =
     (let suffix = short_uuid 12 (mo_uuid mo 1);
          paymentId = JStr (''pay_sim_'' @ suffix);
          (action, providerRef) = sandbox_action en i suffix (mo_kiosk mo);
          amount = charged_amount i
      in case format_number (case amount of None \<Rightarrow> JNaN | Some n \<Rightarrow> JFin (of_int n)) (product_decimals (ci_product i)) of
           Inl e \<Rightarrow> Inl e
         | Inr formatted \<Rightarrow> Inr
             [(''payment_id'', paymentId), (''paymentId'', paymentId), (''provider'', JStr (ci_provider i)),
              (''status'', JStr ''pending''), (''amount_minor_units'', int_value amount), (''amountMinorUnits'', int_value amount),
              (''formatted_amount'', JStr formatted), (''formattedAmount'', JStr formatted),
              (''currency'', text_value (pd_currency (ci_product i))),
              (''merchant_reference'', JStr (ci_merchantReference i)), (''merchantReference'', JStr (ci_merchantReference i)),
              (''provider_reference'', JStr providerRef), (''providerReference'', JStr providerRef),
              (''next_action'', action), (''nextAction'', action), (''payment_method'', ci_paymentMethod i),
              (''wallet_carrier'', ci_walletCarrier i), (''created_at'', JStr (mo_now mo)),
              (''sdk_backend'', JStr ''typescript''), (''simulated'', JBool True)])"

section \<open>The transaction store\<close>

datatype map_key = TextKey string | NumberKey js_number | BoolKey bool | NullKey | UndefKey

text \<open>Keys are compared by value; an object is a key of its own.\<close>

fun key_of :: "jsv \<Rightarrow> map_key option" where
  "key_of JUndef = Some UndefKey"
| "key_of JNull = Some NullKey"
| "key_of (JBool b) = Some (BoolKey b)"
| "key_of (JNum m e) = Some (NumberKey (to_double (decimal_val m e)))"
| "key_of (JStr s) = Some (TextKey s)"
| "key_of (JArr xs) = None"
| "key_of (JObj ps) = None"

datatype demo_event = Sdk sdk_event | Out outgoing

record demo_state =
  ds_heap :: "props list"
  ds_index :: "map_key \<Rightarrow> nat option"
  ds_sent :: "demo_event list"

definition empty_store :: demo_state where
  "empty_store = \<lparr>ds_heap = [], ds_index = (\<lambda>_. None), ds_sent = []\<rparr>"

definition tx_get :: "demo_state \<Rightarrow> jsv \<Rightarrow> nat option" where
  "tx_get st k = Option.bind (key_of k) (ds_index st)"

definition tx_set :: "jsv \<Rightarrow> nat \<Rightarrow> demo_state \<Rightarrow> demo_state" where
  "tx_set k r st = (case key_of k of None \<Rightarrow> st | Some x \<Rightarrow> st\<lparr>ds_index := (ds_index st)(x \<mapsto> r)\<rparr>)"

definition tx_new :: "props \<Rightarrow> demo_state \<Rightarrow> nat \<times> demo_state" where
  "tx_new ps st = (length (ds_heap st), st\<lparr>ds_heap := ds_heap st @ [ps]\<rparr>)"

definition record_of :: "demo_state \<Rightarrow> nat \<Rightarrow> jsv" where
  "record_of st r = JObj (ds_heap st ! r)"

definition tx_update :: "nat \<Rightarrow> string \<Rightarrow> jsv \<Rightarrow> demo_state \<Rightarrow> demo_state" where
  "tx_update r k v st = st\<lparr>ds_heap := (ds_heap st)[r := js_set (ds_heap st ! r) k v]\<rparr>"

definition send :: "demo_event list \<Rightarrow> demo_state \<Rightarrow> demo_state" where
  "send es st = st\<lparr>ds_sent := ds_sent st @ es\<rparr>"

text \<open>\<open>if (record.k) transactions.set(record.k, record)\<close> for each of the names.\<close>

definition tx_set_named :: "nat \<Rightarrow> string \<Rightarrow> demo_state \<Rightarrow> demo_state" where
  "tx_set_named r k st = (let v = field (record_of st r) k in if js_truthy v then tx_set v r st else st)"

section \<open>Answers\<close>

datatype demo_answer =
    Reply nat jsv
  | Preflight
  | Asset string string
  | Dropped \<comment> \<open>the headers were sent and the rest failed\<close>

definition error_reply :: "nat \<Rightarrow> string \<Rightarrow> string \<Rightarrow> (string \<times> jsv) list \<Rightarrow> demo_answer" where
  "error_reply status code message rest =
     Reply status (JObj ((''error'', JObj [(''code'', JStr code), (''message'', JStr message)]) # rest))"

definition error_status :: "demo_error \<Rightarrow> nat \<Rightarrow> nat" where
  "error_status e fallback = (case de_httpStatus e of Some s \<Rightarrow> if 400 \<le> s then s else fallback | None \<Rightarrow> fallback)"

definition backend_mark :: "(string \<times> jsv) list" where
  "backend_mark = [(''sdk_backend'', JStr ''typescript'')]"

definition failure_reply :: "nat \<Rightarrow> string \<Rightarrow> string \<Rightarrow> demo_error \<Rightarrow> demo_answer" where
  "failure_reply status code message e =
     error_reply (error_status e status) (or_else (de_code e) code) (or_text (de_message e) message) backend_mark"

section \<open>Settlement\<close>

definition base_root :: "env \<Rightarrow> string" where
  "base_root en = drop_segment ''v1'' (drop_segment ''api'' (demo_base_url en))"

definition webhook_post :: "env \<Rightarrow> (string \<times> jsv) list \<Rightarrow> outgoing" where
  "webhook_post en ps =
     \<lparr>ou_method = ''POST'', ou_url = base_root en @ ''/api/webhooks/mock'',
      ou_headers = [(''Content-Type'', ''application/json'')], ou_body = js_stringify (JObj ps)\<rparr>"

definition unknown_record :: "jsv \<Rightarrow> props" where
  "unknown_record paymentId =
     [(''payment_id'', paymentId), (''paymentId'', paymentId), (''provider'', JStr ''paymob''),
      (''amount_minor_units'', JNum 15000 0), (''currency'', JStr ''EGP''), (''status'', JStr ''pending'')]"

text \<open>The record under the identifier, or a new one that nothing refers to yet.\<close>

definition settlement_record :: "jsv \<Rightarrow> demo_state \<Rightarrow> nat \<times> demo_state" where
  "settlement_record paymentId st = (case tx_get st paymentId of
     Some r \<Rightarrow> (r, st) | None \<Rightarrow> tx_new (unknown_record paymentId) st)"

definition settle :: "env \<Rightarrow> string \<Rightarrow> jsv \<Rightarrow> demo_state \<Rightarrow> demo_answer \<times> demo_state" where
  "settle en now paymentId st =
     (let (r, st1) = settlement_record paymentId st;
          st2 = tx_set paymentId r (tx_update r ''settled_at'' (JStr now) (tx_update r ''status'' (JStr ''succeeded'') st1));
          rec = record_of st2 r;
          merchantRef = jor (jor (field rec ''merchant_reference'') (field rec ''merchantReference'')) paymentId;
          providerRef = jor (field rec ''provider_reference'') (field rec ''providerReference'')
      in (Reply 200 (JObj [(''success'', JBool True), (''payment_id'', paymentId), (''paymentId'', paymentId),
              (''status'', JStr ''succeeded''), (''settled_at'', field rec ''settled_at''),
              (''message'', JStr ''Payment settled via simulated gateway webhook''), (''sdk_backend'', JStr ''typescript'')]),
          send [Out (webhook_post en [(''merchant_reference'', merchantRef), (''provider_reference'', providerRef),
              (''status'', JStr ''succeeded'')])] st2))"

definition simulate_settlement :: "demo_host \<Rightarrow> demo_moment \<Rightarrow> demo_request \<Rightarrow> demo_state \<Rightarrow> demo_answer \<times> demo_state" where
  "simulate_settlement h mo q st =
     (case readJson (dh_parse h) (dq_chunks q) (dq_end q) of
        Inl e \<Rightarrow> (error_reply 400 ''invalid_request'' (de_message e) [], st)
      | Inr body \<Rightarrow>
          if body = JNull then (error_reply 400 ''invalid_request'' ''Cannot read properties of null'' [], st)
          else let paymentId = jor (field body ''payment_id'') (field body ''paymentId'') in
            if \<not> js_truthy paymentId then (error_reply 400 ''invalid_request'' ''payment_id is required'' [], st)
            else settle (dh_env h) (mo_now mo) paymentId st)"

section \<open>Creating a payment\<close>

definition create_params :: "demo_host \<Rightarrow> demo_request \<Rightarrow> checkout_input \<Rightarrow> payment_params" where
  "create_params h q i =
     (let host = or_else (dq_host q) (''localhost:'' @ demo_port (dh_env h));
          proto = or_else (dq_forwardedProto q) ''http''
      in \<lparr>pp_provider = ci_provider i, pp_amountMinorUnits = map_option of_int (charged_amount i),
          pp_currency = pd_currency (ci_product i), pp_phone = ci_phone i, pp_email = Some (ci_email i),
          pp_fullName = Some (ci_fullName i), pp_merchantReference = Some (ci_merchantReference i),
          pp_description = Some (''TypeScript SDK Demo: '' @ shown (pd_name (ci_product i))),
          pp_returnUrl = Some (proto @ ''://'' @ host @ ''/?status=success&session_id={CHECKOUT_SESSION_ID}&payment_id=''
            @ encodeURIComponent (ci_merchantReference i)),
          pp_metadata = Some [(''payment_method'', ci_paymentMethod i), (''wallet_carrier'', ci_walletCarrier i)]\<rparr>)"

definition next_action :: "sdk_payment \<Rightarrow> jsv" where
  "next_action p = nullish_else (sp_nextAction p) JUndef"

definition format_value :: "jsv \<Rightarrow> jsv \<Rightarrow> js_exn + string" where
  "format_value amount currency =
     (case amount of JNum m e \<Rightarrow> format_number (to_double (decimal_val m e)) (demo_decimals currency)
      | _ \<Rightarrow> Inl (TypeError ''minorUnits must be a safe integer''))"

definition gateway_record :: "sdk_payment \<Rightarrow> js_exn + props" where
  "gateway_record p = (case format_value (sp_amountMinorUnits p) (sp_currency p) of
     Inl e \<Rightarrow> Inl e
   | Inr formatted \<Rightarrow> Inr
       [(''payment_id'', sp_paymentId p), (''paymentId'', sp_paymentId p), (''provider'', sp_provider p),
        (''status'', sp_status p), (''amount_minor_units'', sp_amountMinorUnits p), (''amountMinorUnits'', sp_amountMinorUnits p),
        (''formatted_amount'', JStr formatted), (''formattedAmount'', JStr formatted), (''currency'', sp_currency p),
        (''merchant_reference'', sp_merchantReference p), (''merchantReference'', sp_merchantReference p),
        (''provider_reference'', sp_providerReference p), (''providerReference'', sp_providerReference p),
        (''next_action'', next_action p), (''nextAction'', next_action p),
        (''sdk_backend'', JStr ''typescript''), (''via_gateway'', JBool True)])"

text \<open>The first attempt: the gateway, through the SDK. Any failure leaves no record.\<close>

definition gateway_attempt :: "demo_host \<Rightarrow> demo_moment \<Rightarrow> demo_request \<Rightarrow> checkout_input \<Rightarrow> props option \<times> demo_event list" where
  "gateway_attempt h mo q i =
     (let (r, trace) = payments_create (dh_client h) (mo_server mo) (mo_uuid mo 2) (create_params h q i)
            \<lparr>op_signal = None, op_timeoutMs = None, op_idempotencyKey = Some (ci_merchantReference i), op_providers = None\<rparr>
      in (case r of
            Inl e \<Rightarrow> None
          | Inr p \<Rightarrow> if js_truthy (next_action p) \<or> sp_status p = JStr ''succeeded''
                     then (case gateway_record p of Inl e \<Rightarrow> None | Inr rec \<Rightarrow> Some rec) else None,
          map Sdk trace))"

text \<open>The second: the provider itself, when its keys are configured.\<close>

definition direct_attempt :: "demo_host \<Rightarrow> demo_moment \<Rightarrow> checkout_input \<Rightarrow> attempt" where
  "direct_attempt h mo i =
     (let en = dh_env h in
      if ci_provider i = ''paymob'' \<and> isPaymobConfigured en then tryDirectPaymob en (mo_fetch mo) i
      else if ci_provider i = ''stripe'' \<and> isConfiguredKey (en ''STRIPE_SECRET_KEY'')
         \<and> starts_with (the (en ''STRIPE_SECRET_KEY'')) ''sk_'' then tryDirectStripe en (mo_fetch mo) i
      else if ci_provider i = ''fawry'' \<and> isConfiguredKey (en ''FAWRY_SECURE_KEY'') then
        tryDirectFawry en (dh_sha256 h) (mo_fetch mo) i
      else (None, []))"

text \<open>The record of an order, from the first attempt that gives one, and what was sent for it.\<close>

definition order_record :: "demo_host \<Rightarrow> demo_moment \<Rightarrow> demo_request \<Rightarrow> checkout_input \<Rightarrow> (js_exn + props) \<times> demo_event list" where
  "order_record h mo q i =
     (case gateway_attempt h mo q i of
        (Some rec, made) \<Rightarrow> (Inr rec, made)
      | (None, made) \<Rightarrow>
          (case direct_attempt h mo i of
             (Some rec, outs) \<Rightarrow> (Inr rec, made @ map Out outs)
           | (None, outs) \<Rightarrow> (generateSandboxPayment (dh_env h) mo i, made @ map Out outs)))"

text \<open>The record is stored under its identifier, then under every other reference it has.\<close>

definition named_references :: "string list" where
  "named_references =
     [''paymentId'', ''merchant_reference'', ''merchantReference'', ''provider_reference'', ''providerReference'']"

definition save_record :: "props \<Rightarrow> demo_state \<Rightarrow> nat \<times> demo_state" where
  "save_record rec st =
     (let (r, st1) = tx_new rec st;
          st2 = tx_set (field (JObj rec) ''payment_id'') r st1
      in (r, foldl (\<lambda>s name. tx_set_named r name s) st2 named_references))"

definition checkout_failure :: "demo_error \<Rightarrow> demo_answer" where
  "checkout_failure e = failure_reply 400 ''invalid_request'' ''Failed to create payment'' e"

definition checkout :: "demo_host \<Rightarrow> demo_moment \<Rightarrow> demo_request \<Rightarrow> demo_state \<Rightarrow> demo_answer \<times> demo_state" where
  "checkout h mo q st =
     (case readJson (dh_parse h) (dq_chunks q) (dq_end q) of
        Inl e \<Rightarrow> (checkout_failure e, st)
      | Inr body \<Rightarrow>
          (case checkoutInput (mo_uuid mo 0) body of
             Inl x \<Rightarrow> (checkout_failure (plain_error (exn_text x)), st)
           | Inr i \<Rightarrow>
               (case order_record h mo q i of
                  (Inl x, made) \<Rightarrow> (checkout_failure (plain_error (exn_text x)), send made st)
                | (Inr rec, made) \<Rightarrow> (Reply 200 (JObj rec), snd (save_record rec (send made st))))))"

section \<open>Looking a payment up\<close>

text \<open>\<open>client.payments.get(id)\<close> for any value.\<close>

definition sdk_lookup :: "sdk_client \<Rightarrow> (nat \<Rightarrow> sdk_request \<Rightarrow> fetch_result) \<Rightarrow> jsv \<Rightarrow> sdk_payment sdk_result" where
  "sdk_lookup cl server v =
     (if \<not> js_truthy v then (Inl (JsExn (TypeError ''paymentId must not be empty'')), [])
      else after_request (sdk_request_run cl server ''GET'' (''/v1/payments/'' @ encodeURIComponent (js_String v))
          (plain_init \<lparr>op_signal = None, op_timeoutMs = None, op_idempotencyKey = None, op_providers = None\<rparr> None))
        fromWire)"

definition stripe_inquiry :: "env \<Rightarrow> string \<Rightarrow> outgoing" where
  "stripe_inquiry en reference =
     \<lparr>ou_method = ''GET'', ou_url = ''https://api.stripe.com/v1/checkout/sessions/'' @ encodeURIComponent reference,
      ou_headers = [(''Authorization'', ''Bearer '' @ js_trim (the (en ''STRIPE_SECRET_KEY'')))], ou_body = None\<rparr>"

text \<open>
  The reconciliation of a pending Stripe payment. The method \<open>startsWith\<close> of a reference that is
  neither absent nor a string does not exist: the outer handler catches that.
\<close>

definition reconcile_stripe :: "env \<Rightarrow> (outgoing \<Rightarrow> web_answer) \<Rightarrow> sdk_payment \<Rightarrow> (js_exn + sdk_payment) \<times> outgoing list" where
  "reconcile_stripe en net p =
     (if sp_status p \<noteq> JStr ''pending'' \<or> sp_provider p \<noteq> JStr ''stripe'' then (Inr p, [])
      else case sp_providerReference p of
        JUndef \<Rightarrow> (Inr p, [])
      | JNull \<Rightarrow> (Inr p, [])
      | JStr reference \<Rightarrow>
          if \<not> starts_with reference ''cs_'' \<or> \<not> isConfiguredKey (en ''STRIPE_SECRET_KEY'') then (Inr p, [])
          else
            let ask = stripe_inquiry en reference in
            (case ok_json (net ask) of
               None \<Rightarrow> (Inr p, [ask])
             | Some d \<Rightarrow>
                 if field d ''payment_status'' = JStr ''paid'' \<or> field d ''status'' = JStr ''complete'' then
                   (Inr (p\<lparr>sp_status := JStr ''succeeded'', sp_nextAction := Some JNull\<rparr>),
                    [ask, webhook_post en [(''payment_id'', sp_paymentId p), (''merchant_reference'', sp_merchantReference p),
                       (''provider_reference'', sp_providerReference p), (''status'', JStr ''succeeded'')]])
                 else if field d ''status'' = JStr ''expired'' then
                   (Inr (p\<lparr>sp_status := JStr ''failed'', sp_nextAction := Some JNull\<rparr>), [ask])
                 else (Inr p, [ask]))
      | _ \<Rightarrow> (Inl (TypeError ''startsWith is not a function''), []))"

definition status_record :: "sdk_payment \<Rightarrow> js_exn + props" where
  "status_record p = (case format_value (sp_amountMinorUnits p) (sp_currency p) of
     Inl e \<Rightarrow> Inl e
   | Inr formatted \<Rightarrow> Inr
       [(''payment_id'', sp_paymentId p), (''paymentId'', sp_paymentId p), (''status'', sp_status p),
        (''provider'', sp_provider p), (''amount_minor_units'', sp_amountMinorUnits p), (''amountMinorUnits'', sp_amountMinorUnits p),
        (''formatted_amount'', JStr formatted), (''formattedAmount'', JStr formatted), (''currency'', sp_currency p),
        (''merchant_reference'', sp_merchantReference p), (''provider_reference'', sp_providerReference p),
        (''providerReference'', sp_providerReference p), (''next_action'', next_action p), (''nextAction'', next_action p),
        (''sdk_backend'', JStr ''typescript'')])"

text \<open>What the gateway says of a payment: its record or the error, with the requests made for it.\<close>

definition ask_gateway :: "demo_host \<Rightarrow> demo_moment \<Rightarrow> jsv \<Rightarrow> (demo_error + props \<times> sdk_payment) \<times> demo_event list" where
  "ask_gateway h mo queryId =
     (case sdk_lookup (dh_client h) (mo_server mo) queryId of
        (Inl e, trace) \<Rightarrow> (Inl (sdk_error e), map Sdk trace)
      | (Inr p, trace) \<Rightarrow>
          (case reconcile_stripe (dh_env h) (mo_fetch mo) p of
             (Inl x, outs) \<Rightarrow> (Inl (plain_error (exn_text x)), map Sdk trace @ map Out outs)
           | (Inr p', outs) \<Rightarrow>
               ((case status_record p' of Inl x \<Rightarrow> Inl (plain_error (exn_text x)) | Inr rec \<Rightarrow> Inr (rec, p')),
                map Sdk trace @ map Out outs)))"

definition save_status :: "props \<Rightarrow> sdk_payment \<Rightarrow> demo_state \<Rightarrow> demo_state" where
  "save_status rec p st =
     (let (r, st1) = tx_new rec st;
          st2 = tx_set (sp_paymentId p) r st1;
          st3 = (if js_truthy (sp_merchantReference p) then tx_set (sp_merchantReference p) r st2 else st2)
      in if js_truthy (sp_providerReference p) then tx_set (sp_providerReference p) r st3 else st3)"

definition settled_status :: "jsv \<Rightarrow> bool" where
  "settled_status rec = (field rec ''status'' = JStr ''succeeded'' \<or> field rec ''status'' = JStr ''failed'')"

definition status_failure :: "demo_error \<Rightarrow> demo_answer" where
  "status_failure e = failure_reply 404 ''payment_not_found'' ''Failed to get payment status'' e"

definition resolve_status :: "demo_host \<Rightarrow> demo_moment \<Rightarrow> string \<Rightarrow> demo_state \<Rightarrow> demo_answer \<times> demo_state" where
  "resolve_status h mo paymentId st =
     (let cached = tx_get st (JStr paymentId);
          queryId = (case cached of None \<Rightarrow> JStr paymentId | Some r \<Rightarrow>
            jor (jor (field (record_of st r) ''payment_id'') (field (record_of st r) ''paymentId'')) (JStr paymentId))
      in if (case cached of None \<Rightarrow> False | Some r \<Rightarrow> settled_status (record_of st r))
         then (Reply 200 (record_of st (the cached)), st)
         else (case ask_gateway h mo queryId of
             (Inr (rec, p), made) \<Rightarrow> (Reply 200 (JObj rec), save_status rec p (send made st))
           | (Inl e, made) \<Rightarrow>
               (case cached of Some r \<Rightarrow> (Reply 200 (record_of st r), send made st)
                | None \<Rightarrow> (status_failure e, send made st))))"

definition payment_status :: "demo_host \<Rightarrow> demo_moment \<Rightarrow> string \<Rightarrow> demo_state \<Rightarrow> demo_answer \<times> demo_state" where
  "payment_status h mo pathname st =
     (let prefix = (if starts_with pathname ''/api/payment-status/'' then ''/api/payment-status/'' else ''/api/payment/'')
      in case dh_decode h (drop (length prefix) pathname) of
           None \<Rightarrow> (status_failure (plain_error ''URI malformed''), st)
         | Some paymentId \<Rightarrow>
             if paymentId = [] then (status_failure (plain_error ''Payment ID is required''), st)
             else resolve_status h mo paymentId st)"

section \<open>The server\<close>

definition static_asset :: "demo_host \<Rightarrow> string \<Rightarrow> string \<Rightarrow> demo_answer" where
  "static_asset h content_type file = (case dh_files h file of None \<Rightarrow> Dropped | Some s \<Rightarrow> Asset content_type s)"

definition health_reply :: "demo_host \<Rightarrow> demo_answer" where
  "health_reply h = Reply 200 (JObj
     [(''status'', JStr ''ok''), (''sdk'', JStr ''typescript''), (''runtime'', JStr (''Node.js '' @ dh_version h)),
      (''version'', JStr ''0.2.7''), (''server'', JStr ''OpenWrapper TypeScript Standalone Demo''),
      (''port'', JNum (int (digits_val (demo_port (dh_env h)))) 0), (''gateway'', JStr (demo_base_url (dh_env h)))])"

definition demo_route :: "demo_host \<Rightarrow> demo_moment \<Rightarrow> demo_request \<Rightarrow> demo_state \<Rightarrow> demo_answer \<times> demo_state" where
  "demo_route h mo q st =
     (case dh_pathname h (or_text (dq_url q) ''/'') (''http://'' @ or_else (dq_host q) ''localhost'') of
        None \<Rightarrow> (error_reply 500 ''internal_error'' ''Invalid URL'' [], st)
      | Some pathname \<Rightarrow>
          let get = (dq_method q = ''GET''); post = (dq_method q = ''POST'') in
          if dq_method q = ''OPTIONS'' then (Preflight, st)
          else if get \<and> pathname = ''/api/health'' then (health_reply h, st)
          else if get \<and> (pathname = ''/'' \<or> pathname = ''/index.html'') then
            (static_asset h ''text/html; charset=utf-8'' ''index.html'', st)
          else if get \<and> pathname = ''/style.css'' then (static_asset h ''text/css; charset=utf-8'' ''style.css'', st)
          else if get \<and> pathname = ''/app.js'' then (static_asset h ''application/javascript; charset=utf-8'' ''app.js'', st)
          else if post \<and> pathname = ''/api/simulate-settlement'' then simulate_settlement h mo q st
          else if post \<and> (pathname = ''/api/checkout'' \<or> pathname = ''/api/create-payment'') then checkout h mo q st
          else if get \<and> (starts_with pathname ''/api/payment/'' \<or> starts_with pathname ''/api/payment-status/'') then
            payment_status h mo pathname st
          else (error_reply 404 ''not_found'' (''Route not found: '' @ pathname) [], st))"

inductive demo_runs :: "demo_host \<Rightarrow> demo_state \<Rightarrow> demo_state \<Rightarrow> bool" for h where
  demo_idle: "demo_runs h st st"
| demo_request: "demo_runs h st st' \<Longrightarrow> demo_runs h st (snd (demo_route h mo q st'))"

end
