(* ===== verification/Demo_Page.thy ===== *)
theory Demo_Page
  imports Demo_Server
begin

text \<open>
  The page of the checkout demo: \<open>examples/checkout-demo/public/app.js\<close>, which orders from the demo
  servers.

  The state is what the script keeps in its variables and what it shows: input values, texts,
  hidden elements and the marked member of each group of buttons, by element identifier. The
  elements are the ones of \<open>index.html\<close>; the card fields and the gateway selector are not on the page.
  A function that waits for an answer is two steps: what it does before, with the request it
  sends, and what it does with the answer, in the state it finds then. \<open>toLocaleString\<close>,
  \<open>new URL\<close>, the random suffix of a reference and the clock are parameters. Icons, clipboard,
  scrolling, latencies and the raw JSON preview are left out.
\<close>

section \<open>The catalogue\<close>

record item =
  it_id :: string
  it_name :: string
  it_price :: nat
  it_minor :: nat
  it_currency :: string

text \<open>
  \<open>toMinorUnits\<close> of the page: \<open>parseInt\<close> reads an optional sign and the digits that follow;
  \<open>None\<close> is \<open>NaN\<close>.
\<close>

definition parse_int :: "string \<Rightarrow> int option" where
  "parse_int s =
     (let t = trim_start s; ds = takeWhile is_digit (strip_sign t) in
      if ds = [] then None
      else Some (bigint_to_number ((if starts_with t ''-'' then - 1 else 1) * int (digits_val ds))))"

definition page_toMinorUnits :: "string \<Rightarrow> nat \<Rightarrow> int option" where
  "page_toMinorUnits amount decimals =
     (let parts = split_on (CHR ''.'') (js_trim amount);
          fraction = (case tl parts of [] \<Rightarrow> [] | f # _ \<Rightarrow> f)
      in parse_int (hd parts @ take decimals (fraction @ replicate decimals (CHR ''0''))))"

text \<open>\<open>formatMajorUnits\<close> of the page, for an integer below \<open>2 ^ 53\<close>.\<close>

definition page_formatMajorUnits :: "int \<Rightarrow> nat \<Rightarrow> string" where
  "page_formatMajorUnits minorUnits decimals =
     (let abs = nat \<bar>minorUnits\<bar>; factor = 10 ^ decimals
      in (if minorUnits < 0 then ''-'' else []) @ nat_str (abs div factor) @ ''.''
           @ pad_start decimals (CHR ''0'') (nat_str (abs mod factor)))"

definition page_item :: "string \<Rightarrow> item" where
  "page_item key =
     (if key = ''starter'' then
        \<lparr>it_id = ''starter'', it_name = ''Starter Developer Tier'', it_price = 50, it_minor = 5000, it_currency = ''EGP''\<rparr>
      else if key = ''enterprise'' then
        \<lparr>it_id = ''enterprise'', it_name = ''Enterprise Gateway License'', it_price = 450, it_minor = 45000, it_currency = ''EGP''\<rparr>
      else
        \<lparr>it_id = ''pro'', it_name = ''OpenWrapper Pro License'', it_price = 150, it_minor = 15000, it_currency = ''EGP''\<rparr>)"

definition backend_name :: "string \<Rightarrow> string" where
  "backend_name key = (if key = ''php'' then ''PHP 8 SDK'' else if key = ''dotnet'' then ''.NET 8 SDK'' else ''TypeScript SDK'')"

definition backend_port :: "string \<Rightarrow> nat" where
  "backend_port key = (if key = ''php'' then 4001 else if key = ''dotnet'' then 4002 else 4000)"

section \<open>The state of the page\<close>

record page =
  pg_item :: item
  pg_method :: string
  pg_provider :: string
  pg_carrier :: string
  pg_backend :: string
  pg_tab :: string
  pg_payment :: jsv
  pg_polling :: bool
  pg_errors :: nat
  pg_theme :: string
  pg_value :: "string \<Rightarrow> string"
  pg_text :: "string \<Rightarrow> string"
  pg_hidden :: "string \<Rightarrow> bool"
  pg_active :: "string \<Rightarrow> string"
  pg_busy :: "string \<Rightarrow> bool"
  pg_alerts :: "string list"
  pg_leaving :: "string option"

record location =
  lo_protocol :: string
  lo_hostname :: string
  lo_port :: string
  lo_origin :: string

definition set_text :: "string \<Rightarrow> string \<Rightarrow> page \<Rightarrow> page" where
  "set_text k v p = p\<lparr>pg_text := (pg_text p)(k := v)\<rparr>"

definition set_value :: "string \<Rightarrow> string \<Rightarrow> page \<Rightarrow> page" where
  "set_value k v p = p\<lparr>pg_value := (pg_value p)(k := v)\<rparr>"

definition set_hidden :: "string \<Rightarrow> bool \<Rightarrow> page \<Rightarrow> page" where
  "set_hidden k b p = p\<lparr>pg_hidden := (pg_hidden p)(k := b)\<rparr>"

definition set_active :: "string \<Rightarrow> string \<Rightarrow> page \<Rightarrow> page" where
  "set_active kind k p = p\<lparr>pg_active := (pg_active p)(kind := k)\<rparr>"

definition set_busy :: "string \<Rightarrow> bool \<Rightarrow> page \<Rightarrow> page" where
  "set_busy k b p = p\<lparr>pg_busy := (pg_busy p)(k := b)\<rparr>"

definition page_alert :: "string \<Rightarrow> page \<Rightarrow> page" where
  "page_alert m p = p\<lparr>pg_alerts := pg_alerts p @ [m]\<rparr>"

section \<open>What the page shows of its state\<close>

definition amount_text :: "item \<Rightarrow> string" where
  "amount_text i = it_currency i @ '' '' @ js_to_fixed (of_nat (it_price i)) [] 2"

definition button_label :: "page \<Rightarrow> string" where
  "button_label p =
     (let amountStr = amount_text (pg_item p) in
      if pg_provider p = ''stripe'' then ''Proceed to Stripe Checkout ('' @ amountStr @ '')''
      else if pg_method p = ''wallet'' then ''Pay with '' @ js_upper (pg_carrier p) @ '' Cash ('' @ amountStr @ '')''
      else if pg_provider p = ''fawry'' then ''Generate Fawry Code ('' @ amountStr @ '')''
      else if pg_provider p = ''mock'' then ''Simulate Instant Payment ('' @ amountStr @ '')''
      else ''Proceed to Paymob 3DS ('' @ amountStr @ '')'')"

definition updateSubmitButtonLabel :: "page \<Rightarrow> page" where
  "updateSubmitButtonLabel p = set_text ''submitBtnLabel'' (button_label p) p"

definition getNormalizedPhone :: "page \<Rightarrow> string" where
  "getNormalizedPhone p =
     (let digits = filter is_digit (or_text (pg_value p ''custPhone'') ''1001234567'') in
      if starts_with digits ''20'' then CHR ''+'' # digits else ''+20'' @ digits)"

definition newline :: string where
  "newline = [char_of (10 :: nat)]"

definition preview_ts ::
  "page \<Rightarrow> string \<Rightarrow> string \<Rightarrow> string \<Rightarrow> string \<Rightarrow> string \<Rightarrow> string list" where
  "preview_ts p phone name email merchantRef metadata =
    [''// OpenWrapper TypeScript SDK (v0.2.7) - '' @ js_upper (pg_method p) @ '' Rail'',
     ''import { OpenWrapperClient, formatMajorUnits, toMinorUnits } from '' @ dquote @ ''@openwrapper/sdk'' @ dquote @ '';'',
     [],
     ''const client = new OpenWrapperClient({'',
     ''  baseUrl: process.env.OPENWRAPPER_BASE_URL || '' @ dquote @ ''https://gateway.openwrapper.muejam.com'' @ dquote @ '','',
     ''  apiKey: process.env.OPENWRAPPER_API_KEY,'',
     ''});'',
     [],
     ''// Convert decimal major currency amount to integer minor units (Invariant I1 - Zero Floating Point)'',
     ''const amountMinorUnits = toMinorUnits('' @ dquote @ nat_str (it_price (pg_item p)) @ ''.00'' @ dquote @ '', 2);'',
     [],
     ''// Create Payment'',
     ''const payment = await client.payments.create({'',
     ''  provider: '' @ dquote @ pg_provider p @ dquote @ '','',
     ''  amountMinorUnits, // '' @ it_currency (pg_item p) @ '' '' @ nat_str (it_price (pg_item p)) @ ''.00 -> '' @ nat_str (it_minor (pg_item p)) @ '' minor units'',
     ''  currency: '' @ dquote @ it_currency (pg_item p) @ dquote @ '','',
     ''  customer: {'',
     ''    phone: '' @ dquote @ phone @ dquote @ '','',
     ''    email: '' @ dquote @ email @ dquote @ '','',
     ''    fullName: '' @ dquote @ name @ dquote @ '','',
     ''  },'',
     ''  merchantReference: '' @ dquote @ merchantRef @ dquote @ '','',
     ''  description: '' @ dquote @ it_name (pg_item p) @ dquote @ metadata,
     ''}, {'',
     ''  idempotencyKey: '' @ dquote @ merchantRef @ dquote @ '','',
     ''});'',
     [],
     ''// Format discrete integer minor units back to human display string (e.g. '' @ dquote @ ''150.00'' @ dquote @ '')'',
     ''const displayAmount = formatMajorUnits(payment.amountMinorUnits, 2);'',
     ''console.log(`Payment created: ${payment.currency} ${displayAmount} [${payment.status}]`);'',
     [],
     ''if (payment.nextAction?.type === '' @ dquote @ ''redirect_to_url'' @ dquote @ '') {'',
     ''  console.log('' @ dquote @ ''Hosted Checkout URL:'' @ dquote @ '', payment.nextAction.url);'',
     ''} else if (payment.nextAction?.type === '' @ dquote @ ''pay_at_reference'' @ dquote @ '') {'',
     ''  console.log('' @ dquote @ ''Fawry Kiosk Code:'' @ dquote @ '', payment.nextAction.reference);'',
     ''}'']"

definition preview_php ::
  "page \<Rightarrow> string \<Rightarrow> string \<Rightarrow> string \<Rightarrow> string \<Rightarrow> string \<Rightarrow> string list" where
  "preview_php p phone name email merchantRef metadata =
    [''<?php'',
     ''// OpenWrapper PHP 8.x SDK (v0.2.7) - '' @ js_upper (pg_method p) @ '' Rail'',
     ''use OpenWrapper'' @ [CHR 0x5C] @ ''OpenWrapperClient;'',
     ''use OpenWrapper'' @ [CHR 0x5C] @ ''CreatePaymentParams;'',
     ''use OpenWrapper'' @ [CHR 0x5C] @ ''CustomerDetails;'',
     ''use OpenWrapper'' @ [CHR 0x5C] @ ''Money;'',
     [],
     ''$client = new OpenWrapperClient('',
     ''    baseUrl: getenv('' @ [CHR 0x27] @ ''OPENWRAPPER_BASE_URL'' @ [CHR 0x27] @ '') ?: '' @ [CHR 0x27] @ ''https://gateway.openwrapper.muejam.com'' @ [CHR 0x27] @ '','',
     ''    apiKey: getenv('' @ [CHR 0x27] @ ''OPENWRAPPER_API_KEY'' @ [CHR 0x27] @ '') ?: null,'',
     '');'',
     [],
     ''// Convert decimal major currency amount to integer minor units (Invariant I1 - Zero Floating Point)'',
     ''$amountMinorUnits = Money::toMinorUnits('' @ dquote @ nat_str (it_price (pg_item p)) @ ''.00'' @ dquote @ '');'',
     [],
     ''// Create Payment'',
     ''$payment = $client->createPayment(new CreatePaymentParams('',
     ''    provider: '' @ [CHR 0x27] @ pg_provider p @ [CHR 0x27] @ '','',
     ''    amountMinorUnits: $amountMinorUnits, // '' @ it_currency (pg_item p) @ '' '' @ nat_str (it_price (pg_item p)) @ ''.00 -> '' @ nat_str (it_minor (pg_item p)) @ '' minor units'',
     ''    currency: '' @ [CHR 0x27] @ it_currency (pg_item p) @ [CHR 0x27] @ '','',
     ''    customer: new CustomerDetails('',
     ''        phone: '' @ [CHR 0x27] @ phone @ [CHR 0x27] @ '','',
     ''        email: '' @ [CHR 0x27] @ email @ [CHR 0x27] @ '','',
     ''        fullName: '' @ [CHR 0x27] @ name @ [CHR 0x27],
     ''    ),'',
     ''    merchantReference: '' @ [CHR 0x27] @ merchantRef @ [CHR 0x27] @ '','',
     ''    description: '' @ [CHR 0x27] @ it_name (pg_item p) @ [CHR 0x27] @ metadata,
     ''), idempotencyKey: '' @ [CHR 0x27] @ merchantRef @ [CHR 0x27] @ '');'',
     [],
     ''$formattedAmount = Money::formatMajorUnits($payment->amountMinorUnits);'',
     ''echo '' @ dquote @ ''Payment created: {$payment->currency} {$formattedAmount} [{$payment->status->value}]'' @ dquote @ '' . PHP_EOL;'',
     [],
     ''if ($payment->nextAction instanceof '' @ [CHR 0x5C] @ ''OpenWrapper'' @ [CHR 0x5C] @ ''RedirectToUrl) {'',
     ''    echo '' @ dquote @ ''Hosted Checkout URL: {$payment->nextAction->url}'' @ dquote @ '' . PHP_EOL;'',
     ''} elseif ($payment->nextAction instanceof '' @ [CHR 0x5C] @ ''OpenWrapper'' @ [CHR 0x5C] @ ''PayAtReference) {'',
     ''    echo '' @ dquote @ ''Fawry Kiosk Code: {$payment->nextAction->reference}'' @ dquote @ '' . PHP_EOL;'',
     ''}'']"

definition preview_dotnet ::
  "page \<Rightarrow> string \<Rightarrow> string \<Rightarrow> string \<Rightarrow> string \<Rightarrow> string \<Rightarrow> string list" where
  "preview_dotnet p phone name email merchantRef metadata =
    [''// OpenWrapper .NET 8 / C# SDK (v0.2.7) - '' @ js_upper (pg_method p) @ '' Rail'',
     ''using OpenWrapper;'',
     ''using OpenWrapper.Models;'',
     [],
     ''await using var client = new OpenWrapperClient(new OpenWrapperClientOptions'',
     ''{'',
     ''    BaseUrl = Environment.GetEnvironmentVariable('' @ dquote @ ''OPENWRAPPER_BASE_URL'' @ dquote @ '') ?? '' @ dquote @ ''https://gateway.openwrapper.muejam.com'' @ dquote @ '','',
     ''    ApiKey = Environment.GetEnvironmentVariable('' @ dquote @ ''OPENWRAPPER_API_KEY'' @ dquote @ ''),'',
     ''});'',
     [],
     ''// Convert decimal major currency amount to integer minor units (Invariant I1 - Zero Floating Point)'',
     ''long amountMinorUnits = Money.ToMinorUnits('' @ nat_str (it_price (pg_item p)) @ ''.00m);'',
     [],
     ''// Create Payment'',
     ''var payment = await client.Payments.CreateAsync(new CreatePaymentParams'',
     ''{'',
     ''    Provider = '' @ dquote @ pg_provider p @ dquote @ '','',
     ''    AmountMinorUnits = amountMinorUnits, // '' @ it_currency (pg_item p) @ '' '' @ nat_str (it_price (pg_item p)) @ ''.00 -> '' @ nat_str (it_minor (pg_item p)) @ '' minor units'',
     ''    Currency = '' @ dquote @ it_currency (pg_item p) @ dquote @ '','',
     ''    Customer = new CustomerDetails'',
     ''    {'',
     ''        Phone = '' @ dquote @ phone @ dquote @ '','',
     ''        Email = '' @ dquote @ email @ dquote @ '','',
     ''        FullName = '' @ dquote @ name @ dquote @ '','',
     ''    },'',
     ''    MerchantReference = '' @ dquote @ merchantRef @ dquote @ '','',
     ''    Description = '' @ dquote @ it_name (pg_item p) @ dquote @ metadata,
     ''}, new RequestOptions { IdempotencyKey = '' @ dquote @ merchantRef @ dquote @ '' });'',
     [],
     ''var formattedAmount = Money.FormatMajorUnits(payment.AmountMinorUnits);'',
     ''Console.WriteLine($'' @ dquote @ ''Payment created: {payment.Currency} {formattedAmount} [{payment.Status}]'' @ dquote @ '');'',
     [],
     ''if (payment.NextAction?.Type == '' @ dquote @ ''redirect_to_url'' @ dquote @ '')'',
     ''    Console.WriteLine($'' @ dquote @ ''Hosted Checkout URL: {payment.NextAction.Url}'' @ dquote @ '');'',
     ''else if (payment.NextAction?.Type == '' @ dquote @ ''pay_at_reference'' @ dquote @ '')'',
     ''    Console.WriteLine($'' @ dquote @ ''Fawry Kiosk Code: {payment.NextAction.Reference}'' @ dquote @ '');'']"
definition wallet_metadata :: "page \<Rightarrow> string" where
  "wallet_metadata p =
     (if pg_method p \<noteq> ''wallet'' then []
      else if pg_tab p = ''php'' then js_join newline
        ['','', ''        metadata: ['' @ [CHR 0x27] @ ''payment_method'' @ [CHR 0x27] @ '' => '' @ [CHR 0x27] @ ''wallet'' @ [CHR 0x27]
           @ '', '' @ [CHR 0x27] @ ''carrier'' @ [CHR 0x27] @ '' => '' @ [CHR 0x27] @ pg_carrier p @ [CHR 0x27] @ '']'']
      else if pg_tab p = ''dotnet'' then js_join newline
        ['','', ''    Metadata = new Dictionary<string, string>'', ''    {'',
         ''        ['' @ dquote @ ''payment_method'' @ dquote @ ''] = '' @ dquote @ ''wallet'' @ dquote @ '','',
         ''        ['' @ dquote @ ''carrier'' @ dquote @ ''] = '' @ dquote @ pg_carrier p @ dquote @ '','', ''    }'']
      else js_join newline
        ['','', ''    metadata: {'', ''      payment_method: '' @ dquote @ ''wallet'' @ dquote @ '','',
         ''      carrier: '' @ dquote @ pg_carrier p @ dquote @ '','', ''    }''])"

definition code_preview :: "page \<Rightarrow> string" where
  "code_preview p =
     (let phone = getNormalizedPhone p;
          name = or_text (pg_value p ''custName'') ''Ahmed Ali'';
          email = or_text (pg_value p ''custEmail'') ''customer@example.com'';
          merchantRef = or_text (pg_value p ''merchantRef'') ''ord_demo_1001'';
          metadata = wallet_metadata p
      in js_join newline
           (if pg_tab p = ''php'' then preview_php p phone name email merchantRef metadata
            else if pg_tab p = ''dotnet'' then preview_dotnet p phone name email merchantRef metadata
            else preview_ts p phone name email merchantRef metadata))"

definition updateCodePreview :: "page \<Rightarrow> page" where
  "updateCodePreview p = set_text ''sdkCodePreview'' (code_preview p) p"

section \<open>Choices of the buyer\<close>

definition applyTheme :: "string \<Rightarrow> page \<Rightarrow> page" where
  "applyTheme theme p = p\<lparr>pg_theme := theme\<rparr>"

definition toggleTheme :: "page \<Rightarrow> page" where
  "toggleTheme p = applyTheme (if pg_theme p = ''dark'' then ''light'' else ''dark'') p"

definition initTheme :: "string option \<Rightarrow> page \<Rightarrow> page" where
  "initTheme saved p = applyTheme (or_else saved ''dark'') p"

definition selectProduct :: "(nat \<Rightarrow> string) \<Rightarrow> string \<Rightarrow> page \<Rightarrow> page" where
  "selectProduct locale_number key p =
     (let i = page_item key;
          p1 = set_active ''plan'' (''prod-'' @ key) (p\<lparr>pg_item := i\<rparr>);
          p2 = set_text ''headerPriceDisplay'' (amount_text i) p1;
          p3 = set_text ''headerPlanName'' (it_name i) p2;
          p4 = set_text ''summaryPlanName'' (it_name i) p3;
          p5 = set_text ''summarySubtotal'' (amount_text i) p4;
          p6 = set_text ''summaryTotal'' (amount_text i) p5;
          p7 = set_text ''summaryMinorUnits'' (locale_number (it_minor i) @ '' integer minor units'') p6
      in updateCodePreview (updateSubmitButtonLabel p7))"

definition provider_of_method :: "string \<Rightarrow> string" where
  "provider_of_method m = (if m = ''fawry'' then ''fawry'' else if m = ''stripe'' then ''stripe''
     else if m = ''mock'' then ''mock'' else ''paymob'')"

definition method_sections :: "(string \<times> string) list" where
  "method_sections = [(''sectionCards'', ''cards''), (''sectionWallet'', ''wallet''), (''sectionFawryNotice'', ''fawry''),
     (''sectionStripeNotice'', ''stripe''), (''sectionMockNotice'', ''mock'')]"

definition selectPaymentMethod :: "string \<Rightarrow> page \<Rightarrow> page" where
  "selectPaymentMethod m p =
     (let p1 = set_active ''method'' (''btn-method-'' @ m) (p\<lparr>pg_method := m\<rparr>);
          p2 = foldl (\<lambda>q (s, k). set_hidden s (m \<noteq> k) q) p1 method_sections
      in updateCodePreview (updateSubmitButtonLabel (p2\<lparr>pg_provider := provider_of_method m\<rparr>)))"

definition selectWalletCarrier :: "string \<Rightarrow> page \<Rightarrow> page" where
  "selectWalletCarrier carrier p =
     (let p1 = set_active ''carrier'' (''carrier-'' @ carrier) (p\<lparr>pg_carrier := carrier\<rparr>);
          p2 = (if carrier = ''vodafone'' then set_value ''custPhone'' ''1010000000'' p1
                else if carrier = ''orange'' then set_value ''custPhone'' ''1210000000'' p1
                else if carrier = ''etisalat'' then set_value ''custPhone'' ''1110000000'' p1
                else if carrier = ''we'' then set_value ''custPhone'' ''1510000000'' p1
                else p1)
      in updateCodePreview (updateSubmitButtonLabel p2))"

text \<open>\<open>phone.replace(/^\+?20?/, "")\<close>.\<close>

definition drop_country :: "string \<Rightarrow> string" where
  "drop_country s =
     (let r = (if starts_with s ''+'' then tl s else s) in
      if starts_with r ''20'' then drop 2 r else if starts_with r ''2'' then drop 1 r else s)"

definition setCustomerValues :: "string \<Rightarrow> string \<Rightarrow> page \<Rightarrow> page" where
  "setCustomerValues name phone p =
     updateCodePreview (updateSubmitButtonLabel (set_value ''custPhone'' (drop_country phone) (set_value ''custName'' name p)))"

definition showTestDataNotice :: "string \<Rightarrow> page \<Rightarrow> page" where
  "showTestDataNotice msg p = set_hidden ''testDataNotice'' False (set_text ''testDataNoticeText'' msg p)"

definition applyTestData :: "string \<Rightarrow> page \<Rightarrow> page" where
  "applyTestData key p =
     (if key = ''paymob_card'' then
        showTestDataNotice ''Copied Paymob 3DS test card (5123 4500...) to clipboard! (Exp: 12/28, CVV: 123)''
          (setCustomerValues ''Ahmed Ali'' ''1001234567'' ((selectPaymentMethod ''cards'' p)\<lparr>pg_provider := ''paymob''\<rparr>))
      else if key = ''meeza_card'' then
        showTestDataNotice ''Copied Meeza card (5078 0300...) to clipboard! (Exp: 12/28, CVV: 123)''
          (setCustomerValues ''Ahmed Ali'' ''1001234567'' ((selectPaymentMethod ''cards'' p)\<lparr>pg_provider := ''paymob''\<rparr>))
      else if key = ''stripe_card'' then
        showTestDataNotice ''Copied Stripe test card (4242 4242...) to clipboard! (Exp: 12/28, CVV: 123)''
          (setCustomerValues ''Ahmed Ali'' ''1001234567'' ((selectPaymentMethod ''stripe'' p)\<lparr>pg_provider := ''stripe''\<rparr>))
      else if key = ''vodafone_cash'' then
        showTestDataNotice ''Loaded Vodafone Cash test mobile (+201010000000)''
          (setCustomerValues ''Ahmed Ali'' ''1010000000'' (selectWalletCarrier ''vodafone'' (selectPaymentMethod ''wallet'' p)))
      else if key = ''fawry_pos'' then
        showTestDataNotice ''Fawry retail kiosk payment selected''
          (setCustomerValues ''Ahmed Ali'' ''1001234567'' (selectPaymentMethod ''fawry'' p))
      else if key = ''mock_rail'' then
        showTestDataNotice ''Instant offline mock rail selected''
          (setCustomerValues ''Deterministic Tester'' ''1001234567'' (selectPaymentMethod ''mock'' p))
      else p)"

definition selectSdkTab :: "string \<Rightarrow> page \<Rightarrow> page" where
  "selectSdkTab tab p = updateCodePreview (set_active ''tab'' (''tab-'' @ tab) (p\<lparr>pg_tab := tab\<rparr>))"

definition detectInitialBackend :: "location \<Rightarrow> page \<Rightarrow> page" where
  "detectInitialBackend l p =
     (let key = (if lo_port l = ''4001'' then ''php'' else if lo_port l = ''4002'' then ''dotnet'' else ''typescript'')
      in p\<lparr>pg_backend := key, pg_tab := key\<rparr>)"

definition getBackendBaseUrl :: "location \<Rightarrow> string \<Rightarrow> string" where
  "getBackendBaseUrl l key =
     (let port = nat_str (backend_port key) in
      if lo_port l = port then lo_origin l
      else lo_protocol l @ ''//'' @ or_text (lo_hostname l) ''localhost'' @ '':'' @ port)"

definition switchBackend :: "string \<Rightarrow> nat \<Rightarrow> page \<Rightarrow> page" where
  "switchBackend key port p =
     (let p1 = set_active ''backend'' (''btn-backend-'' @ (if key = ''typescript'' then ''ts'' else key)) (p\<lparr>pg_backend := key\<rparr>);
          p2 = set_text ''summaryBackend'' (backend_name key @ '' (:'' @ nat_str port @ '')'') p1
      in updateSubmitButtonLabel (selectSdkTab key p2))"

definition regenerateOrderRef :: "string \<Rightarrow> page \<Rightarrow> page" where
  "regenerateOrderRef suffix p =
     updateCodePreview (set_value ''merchantRef'' (''ord_'' @ pg_backend p @ ''_'' @ suffix) p)"

text \<open>Typing into an input: every input of the form has the preview as its listener.\<close>

definition typed :: "string \<Rightarrow> string \<Rightarrow> page \<Rightarrow> page" where
  "typed k v p = updateCodePreview (set_value k v p)"

section \<open>Card fields\<close>

text \<open>The digits in groups of four.\<close>

function group4 :: "string \<Rightarrow> string list" where
  "group4 s = (if length s \<le> 4 then [s] else take 4 s # group4 (drop 4 s))"
  by pat_completeness auto

termination by (relation "measure length") auto

declare group4.simps [simp del]

definition formatCardNumber :: "string \<Rightarrow> string" where
  "formatCardNumber value = js_join '' '' (group4 (take 16 (filter is_digit value)))"

definition card_brand :: "string \<Rightarrow> string" where
  "card_brand digits = (if starts_with digits ''4'' then ''VISA''
     else if starts_with digits ''5078'' \<or> starts_with digits ''50'' then ''MEEZA''
     else if starts_with digits ''5'' then ''MASTERCARD'' else ''CARD'')"

definition formatExpiry :: "string \<Rightarrow> string" where
  "formatExpiry value =
     (let v = take 4 (filter is_digit value) in if 3 \<le> length v then take 2 v @ '' / '' @ drop 2 v else v)"

section \<open>Ordering\<close>

datatype page_answer = NoAnswer string | Got nat "jsv option"

definition json_post :: "string \<Rightarrow> jsv \<Rightarrow> outgoing" where
  "json_post url body = \<lparr>ou_method = ''POST'', ou_url = url, ou_headers = [(''Content-Type'', ''application/json'')],
     ou_body = js_stringify body\<rparr>"

definition page_reference :: "string \<Rightarrow> page \<Rightarrow> string" where
  "page_reference now p = or_text (pg_value p ''merchantRef'') (''ord_'' @ now)"

definition page_order :: "string \<Rightarrow> page \<Rightarrow> jsv" where
  "page_order now p =
     (let i = pg_item p; m = JStr (pg_method p); c = JStr (pg_carrier p); n = JNum (int (it_minor i)) 0;
          r = JStr (page_reference now p); name = JStr (or_text (pg_value p ''custName'') ''Ahmed Ali'')
      in JObj
        [(''product_id'', JStr (it_id i)), (''productId'', JStr (it_id i)), (''provider'', JStr (pg_provider p)),
         (''payment_method'', m), (''paymentMethod'', m), (''wallet_carrier'', c), (''walletCarrier'', c),
         (''amount_minor_units'', n), (''amountMinorUnits'', n), (''currency'', JStr (it_currency i)),
         (''merchant_reference'', r), (''merchantReference'', r),
         (''customer'', JObj [(''phone'', JStr (getNormalizedPhone p)),
            (''email'', JStr (or_text (pg_value p ''custEmail'') ''customer@example.com'')), (''name'', name), (''fullName'', name)])])"

definition handleCheckout :: "location \<Rightarrow> string \<Rightarrow> page \<Rightarrow> page \<times> outgoing list" where
  "handleCheckout l now p =
     (set_hidden ''btnSpinner'' False (set_busy ''submitBtn'' True p),
      [json_post (getBackendBaseUrl l (pg_backend p) @ ''/api/checkout'') (page_order now p)])"

definition updateStatusBadge :: "string \<Rightarrow> page \<Rightarrow> page" where
  "updateStatusBadge status p =
     (let norm = js_upper status in
      set_active ''resStatus'' (if norm = ''SUCCEEDED'' then ''status-succeeded''
          else if norm = ''FAILED'' \<or> norm = ''CANCELLED'' then ''status-failed'' else ''status-pending'')
        (set_text ''resStatus'' norm p))"

definition showRedirectModal :: "string \<Rightarrow> string \<Rightarrow> page \<Rightarrow> page" where
  "showRedirectModal provider url p =
     (let stripe = (provider = ''stripe'');
          p1 = set_text ''redirectModalTitle'' (''Redirecting to ''
                 @ (if stripe then ''Stripe Checkout'' else ''Paymob 3DS Gateway'') @ ''...'') p;
          p2 = set_text ''redirectModalSubtitle'' (if stripe
                 then ''Opening Stripe Checkout with Apple Pay / Google Pay and prefilled contact details. Please wait...''
                 else ''Opening Paymob'' @ [CHR 0x27] @ ''s secure card & Meeza 3DS verification portal. Please wait...'') p1
      in set_hidden ''redirectModal'' False (set_text ''redirectModalBtn'' url p2))"

definition text_content :: "jsv \<Rightarrow> string" where
  "text_content v = (if v = JNull \<or> v = JUndef then [] else js_String v)"

text \<open>\<open>data.error?.message || data.error || fallback\<close>.\<close>

definition error_text :: "jsv \<Rightarrow> jsv \<Rightarrow> string" where
  "error_text d fallback = js_String (jor (jor (field (field d ''error'') ''message'') (field d ''error'')) fallback)"

text \<open>The next action is shown: the page afterwards, or the error that stops it.\<close>

definition show_next_action :: "url_parser \<Rightarrow> string \<Rightarrow> jsv \<Rightarrow> page \<Rightarrow> string + page" where
  "show_next_action parse_url status action p =
     (let t = field action ''type''; url = field action ''url''; code = field action ''reference'' in
      if t = JStr ''redirect_to_url'' \<and> js_truthy url then
        (case parse_url (js_String url) of
           None \<Rightarrow> Inl ''Invalid URL''
         | Some u \<Rightarrow>
             if u_protocol u \<notin> {''http:'', ''https:''} then Inl ''Gateway returned an unsafe redirect URL''
             else Inr ((showRedirectModal (pg_provider p) (u_href u)
                 (set_text ''redirectLink'' (u_href u) (set_hidden ''urlSection'' False p)))\<lparr>pg_leaving := Some (u_href u)\<rparr>))
      else if t = JStr ''pay_at_reference'' \<and> js_truthy code then
        Inr (set_text ''fawryCode'' (text_content code) (set_hidden ''fawrySection'' False p))
      else if status = ''UNKNOWN'' \<or> \<not> js_truthy action then Inr (set_hidden ''unknownAlert'' False p)
      else Inr p)"

definition checkout_error :: "string \<Rightarrow> page \<Rightarrow> page" where
  "checkout_error msg p = page_alert (''Payment Creation Failed ('' @ js_upper (pg_backend p) @ '' backend):'' @ newline @ msg) p"

definition checkout_accepted :: "url_parser \<Rightarrow> jsv \<Rightarrow> page \<Rightarrow> page" where
  "checkout_accepted parse_url d p =
     (if d = JNull then checkout_error ''Cannot read properties of null'' p
      else
        let payment = jor (field d ''payment_id'') (field d ''paymentId''); p1 = p\<lparr>pg_payment := payment\<rparr> in
        case jor (field d ''status'') (JStr ''pending'') of
          JStr s \<Rightarrow>
            let p2 = updateStatusBadge (js_upper s) (set_text ''resPaymentId'' (text_content payment) p1);
                p3 = set_hidden ''unknownAlert'' True (set_hidden ''fawrySection'' True (set_hidden ''urlSection'' True p2))
            in (case show_next_action parse_url (js_upper s) (jor (field d ''next_action'') (field d ''nextAction'')) p3 of
                  Inl msg \<Rightarrow> checkout_error msg p3
                | Inr q \<Rightarrow> (set_hidden ''resultCard'' False q)\<lparr>pg_polling := True\<rparr>)
        | _ \<Rightarrow> checkout_error ''toUpperCase is not a function'' p1)"

definition checkout_answered :: "url_parser \<Rightarrow> page_answer \<Rightarrow> page \<Rightarrow> page" where
  "checkout_answered parse_url a p =
     set_hidden ''btnSpinner'' True (set_busy ''submitBtn'' False
       (case a of
          NoAnswer m \<Rightarrow> checkout_error m p
        | Got status None \<Rightarrow> checkout_error ''Unexpected token in JSON'' p
        | Got status (Some d) \<Rightarrow>
            if 200 \<le> status \<and> status \<le> 299 then checkout_accepted parse_url d p
            else if d = JNull then checkout_error ''Cannot read properties of null'' p
            else checkout_error (error_text d (JStr (''HTTP '' @ nat_str status @ '' error''))) p))"

section \<open>Settling and polling\<close>

definition simulateSettlement :: "location \<Rightarrow> page \<Rightarrow> page \<times> outgoing list" where
  "simulateSettlement l p =
     (if \<not> js_truthy (pg_payment p) then (p, [])
      else (set_busy ''btnSimulateSettlement'' True p,
        [json_post (getBackendBaseUrl l (pg_backend p) @ ''/api/simulate-settlement'')
           (JObj [(''payment_id'', pg_payment p), (''paymentId'', pg_payment p), (''status'', JStr ''succeeded'')])]))"

definition settlement_answered :: "page_answer \<Rightarrow> page \<Rightarrow> page" where
  "settlement_answered a p =
     (let failed = (\<lambda>m. page_alert (''Settlement Simulation Error:'' @ newline @ m) p) in
      set_busy ''btnSimulateSettlement'' False
       (case a of
          NoAnswer m \<Rightarrow> failed m
        | Got status None \<Rightarrow> failed ''Unexpected token in JSON''
        | Got status (Some d) \<Rightarrow>
            if 200 \<le> status \<and> status \<le> 299 then
              (set_text ''pollingIndicator'' ''Settled via Webhook Simulator''
                (set_hidden ''settledAlert'' False (updateStatusBadge ''SUCCEEDED'' p)))\<lparr>pg_polling := False\<rparr>
            else if d = JNull then failed ''Cannot read properties of null''
            else page_alert (''Simulation failed: '' @ error_text d (field d ''error'')) p))"

definition checkPaymentStatus :: "location \<Rightarrow> page \<Rightarrow> page \<times> outgoing list" where
  "checkPaymentStatus l p =
     (p, if \<not> js_truthy (pg_payment p) then []
         else [\<lparr>ou_method = ''GET'', ou_url = getBackendBaseUrl l (pg_backend p) @ ''/api/payment-status/''
             @ encodeURIComponent (js_String (pg_payment p)), ou_headers = [], ou_body = None\<rparr>])"

definition poll_failed :: "page \<Rightarrow> page" where
  "poll_failed p =
     (let n = pg_errors p + 1; q = p\<lparr>pg_errors := n\<rparr> in
      if 5 \<le> n then set_text ''pollingIndicator'' (''Polling paused ('' @ backend_name (pg_backend p) @ '' server offline)'')
          (q\<lparr>pg_polling := False\<rparr>)
      else q)"

definition poll_answered :: "page_answer \<Rightarrow> page \<Rightarrow> page" where
  "poll_answered a p =
     (case a of
        NoAnswer m \<Rightarrow> poll_failed p
      | Got status None \<Rightarrow> poll_failed p
      | Got status (Some d) \<Rightarrow>
          let q = p\<lparr>pg_errors := 0\<rparr> in
          if \<not> (200 \<le> status \<and> status \<le> 299) then q
          else if d = JNull then poll_failed q
          else case field d ''status'' of
            JStr s \<Rightarrow>
              if s = [] then q
              else let q1 = updateStatusBadge s q in
                if js_lower s = ''succeeded'' then (set_hidden ''settledAlert'' False q1)\<lparr>pg_polling := False\<rparr>
                else if js_lower s = ''failed'' then q1\<lparr>pg_polling := False\<rparr>
                else q1
          | v \<Rightarrow> if js_truthy v then poll_failed q else q)"

section \<open>Loading the page\<close>

definition health_answered :: "string \<Rightarrow> page_answer \<Rightarrow> page \<Rightarrow> page" where
  "health_answered key a p =
     (let dot = ''dot-'' @ (if key = ''typescript'' then ''ts'' else key) in
      case a of
        NoAnswer m \<Rightarrow> set_active dot ''size-2 rounded-full bg-[#d1d5db]'' p
      | Got status body \<Rightarrow> if 200 \<le> status \<and> status \<le> 299 then set_active dot ''size-2 rounded-full bg-[#10b981]'' p else p)"

definition dismissReturnBanner :: "page \<Rightarrow> page" where
  "dismissReturnBanner p = set_hidden ''returnSuccessBanner'' True p"

text \<open>Back from a provider: \<open>session_id\<close>, \<open>status\<close> and \<open>payment_id\<close> of the query.\<close>

definition checkReturnRedirect :: "location \<Rightarrow> string option \<Rightarrow> string option \<Rightarrow> string option \<Rightarrow> page \<Rightarrow> page \<times> outgoing list" where
  "checkReturnRedirect l sessionId status paymentId p =
     (if status = Some ''success'' \<or> truthy sessionId then
        let p1 = set_text ''returnSuccessSession'' (if truthy sessionId then ''Session: '' @ the sessionId else [])
              (set_text ''returnSuccessRef'' (if truthy paymentId then ''Reference: '' @ the paymentId else ''Status: Payment Succeeded'')
                (set_hidden ''returnSuccessBanner'' False p))
        in if truthy paymentId then checkPaymentStatus l (p1\<lparr>pg_payment := JStr (the paymentId)\<rparr>) else (p1, [])
      else (p, []))"

definition hidden_at_first :: "string list" where
  "hidden_at_first = [''returnSuccessBanner'', ''testDataNotice'', ''sectionWallet'', ''sectionFawryNotice'',
     ''sectionStripeNotice'', ''sectionMockNotice'', ''btnSpinner'', ''resultCard'', ''settledAlert'', ''unknownAlert'',
     ''urlSection'', ''fawrySection'', ''redirectModal'']"

definition page_markup :: page where
  "page_markup = \<lparr>pg_item = page_item ''pro'', pg_method = ''cards'', pg_provider = ''paymob'', pg_carrier = ''vodafone'',
     pg_backend = ''typescript'', pg_tab = ''typescript'', pg_payment = JNull, pg_polling = False, pg_errors = 0,
     pg_theme = ''dark'',
     pg_value = (\<lambda>_. [])(''custName'' := ''Ahmed Ali'', ''custPhone'' := ''1001234567'', ''custEmail'' := ''customer@example.com'',
        ''merchantRef'' := ''ord_demo_1001''),
     pg_text = (\<lambda>_. []), pg_hidden = (\<lambda>k. k \<in> set hidden_at_first), pg_active = (\<lambda>_. []), pg_busy = (\<lambda>_. False),
     pg_alerts = [], pg_leaving = None\<rparr>"

definition page_loaded :: "(nat \<Rightarrow> string) \<Rightarrow> location \<Rightarrow> string option \<Rightarrow> string \<Rightarrow> page" where
  "page_loaded locale_number l saved suffix =
     (let p1 = regenerateOrderRef suffix (detectInitialBackend l (initTheme saved page_markup));
          p2 = selectPaymentMethod ''cards'' (selectProduct locale_number ''pro'' p1)
      in switchBackend (pg_backend p2) (backend_port (pg_backend p2)) p2)"

section \<open>Events\<close>

text \<open>The handlers of the markup with their arguments, timers, and answers in any order.\<close>

datatype page_event =
    SelectProduct string | SelectMethod string | SelectCarrier string | TestData string | SelectTab string
  | SwitchBackend string nat | NewReference string | Typed string string | ToggleTheme
  | Submit string | CheckoutAnswered page_answer | Settle | SettleAnswered page_answer
  | Poll | PollAnswered page_answer | HealthAnswered string page_answer
  | Returned "string option" "string option" "string option" | DismissBanner | NoticeExpired

fun page_step :: "(nat \<Rightarrow> string) \<Rightarrow> url_parser \<Rightarrow> location \<Rightarrow> page_event \<Rightarrow> page \<Rightarrow> page \<times> outgoing list" where
  "page_step loc parse l (SelectProduct k) p = (selectProduct loc k p, [])"
| "page_step loc parse l (SelectMethod m) p = (selectPaymentMethod m p, [])"
| "page_step loc parse l (SelectCarrier c) p = (selectWalletCarrier c p, [])"
| "page_step loc parse l (TestData k) p = (applyTestData k p, [])"
| "page_step loc parse l (SelectTab t) p = (selectSdkTab t p, [])"
| "page_step loc parse l (SwitchBackend k n) p = (switchBackend k n p, [])"
| "page_step loc parse l (NewReference s) p = (regenerateOrderRef s p, [])"
| "page_step loc parse l (Typed k v) p = (typed k v p, [])"
| "page_step loc parse l ToggleTheme p = (toggleTheme p, [])"
| "page_step loc parse l (Submit now) p = handleCheckout l now p"
| "page_step loc parse l (CheckoutAnswered a) p = (checkout_answered parse a p, [])"
| "page_step loc parse l Settle p = simulateSettlement l p"
| "page_step loc parse l (SettleAnswered a) p = (settlement_answered a p, [])"
| "page_step loc parse l Poll p = checkPaymentStatus l p"
| "page_step loc parse l (PollAnswered a) p = (poll_answered a p, [])"
| "page_step loc parse l (HealthAnswered k a) p = (health_answered k a p, [])"
| "page_step loc parse l (Returned s t i) p = checkReturnRedirect l s t i p"
| "page_step loc parse l DismissBanner p = (dismissReturnBanner p, [])"
| "page_step loc parse l NoticeExpired p = (set_hidden ''testDataNotice'' True p, [])"

fun page_run :: "(nat \<Rightarrow> string) \<Rightarrow> url_parser \<Rightarrow> location \<Rightarrow> page_event list \<Rightarrow> page \<Rightarrow> page" where
  "page_run loc parse l [] p = p"
| "page_run loc parse l (e # es) p = page_run loc parse l es (fst (page_step loc parse l e p))"

end
