(* ===== verification/Demo_Facts.thy ===== *)
theory Demo_Facts
  imports Demo_Server
begin

text \<open>
  Facts about the demo merchant server of \<open>Demo_Server\<close>: what it accepts, what an order becomes,
  and its transaction store. A stored object only ever changes its status to succeeded and its
  time of settlement, and one object answers under all its references.
\<close>

section \<open>Configuration\<close>

lemma fixed_whole:
  assumes "n < 1000000"
  shows "js_to_fixed (of_nat n) t 2 = major_text False (n * 100) 2"
proof -
  have fl: "\<lfloor>\<bar>rat_of_nat n\<bar> * 10 ^ 2 + 1 / 2\<rfloor> = int (n * 100)" by (rule floor_unique) simp_all
  have "\<bar>rat_of_nat n\<bar> < 10 ^ 21" using assms by simp
  then show ?thesis using js_to_fixed_text[of "of_nat n" t 2] fl by (simp only: nat_int) simp
qed

lemma toMinorUnits_whole:
  assumes "n < 1000000"
  shows "toMinorUnits (ANumber (of_nat n) t) 2 = Inr (int (n * 100))"
proof -
  note fixed_whole[OF assms, of t]
  then have "toMinorUnits (ANumber (of_nat n) t) 2 = Inr (bigint_to_number (if False then - int (n * 100) else int (n * 100)))"
    by (intro toMinorUnits_text) (simp only: js_amount.case)
  moreover have "bigint_to_number (int (n * 100)) = int (n * 100)"
    using assms by (intro bigint_to_number_exact) simp
  ultimately show ?thesis by simp
qed

text \<open>The literals of \<open>products\<close> are what the source computes.\<close>

lemma catalogue_prices:
  assumes "(n, m) \<in> {(50, 5000), (150, 15000), (450, 45000)}"
  shows "toMinorUnits (ANumber (of_nat n) (nat_str n)) (demo_decimals (JStr ''EGP'')) = Inr m"
proof -
  have "demo_decimals (JStr ''EGP'') = 2" by code_simp
  then show ?thesis using assms toMinorUnits_whole[of n] by auto
qed

lemma load_line_keeps: "truthy (en k) \<Longrightarrow> load_line en line k = en k"
  by (auto simp: load_line_def Let_def)

lemma load_lines_keep: "truthy (en k) \<Longrightarrow> foldl load_line en lines k = en k"
  by (induction lines arbitrary: en) (simp_all add: load_line_keeps)

lemma loadEnv_keeps: "truthy (en k) \<Longrightarrow> loadEnv files en k = en k"
  unfolding loadEnv_def
  by (induction files arbitrary: en) (auto simp: load_lines_keep split: option.splits)

text \<open>
  The switch that turns certificate checks off is deleted at the start, so the branch of the
  identity check that reads it is dead; a host name that contains \<open>railway.app\<close> anywhere passes.
\<close>

lemma tls_switch_dead: "drop_tls_switch en ''NODE_TLS_REJECT_UNAUTHORIZED'' \<noteq> Some ''0''"
  by (simp add: drop_tls_switch_def)

lemma railway_lookalike_accepted: "checkServerIdentity en original (a @ ''railway.app'' @ b) cert = None"
proof -
  have "js_includes (a @ ''railway.app'' @ b) ''railway.app''" using js_includes_append by blast
  then show ?thesis by (simp only: checkServerIdentity_def simp_thms if_True)
qed

section \<open>Reading the body\<close>

lemma utf8_append [simp]: "utf8 (a @ b) = utf8 a @ utf8 b"
  by (simp add: utf8_def)

lemma read_chunks_large: "foldl read_chunk (raw, True) chunks = (raw, True)"
  by (induction chunks) simp_all

lemma read_chunks:
  "length (utf8 raw) \<le> MAX_REQUEST_BYTES \<Longrightarrow>
   foldl read_chunk (raw, False) chunks =
     (if MAX_REQUEST_BYTES < length (utf8 (raw @ concat chunks)) then ([], True) else (raw @ concat chunks, False))"
proof (induction chunks arbitrary: raw)
  case (Cons c chunks)
  show ?case
  proof (cases "MAX_REQUEST_BYTES < length (utf8 (raw @ c))")
    case True
    then show ?thesis by (simp add: read_chunks_large)
  next
    case False
    with Cons.IH[of "raw @ c"] show ?thesis by simp
  qed
qed simp

text \<open>How a body is cut into chunks does not matter: it is refused when it is longer than 64 KiB.\<close>

lemma readJson_whole:
  "readJson parse chunks Complete =
     (if MAX_REQUEST_BYTES < length (utf8 (concat chunks))
      then Inl \<lparr>de_httpStatus = Some 413, de_code = None, de_message = ''Request body exceeds 64 KiB''\<rparr>
      else case parse (if concat chunks = [] then ''{}'' else concat chunks) of
        None \<Rightarrow> Inl \<lparr>de_httpStatus = Some 400, de_code = None, de_message = ''Request body must be valid JSON''\<rparr>
      | Some v \<Rightarrow> Inr v)"
proof -
  have "foldl read_chunk ([], False) chunks
      = (if MAX_REQUEST_BYTES < length (utf8 (concat chunks)) then ([], True) else (concat chunks, False))"
    using read_chunks[of "[]" chunks] by (simp add: utf8_def)
  then show ?thesis by (simp add: readJson_def)
qed

section \<open>The checked input\<close>

lemma reference_is_key: "reference_ok s \<longleftrightarrow> validateIdempotencyKey s = None"
  by (auto simp: reference_ok_def validateIdempotencyKey_def Suc_le_eq split: if_splits)

lemma format_number_safe:
  "format_number v d = Inr s \<Longrightarrow> \<exists>x. v = JFin x \<and> is_safe_integer x \<and> formatMajorUnits x d = Inr s"
  by (auto simp: format_number_def formatMajorUnits_def split: js_number.splits if_splits)

lemma safe_floor: "is_safe_integer x \<Longrightarrow> of_int \<lfloor>x\<rfloor> = x"
  by (simp add: is_safe_integer_def)

lemma customer_checked:
  "customer_details c = Inr (phone, email, name) \<Longrightarrow>
     phone \<noteq> [] \<and> length phone \<le> 64 \<and> length email \<le> 254 \<and> length name \<le> 200"
  by (simp add: customer_details_def Let_def not_less del: field_simps_obj split: if_splits)

lemma priced_checked:
  "priced p body = Inr (n, t) \<Longrightarrow> is_safe_integer (of_int n) \<and> formatMajorUnits (of_int n) (product_decimals p) = Inr t"
  by (auto simp: priced_def Let_def safe_floor split: sum.splits js_number.splits dest!: format_number_safe)

lemma checkoutInput_parts:
  assumes "checkoutInput uuid body = Inr i"
  shows "\<exists>k. product_of k = Some (ci_product i)"
    "customer_details (field body ''customer'') = Inr (ci_phone i, ci_email i, ci_fullName i)"
    "priced (ci_product i) body = Inr (ci_amountMinorUnits i, ci_formattedAmount i)"
    "ci_merchantReference i = input_reference uuid body"
    "JStr (ci_provider i) \<in> set (map JStr demo_providers)"
proof -
  define key where "key = js_String (jor (jor (field body ''product_id'') (field body ''productId'')) (JStr ''pro''))"
  define provider where "provider = jor (field body ''provider'') (JStr ''paymob'')"
  obtain p ph em na n t where
    parts: "product_of key = Some p" "provider \<in> set (map JStr demo_providers)"
      "customer_details (field body ''customer'') = Inr (ph, em, na)" "priced p body = Inr (n, t)"
    and i: "ci_product i = p" "ci_provider i = js_String provider" "ci_phone i = ph" "ci_email i = em"
      "ci_fullName i = na" "ci_merchantReference i = input_reference uuid body" "ci_amountMinorUnits i = n" "ci_formattedAmount i = t"
    using assms unfolding checkoutInput_def Let_def key_def[symmetric] provider_def[symmetric]
    by (auto simp del: field_simps_obj set_map split: if_splits option.splits sum.splits prod.splits)
  have "JStr (js_String provider) \<in> set (map JStr demo_providers)" using parts(2) by auto
  with parts i show "\<exists>k. product_of k = Some (ci_product i)"
    "customer_details (field body ''customer'') = Inr (ci_phone i, ci_email i, ci_fullName i)"
    "priced (ci_product i) body = Inr (ci_amountMinorUnits i, ci_formattedAmount i)"
    "ci_merchantReference i = input_reference uuid body"
    "JStr (ci_provider i) \<in> set (map JStr demo_providers)" by auto
qed

text \<open>An accepted order has a phone number, bounded details, and a safe integer as its amount.\<close>

lemma checkoutInput_checked:
  assumes "checkoutInput uuid body = Inr i"
  shows "ci_phone i \<noteq> [] \<and> length (ci_phone i) \<le> 64 \<and> length (ci_email i) \<le> 254 \<and> length (ci_fullName i) \<le> 200"
    "is_safe_integer (of_int (ci_amountMinorUnits i))"
    "formatMajorUnits (of_int (ci_amountMinorUnits i)) (product_decimals (ci_product i)) = Inr (ci_formattedAmount i)"
  using customer_checked[OF checkoutInput_parts(2)[OF assms]] priced_checked[OF checkoutInput_parts(3)[OF assms]] by auto

section \<open>Orders\<close>

text \<open>
  A direct call charges the price of the catalogue: neither what is asked of the provider nor
  the record depends on the amount the buyer was shown and the order was made for.
\<close>

theorem direct_call_ignores_amount:
  "direct_attempt h mo (i\<lparr>ci_amountMinorUnits := n, ci_formattedAmount := t\<rparr>) = direct_attempt h mo i"
  by (simp add: direct_attempt_def tryDirectPaymob_def tryDirectStripe_def tryDirectFawry_def paymob_payload_def
      paymob_methods_def pending_record_def stripe_form_def fawry_price_def Let_def cong: option.case_cong if_cong)

lemma pending_record_amount:
  "map_of (pending_record i p d r a) ''amount_minor_units'' = Some (int_value (pd_amount (ci_product i)))"
  "map_of (pending_record i p d r a) ''status'' = Some (JStr ''pending'')"
  by (simp_all add: pending_record_def)

lemma direct_record:
  "direct_attempt h mo i = (Some rec, outs) \<Longrightarrow> \<exists>p d r a. rec = pending_record i p d r a"
  by (auto simp: direct_attempt_def tryDirectPaymob_def tryDirectStripe_def tryDirectFawry_def Let_def
      split: if_splits option.splits)

text \<open>An order for a product of the catalogue is always recorded, whatever the gateway and the providers answer.\<close>

lemma catalogue_safe: "product_of k = Some p \<Longrightarrow> pd_amount p = Some n \<Longrightarrow> is_safe_integer (of_int n) \<and> pd_currency p = Some ''EGP''"
  by (auto simp: product_of_def products_def is_safe_integer_def max_safe_integer_def split: if_splits)

lemma format_safe: "is_safe_integer x \<Longrightarrow> \<exists>s. formatMajorUnits x d = Inr s"
  by (auto simp: formatMajorUnits_def Let_def)

lemma sandbox_total:
  assumes "charged_amount i = Some n" "is_safe_integer (of_int n)"
  shows "\<exists>rec. generateSandboxPayment en mo i = Inr rec \<and> map_of rec ''amount_minor_units'' = Some (JNum n 0)
    \<and> map_of rec ''status'' = Some (JStr ''pending'') \<and> map_of rec ''merchant_reference'' = Some (JStr (ci_merchantReference i))"
proof -
  obtain t where "formatMajorUnits (of_int n) (product_decimals (ci_product i)) = Inr t" using format_safe[OF assms(2)] by blast
  then show ?thesis using assms(1)
    by (simp add: generateSandboxPayment_def format_number_def int_value_def Let_def split: prod.split)
qed

lemma order_record_total:
  assumes "charged_amount i = Some n" "is_safe_integer (of_int n)"
  shows "\<exists>rec. fst (order_record h mo q i) = Inr rec"
  using sandbox_total[OF assms, of "dh_env h" mo]
  by (auto simp: order_record_def split: prod.splits option.splits)

lemma catalogue_order_charged:
  assumes "checkoutInput uuid body = Inr i" "pd_amount (ci_product i) = Some p"
  shows "\<exists>n. charged_amount i = Some n \<and> is_safe_integer (of_int n)"
  using checkoutInput_checked(2)[OF assms(1)] checkoutInput_parts(1)[OF assms(1)] assms(2) catalogue_safe
  by (auto simp: charged_amount_def)

section \<open>Objects\<close>

lemma field_js_set: "k \<noteq> ''__proto__'' \<Longrightarrow> field (JObj (js_set ps k v)) l = (if l = k then v else field (JObj ps) l)"
  by (simp add: js_set_map)

text \<open>How a stored object may change: it can become settled, and nothing else.\<close>

definition rec_evolves :: "props \<Rightarrow> props \<Rightarrow> bool" where
  "rec_evolves a b \<longleftrightarrow>
     (\<forall>k. k \<noteq> ''status'' \<longrightarrow> k \<noteq> ''settled_at'' \<longrightarrow> field (JObj b) k = field (JObj a) k)
     \<and> (field (JObj b) ''status'' = field (JObj a) ''status'' \<or> field (JObj b) ''status'' = JStr ''succeeded'')"

lemma rec_evolves_refl [simp]: "rec_evolves a a"
  by (simp add: rec_evolves_def)

lemma two_fields_trans:
  assumes "(\<forall>k. k \<noteq> s \<longrightarrow> k \<noteq> t \<longrightarrow> g k = f k) \<and> (g s = f s \<or> g s = u)"
    "(\<forall>k. k \<noteq> s \<longrightarrow> k \<noteq> t \<longrightarrow> h k = g k) \<and> (h s = g s \<or> h s = u)"
  shows "(\<forall>k. k \<noteq> s \<longrightarrow> k \<noteq> t \<longrightarrow> h k = f k) \<and> (h s = f s \<or> h s = u)"
  using assms by auto

lemma rec_evolves_trans: "rec_evolves a b \<Longrightarrow> rec_evolves b c \<Longrightarrow> rec_evolves a c"
  unfolding rec_evolves_def by (rule two_fields_trans)

lemma set_two_fields:
  assumes "s \<noteq> t" "s \<noteq> ''__proto__''" "t \<noteq> ''__proto__''"
  shows "(\<forall>k. k \<noteq> s \<longrightarrow> k \<noteq> t \<longrightarrow> field (JObj (js_set (js_set a s v) t w)) k = field (JObj a) k)
    \<and> (field (JObj (js_set (js_set a s v) t w)) s = u \<or> field (JObj (js_set (js_set a s v) t w)) s = v)"
  using assms by (simp only: field_js_set[OF assms(2)] field_js_set[OF assms(3)]) simp

lemma rec_evolves_settle: "rec_evolves a (js_set (js_set a ''status'' (JStr ''succeeded'')) ''settled_at'' v)"
  unfolding rec_evolves_def by (rule set_two_fields) simp_all

section \<open>The store\<close>

text \<open>Every reference of the index is a position of the heap; a step keeps that, the objects and the keys.\<close>

definition store_ok :: "demo_state \<Rightarrow> bool" where
  "store_ok st \<longleftrightarrow> (\<forall>k r. ds_index st k = Some r \<longrightarrow> r < length (ds_heap st))"

definition heap_evolves :: "props list \<Rightarrow> props list \<Rightarrow> bool" where
  "heap_evolves h h' \<longleftrightarrow> length h \<le> length h' \<and> (\<forall>r < length h. rec_evolves (h ! r) (h' ! r))"

definition store_step :: "demo_state \<Rightarrow> demo_state \<Rightarrow> bool" where
  "store_step st st' \<longleftrightarrow> (store_ok st \<longrightarrow> store_ok st') \<and> heap_evolves (ds_heap st) (ds_heap st')
     \<and> dom (ds_index st) \<subseteq> dom (ds_index st')"

lemma heap_evolves_refl [simp]: "heap_evolves h h"
  by (simp add: heap_evolves_def)

lemma heap_evolves_trans: "heap_evolves a b \<Longrightarrow> heap_evolves b c \<Longrightarrow> heap_evolves a c"
  unfolding heap_evolves_def by (auto intro: rec_evolves_trans)

lemma store_step_refl [simp]: "store_step st st"
  by (simp add: store_step_def)

lemma store_step_trans [trans]: "store_step a b \<Longrightarrow> store_step b c \<Longrightarrow> store_step a c"
  unfolding store_step_def by (auto intro: heap_evolves_trans)

lemma store_ok_empty: "store_ok empty_store"
  by (simp add: store_ok_def empty_store_def)

lemma tx_get_ok: "store_ok st \<Longrightarrow> tx_get st k = Some r \<Longrightarrow> r < length (ds_heap st)"
  by (auto simp: tx_get_def store_ok_def bind_eq_Some_conv)

lemma heap_kept [simp]:
  "ds_heap (tx_set k r st) = ds_heap st" "ds_heap (tx_set_named r name st) = ds_heap st" "ds_heap (send es st) = ds_heap st"
  by (simp_all add: tx_set_def tx_set_named_def send_def Let_def split: option.split)

lemma heap_update [simp]: "ds_heap (tx_update r k v st) = (ds_heap st)[r := js_set (ds_heap st ! r) k v]"
  by (simp add: tx_update_def)

lemma index_kept [simp]:
  "ds_index (tx_update r k v st) = ds_index st" "ds_index (send es st) = ds_index st"
  by (simp_all add: tx_update_def send_def)

lemma record_kept [simp]:
  "record_of (tx_set k r st) x = record_of st x" "record_of (tx_set_named r name st) x = record_of st x"
  "record_of (send es st) x = record_of st x"
  by (simp_all add: record_of_def)

lemma step_send [intro]: "store_step st (send es st)"
  by (simp add: store_step_def store_ok_def)

lemma step_set [intro]: "r < length (ds_heap st) \<Longrightarrow> store_step st (tx_set k r st)"
  by (auto simp: store_step_def store_ok_def tx_set_def split: option.splits)

lemma step_set_named [intro]: "r < length (ds_heap st) \<Longrightarrow> store_step st (tx_set_named r name st)"
  by (auto simp: tx_set_named_def Let_def)

lemma step_then_set: "store_step st st' \<Longrightarrow> r < length (ds_heap st') \<Longrightarrow> store_step st (tx_set k r st')"
  by (rule store_step_trans) auto

lemma step_then_named: "store_step st st' \<Longrightarrow> r < length (ds_heap st') \<Longrightarrow> store_step st (tx_set_named r name st')"
  by (rule store_step_trans) auto

lemma step_new:
  "tx_new ps st = (r, st') \<Longrightarrow> store_step st st' \<and> r < length (ds_heap st') \<and> ds_heap st' = ds_heap st @ [ps] \<and> r = length (ds_heap st)"
  by (auto simp: tx_new_def store_step_def store_ok_def heap_evolves_def nth_append less_SucI)

lemma step_settled: "store_step st (tx_update r ''settled_at'' v (tx_update r ''status'' (JStr ''succeeded'') st))"
proof (cases "r < length (ds_heap st)")
  case True
  then show ?thesis by (simp add: store_step_def store_ok_def heap_evolves_def nth_list_update rec_evolves_settle)
next
  case False
  then show ?thesis by (simp add: store_step_def store_ok_def list_update_beyond)
qed

lemma heap_kept_names [simp]: "ds_heap (foldl (\<lambda>s name. tx_set_named r name s) st names) = ds_heap st"
  by (induction names arbitrary: st) simp_all

lemma step_set_names:
  "store_step st st' \<Longrightarrow> r < length (ds_heap st') \<Longrightarrow> store_step st (foldl (\<lambda>s name. tx_set_named r name s) st' names)"
  by (induction names arbitrary: st') (simp_all add: step_then_named)

lemma step_save_record: "store_step st (snd (save_record rec st))"
proof -
  obtain r st1 where n: "tx_new rec st = (r, st1)" by fastforce
  then show ?thesis
    unfolding save_record_def n prod.case Let_def snd_conv using step_new[OF n]
    by (intro step_set_names step_then_set) simp_all
qed

lemma step_save_status: "store_step st (save_status rec p st)"
proof -
  obtain r st1 where n: "tx_new rec st = (r, st1)" by fastforce
  then show ?thesis
    unfolding save_status_def n prod.case Let_def using step_new[OF n]
    by (simp split del: if_split) (auto intro!: step_then_set)
qed

lemma settlement_record_step:
  assumes "settlement_record k st = (r, st1)" "store_ok st"
  shows "store_step st st1" "r < length (ds_heap st1)"
  using assms tx_get_ok[OF assms(2)] step_new[of _ st r st1]
  by (auto simp: settlement_record_def split: option.splits)

lemma step_settle:
  assumes "store_ok st"
  shows "store_step st (snd (settle en now k st))"
proof -
  obtain r st1 where n: "settlement_record k st = (r, st1)" by fastforce
  note s = settlement_record_step[OF n assms]
  let ?st2 = "tx_update r ''settled_at'' (JStr now) (tx_update r ''status'' (JStr ''succeeded'') st1)"
  have "store_step st ?st2" using s(1) step_settled by (rule store_step_trans)
  then have "store_step st (tx_set k r ?st2)" using s(2) by (intro step_then_set) simp_all
  then show ?thesis
    unfolding settle_def n prod.case Let_def snd_conv by (rule store_step_trans) (rule step_send)
qed

lemma step_simulate: "store_ok st \<Longrightarrow> store_step st (snd (simulate_settlement h mo q st))"
  by (auto simp: simulate_settlement_def Let_def step_settle split: sum.splits)

lemma step_checkout: "store_step st (snd (checkout h mo q st))"
proof -
  have "store_step st (snd (save_record rec (send es st)))" for rec es
    by (rule store_step_trans[OF step_send step_save_record])
  then show ?thesis by (auto simp: checkout_def split: sum.splits prod.splits)
qed

lemma step_resolve_status: "store_step st (snd (resolve_status h mo k st))"
proof -
  have "store_step st (save_status rec p (send es st))" for rec p es
    by (rule store_step_trans[OF step_send step_save_status])
  then show ?thesis
    by (simp only: resolve_status_def Let_def)
      (simp add: step_send del: field_simps_obj split: option.split sum.split prod.split)
qed

lemma step_payment_status: "store_step st (snd (payment_status h mo path st))"
  by (simp only: payment_status_def Let_def) (simp add: step_resolve_status split: option.split)

lemma step_route: "store_ok st \<Longrightarrow> store_step st (snd (demo_route h mo q st))"
  by (auto simp: demo_route_def Let_def step_simulate step_checkout step_payment_status split: option.splits)

lemma step_runs: "demo_runs h st st' \<Longrightarrow> store_ok st \<Longrightarrow> store_step st st'"
proof (induction rule: demo_runs.induct)
  case (demo_request st st' mo q)
  then have s: "store_step st st'" by simp
  with demo_request.prems have "store_ok st'" by (simp add: store_step_def)
  with s show ?case by (blast intro: store_step_trans step_route)
qed simp

text \<open>
  C32. Whatever requests the demo server of \<open>server.js\<close> handles, in whatever order: every key of its
  transaction store leads to an object, and an object once stored keeps its identifiers, amount,
  currency and provider; its status stays or becomes succeeded.
\<close>

theorem demo_store_evolves:
  assumes "demo_runs h empty_store st" and "demo_runs h st st'"
    and "tx_get st k = Some r"
  shows "r < length (ds_heap st') \<and> rec_evolves (ds_heap st ! r) (ds_heap st' ! r)
    \<and> (\<exists>r'. tx_get st' k = Some r' \<and> r' < length (ds_heap st'))"
proof -
  have ok: "store_ok st" using step_runs[OF assms(1)] store_ok_empty by (simp add: store_step_def)
  have s: "store_step st st'" using assms(2) ok by (rule step_runs)
  have r: "r < length (ds_heap st)" using ok assms(3) by (rule tx_get_ok)
  have "rec_evolves (ds_heap st ! r) (ds_heap st' ! r)" "length (ds_heap st) \<le> length (ds_heap st')"
    using s r by (auto simp: store_step_def heap_evolves_def)
  moreover have "\<exists>r'. tx_get st' k = Some r'"
    using assms(3) s by (auto simp: tx_get_def store_step_def bind_eq_Some_conv)
  moreover have "store_ok st'" using s ok by (simp add: store_step_def)
  ultimately show ?thesis using r tx_get_ok by auto
qed

section \<open>One object under all its references\<close>

lemma tx_get_text [simp]: "tx_get st (JStr a) = ds_index st (TextKey a)"
  by (simp add: tx_get_def)

lemma index_stays:
  "ds_index st x = Some r \<Longrightarrow> ds_index (tx_set k r st) x = Some r"
  "ds_index st x = Some r \<Longrightarrow> ds_index (tx_set_named r name st) x = Some r"
  by (auto simp: tx_set_def tx_set_named_def Let_def split: option.split)

lemma index_set: "ds_index (tx_set (JStr a) r st) (TextKey a) = Some r"
  by (simp add: tx_set_def)

lemma index_set_named:
  "field (record_of st r) name = JStr a \<Longrightarrow> a \<noteq> [] \<Longrightarrow> ds_index (tx_set_named r name st) (TextKey a) = Some r"
  by (simp add: tx_set_named_def index_set)

lemma index_stays_names:
  "ds_index st x = Some r \<Longrightarrow> ds_index (foldl (\<lambda>s name. tx_set_named r name s) st names) x = Some r"
  by (induction names arbitrary: st) (simp_all add: index_stays)

lemma index_set_names:
  "name \<in> set names \<Longrightarrow> field (record_of st r) name = JStr a \<Longrightarrow> a \<noteq> [] \<Longrightarrow>
   ds_index (foldl (\<lambda>s name. tx_set_named r name s) st names) (TextKey a) = Some r"
  by (induction names arbitrary: st) (auto simp: index_set_named index_stays_names)

lemma save_record_references:
  assumes "save_record rec st = (r, st')" "name \<in> set (''payment_id'' # named_references)"
    "field (JObj rec) name = JStr a" "a \<noteq> []"
  shows "ds_index st' (TextKey a) = Some r" "ds_heap st' = ds_heap st @ [rec]" "r = length (ds_heap st)"
proof -
  obtain r0 st1 where n: "tx_new rec st = (r0, st1)" by fastforce
  note s = step_new[OF n]
  define st2 where "st2 = tx_set (field (JObj rec) ''payment_id'') r0 st1"
  have st': "r = r0" "st' = foldl (\<lambda>s name. tx_set_named r0 name s) st2 named_references"
    using assms(1) unfolding save_record_def n prod.case Let_def st2_def by auto
  have rec: "record_of st2 r0 = JObj rec" using s by (simp add: record_of_def st2_def)
  show "ds_heap st' = ds_heap st @ [rec]" "r = length (ds_heap st)" using s st' by (simp_all add: st2_def)
  show "ds_index st' (TextKey a) = Some r"
  proof (cases "name = ''payment_id''")
    case True
    then have "ds_index st2 (TextKey a) = Some r0" using assms(3) by (simp only: st2_def index_set)
    then show ?thesis unfolding st' by (rule index_stays_names)
  next
    case False
    then have "name \<in> set named_references" using assms(2) by simp
    moreover have "field (record_of st2 r0) name = JStr a" using assms(3) rec by simp
    ultimately show ?thesis unfolding st' using assms(4) by (rule index_set_names)
  qed
qed

lemma heap_settle:
  fixes en now
  assumes "ds_index st (TextKey a) = Some r" "r < length (ds_heap st)"
  defines "st' \<equiv> snd (settle en now (JStr a) st)"
  shows "ds_heap st' ! r = js_set (js_set (ds_heap st ! r) ''status'' (JStr ''succeeded'')) ''settled_at'' (JStr now)"
    "ds_index st x = Some r \<Longrightarrow> ds_index st' x = Some r"
proof -
  have n: "settlement_record (JStr a) st = (r, st)" by (simp add: settlement_record_def assms(1))
  show "ds_heap st' ! r = js_set (js_set (ds_heap st ! r) ''status'' (JStr ''succeeded'')) ''settled_at'' (JStr now)"
    using assms(2) unfolding st'_def settle_def n prod.case Let_def snd_conv by simp
  show "ds_index st x = Some r \<Longrightarrow> ds_index st' x = Some r"
    unfolding st'_def settle_def n prod.case Let_def snd_conv by (simp add: index_stays)
qed

lemma settled_fields:
  "field (JObj (js_set (js_set ps ''status'' v) ''settled_at'' w)) ''status'' = v"
  by (simp add: field_js_set del: field_simps_obj)

lemma resolve_settled:
  assumes "ds_index st (TextKey b) = Some r" "settled_status (record_of st r)"
  shows "resolve_status h mo b st = (Reply 200 (record_of st r), st)"
  using assms by (simp add: resolve_status_def)

lemma checkout_failure_status: "checkout_failure e \<noteq> Reply 200 v"
  by (auto simp: checkout_failure_def failure_reply_def error_reply_def error_status_def split: option.splits if_splits)

text \<open>
  A checkout answers with a record and stores it under all its references. When any one of
  them is settled, a lookup by any of them answers from the store, with the status succeeded and
  every other field of the record but the time of settlement unchanged, and asks nobody.
\<close>

theorem settlement_seen_by_every_reference:
  assumes "checkout h mo q st = (Reply 200 (JObj rec), st1)"
    and "k \<in> set (''payment_id'' # named_references)" "field (JObj rec) k = JStr a" "a \<noteq> []"
    and "l \<in> set (''payment_id'' # named_references)" "field (JObj rec) l = JStr b" "b \<noteq> []"
  shows "\<exists>rec'. resolve_status h mo' b (snd (settle en now (JStr a) st1))
      = (Reply 200 (JObj rec'), snd (settle en now (JStr a) st1))
    \<and> field (JObj rec') ''status'' = JStr ''succeeded'' \<and> rec_evolves rec rec'"
proof -
  obtain es where sv: "st1 = snd (save_record rec (send es st))"
    using assms(1) by (auto simp: checkout_def checkout_failure_status split: sum.splits prod.splits)
  then obtain r where r: "save_record rec (send es st) = (r, st1)" by (metis prod.collapse)
  note ra = save_record_references[OF r assms(2,3,4)] and rb = save_record_references[OF r assms(5,6,7)]
  have len: "r < length (ds_heap st1)" and h: "ds_heap st1 ! r = rec" using ra by simp_all
  let ?st2 = "snd (settle en now (JStr a) st1)"
  let ?rec = "js_set (js_set rec ''status'' (JStr ''succeeded'')) ''settled_at'' (JStr now)"
  have rec: "record_of ?st2 r = JObj ?rec" using heap_settle(1)[OF ra(1) len] h by (simp add: record_of_def)
  have "ds_index ?st2 (TextKey b) = Some r" using heap_settle(2)[OF ra(1) len rb(1)] .
  then have "resolve_status h mo' b ?st2 = (Reply 200 (JObj ?rec), ?st2)"
    using resolve_settled[of ?st2 b r] rec by (simp add: settled_status_def settled_fields del: field_simps_obj)
  then show ?thesis using settled_fields rec_evolves_settle by blast
qed

section \<open>Answers\<close>

lemma readJson_errors: "readJson parse chunks ending = Inl e \<Longrightarrow> error_status e 400 \<in> {400, 413}"
  by (auto simp: readJson_def error_status_def plain_error_def split: prod.splits body_end.splits if_splits option.splits)

lemma plain_status [simp]: "error_status (plain_error m) n = n"
  by (simp add: error_status_def plain_error_def)

text \<open>A checkout always answers, and only with 200, 400 or 413.\<close>

lemma checkout_answers: "\<exists>s v. fst (checkout h mo q st) = Reply s v \<and> s \<in> {200, 400, 413}"
  using readJson_errors
  by (auto simp: checkout_def checkout_failure_def failure_reply_def error_reply_def split: sum.splits prod.splits)

lemma checkout_inputs:
  assumes "readJson (dh_parse h) (dq_chunks q) (dq_end q) = Inr body" "checkoutInput (mo_uuid mo 0) body = Inr i"
    "fst (order_record h mo q i) = Inr rec"
  shows "fst (checkout h mo q st) = Reply 200 (JObj rec)"
  using assms by (cases "order_record h mo q i") (auto simp: checkout_def)

text \<open>
  An accepted order for a product of the catalogue is recorded and answered with 200 whatever
  the gateway and the providers do: unreachable, refusing, or answering nonsense.
\<close>

theorem catalogue_order_answered:
  assumes "readJson (dh_parse h) (dq_chunks q) (dq_end q) = Inr body"
    and "checkoutInput (mo_uuid mo 0) body = Inr i" and "pd_amount (ci_product i) = Some p"
  shows "\<exists>rec. fst (checkout h mo q st) = Reply 200 (JObj rec)"
proof -
  obtain n where "charged_amount i = Some n" "is_safe_integer (of_int n)"
    using catalogue_order_charged[OF assms(2,3)] by blast
  then obtain rec where "fst (order_record h mo q i) = Inr rec" using order_record_total by blast
  then show ?thesis using checkout_inputs[OF assms(1,2)] by blast
qed

section \<open>A demo order\<close>

definition demo_body :: jsv where
  "demo_body = JObj [(''provider'', JStr ''mock''), (''customer'', JObj [(''phone'', JStr ''+201234567890'')]),
     (''merchant_reference'', JStr ''order-1''), (''amount'', JStr ''-5.00'')]"

definition demo_shop :: demo_host where
  "demo_shop = \<lparr>dh_env = (\<lambda>_. None), dh_client = demo_client 0, dh_files = (\<lambda>_. None), dh_parse = (\<lambda>_. Some demo_body),
     dh_decode = Some, dh_sha256 = (\<lambda>s. s), dh_pathname = (\<lambda>u b. Some u), dh_version = ''v22''\<rparr>"

definition offline :: demo_moment where
  "offline = \<lparr>mo_server = (\<lambda>_ _. Failed ''ECONNREFUSED'' False), mo_fetch = (\<lambda>_. Unreachable ''ECONNREFUSED''),
     mo_uuid = (\<lambda>_. ''0b8f4c1e-2f7a''), mo_kiosk = 123456, mo_now = ''2025-01-01T00:00:00.000Z''\<rparr>"

definition demo_order :: demo_request where
  "demo_order = \<lparr>dq_method = ''POST'', dq_url = ''/api/checkout'', dq_host = None, dq_forwardedProto = None,
     dq_chunks = [''{}''], dq_end = Complete\<rparr>"

lemma demo_read: "readJson (dh_parse demo_shop) (dq_chunks demo_order) (dq_end demo_order) = Inr demo_body"
  by (simp add: demo_order_def demo_shop_def readJson_whole utf8_def utf8_char_def MAX_REQUEST_BYTES_def Let_def char_code_def)

lemma demo_amount: "minor_units (JStr ''-5.00'') 2 = Inr (JFin (- 500))"
proof -
  have t: "major_text True 500 2 = ''-5.00''"
    by code_simp
  have "toMinorUnits (AString ''-5.00'') 2 = Inr (bigint_to_number (if True then - int 500 else int 500))"
    by (rule toMinorUnits_text) (simp only: js_amount.case t[symmetric] js_trim_major_text)
  moreover have "bigint_to_number (- int 500) = - int 500" by (rule bigint_to_number_exact) simp
  ultimately show ?thesis by (simp add: minor_units_def)
qed

lemma demo_input:
  "\<exists>i. checkoutInput u demo_body = Inr i \<and> ci_amountMinorUnits i = - 500 \<and> pd_amount (ci_product i) = Some 15000
     \<and> ci_merchantReference i = ''order-1'' \<and> ci_provider i = ''mock''"
proof -
  obtain p where p: "product_of ''pro'' = Some p" "pd_amount p = Some 15000" "product_decimals p = 2"
    by (simp add: product_of_def products_def product_decimals_def text_value_def demo_decimals_def)
  have c: "customer_details (JObj [(''phone'', JStr ''+201234567890'')])
      = Inr (''+201234567890'', ''customer@example.com'', ''Ahmed Ali'')" by code_simp
  have r: "input_reference u demo_body = ''order-1''"
    by (simp add: input_reference_def demo_body_def jor_def reference_ok_def char_code_def Let_def)
  obtain t where t: "formatMajorUnits (- 500) 2 = Inr t"
    using format_safe[of "- 500" 2] by (auto simp: is_safe_integer_def max_safe_integer_def)
  have "input_amount p demo_body 2 = Inr (JFin (- 500))"
    by (simp add: input_amount_def demo_body_def demo_amount Let_def)
  then have "priced p demo_body = Inr (- 500, t)"
    using t p(3) by (simp add: priced_def format_number_def Let_def)
  moreover have "jor (jor (field demo_body ''product_id'') (field demo_body ''productId'')) (JStr ''pro'') = JStr ''pro''"
    "jor (field demo_body ''provider'') (JStr ''paymob'') = JStr ''mock''"
    "field demo_body ''customer'' = JObj [(''phone'', JStr ''+201234567890'')]"
    "(case demo_body of JObj _ \<Rightarrow> True | JArr _ \<Rightarrow> True | _ \<Rightarrow> False)"
    by (simp_all add: demo_body_def jor_def)
  moreover have "JStr ''mock'' \<in> set (map JStr demo_providers)" by (simp add: demo_providers_def)
  ultimately show ?thesis using p c r
    unfolding checkoutInput_def Let_def by (simp del: field_simps_obj set_map)
qed

text \<open>
  Buyers name their own price: an order of minus five pounds is refused by the SDK before anything
  is sent, and then recorded and answered by the sandbox.
\<close>

lemma negative_order_recorded:
  "\<exists>rec st1. checkout demo_shop offline demo_order empty_store = (Reply 200 (JObj rec), st1)
     \<and> field (JObj rec) ''amount_minor_units'' = JNum (- 500) 0 \<and> field (JObj rec) ''status'' = JStr ''pending''
     \<and> field (JObj rec) ''merchant_reference'' = JStr ''order-1''"
proof -
  obtain i where i: "checkoutInput (mo_uuid offline 0) demo_body = Inr i" "ci_amountMinorUnits i = - 500"
    "ci_merchantReference i = ''order-1''" "ci_provider i = ''mock''" using demo_input by blast
  have c: "charged_amount i = Some (- 500)" using i by (simp add: charged_amount_def)
  have "checked_amount (Some (- 500)) = Inl (RangeError (''amountMinorUnits'' @ '' must be a positive integer in minor units (e.g. 1000 for 10.00 EGP). Never pass floating-point numbers.''))"
    by (simp add: checked_amount_def validatePositiveInteger_def)
  then have g: "gateway_attempt demo_shop offline demo_order i = (None, [])"
    using c by (simp add: gateway_attempt_def payments_create_def create_params_def Let_def)
  have d: "direct_attempt demo_shop offline i = (None, [])" using i(4) by (simp add: direct_attempt_def)
  have "is_safe_integer (of_int (- 500))" by (simp add: is_safe_integer_def max_safe_integer_def)
  from sandbox_total[OF c this, of "dh_env demo_shop" offline] obtain rec
    where rec: "generateSandboxPayment (dh_env demo_shop) offline i = Inr rec"
      "map_of rec ''amount_minor_units'' = Some (JNum (- 500) 0)" "map_of rec ''status'' = Some (JStr ''pending'')"
      "map_of rec ''merchant_reference'' = Some (JStr ''order-1'')" using i(3) by auto
  have "order_record demo_shop offline demo_order i = (Inr rec, [])" by (simp add: order_record_def g d rec(1))
  then have "checkout demo_shop offline demo_order empty_store = (Reply 200 (JObj rec), snd (save_record rec (send [] empty_store)))"
    using i(1) by (simp add: checkout_def demo_read)
  moreover have "field (JObj rec) ''amount_minor_units'' = JNum (- 500) 0" "field (JObj rec) ''status'' = JStr ''pending''"
    "field (JObj rec) ''merchant_reference'' = JStr ''order-1''" using rec by simp_all
  ultimately show ?thesis by blast
qed

theorem settlement_seen_by_every_reference_witness:
  "\<exists>st1 rec'. resolve_status demo_shop offline ''order-1'' (snd (settle (\<lambda>_. None) ''t'' (JStr ''order-1'') st1))
      = (Reply 200 (JObj rec'), snd (settle (\<lambda>_. None) ''t'' (JStr ''order-1'') st1))
    \<and> field (JObj rec') ''status'' = JStr ''succeeded''"
proof -
  obtain rec st1 where o: "checkout demo_shop offline demo_order empty_store = (Reply 200 (JObj rec), st1)"
    "field (JObj rec) ''merchant_reference'' = JStr ''order-1''" using negative_order_recorded by blast
  have n: "''merchant_reference'' \<in> set (''payment_id'' # named_references)" by (simp add: named_references_def)
  show ?thesis using settlement_seen_by_every_reference[OF o(1) n o(2) _ n o(2)] by blast
qed

theorem catalogue_order_answered_witness:
  "\<exists>rec. fst (checkout demo_shop offline demo_order empty_store) = Reply 200 (JObj rec)"
proof -
  obtain i where "checkoutInput (mo_uuid offline 0) demo_body = Inr i" "pd_amount (ci_product i) = Some 15000"
    using demo_input by blast
  then show ?thesis by (rule catalogue_order_answered[OF demo_read])
qed

theorem demo_store_evolves_witness:
  "\<exists>st r. tx_get st (JStr ''order-1'') = Some r \<and> r < length (ds_heap st)"
proof -
  obtain rec st1 where o: "checkout demo_shop offline demo_order empty_store = (Reply 200 (JObj rec), st1)"
    "field (JObj rec) ''merchant_reference'' = JStr ''order-1''" using negative_order_recorded by blast
  have "demo_route demo_shop offline demo_order empty_store = checkout demo_shop offline demo_order empty_store"
    by (simp add: demo_route_def demo_shop_def demo_order_def or_text_def)
  then have run: "demo_runs demo_shop empty_store st1"
    using o(1) demo_runs.demo_request[OF demo_idle[of demo_shop empty_store], of offline demo_order] by simp
  have "\<exists>es. st1 = snd (save_record rec (send es empty_store))"
    using o(1) by (auto simp: checkout_def checkout_failure_status split: sum.splits prod.splits)
  then obtain es r where r: "save_record rec (send es empty_store) = (r, st1)" by (metis prod.collapse)
  have "''merchant_reference'' \<in> set (''payment_id'' # named_references)" by (simp add: named_references_def)
  from save_record_references(1)[OF r this o(2)] have "tx_get st1 (JStr ''order-1'') = Some r" by simp
  with demo_store_evolves[OF run demo_idle this] show ?thesis by blast
qed

end
