(* ===== verification/Demo_Page_Facts.thy ===== *)
theory Demo_Page_Facts
  imports Demo_Page Demo_Facts
begin

text \<open>
  Facts about the page of \<open>Demo_Page\<close>: after any events it shows its state, it leaves for
  \<open>http\<close> and \<open>https\<close> addresses only, and the order it sends is accepted by the server of
  \<open>Demo_Server\<close> for the price the buyer sees.
\<close>

section \<open>What the rendered texts depend on\<close>

lemma button_label_cong:
  "pg_item p = pg_item q \<Longrightarrow> pg_provider p = pg_provider q \<Longrightarrow> pg_method p = pg_method q \<Longrightarrow> pg_carrier p = pg_carrier q
   \<Longrightarrow> button_label p = button_label q"
  by (simp only: button_label_def)

lemma code_preview_cong:
  assumes "pg_item p = pg_item q" "pg_provider p = pg_provider q" "pg_method p = pg_method q" "pg_carrier p = pg_carrier q"
    "pg_tab p = pg_tab q" "pg_value p = pg_value q"
  shows "code_preview p = code_preview q"
proof -
  have "preview_ts p = preview_ts q" "preview_php p = preview_php q" "preview_dotnet p = preview_dotnet q"
    by (intro ext, simp only: preview_ts_def preview_php_def preview_dotnet_def assms)+
  then show ?thesis by (simp only: code_preview_def getNormalizedPhone_def wallet_metadata_def assms)
qed

lemma page_fields [simp]:
  "pg_item (set_text k v p) = pg_item p" "pg_method (set_text k v p) = pg_method p" "pg_provider (set_text k v p) = pg_provider p"
  "pg_carrier (set_text k v p) = pg_carrier p" "pg_tab (set_text k v p) = pg_tab p" "pg_value (set_text k v p) = pg_value p"
  "pg_hidden (set_text k v p) = pg_hidden p" "pg_leaving (set_text k v p) = pg_leaving p" "pg_backend (set_text k v p) = pg_backend p"
  "pg_item (set_value k v p) = pg_item p" "pg_method (set_value k v p) = pg_method p" "pg_provider (set_value k v p) = pg_provider p"
  "pg_carrier (set_value k v p) = pg_carrier p" "pg_tab (set_value k v p) = pg_tab p" "pg_text (set_value k v p) = pg_text p"
  "pg_hidden (set_value k v p) = pg_hidden p" "pg_leaving (set_value k v p) = pg_leaving p" "pg_backend (set_value k v p) = pg_backend p"
  "pg_item (set_hidden k b p) = pg_item p" "pg_method (set_hidden k b p) = pg_method p" "pg_provider (set_hidden k b p) = pg_provider p"
  "pg_carrier (set_hidden k b p) = pg_carrier p" "pg_tab (set_hidden k b p) = pg_tab p" "pg_value (set_hidden k b p) = pg_value p"
  "pg_text (set_hidden k b p) = pg_text p" "pg_leaving (set_hidden k b p) = pg_leaving p" "pg_backend (set_hidden k b p) = pg_backend p"
  "pg_item (set_active k v p) = pg_item p" "pg_method (set_active k v p) = pg_method p" "pg_provider (set_active k v p) = pg_provider p"
  "pg_carrier (set_active k v p) = pg_carrier p" "pg_tab (set_active k v p) = pg_tab p" "pg_value (set_active k v p) = pg_value p"
  "pg_text (set_active k v p) = pg_text p" "pg_hidden (set_active k v p) = pg_hidden p" "pg_leaving (set_active k v p) = pg_leaving p"
  "pg_item (set_busy k b p) = pg_item p" "pg_method (set_busy k b p) = pg_method p" "pg_provider (set_busy k b p) = pg_provider p"
  "pg_carrier (set_busy k b p) = pg_carrier p" "pg_tab (set_busy k b p) = pg_tab p" "pg_value (set_busy k b p) = pg_value p"
  "pg_text (set_busy k b p) = pg_text p" "pg_hidden (set_busy k b p) = pg_hidden p" "pg_leaving (set_busy k b p) = pg_leaving p"
  "pg_item (page_alert m p) = pg_item p" "pg_method (page_alert m p) = pg_method p" "pg_provider (page_alert m p) = pg_provider p"
  "pg_carrier (page_alert m p) = pg_carrier p" "pg_tab (page_alert m p) = pg_tab p" "pg_value (page_alert m p) = pg_value p"
  "pg_text (page_alert m p) = pg_text p" "pg_hidden (page_alert m p) = pg_hidden p" "pg_leaving (page_alert m p) = pg_leaving p"
  by (simp_all add: set_text_def set_value_def set_hidden_def set_active_def set_busy_def page_alert_def)

lemma page_cells [simp]:
  "pg_text (set_text k v p) l = (if l = k then v else pg_text p l)"
  "pg_value (set_value k v p) l = (if l = k then v else pg_value p l)"
  "pg_hidden (set_hidden k b p) l = (if l = k then b else pg_hidden p l)"
  by (simp_all add: set_text_def set_value_def set_hidden_def)

section \<open>The page shows its state\<close>

text \<open>Prices; sections and provider; then also the texts that are rendered from them.\<close>

definition prices_ok :: "page \<Rightarrow> bool" where
  "prices_ok p \<longleftrightarrow> (\<forall>k \<in> {''headerPriceDisplay'', ''summarySubtotal'', ''summaryTotal''}. pg_text p k = amount_text (pg_item p))
     \<and> (\<forall>k \<in> {''headerPlanName'', ''summaryPlanName''}. pg_text p k = it_name (pg_item p)) \<and> (\<exists>key. pg_item p = page_item key)"

definition sections_ok :: "page \<Rightarrow> bool" where
  "sections_ok p \<longleftrightarrow> (\<forall>(s, m) \<in> set method_sections. pg_hidden p s \<longleftrightarrow> pg_method p \<noteq> m)
     \<and> pg_provider p = provider_of_method (pg_method p)"

definition shows_choice :: "page \<Rightarrow> bool" where
  "shows_choice p \<longleftrightarrow> prices_ok p \<and> sections_ok p"

definition shows_state :: "page \<Rightarrow> bool" where
  "shows_state p \<longleftrightarrow> shows_choice p \<and> pg_text p ''submitBtnLabel'' = button_label p
     \<and> pg_text p ''sdkCodePreview'' = code_preview p"

definition watched_texts :: "string set" where
  "watched_texts = {''headerPriceDisplay'', ''summarySubtotal'', ''summaryTotal'', ''headerPlanName'', ''summaryPlanName'',
     ''submitBtnLabel'', ''sdkCodePreview''}"

definition watched_sections :: "string set" where
  "watched_sections = fst ` set method_sections"

text \<open>Pages that agree on the choices and on the watched elements show their state alike.\<close>

lemma shows_state_cong:
  assumes "pg_item p = pg_item q" "pg_provider p = pg_provider q" "pg_method p = pg_method q" "pg_carrier p = pg_carrier q"
    "pg_tab p = pg_tab q" "pg_value p = pg_value q"
    and t: "\<And>k. k \<in> watched_texts \<Longrightarrow> pg_text p k = pg_text q k"
    and s: "\<And>k. k \<in> watched_sections \<Longrightarrow> pg_hidden p k = pg_hidden q k"
  shows "shows_state p = shows_state q"
proof -
  have texts: "pg_text p ''headerPriceDisplay'' = pg_text q ''headerPriceDisplay''" "pg_text p ''summarySubtotal'' = pg_text q ''summarySubtotal''"
    "pg_text p ''summaryTotal'' = pg_text q ''summaryTotal''" "pg_text p ''headerPlanName'' = pg_text q ''headerPlanName''"
    "pg_text p ''summaryPlanName'' = pg_text q ''summaryPlanName''" "pg_text p ''submitBtnLabel'' = pg_text q ''submitBtnLabel''"
    "pg_text p ''sdkCodePreview'' = pg_text q ''sdkCodePreview''"
    by (rule t, simp only: watched_texts_def insert_iff simp_thms)+
  have "(\<forall>(a, m) \<in> set method_sections. pg_hidden p a \<longleftrightarrow> pg_method p \<noteq> m)
      = (\<forall>(a, m) \<in> set method_sections. pg_hidden q a \<longleftrightarrow> pg_method q \<noteq> m)"
    using s assms(3) by (intro ball_cong refl) (force simp: watched_sections_def)
  then show ?thesis
    using button_label_cong[OF assms(1,2,3,4)] code_preview_cong[OF assms(1-6)]
    by (simp only: shows_state_def shows_choice_def prices_ok_def sections_ok_def ball_simps texts assms(1,2,3))
qed

lemma shows_state_frame:
  "k \<notin> watched_texts \<Longrightarrow> shows_state (set_text k v p) = shows_state p"
  "k \<notin> watched_sections \<Longrightarrow> shows_state (set_hidden k b p) = shows_state p"
  "shows_state (set_active k v p) = shows_state p" "shows_state (set_busy k b p) = shows_state p"
  "shows_state (page_alert m p) = shows_state p" "shows_state (p\<lparr>pg_payment := x\<rparr>) = shows_state p"
  "shows_state (p\<lparr>pg_polling := c\<rparr>) = shows_state p" "shows_state (p\<lparr>pg_errors := n\<rparr>) = shows_state p"
  "shows_state (p\<lparr>pg_leaving := h\<rparr>) = shows_state p" "shows_state (p\<lparr>pg_theme := th\<rparr>) = shows_state p"
  "shows_state (p\<lparr>pg_backend := be\<rparr>) = shows_state p"
  by (rule shows_state_cong; simp; metis)+

lemma rendered_cong [simp]:
  "button_label (set_text k v p) = button_label p" "code_preview (set_text k v p) = code_preview p"
  "button_label (set_value k v p) = button_label p" "button_label (set_active k v p) = button_label p"
  "button_label (p\<lparr>pg_tab := t\<rparr>) = button_label p" "button_label (p\<lparr>pg_backend := t\<rparr>) = button_label p"
  by (rule button_label_cong code_preview_cong; simp)+

lemma choice_frame [simp]:
  "shows_choice (set_text ''submitBtnLabel'' v p) = shows_choice p"
  "shows_choice (set_text ''sdkCodePreview'' v p) = shows_choice p"
  "shows_choice (set_value k v p) = shows_choice p" "shows_choice (set_active k v p) = shows_choice p"
  "shows_choice (p\<lparr>pg_tab := t\<rparr>) = shows_choice p" "shows_choice (p\<lparr>pg_carrier := c\<rparr>) = shows_choice p"
  by (simp_all add: shows_choice_def prices_ok_def sections_ok_def)

lemma shows_render: "shows_choice p \<Longrightarrow> shows_state (updateCodePreview (updateSubmitButtonLabel p))"
  by (simp add: shows_state_def updateCodePreview_def updateSubmitButtonLabel_def)

lemma shows_preview: "shows_choice p \<Longrightarrow> pg_text p ''submitBtnLabel'' = button_label p \<Longrightarrow> shows_state (updateCodePreview p)"
  by (simp add: shows_state_def updateCodePreview_def)

lemma shows_state_choice: "shows_state p \<Longrightarrow> shows_choice p"
  by (simp add: shows_state_def)

lemma sections_frame [simp]:
  "sections_ok (set_text k v p) = sections_ok p" "sections_ok (set_active k v p) = sections_ok p"
  "sections_ok (p\<lparr>pg_item := i\<rparr>) = sections_ok p"
  by (simp_all add: sections_ok_def)

lemma shows_product:
  assumes "sections_ok p"
  shows "shows_state (selectProduct loc key p)"
proof -
  have "\<exists>k. page_item key = page_item k" by blast
  then show ?thesis
    unfolding selectProduct_def Let_def using assms
    by (intro shows_render) (simp add: shows_choice_def prices_ok_def)
qed

lemma shows_method: "prices_ok p \<Longrightarrow> shows_state (selectPaymentMethod m p)"
proof -
  assume "prices_ok p"
  then show ?thesis
    unfolding selectPaymentMethod_def Let_def
    by (intro shows_render) (simp add: shows_choice_def prices_ok_def sections_ok_def method_sections_def)
qed

lemma shows_carrier: "shows_choice p \<Longrightarrow> shows_state (selectWalletCarrier c p)"
  unfolding selectWalletCarrier_def Let_def by (intro shows_render) simp

lemma shows_customer: "shows_choice p \<Longrightarrow> shows_state (setCustomerValues n ph p)"
  unfolding setCustomerValues_def by (intro shows_render) simp

lemma unwatched [simp]:
  "''resStatus'' \<notin> watched_texts" "''resPaymentId'' \<notin> watched_texts" "''redirectModalTitle'' \<notin> watched_texts"
  "''redirectModalSubtitle'' \<notin> watched_texts" "''redirectModalBtn'' \<notin> watched_texts" "''redirectLink'' \<notin> watched_texts"
  "''fawryCode'' \<notin> watched_texts" "''pollingIndicator'' \<notin> watched_texts" "''returnSuccessSession'' \<notin> watched_texts"
  "''returnSuccessRef'' \<notin> watched_texts" "''testDataNoticeText'' \<notin> watched_texts" "''summaryBackend'' \<notin> watched_texts"
  by (simp_all add: watched_texts_def)

lemma unwatched_sections [simp]:
  "''btnSpinner'' \<notin> watched_sections" "''redirectModal'' \<notin> watched_sections" "''urlSection'' \<notin> watched_sections"
  "''fawrySection'' \<notin> watched_sections" "''unknownAlert'' \<notin> watched_sections" "''resultCard'' \<notin> watched_sections"
  "''settledAlert'' \<notin> watched_sections" "''testDataNotice'' \<notin> watched_sections" "''returnSuccessBanner'' \<notin> watched_sections"
  by (simp_all add: watched_sections_def method_sections_def)

lemma shows_notice [simp]: "shows_state (showTestDataNotice m p) = shows_state p"
  by (simp add: showTestDataNotice_def shows_state_frame)

lemma shows_badge [simp]: "shows_state (updateStatusBadge m p) = shows_state p"
  by (simp add: updateStatusBadge_def shows_state_frame Let_def)

lemma shows_modal [simp]: "shows_state (showRedirectModal pr u p) = shows_state p"
  by (simp only: showRedirectModal_def Let_def shows_state_frame unwatched unwatched_sections simp_thms)

lemma shows_error [simp]: "shows_state (checkout_error m p) = shows_state p"
  by (simp add: checkout_error_def shows_state_frame)

lemma shows_next_action: "show_next_action parse s v p = Inr q \<Longrightarrow> shows_state q = shows_state p"
  by (auto simp: show_next_action_def shows_state_frame Let_def simp del: field_simps_obj split: if_splits option.splits)

lemma shows_accepted [simp]: "shows_state (checkout_accepted parse d p) = shows_state p"
  by (simp add: checkout_accepted_def Let_def shows_state_frame del: field_simps_obj split: jsv.split sum.split)
    (auto simp: shows_state_frame dest: shows_next_action)

lemma shows_answered [simp]: "shows_state (checkout_answered parse a p) = shows_state p"
  by (simp add: checkout_answered_def shows_state_frame split: page_answer.split option.split)

lemma shows_settlement [simp]: "shows_state (settlement_answered a p) = shows_state p"
  by (simp add: settlement_answered_def shows_state_frame Let_def split: page_answer.split option.split)

lemma shows_poll_failed [simp]: "shows_state (poll_failed p) = shows_state p"
  by (simp add: poll_failed_def shows_state_frame Let_def)

lemma shows_poll [simp]: "shows_state (poll_answered a p) = shows_state p"
  by (simp add: poll_answered_def shows_state_frame Let_def del: field_simps_obj
      split: page_answer.split option.split jsv.split)

lemma shows_health [simp]: "shows_state (health_answered k a p) = shows_state p"
  by (simp add: health_answered_def shows_state_frame Let_def split: page_answer.split)

lemma shows_checkout [simp]: "shows_state (fst (handleCheckout l now p)) = shows_state p"
  by (simp add: handleCheckout_def shows_state_frame)

lemma shows_settle [simp]: "shows_state (fst (simulateSettlement l p)) = shows_state p"
  by (simp add: simulateSettlement_def shows_state_frame)

lemma shows_return [simp]: "shows_state (fst (checkReturnRedirect l s t i p)) = shows_state p"
  by (simp add: checkReturnRedirect_def checkPaymentStatus_def shows_state_frame Let_def)

lemma shows_prices: "shows_state p \<Longrightarrow> prices_ok p"
  by (simp add: shows_state_def shows_choice_def)

lemma provider_same: "pg_provider p = x \<Longrightarrow> p\<lparr>pg_provider := x\<rparr> = p"
  by simp

lemma method_provider: "pg_provider (selectPaymentMethod m p) = provider_of_method m"
  by (simp add: selectPaymentMethod_def updateCodePreview_def updateSubmitButtonLabel_def Let_def)

lemma shows_test_data: "shows_state p \<Longrightarrow> shows_state (applyTestData k p)"
proof -
  assume s: "shows_state p"
  have m: "shows_choice (selectPaymentMethod x p)" for x
    using shows_prices[OF s] by (intro shows_state_choice shows_method)
  have "(selectPaymentMethod ''cards'' p)\<lparr>pg_provider := ''paymob''\<rparr> = selectPaymentMethod ''cards'' p"
    "(selectPaymentMethod ''stripe'' p)\<lparr>pg_provider := ''stripe''\<rparr> = selectPaymentMethod ''stripe'' p"
    by (rule provider_same, simp add: method_provider provider_of_method_def)+
  then show ?thesis
    unfolding applyTestData_def using s m
    by (simp add: shows_customer shows_state_choice[OF shows_carrier])
qed

lemma shows_tab: "shows_state p \<Longrightarrow> shows_state (selectSdkTab t p)"
  unfolding selectSdkTab_def
  by (rule shows_preview) (simp_all add: shows_state_def set_active_def[symmetric])

lemma shows_label: "shows_state p \<Longrightarrow> shows_state (updateSubmitButtonLabel p)"
  by (simp add: shows_state_def updateSubmitButtonLabel_def)

lemma shows_backend: "shows_state p \<Longrightarrow> shows_state (switchBackend k n p)"
  unfolding switchBackend_def Let_def
  by (intro shows_label shows_tab) (simp add: shows_state_frame)

lemma shows_typed: "shows_state p \<Longrightarrow> shows_state (typed k v p)"
  unfolding typed_def by (rule shows_preview) (simp_all add: shows_state_def)

lemma shows_reference: "shows_state p \<Longrightarrow> shows_state (regenerateOrderRef x p)"
  unfolding regenerateOrderRef_def by (rule shows_preview) (simp_all add: shows_state_def)

lemma shows_step: "shows_state p \<Longrightarrow> shows_state (fst (page_step loc parse l e p))"
  using shows_state_choice[of p] shows_prices[of p]
  by (cases e)
    (simp_all add: shows_state_frame shows_product shows_method shows_carrier shows_test_data shows_tab shows_backend
      shows_typed shows_reference shows_choice_def toggleTheme_def applyTheme_def dismissReturnBanner_def checkPaymentStatus_def)

lemma shows_run: "shows_state p \<Longrightarrow> shows_state (page_run loc parse l es p)"
  by (induction es arbitrary: p) (simp_all add: shows_step)

lemma shows_loaded: "shows_state (page_loaded loc l saved suffix)"
proof -
  define p1 where "p1 = regenerateOrderRef suffix (detectInitialBackend l (initTheme saved page_markup))"
  have "sections_ok p1"
    unfolding p1_def regenerateOrderRef_def updateCodePreview_def detectInitialBackend_def initTheme_def applyTheme_def Let_def
    by (simp add: sections_ok_def page_markup_def method_sections_def hidden_at_first_def provider_of_method_def)
  then have "prices_ok (selectProduct loc ''pro'' p1)" by (intro shows_prices shows_product)
  then show ?thesis
    unfolding page_loaded_def Let_def p1_def[symmetric] by (intro shows_backend shows_method)
qed

text \<open>
  After any sequence of events - choices, inputs, answers of the server in any order - the page
  shows what it would order: prices and names of the chosen product, the section of the chosen
  method, its provider, and the label and the code rendered from the current choices and inputs.
\<close>

theorem page_shows_its_state: "shows_state (page_run loc parse l es (page_loaded loc l saved suffix))"
  by (rule shows_run) (rule shows_loaded)

section \<open>Where the page goes\<close>

definition safe_target :: "url_parser \<Rightarrow> string \<Rightarrow> bool" where
  "safe_target parse h \<longleftrightarrow> (\<exists>raw u. parse raw = Some u \<and> u_href u = h \<and> u_protocol u \<in> {''http:'', ''https:''})"

definition leaves_safely :: "url_parser \<Rightarrow> page \<Rightarrow> bool" where
  "leaves_safely parse p \<longleftrightarrow> (\<forall>h. pg_leaving p = Some h \<longrightarrow> safe_target parse h)"

lemma safe_targetI: "parse raw = Some u \<Longrightarrow> u_protocol u \<in> {''http:'', ''https:''} \<Longrightarrow> safe_target parse (u_href u)"
  unfolding safe_target_def by blast

lemma leaving_render [simp]:
  "pg_leaving (updateCodePreview p) = pg_leaving p" "pg_leaving (updateSubmitButtonLabel p) = pg_leaving p"
  by (simp_all add: updateCodePreview_def updateSubmitButtonLabel_def)

lemma leaving_choices [simp]:
  "pg_leaving (selectProduct loc k p) = pg_leaving p" "pg_leaving (selectWalletCarrier c p) = pg_leaving p"
  "pg_leaving (setCustomerValues n ph p) = pg_leaving p" "pg_leaving (showTestDataNotice m p) = pg_leaving p"
  "pg_leaving (selectSdkTab t p) = pg_leaving p" "pg_leaving (typed k v p) = pg_leaving p"
  "pg_leaving (regenerateOrderRef x p) = pg_leaving p" "pg_leaving (updateStatusBadge st p) = pg_leaving p"
  "pg_leaving (poll_failed p) = pg_leaving p" "pg_leaving (checkout_error m p) = pg_leaving p"
  "pg_leaving (showRedirectModal pr u p) = pg_leaving p"
  by (simp_all add: selectProduct_def selectWalletCarrier_def setCustomerValues_def showTestDataNotice_def
      selectSdkTab_def typed_def regenerateOrderRef_def updateStatusBadge_def poll_failed_def checkout_error_def
      showRedirectModal_def Let_def)

lemma leaving_sections [simp]: "pg_leaving (foldl (\<lambda>q (s, k). set_hidden s (m \<noteq> k) q) p ss) = pg_leaving p"
  by (induction ss arbitrary: p) (auto split: prod.splits)

lemma leaving_method [simp]: "pg_leaving (selectPaymentMethod m p) = pg_leaving p"
  by (simp add: selectPaymentMethod_def Let_def)

lemma leaving_others [simp]:
  "pg_leaving (applyTestData k p) = pg_leaving p" "pg_leaving (switchBackend k n p) = pg_leaving p"
  "pg_leaving (settlement_answered a p) = pg_leaving p" "pg_leaving (poll_answered a p) = pg_leaving p"
  "pg_leaving (health_answered k a p) = pg_leaving p" "pg_leaving (toggleTheme p) = pg_leaving p"
  "pg_leaving (fst (handleCheckout l now p)) = pg_leaving p" "pg_leaving (fst (simulateSettlement l p)) = pg_leaving p"
  "pg_leaving (fst (checkPaymentStatus l p)) = pg_leaving p" "pg_leaving (dismissReturnBanner p) = pg_leaving p"
  "pg_leaving (fst (checkReturnRedirect l s t i p)) = pg_leaving p"
  by (simp_all add: applyTestData_def switchBackend_def settlement_answered_def poll_answered_def health_answered_def
      toggleTheme_def applyTheme_def handleCheckout_def simulateSettlement_def checkPaymentStatus_def
      dismissReturnBanner_def checkReturnRedirect_def Let_def del: field_simps_obj
      split: page_answer.split option.split jsv.split)

lemma leaves_cong: "pg_leaving q = pg_leaving p \<Longrightarrow> leaves_safely parse q = leaves_safely parse p"
  by (simp add: leaves_safely_def)

lemma next_action_safe:
  "show_next_action parse s v p = Inr q \<Longrightarrow> leaves_safely parse p \<Longrightarrow> leaves_safely parse q"
  unfolding show_next_action_def Let_def leaves_safely_def
  by (simp only: split: if_splits option.splits) (auto intro: safe_targetI simp del: field_simps_obj)

lemma accepted_safe:
  assumes p: "leaves_safely parse p"
  shows "leaves_safely parse (checkout_accepted parse d p)"
proof -
  have same: "leaves_safely parse (checkout_error m q)" if "pg_leaving q = pg_leaving p" for m q
    using p leaves_cong[of "checkout_error m q" p] that by simp
  have shown: "leaves_safely parse ((set_hidden a b q)\<lparr>pg_polling := True\<rparr>)"
    if "show_next_action parse st v r = Inr q" "pg_leaving r = pg_leaving p" for st v r q a b
  proof -
    have "leaves_safely parse q" using next_action_safe[OF that(1)] leaves_cong[OF that(2)] p by blast
    then show ?thesis using leaves_cong[of "(set_hidden a b q)\<lparr>pg_polling := True\<rparr>" q] by simp
  qed
  define v where "v = jor (field d ''status'') (JStr ''pending'')"
  define act where "act = jor (field d ''next_action'') (field d ''nextAction'')"
  note unfolded = checkout_accepted_def[of parse d p, folded v_def act_def, unfolded Let_def]
  show ?thesis
  proof (cases v)
    case (JStr s)
    let ?p3 = "set_hidden ''unknownAlert'' True (set_hidden ''fawrySection'' True (set_hidden ''urlSection'' True
      (updateStatusBadge (js_upper s) (set_text ''resPaymentId'' (text_content (jor (field d ''payment_id'') (field d ''paymentId'')))
        (p\<lparr>pg_payment := jor (field d ''payment_id'') (field d ''paymentId'')\<rparr>)))))"
    have l: "pg_leaving ?p3 = pg_leaving p" by simp
    show ?thesis
    proof (cases "show_next_action parse (js_upper s) act ?p3")
      case (Inl m)
      then show ?thesis unfolding unfolded JStr jsv.case using same[OF l] same[OF refl] by (simp only: sum.case split: if_split) blast
    next
      case (Inr q)
      then show ?thesis unfolding unfolded JStr jsv.case using shown[OF Inr l] same[OF refl] by (simp only: sum.case split: if_split) blast
    qed
  qed (unfold unfolded, simp_all only: jsv.case split: if_split, auto intro: same)
qed

lemma answered_safe: "leaves_safely parse p \<Longrightarrow> leaves_safely parse (checkout_answered parse a p)"
proof -
  assume p: "leaves_safely parse p"
  have "leaves_safely parse (set_hidden k b (set_busy j c q))" if "leaves_safely parse q" for k b j c q
    using that by (simp add: leaves_safely_def)
  moreover have "leaves_safely parse (checkout_error m p)" for m using p by (simp add: leaves_safely_def)
  ultimately show ?thesis
    using accepted_safe[OF p] by (simp add: checkout_answered_def split: page_answer.split option.split)
qed

lemma step_safe: "leaves_safely parse p \<Longrightarrow> leaves_safely parse (fst (page_step loc parse l e p))"
  by (cases e) (simp_all add: answered_safe, simp_all add: leaves_safely_def)

lemma run_safe: "leaves_safely parse p \<Longrightarrow> leaves_safely parse (page_run loc parse l es p)"
  by (induction es arbitrary: p) (simp_all add: step_safe)

text \<open>
  C35. The page navigates only to an address that the URL parser reads as \<open>http\<close> or \<open>https\<close>,
  whatever next actions the servers answer with.
\<close>

theorem page_leaves_safely: "leaves_safely parse (page_run loc parse l es (page_loaded loc l saved suffix))"
  by (rule run_safe)
    (simp add: leaves_safely_def page_loaded_def Let_def initTheme_def applyTheme_def detectInitialBackend_def page_markup_def)

section \<open>What the buyer sees and what the server charges\<close>

lemma page_item_price:
  "it_minor (page_item k) = it_price (page_item k) * 100" "0 < it_price (page_item k)" "it_price (page_item k) < 1000"
  "it_currency (page_item k) = ''EGP''"
  by (simp_all add: page_item_def)

lemma page_item_product:
  "\<exists>pr. product_of (it_id (page_item k)) = Some pr \<and> pd_amount pr = Some (int (it_minor (page_item k)))
     \<and> product_decimals pr = 2 \<and> it_id (page_item k) \<noteq> []"
  by (simp add: page_item_def product_of_def products_def product_decimals_def text_value_def demo_decimals_def)

lemma price_text:
  "formatMajorUnits (of_int (int (it_minor (page_item k)))) 2 = Inr t \<Longrightarrow> amount_text (page_item k) = ''EGP '' @ t"
proof -
  define n where "n = it_price (page_item k)"
  assume "formatMajorUnits (of_int (int (it_minor (page_item k)))) 2 = Inr t"
  moreover have "formatMajorUnits (of_int (int (n * 100))) 2 = Inr (major_text False (n * 100) 2)"
  proof -
    have "\<bar>int (n * 100)\<bar> \<le> max_safe_integer" using page_item_price(3)[of k] by (simp add: n_def max_safe_integer_def)
    from formatMajorUnits_text[OF this, of 2] show ?thesis by (simp only: abs_of_nat nat_int) simp
  qed
  moreover have "js_to_fixed (of_nat n) [] 2 = major_text False (n * 100) 2"
    using page_item_price(3)[of k] by (intro fixed_whole) (simp add: n_def)
  ultimately show ?thesis by (simp add: amount_text_def page_item_price(1,4) n_def)
qed

lemma phone_chars: "c \<in> set (getNormalizedPhone p) \<Longrightarrow> \<not> is_ws c"
proof -
  assume c: "c \<in> set (getNormalizedPhone p)"
  have "\<not> is_ws (CHR ''+'')" "\<not> is_ws (CHR ''2'')" "\<not> is_ws (CHR ''0'')" by (simp_all add: is_ws_def char_code_def)
  with c show ?thesis by (auto simp: getNormalizedPhone_def Let_def split: if_splits)
qed

lemma phone_trimmed: "js_trim (getNormalizedPhone p) = getNormalizedPhone p" "getNormalizedPhone p \<noteq> []"
  using phone_chars by (blast intro: js_trim_no_ws, simp add: getNormalizedPhone_def Let_def)

definition details_fit :: "page \<Rightarrow> bool" where
  "details_fit p \<longleftrightarrow> length (getNormalizedPhone p) \<le> 64
     \<and> length (js_trim (or_text (pg_value p ''custEmail'') ''customer@example.com'')) \<le> 254
     \<and> length (js_trim (or_text (pg_value p ''custName'') ''Ahmed Ali'')) \<le> 200"

lemma order_customer:
  assumes "details_fit p"
  shows "customer_details (field (page_order now p) ''customer'') = Inr (getNormalizedPhone p,
     js_trim (or_text (pg_value p ''custEmail'') ''customer@example.com''),
     js_trim (or_text (pg_value p ''custName'') ''Ahmed Ali''))"
  using assms phone_trimmed[of p]
  by (simp add: page_order_def customer_details_def details_fit_def jor_def Let_def not_less)

lemma order_priced:
  assumes "pd_amount pr = Some (int (it_minor (pg_item p)))" "product_decimals pr = 2" "0 < it_minor (pg_item p)"
    "it_minor (pg_item p) \<le> 1000000"
  shows "\<exists>t. priced pr (page_order now p) = Inr (int (it_minor (pg_item p)), t)
     \<and> formatMajorUnits (of_int (int (it_minor (pg_item p)))) 2 = Inr t"
proof -
  define n where "n = int (it_minor (pg_item p))"
  have n: "n \<noteq> 0" "\<bar>n\<bar> \<le> 2 ^ 53" "is_safe_integer (of_int n)"
    using assms(3,4) by (simp_all add: n_def is_safe_integer_def max_safe_integer_def)
  obtain t where t: "formatMajorUnits (of_int n) 2 = Inr t" using format_safe[OF n(3)] by blast
  have "input_amount pr (page_order now p) 2 = Inr (JFin (of_int n))"
    using n(1) js_Number_int[OF n(2)] by (simp add: input_amount_def page_order_def jor_def Let_def n_def)
  then show ?thesis using t assms(2) by (simp add: priced_def format_number_def n_def Let_def)
qed


lemma render_value [simp]:
  "pg_value (updateCodePreview p) = pg_value p" "pg_value (updateSubmitButtonLabel p) = pg_value p"
  by (simp_all add: updateCodePreview_def updateSubmitButtonLabel_def)

lemma sections_value [simp]: "pg_value (foldl (\<lambda>q (s, k). set_hidden s (m \<noteq> k) q) p ss) = pg_value p"
  by (induction ss arbitrary: p) (auto split: prod.splits)

lemma loaded_values:
  "k \<noteq> ''merchantRef'' \<Longrightarrow> pg_value (page_loaded loc l saved suffix) k = pg_value page_markup k"
  by (simp add: page_loaded_def switchBackend_def selectSdkTab_def selectPaymentMethod_def selectProduct_def
      regenerateOrderRef_def detectInitialBackend_def initTheme_def applyTheme_def Let_def)

definition demo_location :: location where
  "demo_location = \<lparr>lo_protocol = ''http:'', lo_hostname = ''localhost'', lo_port = ''4000'', lo_origin = ''http://localhost:4000''\<rparr>"

lemma loaded_details_fit: "details_fit (page_loaded loc l saved suffix)"
proof -
  let ?p = "page_loaded loc l saved suffix"
  have "pg_value ?p ''custPhone'' = ''1001234567''" "pg_value ?p ''custEmail'' = ''customer@example.com''"
    "pg_value ?p ''custName'' = ''Ahmed Ali''" by (simp_all add: loaded_values page_markup_def)
  moreover have "getNormalizedPhone ?p = ''+201001234567''"
    using calculation(1) by (simp add: getNormalizedPhone_def or_text_def is_digit_def char_code_def Let_def)
  moreover have "js_trim ''customer@example.com'' = ''customer@example.com''" "js_trim ''Ahmed Ali'' = ''Ahmed Ali''" by code_simp+
  ultimately show ?thesis by (simp add: details_fit_def or_text_def)
qed


section \<open>The alert of an earlier payment\<close>

lemma sections_alert [simp]:
  "''settledAlert'' \<notin> fst ` set ss \<Longrightarrow>
   pg_hidden (foldl (\<lambda>q (s, k). set_hidden s (m \<noteq> k) q) p ss) ''settledAlert'' = pg_hidden p ''settledAlert''"
  by (induction ss arbitrary: p) (auto split: prod.splits)

lemma render_hidden [simp]:
  "pg_hidden (updateCodePreview p) = pg_hidden p" "pg_hidden (updateSubmitButtonLabel p) = pg_hidden p"
  by (simp_all add: updateCodePreview_def updateSubmitButtonLabel_def)

lemma method_alert [simp]: "pg_hidden (selectPaymentMethod m p) ''settledAlert'' = pg_hidden p ''settledAlert''"
  by (simp add: selectPaymentMethod_def Let_def method_sections_def)

lemma choices_alert [simp]:
  "pg_hidden (selectProduct loc k p) = pg_hidden p" "pg_hidden (selectWalletCarrier c p) = pg_hidden p"
  "pg_hidden (setCustomerValues n ph p) = pg_hidden p" "pg_hidden (selectSdkTab t p) = pg_hidden p"
  "pg_hidden (typed k v p) = pg_hidden p" "pg_hidden (regenerateOrderRef x p) = pg_hidden p"
  "pg_hidden (updateStatusBadge st p) = pg_hidden p" "pg_hidden (poll_failed p) = pg_hidden p"
  "pg_hidden (checkout_error m p) = pg_hidden p" "pg_hidden (switchBackend b port p) = pg_hidden p"
  "pg_hidden (showTestDataNotice m p) ''settledAlert'' = pg_hidden p ''settledAlert''"
  "pg_hidden (showRedirectModal pr u p) ''settledAlert'' = pg_hidden p ''settledAlert''"
  by (simp_all add: selectProduct_def selectWalletCarrier_def setCustomerValues_def selectSdkTab_def typed_def
      regenerateOrderRef_def updateStatusBadge_def poll_failed_def checkout_error_def switchBackend_def
      showTestDataNotice_def showRedirectModal_def Let_def)

lemma next_action_alert: "show_next_action parse s v p = Inr q \<Longrightarrow> pg_hidden q ''settledAlert'' = pg_hidden p ''settledAlert''"
  by (auto simp: show_next_action_def Let_def simp del: field_simps_obj split: if_splits option.splits)

lemma checkout_keeps_alert: "pg_hidden (checkout_answered parse a p) ''settledAlert'' = pg_hidden p ''settledAlert''"
proof -
  have "pg_hidden (checkout_accepted parse d p) ''settledAlert'' = pg_hidden p ''settledAlert''" for d
    by (simp add: checkout_accepted_def Let_def del: field_simps_obj split: jsv.split sum.split)
      (auto dest: next_action_alert)
  then show ?thesis by (simp add: checkout_answered_def split: page_answer.split option.split)
qed

text \<open>
  The alert that a payment is settled is never hidden again: it still stands under the next order,
  which is pending.
\<close>

lemma settled_alert_stays:
  "\<not> pg_hidden p ''settledAlert'' \<Longrightarrow> \<not> pg_hidden (fst (page_step loc parse l e p)) ''settledAlert''"
  by (cases e)
    (simp_all add: checkout_keeps_alert applyTestData_def toggleTheme_def applyTheme_def handleCheckout_def simulateSettlement_def
      settlement_answered_def checkPaymentStatus_def poll_answered_def health_answered_def checkReturnRedirect_def
      dismissReturnBanner_def Let_def del: field_simps_obj split: page_answer.split option.split jsv.split)

section \<open>Amounts and cards\<close>

lemma page_format_agrees: "0 < d \<Longrightarrow> formatMajorUnits (of_int m) d = Inr t \<Longrightarrow> page_formatMajorUnits m d = t"
  by (auto simp: formatMajorUnits_def page_formatMajorUnits_def Let_def split: if_splits)

text \<open>The mirror on the page and the SDK differ on a currency without decimals.\<close>

lemma page_format_differs: "page_formatMajorUnits 5 0 = ''5.0''" "formatMajorUnits 5 0 = Inr ''5''"
  by (code_simp, simp add: formatMajorUnits_def is_safe_integer_def max_safe_integer_def int_str_def nat_str_lit digit_char_lits)

lemma group4_not_Nil [simp]: "group4 s \<noteq> []"
  by (subst group4.simps) simp

lemma digits_of_groups: "filter is_digit (js_join '' '' (group4 s)) = filter is_digit s"
proof (induction s rule: group4.induct)
  case (1 s)
  show ?case
  proof (cases "length s \<le> 4")
    case True
    then show ?thesis by (subst group4.simps) simp
  next
    case False
    have "\<not> is_digit (CHR '' '')" by (simp add: is_digit_def char_code_def)
    moreover have "js_join '' '' (group4 s) = take 4 s @ '' '' @ js_join '' '' (group4 (drop 4 s))"
      using False by (subst group4.simps) (simp only: if_False js_join_Cons[OF group4_not_Nil])
    moreover have "filter is_digit s = filter is_digit (take 4 s) @ filter is_digit (drop 4 s)"
      by (metis append_take_drop_id filter_append)
    ultimately show ?thesis using 1 False by simp
  qed
qed

text \<open>Formatting a formatted card number changes nothing: no digit is lost at a keystroke.\<close>

lemma formatCardNumber_idem: "formatCardNumber (formatCardNumber v) = formatCardNumber v"
proof -
  have "filter is_digit (take 16 (filter is_digit v)) = take 16 (filter is_digit v)"
    by (rule filter_True) (auto dest: in_set_takeD)
  then show ?thesis by (simp add: formatCardNumber_def digits_of_groups)
qed

end
