(* ===== verification/Checkout_Ui.thy ===== *)
theory Checkout_Ui
  imports Webhooks Payment_Routing Js_Number
begin

text \<open>
  The two checkout components of the web application as state machines: \<open>MultiRailCheckoutExperience\<close>
  (\<open>components/multi-rail-checkout-experience.tsx\<close>), which orders through the payment route, and
  \<open>MockCheckoutInteractivePanel\<close> (\<open>components/mock-checkout-interactive-panel.tsx\<close>) with its page
  (\<open>app/mock/pay/[id]/page.tsx\<close>), which settles through the mock webhook.

  A component's state is its \<open>useState\<close> values; \<open>useMemo\<close> values are functions of the state. A handler
  that waits is two steps: up to its request, and with the answer. \<open>crypto.randomUUID\<close> is an
  argument. Markup, the copy buttons and their timers are left out.
\<close>

section \<open>The multi-rail checkout\<close>

definition provider_by_method :: "string \<Rightarrow> string" where
  "provider_by_method m = (if m = ''fawry'' then ''fawry'' else if m = ''mock'' then ''mock'' else ''paymob'')"

definition currencies_by_provider :: "string \<Rightarrow> string list" where
  "currencies_by_provider p =
     (if p = ''paymob'' then [''EGP'', ''USD'', ''EUR'', ''SAR'', ''AED'']
      else if p = ''fawry'' then [''EGP'']
      else if p = ''stripe'' then [''USD'', ''EUR'', ''GBP'', ''EGP'', ''SAR'', ''AED'', ''JPY'']
      else [''EGP'', ''USD'', ''EUR'', ''GBP'', ''SAR'', ''AED'', ''KWD'', ''BHD'', ''OMR'', ''JPY''])"

definition getCurrencyMultiplier :: "string \<Rightarrow> nat" where
  "getCurrencyMultiplier c = (if c = ''JPY'' then 1 else if c = ''KWD'' \<or> c = ''BHD'' \<or> c = ''OMR'' then 1000 else 100)"

definition plan_amounts :: "string \<Rightarrow> (string \<times> nat) list" where
  "plan_amounts plan =
     (if plan = ''pro'' then
        [(''USD'', 49), (''EUR'', 45), (''GBP'', 39), (''EGP'', 1500), (''SAR'', 185), (''AED'', 180), (''KWD'', 15),
         (''BHD'', 18), (''OMR'', 19), (''JPY'', 7500)]
      else
        [(''USD'', 19), (''EUR'', 18), (''GBP'', 15), (''EGP'', 600), (''SAR'', 70), (''AED'', 70), (''KWD'', 6),
         (''BHD'', 7), (''OMR'', 7), (''JPY'', 2900)])"

record rail_checkout =
  rc_method :: string
  rc_plan :: string
  rc_currency :: string
  rc_customMajorAmount :: rat
  rc_name :: string
  rc_email :: string
  rc_phone :: string
  rc_useSandboxKey :: bool
  rc_customApiKey :: string
  rc_loading :: bool
  rc_result :: "jsv option"
  rc_error :: string

definition rail_start :: rail_checkout where
  "rail_start = \<lparr>rc_method = ''card'', rc_plan = ''pro'', rc_currency = ''USD'', rc_customMajorAmount = 100,
     rc_name = ''Ahmed Ali'', rc_email = ''customer@example.com'', rc_phone = ''+201001234567'', rc_useSandboxKey = True,
     rc_customApiKey = [], rc_loading = False, rc_result = None, rc_error = []\<rparr>"

definition rail_provider :: "rail_checkout \<Rightarrow> string" where
  "rail_provider s = (if rc_method s = ''card'' then (if rc_currency s = ''EGP'' then ''paymob'' else ''stripe'')
     else provider_by_method (rc_method s))"

definition effective_currency :: "rail_checkout \<Rightarrow> string" where
  "effective_currency s =
     (let valid = currencies_by_provider (rail_provider s) in
      if rail_provider s = ''fawry'' then ''EGP''
      else if rc_currency s \<notin> set valid then hd valid else rc_currency s)"

text \<open>\<open>Math.round(x * y)\<close> on doubles.\<close>

definition rounded_product :: "rat \<Rightarrow> nat \<Rightarrow> int" where
  "rounded_product x y = \<lfloor>double_of (x * of_nat y) + 1 / 2\<rfloor>"

definition rail_amount :: "rail_checkout \<Rightarrow> int" where
  "rail_amount s =
     (let multiplier = getCurrencyMultiplier (effective_currency s) in
      if rc_plan s = ''custom'' then
        max 1 (rounded_product (if rc_customMajorAmount s = 0 then 1 else rc_customMajorAmount s) multiplier)
      else
        let major = nullish_else (map_of (plan_amounts (rc_plan s)) (effective_currency s)) (if rc_plan s = ''pro'' then 49 else 19)
        in rounded_product (of_nat major) multiplier)"

definition handleMethodChange :: "string \<Rightarrow> rail_checkout \<Rightarrow> rail_checkout" where
  "handleMethodChange m s =
     (let s1 = s\<lparr>rc_method := m\<rparr>;
          s2 = (if m = ''fawry'' then
                  (if starts_with (rc_phone s) ''+20'' then s1\<lparr>rc_currency := ''EGP''\<rparr>
                   else s1\<lparr>rc_currency := ''EGP'', rc_phone := ''+201001234567''\<rparr>)
                else s1)
      in s2\<lparr>rc_error := []\<rparr>)"

definition handleMockTestVector :: "string \<Rightarrow> rail_checkout \<Rightarrow> rail_checkout" where
  "handleMockTestVector v s =
     (let s1 = s\<lparr>rc_method := ''mock'', rc_plan := ''custom''\<rparr> in
      if v = ''success'' then s1\<lparr>rc_customMajorAmount := 100\<rparr>
      else if v = ''decline'' then s1\<lparr>rc_customMajorAmount := double_of (9999 / 100)\<rparr>
      else if v = ''timeout'' then s1\<lparr>rc_customMajorAmount := double_of (8888 / 100)\<rparr>
      else s1)"

record ui_request =
  ur_url :: string
  ur_headers :: headers
  ur_body :: jsv

definition rail_body :: "string \<Rightarrow> rail_checkout \<Rightarrow> jsv" where
  "rail_body uuid s = JObj
     [(''provider'', JStr (rail_provider s)), (''amount_minor_units'', JNum (rail_amount s) 0),
      (''currency'', JStr (effective_currency s)),
      (''customer'', JObj [(''phone'', JStr (rc_phone s)), (''email'', JStr (rc_email s)), (''full_name'', JStr (rc_name s))]),
      (''merchant_reference'', JStr (''ord_'' @ take 8 uuid)),
      (''description'', JStr (''OpenWrapper '' @ (if rc_plan s = ''pro'' then ''Pro Plan''
          else if rc_plan s = ''starter'' then ''Starter Plan'' else ''Custom Order'')))]"

definition rail_submit :: "string \<Rightarrow> string \<Rightarrow> rail_checkout \<Rightarrow> rail_checkout \<times> ui_request option" where
  "rail_submit key uuid s =
     (let s1 = s\<lparr>rc_loading := True, rc_error := [], rc_result := None\<rparr>;
          token = (if rc_useSandboxKey s then ''ow_test_sandbox_demo'' else js_trim (rc_customApiKey s))
      in if token = [] then (s1\<lparr>rc_error := ''Please provide an API key or enable Sandbox Mode.'', rc_loading := False\<rparr>, None)
         else (s1, Some \<lparr>ur_url = ''/api/v1/payments'',
            ur_headers = [(''Content-Type'', ''application/json''), (''Authorization'', ''Bearer '' @ token), (''Idempotency-Key'', key)],
            ur_body = rail_body uuid s\<rparr>))"

text \<open>The answer: a network error with its message, or a status and a body, \<open>None\<close> when it is not JSON.\<close>

datatype ui_answer = UiFailed string | UiAnswer nat "jsv option"

definition rail_answered :: "ui_answer \<Rightarrow> rail_checkout \<Rightarrow> rail_checkout" where
  "rail_answered a s =
     (case a of
        UiFailed m \<Rightarrow> s\<lparr>rc_error := m\<rparr>
      | UiAnswer status None \<Rightarrow> s\<lparr>rc_error := ''Unexpected token in JSON''\<rparr>
      | UiAnswer status (Some d) \<Rightarrow>
          if 200 \<le> status \<and> status \<le> 299 then s\<lparr>rc_result := (if d = JNull then None else Some d)\<rparr>
          else if d = JNull then s\<lparr>rc_error := ''Cannot read properties of null''\<rparr>
          else s\<lparr>rc_error := js_String (jor (field (field d ''error'') ''message'') (JStr ''Payment request failed.''))\<rparr>)
       \<lparr>rc_loading := False\<rparr>"

definition safeHttpUrl :: "url_parser \<Rightarrow> string option \<Rightarrow> string option" where
  "safeHttpUrl parse_url v =
     (if \<not> truthy v then None
      else case parse_url (the v) of
        None \<Rightarrow> None
      | Some u \<Rightarrow> if u_protocol u = ''https:'' \<or> u_protocol u = ''http:'' then Some (u_href u) else None)"

datatype rail_event =
    MethodChange string | TestVector string | PlanChange string | CurrencyChange string | AmountChange rat
  | NameChange string | EmailChange string | PhoneChange string | KeyMode bool | KeyChange string
  | RailSubmit string string | RailAnswered ui_answer | ResultDismissed

fun rail_step :: "rail_event \<Rightarrow> rail_checkout \<Rightarrow> rail_checkout" where
  "rail_step (MethodChange m) s = handleMethodChange m s"
| "rail_step (TestVector v) s = handleMockTestVector v s"
| "rail_step (PlanChange p) s = s\<lparr>rc_plan := p\<rparr>"
| "rail_step (CurrencyChange c) s = s\<lparr>rc_currency := c\<rparr>"
| "rail_step (AmountChange x) s = s\<lparr>rc_customMajorAmount := x\<rparr>"
| "rail_step (NameChange v) s = s\<lparr>rc_name := v\<rparr>"
| "rail_step (EmailChange v) s = s\<lparr>rc_email := v\<rparr>"
| "rail_step (PhoneChange v) s = s\<lparr>rc_phone := v\<rparr>"
| "rail_step (KeyMode b) s = s\<lparr>rc_useSandboxKey := b\<rparr>"
| "rail_step (KeyChange v) s = s\<lparr>rc_customApiKey := v\<rparr>"
| "rail_step (RailSubmit key uuid) s = fst (rail_submit key uuid s)"
| "rail_step (RailAnswered a) s = rail_answered a s"
| "rail_step ResultDismissed s = s\<lparr>rc_result := None\<rparr>"

section \<open>The mock checkout panel\<close>

definition without_ws :: "string \<Rightarrow> string" where
  "without_ws s = filter (\<lambda>c. \<not> is_ws c) s"

definition getCardBrand :: "string \<Rightarrow> string" where
  "getCardBrand num =
     (let clean = without_ws num in
      if starts_with clean ''5078'' then ''Meeza''
      else if starts_with clean ''4'' then ''Visa''
      else if (case clean of a # b # _ \<Rightarrow> a = CHR ''5'' \<and> 49 \<le> char_code b \<and> char_code b \<le> 53 | _ \<Rightarrow> False) then ''Mastercard''
      else ''Card'')"

definition getWalletCarrier :: "string \<Rightarrow> string" where
  "getWalletCarrier p =
     (let clean = filter (\<lambda>c. \<not> is_ws c \<and> c \<noteq> CHR ''+'' \<and> c \<noteq> CHR ''-'') p in
      if js_includes clean ''10'' \<or> ends_with clean ''010'' then ''Vodafone Cash''
      else if js_includes clean ''11'' \<or> ends_with clean ''011'' then ''Etisalat Cash''
      else if js_includes clean ''12'' \<or> ends_with clean ''012'' then ''Orange Money''
      else if js_includes clean ''15'' \<or> ends_with clean ''015'' then ''WE Pay''
      else ''Mobile Wallet'')"

definition fawryRefCode :: "string \<Rightarrow> string" where
  "fawryRefCode paymentId = pad_start 9 (CHR ''0'')
     (nat_str (foldl (\<lambda>acc c. (acc * 31 + char_code c) mod 1000000000) 948291041 paymentId))"

record mock_props =
  mq_paymentId :: string
  mq_amountFormatted :: string
  mq_amountMinorUnits :: int
  mq_currency :: string
  mq_merchantReference :: string
  mq_initialStatus :: string
  mq_customerPhone :: string
  mq_customerEmail :: string
  mq_customerName :: string
  mq_description :: string
  mq_returnUrl :: "string option"
  mq_cancelUrl :: "string option"

record mock_panel =
  mp_method :: string
  mp_status :: string
  mp_loading :: bool
  mp_error :: string
  mp_is3DSOpen :: bool
  mp_is3DSConfirmed :: bool
  mp_otpCode :: string
  mp_email :: string
  mp_name :: string
  mp_phone :: string
  mp_cardNumber :: string
  mp_cardExp :: string
  mp_cardCvv :: string

definition panel_start :: "mock_props \<Rightarrow> mock_panel" where
  "panel_start q = \<lparr>mp_method = ''card'', mp_status = mq_initialStatus q, mp_loading = False, mp_error = [],
     mp_is3DSOpen = False, mp_is3DSConfirmed = False, mp_otpCode = ''123456'', mp_email = mq_customerEmail q,
     mp_name = mq_customerName q, mp_phone = mq_customerPhone q, mp_cardNumber = ''4242 4242 4242 4242'',
     mp_cardExp = ''12/28'', mp_cardCvv = ''123''\<rparr>"

definition mock_body :: "mock_props \<Rightarrow> string \<Rightarrow> jsv" where
  "mock_body q desired = JObj
     [(''payment_id'', JStr (mq_paymentId q)), (''paymentId'', JStr (mq_paymentId q)),
      (''merchant_reference'', JStr (mq_merchantReference q)), (''merchantReference'', JStr (mq_merchantReference q)),
      (''status'', JStr desired), (''amount_minor_units'', JNum (mq_amountMinorUnits q) 0)]"

definition declined :: "mock_panel \<Rightarrow> string option \<Rightarrow> bool" where
  "declined s forceOutcome = (ends_with (without_ws (mp_cardNumber s)) ''0002'' \<or> forceOutcome = Some ''failed'')"

definition desired_status :: "mock_panel \<Rightarrow> string option \<Rightarrow> string" where
  "desired_status s forceOutcome = (if declined s forceOutcome then ''failed'' else ''succeeded'')"

text \<open>Up to the request: the new state, and the desired status with the request, or the 3DS dialog.\<close>

definition handlePayment :: "mock_props \<Rightarrow> string option \<Rightarrow> mock_panel \<Rightarrow> mock_panel \<times> (string \<times> ui_request) option" where
  "handlePayment q forceOutcome s =
     (let s1 = s\<lparr>mp_error := []\<rparr>;
          is3DSCard = ends_with (without_ws (mp_cardNumber s)) ''0008'';
          desired = desired_status s forceOutcome
      in if mp_method s = ''card'' \<and> is3DSCard \<and> \<not> mp_is3DSConfirmed s \<and> forceOutcome = None then
           (s1\<lparr>mp_is3DSOpen := True\<rparr>, None)
         else (s1\<lparr>mp_loading := True\<rparr>, Some (desired, \<lparr>ur_url = ''/api/webhooks/mock'',
            ur_headers = [(''Content-Type'', ''application/json'')], ur_body = mock_body q desired\<rparr>)))"

text \<open>With the answer: whether it was ok, \<open>None\<close> for a network error or the time limit of 2.5 s.\<close>

definition payment_answered :: "string \<Rightarrow> bool option \<Rightarrow> mock_panel \<Rightarrow> mock_panel" where
  "payment_answered desired ok s =
     (case ok of
        Some b \<Rightarrow>
          if desired = ''failed'' then
            s\<lparr>mp_status := ''failed'', mp_loading := False,
              mp_error := ''Card was declined by the issuing bank. Try testing with the Visa (4242) or Meeza (5078) card.''\<rparr>
          else if b then s\<lparr>mp_status := ''succeeded'', mp_loading := False\<rparr>
          else s\<lparr>mp_error := ''Payment processing encountered an error. Please try again.'', mp_loading := False\<rparr>
      | None \<Rightarrow>
          if desired = ''failed'' then s\<lparr>mp_status := ''failed'', mp_error := ''Card was declined by issuing bank.'', mp_loading := False\<rparr>
          else s\<lparr>mp_status := ''succeeded'', mp_loading := False\<rparr>)"

text \<open>The button of the 3DS dialog: the code in its input is not looked at.\<close>

definition authorize_3ds :: "mock_props \<Rightarrow> mock_panel \<Rightarrow> mock_panel \<times> (string \<times> ui_request) option" where
  "authorize_3ds q s =
     (let (s1, r) = handlePayment q (Some ''succeeded'') s
      in (s1\<lparr>mp_is3DSOpen := False, mp_is3DSConfirmed := True\<rparr>, r))"

definition pay_again :: "mock_panel \<Rightarrow> mock_panel" where
  "pay_again s = s\<lparr>mp_status := ''pending'', mp_is3DSConfirmed := False, mp_error := []\<rparr>"

datatype panel_event =
    PayPressed | Authorize | Close3DS | PayAgain | PanelMethod string | CardNumber string | TestCard string string string
  | CardExp string | CardCvv string
  | PanelPhone string | PanelName string | PanelEmail string | Otp string | PayAnswered string "bool option"

fun panel_step :: "mock_props \<Rightarrow> panel_event \<Rightarrow> mock_panel \<Rightarrow> mock_panel" where
  "panel_step q PayPressed s = fst (handlePayment q None s)"
| "panel_step q Authorize s = fst (authorize_3ds q s)"
| "panel_step q Close3DS s = s\<lparr>mp_is3DSOpen := False\<rparr>"
| "panel_step q PayAgain s = pay_again s"
| "panel_step q (PanelMethod m) s = s\<lparr>mp_method := m, mp_error := []\<rparr>"
| "panel_step q (CardNumber v) s = s\<lparr>mp_cardNumber := v, mp_error := []\<rparr>"
| "panel_step q (TestCard n e c) s = s\<lparr>mp_cardNumber := n, mp_cardExp := e, mp_cardCvv := c, mp_error := []\<rparr>"
| "panel_step q (CardExp v) s = s\<lparr>mp_cardExp := v\<rparr>"
| "panel_step q (CardCvv v) s = s\<lparr>mp_cardCvv := v\<rparr>"
| "panel_step q (PanelPhone v) s = s\<lparr>mp_phone := v\<rparr>"
| "panel_step q (PanelName v) s = s\<lparr>mp_name := v\<rparr>"
| "panel_step q (PanelEmail v) s = s\<lparr>mp_email := v\<rparr>"
| "panel_step q (Otp v) s = s\<lparr>mp_otpCode := v\<rparr>"
| "panel_step q (PayAnswered d ok) s = payment_answered d ok s"

section \<open>The page of the panel\<close>

text \<open>The stored payment, \<open>None\<close> when there is none or the database does not answer in 600 ms.\<close>

definition find_for_page :: "string \<Rightarrow> payment_row option db" where
  "find_for_page ident = select_payment (\<lambda>p. p_id p = ident \<or> p_merchantReference p = Some ident
     \<or> p_providerReference p = Some ident)"

definition mock_pay_props :: "string \<Rightarrow> string option \<Rightarrow> string option \<Rightarrow> payment_row option \<Rightarrow> mock_props" where
  "mock_pay_props ident return_url cancel_url row =
     (let column = \<lambda>f d. nullish_else (Option.bind row f) d;
          amountMinorUnits = nullish_else (map_option p_amountMinorUnits row) 15000;
          currency = nullish_else (map_option p_currency row) ''EGP''
      in \<lparr>mq_paymentId = ident, mq_amountFormatted = formatMinorUnits (of_int amountMinorUnits) currency,
          mq_amountMinorUnits = amountMinorUnits, mq_currency = currency,
          mq_merchantReference = column p_merchantReference (''ref_'' @ slice_last 8 ident),
          mq_initialStatus = nullish_else (map_option p_status row) ''pending'',
          mq_customerPhone = column p_customerPhone ''+201001234567'',
          mq_customerEmail = column p_customerEmail ''customer@example.com'',
          mq_customerName = column p_customerName ''Ahmed Ali'', mq_description = column p_description ''Order Payment'',
          mq_returnUrl = return_url, mq_cancelUrl = cancel_url\<rparr>)"

text \<open>The two links back to the merchant: the address as given, or none when it is empty.\<close>

definition return_href :: "mock_props \<Rightarrow> string option" where
  "return_href q = js_or (mq_returnUrl q) None"

end
