(* ===== verification/Checkout_Ui_Facts.thy ===== *)
theory Checkout_Ui_Facts
  imports Checkout_Ui
begin

text \<open>
  What the two checkout components send and what they show: the multi-rail checkout asks only for
  payments the route's schema takes, in a currency of its rail; the mock panel shows what it asked
  for, whatever was stored.
\<close>

section \<open>The amount of the multi-rail checkout\<close>

lemma round_even_bounds: "0 \<le> z \<Longrightarrow> 0 \<le> round_even z" "of_int (round_even z) \<le> z + 1"
  unfolding round_even_def Let_def by (auto simp: le_floor_iff) linarith+

lemma double_step: "0 < y \<Longrightarrow> pow_int 2 (max (- 1074) (log2_floor y - 52)) \<le> y + 1"
proof -
  assume y: "0 < y"
  let ?e = "max (- 1074) (log2_floor y - 52)"
  show ?thesis
  proof (cases "?e \<le> 0")
    case True
    then have "pow_int 2 ?e \<le> 1" by (auto simp: pow_int_def)
    then show ?thesis using y by linarith
  next
    case False
    then have e: "?e = log2_floor y - 52" "52 < log2_floor y" by auto
    have one: "1 \<le> y" using e(2) by (auto simp: log2_floor_def split: if_splits)
    then have n: "0 < nat \<lfloor>y\<rfloor>" by simp
    have l: "log2_floor y = int (bit_length (nat \<lfloor>y\<rfloor>) - 1)"
      using one bit_length_bounds [OF n] by (simp add: log2_floor_def of_nat_diff)
    have "pow_int 2 ?e = 2 ^ nat (log2_floor y - 52)" using e by (simp add: pow_int_def)
    also have "\<dots> \<le> 2 ^ (bit_length (nat \<lfloor>y\<rfloor>) - 1)" by (rule power_increasing) (simp_all add: l)
    also have "\<dots> = of_nat (2 ^ (bit_length (nat \<lfloor>y\<rfloor>) - 1))" by simp
    also have "\<dots> \<le> of_nat (nat \<lfloor>y\<rfloor>)" using bit_length_bounds [OF n] by (simp only: of_nat_le_iff)
    also have "\<dots> \<le> y" using one by simp
    finally show ?thesis by linarith
  qed
qed

lemma double_of_upper: "0 \<le> y \<Longrightarrow> double_of y \<le> 2 * y + 1"
proof (cases "y = 0")
  case False
  assume "0 \<le> y"
  with False have y: "0 < y" by simp
  define p where "p = pow_int 2 (max (- 1074) (log2_floor y - 52))"
  have p: "0 < p" "p \<le> y + 1" using double_step [OF y] by (auto simp: p_def pow_int_def)
  have "double_of y = of_int (round_even (y / p)) * p" using y by (simp add: double_of_def p_def Let_def)
  also have "\<dots> \<le> (y / p + 1) * p" using p by (intro mult_right_mono round_even_bounds) simp
  also have "\<dots> = y + p" using p by (simp add: field_simps)
  finally show ?thesis using p by linarith
qed (simp add: double_of_def)

lemma double_of_negative: "y \<le> 0 \<Longrightarrow> double_of y \<le> 0"
proof -
  assume y: "y \<le> 0"
  define p where "p = pow_int 2 (max (- 1074) (log2_floor \<bar>y\<bar> - 52))"
  have p: "0 < p" by (auto simp: p_def pow_int_def)
  have r: "0 \<le> rat_of_int (round_even (\<bar>y\<bar> / p)) * p" using p by (simp add: round_even_bounds)
  have "double_of y = - (rat_of_int (round_even (\<bar>y\<bar> / p)) * p)" if "y \<noteq> 0"
    using y that by (simp add: double_of_def p_def Let_def)
  with r show ?thesis by (cases "y = 0") (simp_all add: double_of_def)
qed

lemma rounded_product_upper: "x \<le> 1000000 \<Longrightarrow> m \<le> 1000 \<Longrightarrow> rounded_product x m \<le> 2147483647"
proof -
  assume a: "x \<le> 1000000" "m \<le> 1000"
  have "double_of (x * of_nat m) \<le> 2000000001"
  proof (cases "0 \<le> x")
    case True
    have "rat_of_nat m \<le> 1000" using a(2) by (metis of_nat_le_iff of_nat_numeral)
    then have "x * of_nat m \<le> 1000000 * 1000" using True a by (intro mult_mono) simp_all
    then show ?thesis using double_of_upper [of "x * of_nat m"] True by simp
  next
    case False
    then have "x * of_nat m \<le> 0" by (simp add: mult_nonpos_nonneg)
    from double_of_negative [OF this] show ?thesis by simp
  qed
  then show ?thesis unfolding rounded_product_def by (simp add: floor_le_iff)
qed

lemma rounded_product_whole: "n * m \<le> 2 ^ 53 \<Longrightarrow> rounded_product (of_nat n) m = int (n * m)"
proof -
  assume a: "n * m \<le> 2 ^ 53"
  have "int (n * m) \<le> int (2 ^ 53)" using a by (simp only: of_nat_le_iff)
  then have "double_of (of_int (int (n * m))) = of_int (int (n * m))" by (intro double_of_int) simp
  then have d: "double_of (of_nat n * of_nat m) = of_int (int (n * m))" by simp
  have half: "\<lfloor>rat_of_int k + 1 / 2\<rfloor> = k" for k by (simp add: floor_eq_iff)
  show ?thesis unfolding rounded_product_def d by (rule half)
qed

lemma offered_decimals:
  "list_all (\<lambda>c. getCurrencyMultiplier c = 10 ^ getCurrencyDecimals c \<and> length c = 3
      \<and> list_all (\<lambda>x. 65 \<le> char_code x \<and> char_code x \<le> 90) c) (currencies_by_provider ''mock'')"
  by code_simp

lemma offered_currencies: "set (currencies_by_provider p) \<subseteq> set (currencies_by_provider ''mock'')"
  by (simp add: currencies_by_provider_def)

lemma offered:
  assumes "c \<in> set (currencies_by_provider p)"
  shows "getCurrencyMultiplier c = 10 ^ getCurrencyDecimals c" "length c = 3"
    "list_all (\<lambda>x. 65 \<le> char_code x \<and> char_code x \<le> 90) c"
  using offered_decimals offered_currencies [of p] assms by (auto simp only: list_all_iff)

lemma effective_currency_of_rail: "effective_currency s \<in> set (currencies_by_provider (rail_provider s))"
  by (auto simp: effective_currency_def Let_def currencies_by_provider_def)

lemma multiplier_range: "1 \<le> getCurrencyMultiplier c" "getCurrencyMultiplier c \<le> 1000"
  by (simp_all add: getCurrencyMultiplier_def)

lemma plan_amounts_range: "map_of (plan_amounts plan) c = Some n \<Longrightarrow> 6 \<le> n \<and> n \<le> 7500"
  by (drule map_of_SomeD) (auto simp: plan_amounts_def split: if_splits)

lemma rail_amount_range:
  assumes "rc_plan s = ''custom'' \<Longrightarrow> rc_customMajorAmount s \<le> 1000000"
  shows "amount_ok (Some (rail_amount s))"
proof (cases "rc_plan s = ''custom''")
  case True
  with assms show ?thesis
    using rounded_product_upper [OF _ multiplier_range(2)] by (simp add: rail_amount_def amount_ok_def Let_def)
next
  case False
  define major where "major = nullish_else (map_of (plan_amounts (rc_plan s)) (effective_currency s)) (if rc_plan s = ''pro'' then 49 else 19)"
  define m where "m = getCurrencyMultiplier (effective_currency s)"
  have major: "1 \<le> major" "major \<le> 7500"
    using plan_amounts_range by (fastforce simp: major_def nullish_else_def split: option.splits)+
  have m: "1 \<le> m" "m \<le> 1000" unfolding m_def by (rule multiplier_range)+
  have up: "major * m \<le> 7500 * 1000" using major m by (intro mult_le_mono)
  have "rail_amount s = int (major * m)"
    using False up by (simp only: rail_amount_def Let_def m_def [symmetric] major_def [symmetric] if_False) (rule rounded_product_whole, simp)
  moreover have "1 \<le> major * m" using major m by simp
  ultimately show ?thesis using up by (simp only: amount_ok_def option.case) presburger
qed

section \<open>What the multi-rail checkout orders\<close>

definition amount_entered_ok :: "rail_event \<Rightarrow> bool" where
  "amount_entered_ok e = (case e of AmountChange x \<Rightarrow> x \<le> 1000000 | _ \<Rightarrow> True)"

definition rail_run :: "rail_event list \<Rightarrow> rail_checkout" where
  "rail_run es = foldl (\<lambda>s e. rail_step e s) rail_start es"

lemma custom_amount_fixed [simp]: "double_of (9999 / 100) \<le> 1000000" "double_of (2222 / 25) \<le> 1000000"
  using double_of_upper [of "9999 / 100"] double_of_upper [of "2222 / 25"] by simp_all

lemma rail_step_amount:
  "amount_entered_ok e \<Longrightarrow> rc_customMajorAmount s \<le> 1000000 \<Longrightarrow> rc_customMajorAmount (rail_step e s) \<le> 1000000"
  by (cases e) (simp_all add: amount_entered_ok_def handleMethodChange_def handleMockTestVector_def rail_submit_def
      rail_answered_def Let_def split: ui_answer.splits option.splits)

lemma rail_run_amount: "list_all amount_entered_ok es \<Longrightarrow> rc_customMajorAmount (rail_run es) \<le> 1000000"
proof -
  have "list_all amount_entered_ok es \<Longrightarrow> rc_customMajorAmount s \<le> 1000000
      \<Longrightarrow> rc_customMajorAmount (foldl (\<lambda>s e. rail_step e s) s es) \<le> 1000000" for s
    by (induction es arbitrary: s) (simp_all add: rail_step_amount)
  then show "list_all amount_entered_ok es \<Longrightarrow> rc_customMajorAmount (rail_run es) \<le> 1000000"
    by (simp add: rail_run_def rail_start_def)
qed

lemma rail_provider_known: "rail_provider s \<in> set providers"
  by (simp add: rail_provider_def provider_by_method_def providers_def)

lemma rail_submit_request:
  "rail_submit key uuid s = (s', Some r) \<Longrightarrow> ur_body r = rail_body uuid s"
  by (auto simp: rail_submit_def Let_def split: if_splits)

text \<open>
  The multi-rail checkout asks the payment route only for what its schema takes. After any
  events on the form (no amount above a million typed in), the request of a submit names one of the
  four providers, an amount the schema admits, and a currency of three capital letters that the
  chosen rail offers, which is EGP for Fawry; the multiplier behind the amount is the power of ten the currency's
  decimals call for.
\<close>

theorem rail_request_ok:
  assumes "list_all amount_entered_ok es"
    and "rail_submit key uuid (rail_run es) = (s', Some r)"
  shows "\<exists>p a c. field (ur_body r) ''provider'' = JStr p \<and> field (ur_body r) ''amount_minor_units'' = JNum a 0
    \<and> field (ur_body r) ''currency'' = JStr c \<and> p \<in> set providers \<and> amount_ok (Some a)
    \<and> c \<in> set (currencies_by_provider p) \<and> length c = 3 \<and> list_all (\<lambda>x. 65 \<le> char_code x \<and> char_code x \<le> 90) c
    \<and> (p = ''fawry'' \<longrightarrow> c = ''EGP'') \<and> getCurrencyMultiplier c = 10 ^ getCurrencyDecimals c"
proof -
  let ?s = "rail_run es"
  have b: "ur_body r = rail_body uuid ?s" by (rule rail_submit_request [OF assms(2)])
  have f: "field (rail_body uuid ?s) ''provider'' = JStr (rail_provider ?s)"
    "field (rail_body uuid ?s) ''amount_minor_units'' = JNum (rail_amount ?s) 0"
    "field (rail_body uuid ?s) ''currency'' = JStr (effective_currency ?s)" by (simp_all add: rail_body_def)
  have a: "amount_ok (Some (rail_amount ?s))" by (rule rail_amount_range) (rule rail_run_amount [OF assms(1)])
  have e: "rail_provider ?s = ''fawry'' \<longrightarrow> effective_currency ?s = ''EGP''" by (simp add: effective_currency_def)
  show ?thesis unfolding b
    using f a e rail_provider_known effective_currency_of_rail offered [OF effective_currency_of_rail] by blast
qed

text \<open>The form in the state of a custom order of 250 pounds at a Fawry kiosk.\<close>

definition kiosk_events :: "rail_event list" where
  "kiosk_events = [CurrencyChange ''JPY'', PlanChange ''custom'', AmountChange 250, MethodChange ''fawry'']"

lemma kiosk_form: "rc_plan (rail_run kiosk_events) = ''custom''" "rc_customMajorAmount (rail_run kiosk_events) = 250"
  "effective_currency (rail_run kiosk_events) = ''EGP''" "rail_provider (rail_run kiosk_events) = ''fawry''"
  by (simp_all add: kiosk_events_def rail_run_def rail_start_def handleMethodChange_def Let_def effective_currency_def
      rail_provider_def provider_by_method_def)

lemma kiosk_amount: "rail_amount (rail_run kiosk_events) = 25000"
  using rounded_product_whole [of 250 100] by (simp add: rail_amount_def kiosk_form getCurrencyMultiplier_def)

theorem rail_request_ok_witness:
  "\<exists>s' r. rail_submit ''key1'' ''uuid1'' (rail_run kiosk_events) = (s', Some r)
    \<and> field (ur_body r) ''amount_minor_units'' = JNum 25000 0 \<and> field (ur_body r) ''currency'' = JStr ''EGP''"
proof -
  have ok: "list_all amount_entered_ok kiosk_events" by (simp add: kiosk_events_def amount_entered_ok_def)
  have k: "rc_useSandboxKey (rail_run kiosk_events)"
    by (simp add: kiosk_events_def rail_run_def rail_start_def handleMethodChange_def Let_def)
  obtain s' r where r: "rail_submit ''key1'' ''uuid1'' (rail_run kiosk_events) = (s', Some r)"
    using k by (simp add: rail_submit_def Let_def)
  obtain p a c where "field (ur_body r) ''amount_minor_units'' = JNum a 0" "field (ur_body r) ''currency'' = JStr c"
    using rail_request_ok [OF ok r] by blast
  moreover have "ur_body r = rail_body ''uuid1'' (rail_run kiosk_events)" by (rule rail_submit_request [OF r])
  ultimately show ?thesis using r by (simp add: rail_body_def kiosk_amount kiosk_form)
qed

section \<open>What the mock panel shows\<close>

lemma fawryRefCode_shape: "length (fawryRefCode i) = 9" "list_all is_digit (fawryRefCode i)"
proof -
  let ?n = "foldl (\<lambda>acc c. (acc * 31 + char_code c) mod 1000000000) 948291041 i"
  have n: "?n < 10 ^ 9" by (induction i rule: rev_induct) simp_all
  show "length (fawryRefCode i) = 9" unfolding fawryRefCode_def by (rule pad_nat_length [OF n]) simp
  have "is_digit c" if "c \<in> set (fawryRefCode i)" for c
    using that set_pad_start [of 9 "CHR ''0''" "nat_str ?n"] nat_str_digits [of c ?n]
    by (cases "c = CHR ''0''") (auto simp: fawryRefCode_def is_digit_def char_eval)
  then show "list_all is_digit (fawryRefCode i)" by (simp add: list_all_iff)
qed

text \<open>The outcome a press of the button ends in, as the panel shows it.\<close>

lemma payment_answered_status:
  "mp_status (payment_answered desired ok s) =
     (if desired = ''failed'' then ''failed'' else if ok = Some False then mp_status s else ''succeeded'')"
  by (simp add: payment_answered_def split: option.splits)

lemma network_failure_shows_success: "mp_status (payment_answered ''succeeded'' None s) = ''succeeded''"
  by (simp add: payment_answered_status)

lemma otp_not_checked: "snd (authorize_3ds q (s\<lparr>mp_otpCode := code\<rparr>)) = snd (authorize_3ds q s)"
  by (simp add: authorize_3ds_def handlePayment_def desired_status_def declined_def Let_def)

text \<open>A decline card in the hidden card field also declines the other methods.\<close>

lemma decline_card_declines_all:
  "ends_with (without_ws (mp_cardNumber s)) ''0002'' \<Longrightarrow> desired_status (s\<lparr>mp_method := m\<rparr>) f = ''failed''"
  by (simp add: desired_status_def declined_def)

text \<open>
  The link back to the merchant is the address of the query as it is, where the rest of the
  application passes addresses through \<open>safeHttpUrl\<close>.
\<close>

lemma return_href_unchecked:
  assumes "u \<noteq> []" and "parse_url u = Some url" and "u_protocol url = ''javascript:''"
  shows "return_href (mock_pay_props i (Some u) None row) = Some u" "safeHttpUrl parse_url (Some u) = None"
  using assms by (simp_all add: return_href_def mock_pay_props_def js_or_def truthy_def safeHttpUrl_def Let_def)

text \<open>
  The vector of a declined payment wants an amount that ends in 99 minor units; with yen left
  over from the form it does not.
\<close>

lemma decline_vector_yen:
  "rail_amount (rail_run [MethodChange ''mock'', CurrencyChange ''JPY'', TestVector ''decline'']) = 100"
  unfolding rail_run_def by code_simp

lemma handlePayment_request:
  "handlePayment q f s = (s', Some (desired, r)) \<Longrightarrow> ur_body r = mock_body q desired \<and> desired = desired_status s f
     \<and> mp_status s' = mp_status s"
  by (auto simp: handlePayment_def Let_def split: if_splits)

lemma mock_webhook_answers_200:
  assumes "hdr_get (wr_headers req) ''x-mock-signature'' = None" and "hdr_get (wr_headers req) ''x-signature'' = None"
    and "readLimitedTextBody (pf_decode pf) 1000000 (wr_body req) = Inr (Some rawBody)"
    and "pf_parse pf rawBody = Some payload" and "payload \<noteq> JNull"
  shows "r_status (fst (run_handler (mock_webhook pf now uuid req) w)) = 200"
  using assms by (simp add: mock_webhook_def with_payload_def run_handler_def db_defs json_response_def Let_def
      split: prod.splits sum.splits)

text \<open>
  The panel tells the buyer a payment has succeeded when the database says it failed. For a
  payment stored as failed, pressing the button with a card that is not the decline card sends a notice that the mock
  webhook answers with 200, whichever of its statements the database refuses; the stored status stays failed and the panel shows succeeded.
\<close>

theorem panel_claims_success:
  assumes "handlePayment q f s = (s', Some (''succeeded'', r))"
    and "hdr_get (wr_headers req) ''x-mock-signature'' = None" and "hdr_get (wr_headers req) ''x-signature'' = None"
    and "readLimitedTextBody (pf_decode pf) 1000000 (wr_body req) = Inr (Some rawBody)"
    and "pf_parse pf rawBody = Some (ur_body r)"
    and "i < length (payments w)" and "primary_key w" and "p_status (payments w ! i) = ''failed''"
  shows "let (answer, w') = run_handler (mock_webhook pf now uuid req) w;
             ok = (200 \<le> r_status answer \<and> r_status answer \<le> 299)
         in p_status (payments w' ! i) = ''failed'' \<and> mp_status (payment_answered ''succeeded'' (Some ok) s') = ''succeeded''"
proof -
  have "ur_body r \<noteq> JNull" using handlePayment_request [OF assms(1)] by (simp add: mock_body_def)
  then have a: "r_status (fst (run_handler (mock_webhook pf now uuid req) w)) = 200"
    by (rule mock_webhook_answers_200 [OF assms(2-5)])
  have "keyed settled_kept w (snd (run_handler (mock_webhook pf now uuid req) w))"
    by (rule settled.keyed.keeps_handler) (rule settled_webhooks)
  then have "p_status (payments (snd (run_handler (mock_webhook pf now uuid req) w)) ! i) = ''failed''"
    using assms(6-8) by (auto simp: keyed_def rows_related_nth settled_kept_def is_terminal_def)
  with a show ?thesis by (simp add: payment_answered_status case_prod_beta Let_def)
qed

definition panel_props :: mock_props where
  "panel_props = mock_pay_props ''pay1'' None None (Some (demo_payment ''pay1'' ''stripe'' ''failed''))"

definition panel_platform :: platform where
  "panel_platform = demo_platform\<lparr>pf_parse := (\<lambda>_. Some (mock_body panel_props ''succeeded''))\<rparr>"

theorem panel_claims_success_witness:
  "\<exists>s' r. handlePayment panel_props None (panel_start panel_props) = (s', Some (''succeeded'', r))
    \<and> mp_status (panel_start panel_props) = ''failed''
    \<and> (let (answer, w') = run_handler (mock_webhook panel_platform 5 ''uuid'' demo_request)
             (demo_world [demo_payment ''pay1'' ''stripe'' ''failed'']);
           ok = (200 \<le> r_status answer \<and> r_status answer \<le> 299)
       in p_status (payments w' ! 0) = ''failed'' \<and> mp_status (payment_answered ''succeeded'' (Some ok) s') = ''succeeded'')"
proof -
  have p: "handlePayment panel_props None (panel_start panel_props) = ((panel_start panel_props)\<lparr>mp_error := [], mp_loading := True\<rparr>,
      Some (''succeeded'', \<lparr>ur_url = ''/api/webhooks/mock'', ur_headers = [(''Content-Type'', ''application/json'')],
        ur_body = mock_body panel_props ''succeeded''\<rparr>))"
    by (simp add: handlePayment_def panel_start_def desired_status_def declined_def without_ws_def is_ws_def char_eval Let_def ends_with_def)
  note claim = panel_claims_success [OF p, of demo_request panel_platform "''pay1''" 0 "demo_world [demo_payment ''pay1'' ''stripe'' ''failed'']" 5 "''uuid''"]
  show ?thesis
    by (intro exI conjI, rule p, simp add: panel_start_def panel_props_def mock_pay_props_def Let_def nullish_else_def,
        rule claim)
      (simp_all add: demo_request_def demo_platform_def panel_platform_def readLimitedTextBody_def read_loop_result
        copy_loop_fresh array_set_def primary_key_def)
qed

end
