(* ===== verification/Dashboard_Tables.thy ===== *)
theory Dashboard_Tables
  imports Dashboard_Pages
begin

text \<open>
  The tables of the dashboard as state machines: the transaction ledger
  (\<open>components/dashboard/authoritative-transaction-ledger-table.tsx\<close>), the request telemetry
  (\<open>live-request-telemetry-table.tsx\<close>) and the webhook audit (\<open>webhook-delivery-audit-table.tsx\<close>),
  with the charts' figures. A component's state is its \<open>useState\<close> values; a \<open>useMemo\<close> value whose
  dependencies name all it reads is a function of the state, the one of the ledger does not and is
  kept with the dependencies it was computed for. Markup and the copy buttons are left out.
\<close>

section \<open>Pages\<close>

text \<open>\<open>Math.max(1, Math.ceil(n / per))\<close>; the sizes offered are 10, 15, 25 and 50.\<close>

definition total_pages :: "nat \<Rightarrow> nat \<Rightarrow> nat" where
  "total_pages n per = max 1 ((n + per - 1) div per)"

definition page_of :: "'a list \<Rightarrow> nat \<Rightarrow> nat \<Rightarrow> 'a list" where
  "page_of rows page per =
     (let safePage = min page (total_pages (length rows) per) in take per (drop ((safePage - 1) * per) rows))"

text \<open>The search box: nothing typed matches, a missing text does not.\<close>

definition query_of :: "string \<Rightarrow> string" where
  "query_of search = js_trim (js_lower search)"

definition search_hits :: "string \<Rightarrow> string option list \<Rightarrow> bool" where
  "search_hits search texts \<longleftrightarrow> js_trim search = []
     \<or> list_ex (\<lambda>t. case t of None \<Rightarrow> False | Some s \<Rightarrow> js_includes (js_lower s) (query_of search)) texts"

section \<open>The transaction ledger\<close>

record ledger_view =
  lv_search :: string
  lv_status :: string
  lv_provider :: string

definition no_filters :: ledger_view where
  "no_filters = \<lparr>lv_search = [], lv_status = ''all'', lv_provider = ''all''\<rparr>"

definition ledger_match :: "ledger_view \<Rightarrow> payment_row \<Rightarrow> bool" where
  "ledger_match v p \<longleftrightarrow>
     search_hits (lv_search v) [Some (p_id p), p_merchantReference p, p_customerPhone p, p_customerEmail p, Some (p_provider p)]
     \<and> (lv_status v = ''all'' \<or> normalizePaymentStatus (p_status p) (paymentHasNextAction p) = lv_status v)
     \<and> (lv_provider v = ''all'' \<or> js_lower (p_provider p) = lv_provider v)"

text \<open>
  \<open>lt_version\<close> stands for the identity of the array the page passes: it changes when the page is
  rendered again. The memo holds the dependencies and the rows.
\<close>

record ledger_table =
  lt_version :: nat
  lt_initial :: "payment_row list"
  lt_payments :: "payment_row list"
  lt_view :: ledger_view
  lt_page :: nat
  lt_pageSize :: nat
  lt_expanded :: "string option"
  lt_checking :: "string option"
  lt_memo :: "(nat \<times> ledger_view) \<times> payment_row list"

definition ledger_deps :: "ledger_table \<Rightarrow> nat \<times> ledger_view" where
  "ledger_deps s = (lt_version s, lt_view s)"

definition ledger_filtered :: "ledger_table \<Rightarrow> payment_row list" where
  "ledger_filtered s = filter (ledger_match (lt_view s)) (lt_payments s)"

definition ledger_render :: "ledger_table \<Rightarrow> ledger_table" where
  "ledger_render s = (if fst (lt_memo s) = ledger_deps s then s else s\<lparr>lt_memo := (ledger_deps s, ledger_filtered s)\<rparr>)"

definition ledger_open :: "payment_row list \<Rightarrow> ledger_table" where
  "ledger_open rows = \<lparr>lt_version = 0, lt_initial = rows, lt_payments = rows, lt_view = no_filters, lt_page = 1,
     lt_pageSize = 15, lt_expanded = None, lt_checking = None,
     lt_memo = ((0, no_filters), filter (ledger_match no_filters) rows)\<rparr>"

definition ledger_rows :: "ledger_table \<Rightarrow> payment_row list" where
  "ledger_rows s = snd (lt_memo s)"

definition ledger_shown :: "ledger_table \<Rightarrow> payment_row list" where
  "ledger_shown s = page_of (ledger_rows s) (lt_page s) (lt_pageSize s)"

text \<open>The answer of the payment route, whose members are strings or missing.\<close>

definition as_text :: "jsv \<Rightarrow> string option" where
  "as_text v = (case v of JStr s \<Rightarrow> Some s | _ \<Rightarrow> None)"

definition rechecked_row :: "jsv \<Rightarrow> payment_row \<Rightarrow> payment_row" where
  "rechecked_row updated p =
     (let action = field updated ''next_action'';
          part = (\<lambda>k. if action = JUndef \<or> action = JNull then None else as_text (field action k))
      in p\<lparr>p_status := nullish_else (as_text (field updated ''status'')) ''undefined'',
           p_nextActionType := part ''type'',
           p_nextActionPayload := (case part ''url'' of Some u \<Rightarrow> Some u | None \<Rightarrow> part ''reference'')\<rparr>)"

text \<open>Nothing for an answer that is not ok, not JSON, or never came.\<close>

definition recheck_answered :: "string \<Rightarrow> jsv option \<Rightarrow> ledger_table \<Rightarrow> ledger_table" where
  "recheck_answered paymentId reply s =
     (case reply of
        None \<Rightarrow> s
      | Some updated \<Rightarrow>
          if updated = JNull then s
          else s\<lparr>lt_payments := map (\<lambda>p. if p_id p = paymentId then rechecked_row updated p else p) (lt_payments s)\<rparr>)
       \<lparr>lt_checking := None\<rparr>"

datatype ledger_event =
    LedgerSearch string | LedgerStatus string | LedgerProvider string | LedgerClear | LedgerPrev | LedgerNext
  | LedgerPageSize nat | LedgerToggle string | Recheck string | Rechecked string "jsv option" | PageAgain "payment_row list"

fun ledger_handle :: "ledger_event \<Rightarrow> ledger_table \<Rightarrow> ledger_table" where
  "ledger_handle (LedgerSearch v) s = s\<lparr>lt_view := (lt_view s)\<lparr>lv_search := v\<rparr>, lt_page := 1\<rparr>"
| "ledger_handle (LedgerStatus v) s = s\<lparr>lt_view := (lt_view s)\<lparr>lv_status := v\<rparr>, lt_page := 1\<rparr>"
| "ledger_handle (LedgerProvider v) s = s\<lparr>lt_view := (lt_view s)\<lparr>lv_provider := v\<rparr>, lt_page := 1\<rparr>"
| "ledger_handle LedgerClear s = s\<lparr>lt_view := no_filters, lt_page := 1\<rparr>"
| "ledger_handle LedgerPrev s = s\<lparr>lt_page := max 1 (lt_page s - 1)\<rparr>"
| "ledger_handle LedgerNext s = s\<lparr>lt_page := min (total_pages (length (ledger_rows s)) (lt_pageSize s)) (lt_page s + 1)\<rparr>"
| "ledger_handle (LedgerPageSize n) s = s\<lparr>lt_pageSize := n, lt_page := 1\<rparr>"
| "ledger_handle (LedgerToggle i) s = s\<lparr>lt_expanded := (if lt_expanded s = Some i then None else Some i)\<rparr>"
| "ledger_handle (Recheck i) s = s\<lparr>lt_checking := Some i\<rparr>"
| "ledger_handle (Rechecked i a) s = recheck_answered i a s"
| "ledger_handle (PageAgain rows) s = s\<lparr>lt_version := lt_version s + 1, lt_initial := rows\<rparr>"

definition ledger_step :: "ledger_event \<Rightarrow> ledger_table \<Rightarrow> ledger_table" where
  "ledger_step e s = ledger_render (ledger_handle e s)"

definition ledger_run :: "ledger_event list \<Rightarrow> ledger_table \<Rightarrow> ledger_table" where
  "ledger_run es s = foldl (\<lambda>s e. ledger_step e s) s es"

definition hasActiveFilters :: "ledger_view \<Rightarrow> bool" where
  "hasActiveFilters v \<longleftrightarrow> js_trim (lv_search v) \<noteq> [] \<or> lv_status v \<noteq> ''all'' \<or> lv_provider v \<noteq> ''all''"

text \<open>The bar under the table: the first and last row shown, of how many.\<close>

definition shown_range :: "ledger_table \<Rightarrow> nat \<times> nat \<times> nat" where
  "shown_range s =
     (let n = length (ledger_rows s); safePage = min (lt_page s) (total_pages n (lt_pageSize s))
      in ((safePage - 1) * lt_pageSize s + 1, min (safePage * lt_pageSize s) n, n))"

definition ledger_payload :: "(int \<Rightarrow> string) \<Rightarrow> payment_row \<Rightarrow> jsv" where
  "ledger_payload to_iso p = JObj
     [(''paymentId'', JStr (p_id p)), (''provider'', JStr (p_provider p)), (''status'', JStr (p_status p)),
      (''amountMinorUnits'', jint (p_amountMinorUnits p)), (''currency'', JStr (p_currency p)),
      (''merchantReference'', jstr_or_null (p_merchantReference p)),
      (''nextAction'', if truthy (p_nextActionType p) then
         JObj [(''type'', jstr_or_null (p_nextActionType p)), (''payload'', jstr_or_null (p_nextActionPayload p))] else JNull),
      (''customer'', JObj [(''phone'', jstr_or_null (p_customerPhone p)), (''email'', jstr_or_null (p_customerEmail p)),
         (''name'', jstr_or_null (p_customerName p))]),
      (''createdAt'', JStr (to_iso (p_createdAt p)))]"

section \<open>Request telemetry\<close>

text \<open>The records of the page have no address; \<open>ipAddress\<close> is a member of the type only.\<close>

record telemetry_record = api_request_row +
  tr_id :: int
  tr_ipAddress :: "string option"

record telemetry_view =
  tv_search :: string
  tv_method :: string
  tv_status :: string
  tv_sortByLatency :: bool
  tv_page :: nat
  tv_pageSize :: nat

definition formatHttpStatus :: "nat \<Rightarrow> string" where
  "formatHttpStatus code = nullish_else (map_of
     [(200, ''200 OK''), (201, ''201 Created''), (204, ''204 No Content''), (400, ''400 Bad Request''),
      (401, ''401 Unauthorized''), (403, ''403 Forbidden''), (404, ''404 Not Found''), (409, ''409 Conflict''),
      (422, ''422 Unprocessable''), (429, ''429 Rate Limit''), (500, ''500 Server Error''), (502, ''502 Bad Gateway''),
      (503, ''503 Unavailable''), (504, ''504 Gateway Timeout'')] code) (nat_str code)"

definition telemetry_match :: "telemetry_view \<Rightarrow> telemetry_record \<Rightarrow> bool" where
  "telemetry_match v r \<longleftrightarrow>
     search_hits (tv_search v) [Some (q_endpoint r), Some (q_method r), Some (nat_str (q_statusCode r)), tr_ipAddress r]
     \<and> (tv_method v = ''all'' \<or> js_upper (q_method r) = tv_method v)
     \<and> (tv_status v = ''2xx'' \<longrightarrow> 200 \<le> q_statusCode r \<and> q_statusCode r < 300)
     \<and> (tv_status v = ''4xx'' \<longrightarrow> 400 \<le> q_statusCode r \<and> q_statusCode r < 500)
     \<and> (tv_status v = ''5xx'' \<longrightarrow> 500 \<le> q_statusCode r)"

definition shown_latency :: "telemetry_record \<Rightarrow> int" where
  "shown_latency r = nullish_else (q_routingLatencyMs r) (q_latencyMs r)"

text \<open>\<open>sort\<close> is stable.\<close>

definition telemetry_filtered :: "telemetry_view \<Rightarrow> telemetry_record list \<Rightarrow> telemetry_record list" where
  "telemetry_filtered v requests =
     (let result = filter (telemetry_match v) requests
      in if tv_sortByLatency v then sort_key (\<lambda>r. - shown_latency r) result else result)"

definition telemetry_shown :: "telemetry_view \<Rightarrow> telemetry_record list \<Rightarrow> telemetry_record list" where
  "telemetry_shown v requests = page_of (telemetry_filtered v requests) (tv_page v) (tv_pageSize v)"

datatype telemetry_event =
    TelSearch string | TelMethod string | TelStatus string | TelSort | TelClear | TelPrev | TelNext nat | TelPageSize nat

text \<open>\<open>TelNext\<close> carries the number of pages.\<close>

fun telemetry_step :: "telemetry_event \<Rightarrow> telemetry_view \<Rightarrow> telemetry_view" where
  "telemetry_step (TelSearch s) v = v\<lparr>tv_search := s, tv_page := 1\<rparr>"
| "telemetry_step (TelMethod m) v = v\<lparr>tv_method := m, tv_page := 1\<rparr>"
| "telemetry_step (TelStatus s) v = v\<lparr>tv_status := s, tv_page := 1\<rparr>"
| "telemetry_step TelSort v = v\<lparr>tv_sortByLatency := \<not> tv_sortByLatency v\<rparr>"
| "telemetry_step TelClear v = v\<lparr>tv_search := [], tv_method := ''all'', tv_status := ''all'', tv_sortByLatency := False, tv_page := 1\<rparr>"
| "telemetry_step TelPrev v = v\<lparr>tv_page := max 1 (tv_page v - 1)\<rparr>"
| "telemetry_step (TelNext pages) v = v\<lparr>tv_page := min pages (tv_page v + 1)\<rparr>"
| "telemetry_step (TelPageSize n) v = v\<lparr>tv_pageSize := n, tv_page := 1\<rparr>"

definition replay_command :: "string \<Rightarrow> telemetry_record \<Rightarrow> string" where
  "replay_command origin r =
     ''# Replay request via Axum Rust Gateway'' @ [CHR 10] @ ''curl -X '' @ q_method r @ '' '' @ [CHR 34]
       @ (if origin = [] then ''https://gateway.openwrapper.muejam.com'' else origin) @ q_endpoint r @ [CHR 34] @ '' '' @ [CHR 92, CHR 10]
       @ ''  -H '' @ [CHR 34] @ ''Authorization: Bearer ${OPENWRAPPER_KEY}'' @ [CHR 34] @ '' '' @ [CHR 92, CHR 10]
       @ ''  -H '' @ [CHR 34] @ ''Content-Type: application/json'' @ [CHR 34]"

text \<open>The charts of the page: shares of the status classes, and the hours of the latency chart.\<close>

definition status_counts :: "api_request_row list \<Rightarrow> int \<times> int \<times> int \<times> int" where
  "status_counts qs =
     (let s2 = counted (\<lambda>q. 200 \<le> q_statusCode q \<and> q_statusCode q < 300) qs;
          s4 = counted (\<lambda>q. 400 \<le> q_statusCode q \<and> q_statusCode q < 500) qs;
          s5 = counted (\<lambda>q. 500 \<le> q_statusCode q) qs
      in (s2, int (length qs) - s2 - s4 - s5, s4, s5))"

definition status_shares :: "api_request_row list \<Rightarrow> rat \<times> rat \<times> rat \<times> rat" where
  "status_shares qs =
     (let share = (\<lambda>n. of_int n / of_nat (length qs) * 100); (s2, s3, s4, s5) = status_counts qs
      in (share s2, share s3, share s4, share s5))"

text \<open>\<open>hour\<close> gives the ISO text of the start of the hour, whose order is that of time.\<close>

record latency_bucket =
  lb_hour :: string
  lb_p50 :: int
  lb_p95 :: int
  lb_count :: nat

definition chart_samples :: "api_request_row list \<Rightarrow> api_request_row list" where
  "chart_samples qs =
     (let maxTimestamp = foldl (\<lambda>m q. max m (q_createdAt q)) 0 qs;
          sample = (\<lambda>q. nullish_else (q_routingLatencyMs q) (q_latencyMs q))
      in filter (\<lambda>q. \<not> (0 < maxTimestamp \<and> DAY_MS < maxTimestamp - q_createdAt q) \<and> 0 < sample q \<and> sample q < 2000) qs)"

definition latency_buckets :: "(int \<Rightarrow> string) \<Rightarrow> api_request_row list \<Rightarrow> latency_bucket list" where
  "latency_buckets hour qs =
     (let byHour = group_by (\<lambda>q. hour (q_createdAt q)) (map (\<lambda>q. nullish_else (q_routingLatencyMs q) (q_latencyMs q)))
            (chart_samples qs);
          sorted = sort_key (\<lambda>b. map char_code (fst b)) byHour
      in map (\<lambda>(h, values). \<lparr>lb_hour = h, lb_p50 = percentile values 50, lb_p95 = percentile values 95,
            lb_count = length values\<rparr>) (drop (length sorted - 12) sorted))"

section \<open>Webhook audit\<close>

record audit_view =
  av_search :: string
  av_provider :: string

definition audit_match :: "audit_view \<Rightarrow> webhook_event_row \<Rightarrow> bool" where
  "audit_match v e \<longleftrightarrow> search_hits (av_search v) [Some (e_eventId e), e_paymentId e, Some (e_provider e)]
     \<and> (av_provider v = ''all'' \<or> js_lower (e_provider e) = av_provider v)"

definition audit_filtered :: "audit_view \<Rightarrow> webhook_event_row list \<Rightarrow> webhook_event_row list" where
  "audit_filtered v webhooks = filter (audit_match v) webhooks"

text \<open>What the inspector shows as the payload of the delivery.\<close>

definition audit_payload :: "(string \<Rightarrow> jsv option) \<Rightarrow> webhook_event_row \<Rightarrow> jsv" where
  "audit_payload parse w =
     (if truthy (e_payloadJson w) then
        (case parse (the (e_payloadJson w)) of
           Some v \<Rightarrow> v
         | None \<Rightarrow> JObj [(''rawPayload'', jstr_or_null (e_payloadJson w))])
      else JObj
        [(''id'', JStr (e_eventId w)), (''object'', JStr ''event''), (''provider'', JStr (e_provider w)),
         (''paymentId'', jstr_or_null (e_paymentId w)), (''type'', JStr (e_provider w @ ''.payment.succeeded'')),
         (''created'', jint (e_receivedAt w div 1000)), (''verified'', JBool True),
         (''signature'', JStr (or_else (e_signature w) ''v1=hmac_sha256_mock_signature_verified'')),
         (''data'', JObj [(''object'', JObj
           [(''id'', JStr (or_else (e_paymentId w) (''pay_'' @ slice_last 10 (e_eventId w)))), (''amountMinorUnits'', jint 15000),
            (''currency'', JStr ''EGP''), (''status'', JStr ''succeeded''),
            (''method'', JStr (if e_provider w = ''fawry'' then ''kiosk_reference'' else ''card_3ds'')),
            (''captured'', JBool True)])])])"

end
