(* ===== verification/Dashboard_Tables_Facts.thy ===== *)
theory Dashboard_Tables_Facts
  imports Dashboard_Tables System "HOL-Library.Multiset"
begin

text \<open>
  What the tables of the dashboard show: every matching row on exactly one page, a status that was
  rechecked only after the next change of a filter, and for every delivered webhook the same
  payload, which nobody sent.
\<close>

section \<open>Pages\<close>

lemma chunks: "concat (map (\<lambda>q. take per (drop (q * per) rows)) [0..<k]) = take (k * per) rows"
proof (induction k)
  case (Suc k)
  have "take (Suc k * per) rows = take (k * per) rows @ take per (drop (k * per) rows)"
    by (subst mult_Suc, subst add.commute, rule take_add)
  with Suc show ?case by simp
qed simp

lemma total_pages_enough: "0 < per \<Longrightarrow> n \<le> total_pages n per * per"
proof -
  assume per: "0 < per"
  have "n + per - 1 = (n + per - 1) div per * per + (n + per - 1) mod per" by simp
  moreover have "(n + per - 1) mod per < per" using per by simp
  ultimately have "n \<le> (n + per - 1) div per * per" by linarith
  also have "\<dots> \<le> total_pages n per * per" by (intro mult_le_mono1) (simp add: total_pages_def)
  finally show ?thesis .
qed

lemma pages_in_order: "map (\<lambda>p. page_of rows p per) [1..<Suc (total_pages (length rows) per)]
  = map (\<lambda>q. take per (drop (q * per) rows)) [0..<total_pages (length rows) per]"
proof (rule nth_equalityI)
  fix i
  assume "i < length (map (\<lambda>p. page_of rows p per) [1..<Suc (total_pages (length rows) per)])"
  then have i: "i < total_pages (length rows) per" by (simp del: upt_Suc)
  then have "[1..<Suc (total_pages (length rows) per)] ! i = Suc i" by (simp add: nth_upt del: upt_Suc)
  then show "map (\<lambda>p. page_of rows p per) [1..<Suc (total_pages (length rows) per)] ! i
      = map (\<lambda>q. take per (drop (q * per) rows)) [0..<total_pages (length rows) per] ! i"
    using i by (simp add: page_of_def Let_def del: upt_Suc)
qed simp

lemma pages_partition:
  "0 < per \<Longrightarrow> concat (map (\<lambda>p. page_of rows p per) [1..<Suc (total_pages (length rows) per)]) = rows"
  unfolding pages_in_order chunks by (rule take_all) (rule total_pages_enough)

lemma page_length: "length (page_of rows k per) \<le> per"
  by (simp add: page_of_def Let_def)

section \<open>The contract of a table\<close>

text \<open>A table lists the rows that match its view, in an order of its own, a page at a time.\<close>

locale listed_table =
  fixes matching :: "'v \<Rightarrow> 'r \<Rightarrow> bool" and listed :: "'v \<Rightarrow> 'r list \<Rightarrow> 'r list"
  assumes listed_mset: "mset (listed v rs) = mset (filter (matching v) rs)"
begin

lemma listed_set: "set (listed v rs) = {r \<in> set rs. matching v r}"
  by (simp flip: set_mset_mset add: listed_mset)

lemma listed_length: "length (listed v rs) = length (filter (matching v) rs)"
  by (simp flip: size_mset add: listed_mset)

lemma on_some_page:
  assumes "0 < per" and "r \<in> set rs" and "matching v r"
  shows "\<exists>p \<in> {1..total_pages (length (listed v rs)) per}. r \<in> set (page_of (listed v rs) p per)"
proof -
  have "r \<in> set (concat (map (\<lambda>p. page_of (listed v rs) p per) [1..<Suc (total_pages (length (listed v rs)) per)]))"
    using assms by (simp only: pages_partition listed_set) simp
  then obtain p where p: "p \<in> set [1..<Suc (total_pages (length (listed v rs)) per)]" "r \<in> set (page_of (listed v rs) p per)"
    by (auto simp del: upt_Suc)
  then have "p \<in> {1..total_pages (length (listed v rs)) per}" by (simp del: upt_Suc add: less_Suc_eq_le)
  with p(2) show ?thesis by blast
qed

lemma pages_total:
  "0 < per \<Longrightarrow> mset (concat (map (\<lambda>p. page_of (listed v rs) p per) [1..<Suc (total_pages (length (listed v rs)) per)]))
    = mset (filter (matching v) rs)"
  by (simp only: pages_partition listed_mset)

end

interpretation ledger_list: listed_table ledger_match "\<lambda>v. filter (ledger_match v)"
  by unfold_locales simp

interpretation telemetry_list: listed_table telemetry_match telemetry_filtered
  by unfold_locales (simp add: telemetry_filtered_def Let_def)

interpretation audit_list: listed_table audit_match audit_filtered
  by unfold_locales (simp add: audit_filtered_def)

lemma telemetry_order: "tv_sortByLatency v \<Longrightarrow> sorted_wrt (\<lambda>a b. shown_latency b \<le> shown_latency a) (telemetry_filtered v requests)"
proof -
  assume s: "tv_sortByLatency v"
  have "sorted (map (\<lambda>r. - shown_latency r) (telemetry_filtered v requests))"
    using s by (simp add: telemetry_filtered_def Let_def)
  then show ?thesis by (simp add: sorted_map sorted_wrt_map)
qed

text \<open>
  Paging loses nothing. The pages of the request table, from the first to the last of the counter,
  put together are a permutation of the requests that match the filters, none longer than the page size; with the
  latency order switched on, no request is slower than one before it.
\<close>

theorem telemetry_pages_complete:
  assumes "0 < tv_pageSize v"
  shows "let n = total_pages (length (telemetry_filtered v requests)) (tv_pageSize v);
      shown = concat (map (\<lambda>p. telemetry_shown (v\<lparr>tv_page := p\<rparr>) requests) [1..<Suc n])
    in mset shown = mset (filter (telemetry_match v) requests) \<and> shown = telemetry_filtered v requests
      \<and> length (telemetry_shown v requests) \<le> tv_pageSize v
      \<and> (tv_sortByLatency v \<longrightarrow> sorted_wrt (\<lambda>a b. shown_latency b \<le> shown_latency a) shown)"
proof -
  have same: "telemetry_filtered (v\<lparr>tv_page := p\<rparr>) requests = telemetry_filtered v requests" for p
    unfolding telemetry_filtered_def by (simp add: telemetry_match_def [abs_def])
  show ?thesis
    using telemetry_list.listed_mset [of v requests] telemetry_order [of v requests] page_length
    by (simp add: telemetry_shown_def same pages_partition [OF assms, unfolded One_nat_def] Let_def del: upt_Suc)
qed

definition slow_request :: "int \<Rightarrow> telemetry_record" where
  "slow_request n = \<lparr>q_userId = ''u1'', q_apiKeyId = None, q_method = ''GET'', q_endpoint = ''/api/v1/payments'',
     q_statusCode = 200, q_latencyMs = n, q_routingLatencyMs = None, q_environment = ''test'', q_createdAt = 0,
     tr_id = n, tr_ipAddress = None\<rparr>"

definition slow_first :: telemetry_view where
  "slow_first = \<lparr>tv_search = [], tv_method = ''all'', tv_status = ''2xx'', tv_sortByLatency = True, tv_page = 7, tv_pageSize = 10\<rparr>"

theorem telemetry_pages_complete_witness:
  "telemetry_filtered slow_first [slow_request 3, slow_request 8] = [slow_request 8, slow_request 3]
   \<and> length (telemetry_shown slow_first [slow_request 3, slow_request 8]) \<le> 10"
proof -
  have "telemetry_filtered slow_first [slow_request 3, slow_request 8] = [slow_request 8, slow_request 3]"
    by (simp add: telemetry_filtered_def telemetry_match_def search_hits_def slow_first_def slow_request_def shown_latency_def
        nullish_else_def js_trim_def trim_start_def trim_end_def Let_def)
  moreover have "length (telemetry_shown slow_first [slow_request 3, slow_request 8]) \<le> 10"
    using telemetry_pages_complete [of slow_first "[slow_request 3, slow_request 8]"] by (simp add: slow_first_def Let_def del: upt_Suc)
  ultimately show ?thesis by simp
qed

section \<open>The ledger and its recheck\<close>

lemma ledger_render_deps: "fst (lt_memo (ledger_render s)) = ledger_deps s"
  by (simp add: ledger_render_def)

lemma render_keeps [simp]:
  "lt_payments (ledger_render s) = lt_payments s" "lt_view (ledger_render s) = lt_view s"
  "lt_version (ledger_render s) = lt_version s" "lt_page (ledger_render s) = lt_page s"
  "lt_pageSize (ledger_render s) = lt_pageSize s"
  by (simp_all add: ledger_render_def)

lemma ledger_run_deps: "fst (lt_memo (ledger_run es (ledger_open rows))) = ledger_deps (ledger_run es (ledger_open rows))"
proof (induction es rule: rev_induct)
  case Nil
  show ?case by (simp add: ledger_run_def ledger_open_def ledger_deps_def)
next
  case (snoc e es)
  have "ledger_deps (ledger_render s) = ledger_deps s" for s by (simp add: ledger_deps_def)
  then show ?case by (simp add: ledger_run_def ledger_step_def ledger_render_deps)
qed

lemma recheck_parts [simp]:
  "lt_view (recheck_answered i a s) = lt_view s" "lt_version (recheck_answered i a s) = lt_version s"
  "lt_page (recheck_answered i a s) = lt_page s" "lt_pageSize (recheck_answered i a s) = lt_pageSize s"
  "lt_memo (recheck_answered i a s) = lt_memo s"
  by (simp_all add: recheck_answered_def split: option.splits)

lemma recheck_renders: "fst (lt_memo s) = ledger_deps s \<Longrightarrow> ledger_step (Rechecked i a) s = recheck_answered i a s"
  by (simp add: ledger_step_def ledger_render_def ledger_deps_def)

text \<open>
  Checking a payment again changes nothing on the screen. After any use of the ledger table, the
  answer to a recheck updates the component's list and leaves the rows it shows exactly as they were, because
  the rows are computed again only when a filter or the page changes; once the search text changes, they
  are the matching rows of the updated list.
\<close>

theorem recheck_not_shown:
  assumes "updated \<noteq> JNull" and "text' \<noteq> lv_search (lt_view (ledger_run es (ledger_open rows)))"
  shows "let s = ledger_run es (ledger_open rows); s' = ledger_step (Rechecked i (Some updated)) s in
      lt_payments s' = map (\<lambda>p. if p_id p = i then rechecked_row updated p else p) (lt_payments s)
      \<and> ledger_shown s' = ledger_shown s
      \<and> ledger_rows (ledger_step (LedgerSearch text') s')
         = filter (ledger_match ((lt_view s)\<lparr>lv_search := text'\<rparr>)) (lt_payments s')"
proof -
  let ?s = "ledger_run es (ledger_open rows)"
  let ?s' = "recheck_answered i (Some updated) ?s"
  have step: "ledger_step (Rechecked i (Some updated)) ?s = ?s'" by (rule recheck_renders) (rule ledger_run_deps)
  have "(lt_view ?s)\<lparr>lv_search := text'\<rparr> \<noteq> lt_view ?s" using assms(2) by (metis ledger_view.select_convs(1) ledger_view.surjective ledger_view.update_convs(1))
  then have fresh: "fst (lt_memo ?s) \<noteq> (lt_version ?s, (lt_view ?s)\<lparr>lv_search := text'\<rparr>)"
    by (simp add: ledger_run_deps ledger_deps_def)
  have "ledger_rows (ledger_step (LedgerSearch text') ?s')
      = filter (ledger_match ((lt_view ?s)\<lparr>lv_search := text'\<rparr>)) (lt_payments ?s')"
    using fresh by (simp add: ledger_step_def ledger_render_def ledger_deps_def ledger_rows_def ledger_filtered_def)
  moreover have "lt_payments ?s' = map (\<lambda>p. if p_id p = i then rechecked_row updated p else p) (lt_payments ?s)"
    using assms(1) by (simp add: recheck_answered_def)
  moreover have "ledger_shown ?s' = ledger_shown ?s" by (simp add: ledger_shown_def ledger_rows_def)
  ultimately show ?thesis by (simp add: step Let_def)
qed

theorem recheck_not_shown_witness:
  "let s = ledger_open [stripe_row ''pending''];
       s' = ledger_step (Rechecked ''p1'' (Some (JObj [(''status'', JStr ''succeeded'')]))) s
   in map p_status (ledger_shown s) = [''pending''] \<and> ledger_shown s' = ledger_shown s
     \<and> map p_status (lt_payments s') = [''succeeded'']"
proof -
  let ?s = "ledger_open [stripe_row ''pending'']"
  let ?u = "JObj [(''status'', JStr ''succeeded'')]"
  have shown: "map p_status (ledger_shown ?s) = [''pending'']"
    by (simp add: ledger_open_def ledger_shown_def ledger_rows_def page_of_def ledger_match_def no_filters_def search_hits_def
        total_pages_def js_trim_def trim_start_def trim_end_def stripe_row_def Let_def)
  have "ledger_run [] ?s = ?s" by (simp add: ledger_run_def)
  moreover have "map p_status (map (\<lambda>p. if p_id p = ''p1'' then rechecked_row ?u p else p) (lt_payments ?s)) = [''succeeded'']"
    by (simp add: ledger_open_def stripe_row_def rechecked_row_def field_def as_text_def nullish_else_def Let_def)
  ultimately show ?thesis
    using recheck_not_shown [of ?u "''x''" "[]" "[stripe_row ''pending'']" "''p1''"] shown
    by (simp add: ledger_open_def no_filters_def Let_def)
qed

text \<open>A page rendered again brings no new payments: the list is the one of the first rendering.\<close>

lemma ledger_never_refreshed: "map p_id (lt_payments (ledger_run es (ledger_open rows))) = map p_id rows"
proof (induction es rule: rev_induct)
  case Nil
  show ?case by (simp add: ledger_run_def ledger_open_def)
next
  case (snoc e es)
  have "map p_id (lt_payments (ledger_handle e s)) = map p_id (lt_payments s)" for s
    by (cases e) (auto simp: recheck_answered_def rechecked_row_def Let_def split: option.splits)
  with snoc show ?case by (simp add: ledger_run_def ledger_step_def)
qed

text \<open>
  The recheck is a request without an API key, which the route refuses: the table never gets an answer that is ok.
\<close>

lemma recheck_unauthorized:
  assumes "hdr_get h ''authorization'' = None" and "hdr_get h ''x-api-key'' = None"
  shows "fst (run_handler (payment_get sv retrieve ''v1'' i h) w) = error_response 401 ''unauthorized'' ''Missing or invalid API key.''"
  using assms by (simp add: payment_get_def validateApiVersion_def SUPPORTED_API_VERSIONS_def authenticateApiRequest_def
      request_token_def run_handler_def db_defs js_lower_def lower_char_def js_trim_def trim_start_def trim_end_def is_ws_def
      char_eval Let_def)

lemma recheck_does_nothing:
  "lt_payments (recheck_answered i None s) = lt_payments s" "ledger_shown (recheck_answered i None s) = ledger_shown s"
  by (simp_all add: recheck_answered_def ledger_shown_def ledger_rows_def)

section \<open>The payload of a delivery\<close>

definition no_payload :: "world \<Rightarrow> world \<Rightarrow> bool" where
  "no_payload w w' \<longleftrightarrow> (\<forall>e \<in> set (webhookEvents w').
     e \<in> set (webhookEvents w) \<or> e_payloadJson e = None \<or> e_paymentId e = None)"

interpretation payload_world: world_relation no_payload
proof unfold_locales
  show "no_payload u w" if "no_payload u v" "no_payload v w" for u v w
    using that unfolding no_payload_def by metis
qed (simp_all add: no_payload_def)

lemma no_payload_same: "webhookEvents w' = webhookEvents w \<Longrightarrow> no_payload w w'"
  by (simp add: no_payload_def)

lemma no_payload_log: "log_same w w' \<Longrightarrow> no_payload w w'"
  by (simp add: log_same_def no_payload_same)

lemma no_payload_event: "keeps no_payload (log_event i p q n)"
  unfolding log_event_def insert_webhook_event_def by (rule payload_world.keeps_query) (auto simp: keeps_def no_payload_def)

lemma no_payload_ping: "e_paymentId e = None \<Longrightarrow> keeps no_payload (insert_webhook_event e)"
  unfolding insert_webhook_event_def by (rule payload_world.keeps_query) (auto simp: keeps_def no_payload_def)

lemma no_payload_update: "keeps no_payload (update_payment i f)"
  unfolding update_payment_def by (rule payload_world.keeps_query) (simp add: keeps_def no_payload_same)

lemma no_payload_upsert: "keeps no_payload (upsert_payment c f)"
  unfolding upsert_payment_def
  by (rule payload_world.keeps_query) (auto simp: keeps_def intro!: no_payload_same split: option.split)

lemma no_payload_settle: "no_payload w (snd (settle_found r status f w))"
  using payload_world.keeps_settle_found [OF no_payload_update] by (simp add: keeps_def)

lemma no_payload_deliver: "keeps no_payload (deliver pf construct_ev d)"
  by (rule deliver_cases) (rule payload_world.keeps_return payload_world.keeps_webhooks [OF no_payload_event no_payload_settle])+

lemma no_payload_step: "app_step a w w' \<Longrightarrow> no_payload w w'"
proof (induction rule: app_step.induct)
  case (read w w')
  then show ?case by (simp add: same_tables_def no_payload_same)
next
  case (webhook w pf ce d)
  show ?case by (rule payload_world.keeps_handler) (rule no_payload_deliver)
next
  case (create w sv rq)
  show ?case by (intro payload_world.keeps_handler payload_world.keeps_payments_post no_payload_upsert)
next
  case (get w sv retrieve rawVersion rawId h)
  show ?case by (intro payload_world.keeps_handler payload_world.keeps_payment_get no_payload_update)
next
  case (telemetry w now elapsed)
  show ?case by (simp add: no_payload_same drain_rows)
next
  case (payments user w en retrieve now secret cookie)
  show ?case by (rule no_payload_log) (rule log_world.keepsD [OF payments_page_log])
next
  case (ping w url_ok post hmac bytes_hex iso_now now_ms latencyMs session body)
  show ?case by (intro payload_world.keepsD payload_world.keeps_test_webhook no_payload_ping)
qed (rule no_payload_log, rule log_world.keepsD, rule log_accounts dashboard_pages_log)+

lemma no_payload_run: "app_run actors w w' \<Longrightarrow> no_payload w w'"
  by (induction rule: app_run.induct) (auto intro: payload_world.rel_refl payload_world.rel_trans no_payload_step)

lemma listed_webhook: "e \<in> set (page_webhooks u environment w) \<Longrightarrow> e \<in> set (webhookEvents w) \<and> e_paymentId e \<noteq> None"
proof -
  assume "e \<in> set (page_webhooks u environment w)"
  then have "e \<in> set (latest e_receivedAt (concat (map (\<lambda>e. map (\<lambda>p. e)
       (filter (\<lambda>p. e_paymentId e = Some (p_id p)) (own_payments u environment w))) (webhookEvents w))))"
    unfolding page_webhooks_def by (rule in_set_takeD)
  then show ?thesis by (auto simp: latest_def)
qed

text \<open>
  C6. The payload the audit table shows was never received. Over any number of requests the application stores
  no payload with a delivery for a payment, so for every delivery that the payments page lists the inspector makes one
  up: verified, succeeded, 150.00 EGP, whatever the webhook said and whatever became of the payment.
\<close>

theorem audit_payload_invented:
  assumes "app_run actors w w'" and "webhookEvents w = []" and "e \<in> set (page_webhooks u environment w')"
  shows "let p = audit_payload parse e; object = field (field p ''data'') ''object'' in
    field p ''verified'' = JBool True \<and> field object ''status'' = JStr ''succeeded''
    \<and> field object ''amountMinorUnits'' = JNum 15000 0 \<and> field object ''currency'' = JStr ''EGP''"
proof -
  have "e_payloadJson e = None"
    using no_payload_run [OF assms(1)] assms(2) listed_webhook [OF assms(3)] by (auto simp: no_payload_def)
  then show ?thesis by (simp add: audit_payload_def field_def jint_def Let_def)
qed

definition failed_world :: world where
  "failed_world = demo_world [demo_payment ''p1'' ''stripe'' ''failed'']"

theorem audit_payload_invented_witness:
  "\<exists>w' e. app_run {None} failed_world w' \<and> e \<in> set (page_webhooks ''u1'' ''live'' w')
    \<and> map p_status (payments w') = [''failed'']
    \<and> field (field (field (audit_payload (\<lambda>_. None) e) ''data'') ''object'') ''status'' = JStr ''succeeded''"
proof -
  let ?w = "snd (run_handler (deliver demo_platform demo_construct (demo_delivery ''stripe'')) failed_world)"
  let ?e = "\<lparr>e_eventId = ''evt_1'', e_provider = ''stripe'', e_paymentId = Some ''p1'', e_payloadJson = None,
     e_signature = None, e_receivedAt = 5\<rparr>"
  have run: "app_run {None} failed_world ?w" by (rule app_run.step [OF app_run.stay app_step.webhook]) simp
  have w: "webhookEvents ?w = [?e]" "payments ?w = [demo_payment ''p1'' ''stripe'' ''failed'']"
    by (simp_all add: failed_world_def demo_deliver_stripe demo_stripe_run is_terminal_def)
  then have listed: "?e \<in> set (page_webhooks ''u1'' ''live'' ?w)"
    by (simp add: page_webhooks_def own_payments_def demo_payment_def latest_def)
  have start: "webhookEvents failed_world = []" by (simp add: failed_world_def demo_world_def empty_world_def)
  have "field (field (field (audit_payload (\<lambda>_. None) ?e) ''data'') ''object'') ''status'' = JStr ''succeeded''"
    using audit_payload_invented [OF run start listed, of "\<lambda>_. None"] by (simp add: Let_def)
  moreover have "map p_status (payments ?w) = [''failed'']" using w(2) by (simp add: demo_payment_def)
  ultimately show ?thesis using run listed by (intro exI [of _ ?w] exI [of _ ?e]) simp
qed

end
