(* ===== verification/Consoles.thy ===== *)
theory Consoles
  imports Dashboard_Pages Checkout_Ui
begin

text \<open>
  The consoles of the dashboard as state machines: the switch between live and test mode
  (\<open>lib/environment-context.tsx\<close>), the key manager (\<open>components/credential-vault-manager.tsx\<close>) and
  the settings form (\<open>components/merchant-settings-console.tsx\<close>).

  As in the checkout components, a handler that waits is cut at its requests: a step up to the request and one
  with the answer. The browser's storage is a record that the mode switch reads and writes. Markup, the
  clipboard and the timers that take a notice away are left out. A server action is the database
  program of the server side; a throw of it reaches the component as a throw.
\<close>

section \<open>Live and test mode\<close>

definition MODE_KEY :: string where "MODE_KEY = ''openwrapper_dashboard_mode''"

text \<open>Cookies in the order of \<open>document.cookie\<close>, the stored item of the key, and whether storage may be used.\<close>

record browser =
  br_cookies :: "(string \<times> string) list"
  br_item :: "string option"
  br_storage :: bool

definition cookie_text :: "browser \<Rightarrow> string" where
  "cookie_text b = js_join ''; '' (map (\<lambda>(k, v). k @ ''='' @ v) (br_cookies b))"

text \<open>\<open>match(/openwrapper_dashboard_mode=(live|test)/)\<close>: the first place, with nothing asked of what is around it.\<close>

fun cookie_match :: "string \<Rightarrow> string option" where
  "cookie_match [] = None"
| "cookie_match (c # cs) =
     (if starts_with (c # cs) (MODE_KEY @ ''=live'') then Some ''live''
      else if starts_with (c # cs) (MODE_KEY @ ''=test'') then Some ''test''
      else cookie_match cs)"

definition set_cookie :: "string \<Rightarrow> browser \<Rightarrow> browser" where
  "set_cookie v b = b\<lparr>br_cookies := assoc_set MODE_KEY v (br_cookies b)\<rparr>"

record mode_state =
  ms_mode :: string
  ms_mounted :: bool

definition mode_start :: "string option \<Rightarrow> mode_state" where
  "mode_start initialMode = \<lparr>ms_mode = (if truthy initialMode then the initialMode else ''test''), ms_mounted = False\<rparr>"

text \<open>The effect after the first rendering: state, browser, and whether the page is asked for again.\<close>

definition mode_mount :: "string option \<Rightarrow> mode_state \<times> browser \<Rightarrow> mode_state \<times> browser \<times> bool" where
  "mode_mount initialMode sb = (case sb of (s, b) \<Rightarrow>
     (if \<not> br_storage b then (s\<lparr>ms_mounted := True\<rparr>, b, False)
      else
        let saved = (if truthy (br_item b) then br_item b else cookie_match (cookie_text b)) in
        if saved = Some ''live'' \<or> saved = Some ''test'' then
          (s\<lparr>ms_mode := the saved, ms_mounted := True\<rparr>, set_cookie (the saved) b, truthy initialMode \<and> saved \<noteq> initialMode)
        else (s\<lparr>ms_mounted := True\<rparr>, set_cookie ''test'' b, False)))"

text \<open>\<open>setMode\<close> and \<open>toggleMode\<close>; both end by asking for the page again.\<close>

definition setMode :: "string \<Rightarrow> mode_state \<times> browser \<Rightarrow> mode_state \<times> browser" where
  "setMode newMode sb = (case sb of (s, b) \<Rightarrow>
     (s\<lparr>ms_mode := newMode\<rparr>, if br_storage b then set_cookie newMode (b\<lparr>br_item := Some newMode\<rparr>) else b))"

definition toggleMode :: "mode_state \<times> browser \<Rightarrow> mode_state \<times> browser" where
  "toggleMode sb = setMode (if ms_mode (fst sb) = ''live'' then ''test'' else ''live'') sb"

definition effectiveMode :: "string option \<Rightarrow> mode_state \<Rightarrow> string" where
  "effectiveMode initialMode s =
     (if ms_mounted s then ms_mode s else if truthy initialMode then the initialMode else ''test'')"

text \<open>The mode the server reads from the same browser.\<close>

definition server_mode :: "browser \<Rightarrow> string" where
  "server_mode b = mode_of (map_of (br_cookies b) MODE_KEY)"

section \<open>The key manager\<close>

text \<open>A card of the list; identifiers are as they came, \<open>None\<close> is a missing environment. Dates are shown only.\<close>

record key_card =
  kc_id :: jsv
  kc_name :: string
  kc_prefix :: string
  kc_lastFour :: string
  kc_environment :: "string option"

definition card_of_row :: "api_key_row \<Rightarrow> key_card" where
  "card_of_row k = \<lparr>kc_id = jint (k_id k), kc_name = k_name k, kc_prefix = k_prefix k, kc_lastFour = k_lastFour k,
     kc_environment = Some (k_environment k)\<rparr>"

definition card_text :: "jsv \<Rightarrow> string" where
  "card_text v = (case v of JStr s \<Rightarrow> s | _ \<Rightarrow> [])"

definition card_of_json :: "jsv \<Rightarrow> key_card" where
  "card_of_json v = \<lparr>kc_id = field v ''id'', kc_name = card_text (field v ''name''), kc_prefix = card_text (field v ''prefix''),
     kc_lastFour = card_text (field v ''lastFour''),
     kc_environment = (case field v ''environment'' of JStr e \<Rightarrow> Some e | _ \<Rightarrow> None)\<rparr>"

definition getEnv :: "key_card \<Rightarrow> string" where
  "getEnv k = (if truthy (kc_environment k) then the (kc_environment k)
     else if starts_with (kc_prefix k) ''ow_test'' then ''test'' else ''live'')"

record key_console =
  kv_list :: "key_card list"
  kv_name :: string
  kv_creationEnv :: string
  kv_filterEnv :: string
  kv_revealedKey :: string
  kv_revealedEnv :: string
  kv_message :: string
  kv_deleting :: "jsv option"

definition vault_open :: "string option \<Rightarrow> string \<Rightarrow> key_card list \<Rightarrow> key_console" where
  "vault_open initialEnv mode cards = \<lparr>kv_list = cards, kv_name = [], kv_creationEnv = nullish_else initialEnv mode,
     kv_filterEnv = ''all'', kv_revealedKey = [], kv_revealedEnv = ''live'', kv_message = [], kv_deleting = None\<rparr>"

text \<open>The two effects: a page rendered again brings its keys, a switch of the mode sets the choice of the form.\<close>

definition keys_refreshed :: "key_card list \<Rightarrow> key_console \<Rightarrow> key_console" where
  "keys_refreshed cards s = s\<lparr>kv_list := cards\<rparr>"

definition mode_switched :: "string \<Rightarrow> key_console \<Rightarrow> key_console" where
  "mode_switched mode s = s\<lparr>kv_creationEnv := mode\<rparr>"

definition filteredKeys :: "key_console \<Rightarrow> key_card list" where
  "filteredKeys s = (if kv_filterEnv s = ''all'' then kv_list s else filter (\<lambda>k. getEnv k = kv_filterEnv s) (kv_list s))"

definition env_count :: "string \<Rightarrow> key_console \<Rightarrow> nat" where
  "env_count e s = length (filter (\<lambda>k. getEnv k = e) (kv_list s))"

text \<open>\<open>create\<close> up to its request; the name and environment are those of the click.\<close>

definition create_click :: "key_console \<Rightarrow> (string \<times> string \<times> jsv) option" where
  "create_click s =
     (let trimmed = js_trim (kv_name s) in
      if trimmed = [] then None
      else Some (trimmed, kv_creationEnv s, JObj [(''name'', JStr trimmed), (''environment'', JStr (kv_creationEnv s))]))"

definition key_shown :: "key_card option \<Rightarrow> string \<Rightarrow> string \<Rightarrow> key_console \<Rightarrow> key_console" where
  "key_shown new key environment s = s\<lparr>kv_list := (case new of None \<Rightarrow> kv_list s | Some k \<Rightarrow> k # kv_list s),
     kv_revealedKey := key, kv_revealedEnv := environment, kv_name := [], kv_message := []\<rparr>"

definition fallback_card :: "int \<Rightarrow> string \<Rightarrow> string \<Rightarrow> jsv \<Rightarrow> key_card" where
  "fallback_card now_ms trimmed environment key = \<lparr>kc_id = jint now_ms, kc_name = trimmed,
     kc_prefix = (if js_truthy key then take 12 (card_text key) else if environment = ''test'' then ''ow_test_live'' else ''ow_live_prod''),
     kc_lastFour = (if js_truthy key then slice_last 4 (card_text key) else ''9999''), kc_environment = Some environment\<rparr>"

text \<open>The answer to the request: the new state, or \<open>None\<close> when the \<open>catch\<close> block takes over.\<close>

definition create_answered ::
  "int \<Rightarrow> string \<Rightarrow> string \<Rightarrow> ui_answer \<Rightarrow> key_console \<Rightarrow> key_console option" where
  "create_answered now_ms trimmed environment a s =
     (case a of
        UiAnswer status (Some d) \<Rightarrow>
          if d = JNull then None
          else if \<not> (200 \<le> status \<and> status \<le> 299) \<or> js_truthy (field d ''error'') then
            Some (s\<lparr>kv_message := js_String (jor (field d ''error'') (JStr ''Failed to create API key.''))\<rparr>)
          else
            let new = (if field d ''keyRow'' = JNull \<or> field d ''keyRow'' = JUndef
                  then fallback_card now_ms trimmed environment (field d ''key'') else card_of_json (field d ''keyRow''))
            in Some (key_shown (Some new) (card_text (field d ''key'')) environment s)
      | _ \<Rightarrow> None)"

text \<open>The server action of the \<open>catch\<close> block; its throw leaves the component as it is.\<close>

definition action_answered :: "string \<Rightarrow> js_exn + key_action \<times> invalidation list \<Rightarrow> key_console \<Rightarrow> key_console" where
  "action_answered environment res s =
     (case res of
        Inl e \<Rightarrow> s
      | Inr (KeyRefused m, _) \<Rightarrow> s\<lparr>kv_message := m\<rparr>
      | Inr (KeyIssued generated row, _) \<Rightarrow> key_shown (Some (card_of_row row)) (i_key generated) environment s
      | Inr (KeysRemoved, _) \<Rightarrow> key_shown None [] environment s)"

text \<open>The whole creation against the server: \<open>arrives\<close> is what becomes of the answer on its way.\<close>

definition response_answer :: "response \<Rightarrow> ui_answer" where
  "response_answer r = UiAnswer (r_status r) (if r_body r = JUndef then None else Some (r_body r))"

definition key_route :: "(response \<times> invalidation list) db \<Rightarrow> response db" where
  "key_route h = db_bind h (\<lambda>(r, _). db_return r)"

definition create_key ::
  "(int \<Rightarrow> string) \<Rightarrow> (string \<Rightarrow> string) \<Rightarrow> string \<Rightarrow> string \<Rightarrow> int \<Rightarrow> session_user option
    \<Rightarrow> (response \<Rightarrow> ui_answer) \<Rightarrow> key_console \<Rightarrow> world \<Rightarrow> key_console \<times> world" where
  "create_key to_iso sha secret secret' now session arrives s w =
     (case create_click s of
        None \<Rightarrow> (s, w)
      | Some (trimmed, environment, body) \<Rightarrow>
          (case run_handler (key_route (keys_post to_iso sha secret now session (Some body))) w of
             (r, w1) \<Rightarrow>
               (case create_answered now trimmed environment (arrives r) s of
                  Some s' \<Rightarrow> (s', w1)
                | None \<Rightarrow>
                    (case createApiKey sha secret' now session trimmed environment w1 of
                       (res, w2) \<Rightarrow> (action_answered environment res s, w2)))))"

text \<open>\<open>revoke\<close>: the card goes first, then the request, then the action where the request did not succeed.\<close>

definition revoke_click :: "jsv \<Rightarrow> key_console \<Rightarrow> key_console" where
  "revoke_click i s = s\<lparr>kv_deleting := Some i, kv_list := filter (\<lambda>k. kc_id k \<noteq> i) (kv_list s)\<rparr>"

text \<open>
  After the answer: the action throws inside the \<open>try\<close> into the \<open>catch\<close>, which calls it once more. The
  result says whether the page is asked for again; the card is never put back.
\<close>

definition revoke_rest :: "(jsv \<Rightarrow> rat option) \<Rightarrow> session_user option \<Rightarrow> jsv \<Rightarrow> ui_answer \<Rightarrow> bool db" where
  "revoke_rest to_number session i a =
     (let once_more = db_then (revokeApiKey session (to_number i)) (db_return True) in
      case a of
        UiAnswer status _ \<Rightarrow> if 200 \<le> status \<and> status \<le> 299 then db_return True else db_catch once_more (\<lambda>_. once_more)
      | UiFailed m \<Rightarrow> once_more)"

definition revoke_key ::
  "(jsv \<Rightarrow> rat option) \<Rightarrow> session_user option \<Rightarrow> (response \<Rightarrow> ui_answer) \<Rightarrow> jsv \<Rightarrow> key_console \<Rightarrow> world
    \<Rightarrow> (key_console \<times> bool) \<times> world" where
  "revoke_key to_number session arrives i s w =
     (case run_handler (key_route (keys_delete to_number session (Some (JObj [(''id'', i)])))) w of
        (r, w1) \<Rightarrow>
          (case revoke_rest to_number session i (arrives r) w1 of
             (res, w2) \<Rightarrow> (((revoke_click i s)\<lparr>kv_deleting := None\<rparr>, res = Inr True), w2)))"

text \<open>\<open>removeAllKeys\<close> after the confirmation: any answer, also a refusal, is followed by a refresh.\<close>

definition remove_all ::
  "(jsv \<Rightarrow> rat option) \<Rightarrow> session_user option \<Rightarrow> bool \<Rightarrow> key_console \<Rightarrow> world \<Rightarrow> key_console \<times> world" where
  "remove_all to_number session confirmed s w =
     (if \<not> confirmed then (s, w)
      else (s\<lparr>kv_list := []\<rparr>, snd (run_handler (key_route (keys_delete to_number session (Some (JObj [(''all'', JBool True)])))) w)))"

section \<open>The settings form\<close>

record settings_form =
  sf_orgName :: string
  sf_billingEmail :: string
  sf_currency :: string
  sf_webhookUrl :: string
  sf_webhookSecret :: string
  sf_brandLogoUrl :: string
  sf_brandColor :: string
  sf_brandName :: string

record settings_console = settings_form +
  sf_saving :: bool
  sf_saved :: bool
  sf_saveError :: "string option"
  sf_testing :: bool
  sf_testStatus :: "(bool \<times> string) option"

definition form_open :: "settings_data option \<Rightarrow> string \<Rightarrow> string \<Rightarrow> settings_console" where
  "form_open initial orgName email = (let d = (\<lambda>f z. nullish_else (map_option f initial) z) in
     \<lparr>sf_orgName = d sd_orgName orgName, sf_billingEmail = d sd_billingEmail email, sf_currency = d sd_currency ''EGP'',
      sf_webhookUrl = d sd_webhookUrl [], sf_webhookSecret = d sd_webhookSecret ''whsec_live_initial_unconfigured_secret'',
      sf_brandLogoUrl = d sd_brandLogoUrl [], sf_brandColor = d sd_brandColor ''#6366f1'', sf_brandName = d sd_brandName orgName,
      sf_saving = False, sf_saved = False, sf_saveError = None, sf_testing = False, sf_testStatus = None\<rparr>)"

definition byte_hex :: "nat \<Rightarrow> string" where
  "byte_hex n = [hex_digit (n div 16), hex_digit (n mod 16)]"

text \<open>Rolling the secret changes the form only; \<open>bytes\<close> are the 24 random ones.\<close>

definition handleRegenerateSecret :: "bool \<Rightarrow> nat list \<Rightarrow> settings_console \<Rightarrow> settings_console" where
  "handleRegenerateSecret confirmed bytes s =
     (if confirmed then s\<lparr>sf_webhookSecret := ''whsec_'' @ concat (map byte_hex bytes)\<rparr> else s)"

text \<open>A dropped or chosen file, and the data URL its reader gives.\<close>

record image_file =
  if_type :: string
  if_bytes :: "nat list"

definition base64_char :: "nat \<Rightarrow> char" where
  "base64_char n = ''ABCDEFGHIJKLMNOPQRSTUVWXYZabcdefghijklmnopqrstuvwxyz0123456789+/'' ! (n mod 64)"

fun base64 :: "nat list \<Rightarrow> string" where
  "base64 [] = []"
| "base64 [a] = [base64_char (a div 4), base64_char (16 * (a mod 4)), CHR ''='', CHR ''='']"
| "base64 [a, b] = [base64_char (a div 4), base64_char (16 * (a mod 4) + b div 16), base64_char (4 * (b mod 16)), CHR ''='']"
| "base64 (a # b # c # r) = base64_char (a div 4) # base64_char (16 * (a mod 4) + b div 16)
     # base64_char (4 * (b mod 16) + c div 64) # base64_char c # base64 r"

definition data_url :: "image_file \<Rightarrow> string" where
  "data_url f = ''data:'' @ if_type f @ '';base64,'' @ base64 (if_bytes f)"

text \<open>\<open>handleFileUpload\<close>: a message, or the new logo.\<close>

definition handleFileUpload :: "image_file \<Rightarrow> settings_console \<Rightarrow> string option \<times> settings_console" where
  "handleFileUpload f s =
     (if \<not> starts_with (if_type f) ''image/'' then (Some ''Please upload a valid image file (PNG, JPG, SVG, WebP).'', s)
      else if 2 * 1024 * 1024 < length (if_bytes f) then (Some ''Image file size must be less than 2MB.'', s)
      else (None, s\<lparr>sf_brandLogoUrl := data_url f\<rparr>))"

definition save_body :: "settings_console \<Rightarrow> jsv" where
  "save_body s = JObj
     [(''orgName'', JStr (sf_orgName s)), (''billingEmail'', JStr (sf_billingEmail s)), (''currency'', JStr (sf_currency s)),
      (''webhookUrl'', JStr (sf_webhookUrl s)), (''webhookSecret'', JStr (sf_webhookSecret s)),
      (''brandLogoUrl'', JStr (sf_brandLogoUrl s)), (''brandColor'', JStr (sf_brandColor s)), (''brandName'', JStr (sf_brandName s))]"

definition save_click :: "settings_console \<Rightarrow> settings_console" where
  "save_click s = s\<lparr>sf_saving := True, sf_saved := False, sf_saveError := None\<rparr>"

definition save_answered :: "ui_answer \<Rightarrow> settings_console \<Rightarrow> settings_console" where
  "save_answered a s =
     (case a of
        UiAnswer status (Some d) \<Rightarrow>
          if d = JNull then s\<lparr>sf_saveError := Some ''Network error while saving settings''\<rparr>
          else if \<not> (200 \<le> status \<and> status \<le> 299) \<or> js_truthy (field d ''error'') then
            s\<lparr>sf_saveError := Some (js_String (jor (field d ''error'') (JStr ''Failed to save settings'')))\<rparr>
          else s\<lparr>sf_saved := True\<rparr>
      | _ \<Rightarrow> s\<lparr>sf_saveError := Some ''Network error while saving settings''\<rparr>)
     \<lparr>sf_saving := False\<rparr>"

text \<open>Pressing Save against the server, with an answer that arrives.\<close>

definition save_form ::
  "(int \<Rightarrow> string) \<Rightarrow> (string \<Rightarrow> bool) \<Rightarrow> (string \<Rightarrow> bool) \<Rightarrow> (jsv \<Rightarrow> jsv) \<Rightarrow> int \<Rightarrow> string \<Rightarrow> string
    \<Rightarrow> session_user option \<Rightarrow> settings_console \<Rightarrow> world \<Rightarrow> settings_console \<times> world" where
  "save_form to_iso email_ok url_ok details now secret secret' session s w =
     (case run_handler (settings_patch_route to_iso email_ok url_ok details now secret secret' session (Some (save_body s))) w of
        (r, w') \<Rightarrow> (save_answered (response_answer r) (save_click s), w'))"

text \<open>The test delivery: nothing without a URL, otherwise a request and what its answer says.\<close>

definition ping_click :: "settings_console \<Rightarrow> settings_console \<times> jsv option" where
  "ping_click s =
     (if js_trim (sf_webhookUrl s) = [] then
        (s\<lparr>sf_testStatus := Some (False, ''Please enter a valid Webhook Destination URL first.'')\<rparr>, None)
      else (s\<lparr>sf_testing := True, sf_testStatus := None\<rparr>,
        Some (JObj [(''webhookUrl'', JStr (js_trim (sf_webhookUrl s))), (''webhookSecret'', JStr (js_trim (sf_webhookSecret s)))])))"

definition ping_answered :: "ui_answer \<Rightarrow> settings_console \<Rightarrow> settings_console" where
  "ping_answered a s =
     (case a of
        UiFailed m \<Rightarrow> s\<lparr>sf_testStatus := Some (False, ''Delivery test failed: '' @ m)\<rparr>
      | UiAnswer status None \<Rightarrow> s\<lparr>sf_testStatus := Some (False, ''Delivery test failed: Unexpected token in JSON'')\<rparr>
      | UiAnswer status (Some d) \<Rightarrow>
          if d = JNull then s\<lparr>sf_testStatus := Some (False, ''Delivery test failed: Cannot read properties of null'')\<rparr>
          else s\<lparr>sf_testStatus := Some (js_truthy (field d ''success''),
            js_String (jor (field d ''message'') (JStr (if js_truthy (field d ''success'')
              then ''Ping delivered successfully.'' else ''Failed to deliver ping.''))))\<rparr>)
     \<lparr>sf_testing := False\<rparr>"

end
