(* ===== verification/Consoles_Facts.thy ===== *)
theory Consoles_Facts
  imports Consoles Account_Safety
begin

text \<open>
  What the consoles show against what the server holds: the mode, a key that is created or revoked while answers
  get lost, and settings that are saved.
\<close>

section \<open>The mode\<close>

lemma cookie_match_found: "starts_with s (MODE_KEY @ ''=live'') \<Longrightarrow> cookie_match (p @ s) \<noteq> None"
proof (induction p)
  case Nil
  then show ?case by (cases s) (simp_all add: MODE_KEY_def)
qed simp

lemma cookie_match_cases: "cookie_match s = None \<or> cookie_match s = Some ''live'' \<or> cookie_match s = Some ''test''"
  by (induction s) auto

lemma join_member: "x \<in> set xs \<Longrightarrow> \<exists>p r. js_join sep xs = p @ x @ r"
proof (induction sep xs rule: js_join.induct)
  case (3 sep s t ts)
  show ?case
  proof (cases "x = s")
    case True
    then show ?thesis by (metis append_Nil js_join.simps(3))
  next
    case False
    then have "x \<in> set (t # ts)" using "3.prems" by simp
    then obtain p r where "js_join sep (t # ts) = p @ x @ r" using "3.IH" by blast
    then have "js_join sep (s # t # ts) = (s @ sep @ p) @ x @ r" by simp
    then show ?thesis by blast
  qed
next
  case (2 sep s)
  then have "js_join sep [s] = [] @ x @ []" by simp
  then show ?case by blast
qed simp

lemma live_cookie_matched:
  assumes "map_of (br_cookies b) MODE_KEY = Some ''live''"
  shows "cookie_match (cookie_text b) \<noteq> None"
proof -
  have "(MODE_KEY, ''live'') \<in> set (br_cookies b)" using assms by (rule map_of_SomeD)
  then have "MODE_KEY @ ''='' @ ''live'' \<in> set (map (\<lambda>(k, v). k @ ''='' @ v) (br_cookies b))" by force
  then obtain p r where t: "cookie_text b = p @ (MODE_KEY @ ''='' @ ''live'') @ r" using join_member cookie_text_def by metis
  have "starts_with ((MODE_KEY @ ''='' @ ''live'') @ r) (MODE_KEY @ ''=live'')" by (subst starts_with_append) simp
  then show ?thesis unfolding t by (rule cookie_match_found)
qed

text \<open>
  A visit: pages the server renders in the mode it reads, pages asked for again, which run the effect on the state there is,
  and switches in between.
\<close>

datatype mode_event = Load | Refresh | Switch bool | Toggle

definition mode_effect :: "mode_state option \<Rightarrow> browser \<Rightarrow> mode_state \<times> browser" where
  "mode_effect s b = (let i = Some (server_mode b) in
     case mode_mount i (nullish_else s (mode_start i), b) of (s', b', again) \<Rightarrow> (s', b'))"

definition mode_handle :: "mode_event \<Rightarrow> mode_state \<times> browser \<Rightarrow> mode_state \<times> browser" where
  "mode_handle e sb = (case e of
     Load \<Rightarrow> mode_effect None (snd sb)
   | Refresh \<Rightarrow> mode_effect (Some (fst sb)) (snd sb)
   | Switch live \<Rightarrow> setMode (if live then ''live'' else ''test'') sb
   | Toggle \<Rightarrow> toggleMode sb)"

definition mode_visit :: "mode_event list \<Rightarrow> browser \<Rightarrow> mode_state \<times> browser" where
  "mode_visit es b = fold mode_handle es (mode_handle Load (mode_start None, b))"

definition item_ok :: "browser \<Rightarrow> bool" where
  "item_ok b \<longleftrightarrow> br_item b \<in> {None, Some [], Some ''live'', Some ''test''}"

definition mode_agrees :: "mode_state \<times> browser \<Rightarrow> bool" where
  "mode_agrees sb \<longleftrightarrow> br_storage (snd sb) \<and> item_ok (snd sb) \<and> ms_mounted (fst sb)
     \<and> ms_mode (fst sb) = server_mode (snd sb)"

lemma set_cookie_parts [simp]:
  "br_storage (set_cookie v b) = br_storage b" "br_item (set_cookie v b) = br_item b"
  "map_of (br_cookies (set_cookie v b)) MODE_KEY = Some v"
  by (simp_all add: set_cookie_def assoc_set_map)

lemma server_set_cookie [simp]: "server_mode (set_cookie ''live'' b) = ''live''" "server_mode (set_cookie ''test'' b) = ''test''"
  by (simp_all add: server_mode_def mode_of_def)

lemma effect_agrees:
  assumes "br_storage b" and "item_ok b" and "\<And>s'. s = Some s' \<Longrightarrow> ms_mode s' = server_mode b"
  shows "mode_agrees (mode_effect s b)"
proof -
  let ?saved = "if truthy (br_item b) then br_item b else cookie_match (cookie_text b)"
  consider "?saved = Some ''live''" | "?saved = Some ''test''" | "?saved = None"
    using assms(2) cookie_match_cases [of "cookie_text b"] unfolding item_ok_def by fastforce
  then show ?thesis
  proof cases
    case 3
    then have "cookie_match (cookie_text b) = None" by (auto split: if_splits simp: truthy_def)
    then have "map_of (br_cookies b) MODE_KEY \<noteq> Some ''live''" using live_cookie_matched by blast
    then have "server_mode b = ''test''" by (simp add: server_mode_def mode_of_def)
    with 3 assms show ?thesis
      by (cases s) (simp_all add: mode_agrees_def mode_effect_def mode_mount_def mode_start_def item_ok_def nullish_else_def Let_def)
  qed (use assms in \<open>simp_all add: mode_agrees_def mode_effect_def mode_mount_def item_ok_def Let_def\<close>)
qed

lemma switch_agrees: "mode_agrees (s, b) \<Longrightarrow> m = ''live'' \<or> m = ''test'' \<Longrightarrow> mode_agrees (setMode m (s, b))"
  by (auto simp: mode_agrees_def setMode_def item_ok_def)

lemma handle_agrees:
  assumes "mode_agrees sb"
  shows "mode_agrees (mode_handle e sb)"
proof -
  obtain s b where sb: "sb = (s, b)" by (cases sb)
  have switch: "mode_agrees (setMode (if l then ''live'' else ''test'') (s, b))" for l
    using assms switch_agrees [of s b] by (simp add: sb)
  have "mode_agrees (mode_effect None b)" "mode_agrees (mode_effect (Some s) b)"
    using effect_agrees [of b None] effect_agrees [of b "Some s"] assms by (simp_all add: sb mode_agrees_def [of "(s, b)"])
  with switch show ?thesis
    by (cases e) (simp_all add: mode_handle_def sb switch_agrees [of s b] toggleMode_def assms [unfolded sb])
qed

text \<open>
  C21. The mode that is shown is the mode that is served: from the first page on, after any loads, refreshes,
  switches and toggles in a browser that lets the page store, whatever cookies it started with, the mode of the switch is
  the one the server reads from the cookie for its queries.
\<close>

theorem mode_shown_is_served:
  assumes "br_storage b" and "item_ok b"
  shows "case mode_visit es b of (s, b') \<Rightarrow> effectiveMode initialMode s = server_mode b'"
proof -
  have "mode_agrees (fold mode_handle es sb)" if "mode_agrees sb" for sb
    using that by (induction es arbitrary: sb) (simp_all add: handle_agrees)
  then have "mode_agrees (mode_visit es b)" unfolding mode_visit_def using effect_agrees [OF assms, of None] by (simp add: mode_handle_def)
  then show ?thesis by (auto simp: mode_agrees_def effectiveMode_def split: prod.splits)
qed

theorem mode_shown_is_served_witness:
  "let b = \<lparr>br_cookies = [(''theme'', ''dark''), (MODE_KEY, ''live'')], br_item = None, br_storage = True\<rparr>;
       visit = mode_visit [Toggle, Refresh, Load] b
   in ms_mode (fst visit) = ''test'' \<and> effectiveMode None (fst visit) = server_mode (snd visit)"
proof -
  let ?b = "\<lparr>br_cookies = [(''theme'', ''dark''), (MODE_KEY, ''live'')], br_item = None, br_storage = True\<rparr>"
  have "case mode_visit [Toggle, Refresh, Load] ?b of (s, b') \<Rightarrow> effectiveMode None s = server_mode b'"
    by (rule mode_shown_is_served) (simp_all add: item_ok_def)
  moreover have "ms_mode (fst (mode_visit [Toggle, Refresh, Load] ?b)) = ''test''" by code_simp
  ultimately show ?thesis by (simp add: case_prod_beta Let_def)
qed

text \<open>Without storage the switch moves and nothing else does: the server goes on with the old mode.\<close>

lemma mode_without_storage:
  assumes "\<not> br_storage b"
  shows "ms_mode (fst (setMode m (s, b))) = m \<and> server_mode (snd (setMode m (s, b))) = server_mode b"
  using assms by (simp add: setMode_def)

section \<open>Keys\<close>

lemma run_key_route: "run_handler (key_route h) w = (case h w of
    (Inl e, w') \<Rightarrow> (\<lparr>r_status = 500, r_body = JUndef, r_headers = []\<rparr>, w') | (Inr (r, drops), w') \<Rightarrow> (r, w'))"
  by (simp add: run_handler_def key_route_def db_bind_def db_return_def split: prod.splits sum.splits)

definition with_new_key :: "string \<Rightarrow> string \<Rightarrow> issued_key \<Rightarrow> int \<Rightarrow> world \<Rightarrow> world" where
  "with_new_key u name generated now w = w\<lparr>apiKeys := apiKeys w @ [new_key_row (nextKeyId w) u name generated now],
     nextKeyId := nextKeyId w + 1\<rparr>"

text \<open>A form the route accepts: what \<open>createKeySchema\<close> asks of the name and the environment.\<close>

definition good_click :: "key_console \<Rightarrow> string \<Rightarrow> string \<Rightarrow> bool" where
  "good_click s name environment \<longleftrightarrow> js_trim (kv_name s) = name \<and> 2 \<le> length name \<and> length name \<le> 40
     \<and> kv_creationEnv s = environment \<and> (environment = ''live'' \<or> environment = ''test'')"

lemma good_click_body:
  assumes "good_click s name environment"
  shows "create_click s = Some (name, environment, JObj [(''name'', JStr name), (''environment'', JStr environment)])"
    "createKeySchema (JObj [(''name'', JStr name), (''environment'', JStr environment)]) = Some (name, environment)"
    "i_environment (issueApiKey sha secret environment) = environment" "trimmed_string 2 40 (JStr name) = Some name"
proof -
  have t: "js_trim name = name" using assms js_trim_idem unfolding good_click_def by metis
  show "create_click s = Some (name, environment, JObj [(''name'', JStr name), (''environment'', JStr environment)])"
    using assms by (auto simp: good_click_def create_click_def Let_def)
  show trimmed: "trimmed_string 2 40 (JStr name) = Some name"
    using assms by (simp add: trimmed_string_def t good_click_def Let_def)
  show "createKeySchema (JObj [(''name'', JStr name), (''environment'', JStr environment)]) = Some (name, environment)"
    using assms by (auto simp: createKeySchema_def trimmed good_click_def)
  show "i_environment (issueApiKey sha secret environment) = environment"
    using assms by (auto simp: issueApiKey_def good_click_def Let_def)
qed

lemma post_up:
  assumes "good_click s name environment" and "outages w = []"
  shows "keys_post to_iso sha secret now (Some user) (Some (JObj [(''name'', JStr name), (''environment'', JStr environment)])) w
    = (Inr (no_store 201 (JObj [(''key'', JStr (i_key (issueApiKey sha secret environment))),
          (''keyRow'', key_view to_iso environment (new_key_row (nextKeyId w) (su_id user) name (issueApiKey sha secret environment) now)),
          (''environment'', JStr environment)]), [Invalidate (Some (su_id user)) (Some environment)]),
        with_new_key (su_id user) name (issueApiKey sha secret environment) now w)"
proof -
  have "k_environment (new_key_row i u name (issueApiKey sha secret environment) now) = environment" for i u
    by (simp add: new_key_row_def good_click_body [OF assms(1)])
  then show ?thesis
    by (simp add: keys_post_def gate_up [OF assms(2)] insert_key_up [OF assms(2)] db_then_def db_bind_def db_return_def
        good_click_body [OF assms(1)] with_new_key_def Let_def)
qed

lemma action_up:
  assumes "good_click s name environment" and "outages w = []"
  shows "createApiKey sha secret now (Some user) name environment w
    = (Inr (KeyIssued (issueApiKey sha secret environment)
          (new_key_row (nextKeyId w) (su_id user) name (issueApiKey sha secret environment) now), [Invalidate (Some (su_id user)) None]),
        with_new_key (su_id user) name (issueApiKey sha secret environment) now w)"
  by (simp add: createApiKey_def good_click_body [OF assms(1)] gate_up [OF assms(2)] insert_key_up [OF assms(2)]
      db_then_def db_bind_def db_return_def with_new_key_def Let_def)

lemma card_back: "card_of_json (key_view to_iso (k_environment row) row) = card_of_row row"
  by (simp add: card_of_json_def key_view_def card_of_row_def card_text_def)

lemma create_delivered:
  assumes "good_click s name environment" and "outages w = []"
  shows "create_key to_iso sha secret secret' now (Some user) response_answer s w
    = (key_shown (Some (card_of_row (new_key_row (nextKeyId w) (su_id user) name (issueApiKey sha secret environment) now)))
         (i_key (issueApiKey sha secret environment)) environment s,
       with_new_key (su_id user) name (issueApiKey sha secret environment) now w)"
proof -
  let ?row = "new_key_row (nextKeyId w) (su_id user) name (issueApiKey sha secret environment) now"
  have e: "k_environment ?row = environment" by (simp add: new_key_row_def good_click_body [OF assms(1)])
  have card: "card_of_json (key_view to_iso environment ?row) = card_of_row ?row" using card_back [of to_iso ?row] by (simp add: e)
  have "key_view to_iso environment ?row \<noteq> JNull" "key_view to_iso environment ?row \<noteq> JUndef" by (simp_all add: key_view_def)
  then show ?thesis
    by (simp add: create_key_def good_click_body(1) [OF assms(1)] run_key_route post_up [OF assms] response_answer_def no_store_def
        create_answered_def card card_text_def Let_def)
qed

lemma create_lost:
  assumes "good_click s name environment" and "outages w = []"
  shows "create_key to_iso sha secret secret' now (Some user) (\<lambda>_. UiFailed m) s w
    = (key_shown (Some (card_of_row (new_key_row (nextKeyId w + 1) (su_id user) name (issueApiKey sha secret' environment) now)))
         (i_key (issueApiKey sha secret' environment)) environment s,
       with_new_key (su_id user) name (issueApiKey sha secret' environment) now
         (with_new_key (su_id user) name (issueApiKey sha secret environment) now w))"
proof -
  let ?w1 = "with_new_key (su_id user) name (issueApiKey sha secret environment) now w"
  have up: "outages ?w1 = []" and "nextKeyId ?w1 = nextKeyId w + 1" using assms(2) by (simp_all add: with_new_key_def)
  then show ?thesis
    by (simp add: create_key_def good_click_body(1) [OF assms(1)] run_key_route post_up [OF assms] create_answered_def
        action_up [OF assms(1) up] action_answered_def)
qed

text \<open>
  C12. A lost answer makes a second key. When the answer to the creation arrives, one key is stored and its
  secret is shown. When the answer is lost on its way, the server action that the console falls back to
  stores another: the first key stays active, its secret was shown to nobody, and its card is missing from the list.
\<close>

theorem lost_answer_second_key:
  assumes "good_click s name environment" and "outages w = []"
  shows "(case create_key to_iso sha secret secret' now (Some user) response_answer s w of (s1, w1) \<Rightarrow>
      \<exists>k. apiKeys w1 = apiKeys w @ [k] \<and> kv_list s1 = card_of_row k # kv_list s
        \<and> k_keyHash k = hashApiKey sha (kv_revealedKey s1))
    \<and> (case create_key to_iso sha secret secret' now (Some user) (\<lambda>_. UiFailed m) s w of (s2, w2) \<Rightarrow>
      \<exists>k k'. apiKeys w2 = apiKeys w @ [k, k'] \<and> kv_list s2 = card_of_row k' # kv_list s
        \<and> k_keyHash k' = hashApiKey sha (kv_revealedKey s2)
        \<and> k_userId k = su_id user \<and> k_revokedAt k = None \<and> k_keyHash k = i_keyHash (issueApiKey sha secret environment))"
proof -
  have h: "i_keyHash (issueApiKey sha x environment) = hashApiKey sha (i_key (issueApiKey sha x environment))" for x
    by (simp add: issueApiKey_def Let_def)
  show ?thesis
    by (simp add: create_delivered [OF assms] create_lost [OF assms] key_shown_def with_new_key_def h)
       (simp add: new_key_row_def h)
qed

definition ci_click :: key_console where
  "ci_click = (vault_open None ''live'' [])\<lparr>kv_name := '' ci-runner ''\<rparr>"

theorem lost_answer_second_key_witness:
  "case create_key int_str (\<lambda>t. t) ''s1'' ''s2'' 5 (Some demo_user) (\<lambda>_. UiFailed ''Failed to fetch'') ci_click empty_world of (s2, w2) \<Rightarrow>
     length (apiKeys w2) = 2 \<and> length (kv_list s2) = 1"
proof -
  have "js_trim '' ci-runner '' = ''ci-runner''" by code_simp
  then have "good_click ci_click ''ci-runner'' ''live''" by (simp add: good_click_def ci_click_def vault_open_def nullish_else_def)
  from lost_answer_second_key [OF this, where w = empty_world and to_iso = int_str and sha = "\<lambda>t. t" and secret = "''s1''"
      and secret' = "''s2''" and now = 5 and user = demo_user and m = "''Failed to fetch''"]
  show ?thesis by (auto simp: empty_world_def ci_click_def vault_open_def)
qed

text \<open>Revoking: the route deletes the key, and so does the action when it is called after a lost answer.\<close>

definition without_key :: "int \<Rightarrow> string \<Rightarrow> world \<Rightarrow> world" where
  "without_key i u w = w\<lparr>apiKeys := filter (\<lambda>k. \<not> (k_id k = i \<and> k_userId k = u)) (apiKeys w)\<rparr>"

lemma without_key_parts [simp]: "outages (without_key i u w) = outages w" "without_key i u (without_key i u w) = without_key i u w"
  by (simp_all add: without_key_def)

lemma delete_one_up:
  "outages w = [] \<Longrightarrow> delete_api_keys (\<lambda>k. k_id k = i \<and> k_userId k = u) w = (Inr (), without_key i u w)"
  by (simp add: delete_api_keys_def db_query_def without_key_def)

lemma revoke_up:
  assumes "outages w = []" and "0 < i"
  shows "revokeApiKey (Some user) (Some (of_int i)) w = (Inr (KeysRemoved, [Invalidate (Some (su_id user)) None]), without_key i (su_id user) w)"
  using assms by (simp add: revokeApiKey_def delete_one_up db_then_def db_bind_def db_return_def)

lemma delete_up:
  assumes "outages w = []" and "0 < i" and "to_number (jint i) = Some (of_int i)"
  shows "keys_delete to_number (Some user) (Some (JObj [(''id'', jint i)])) w
    = (Inr (no_store 200 (JObj [(''success'', JBool True)]), [Invalidate (Some (su_id user)) None]), without_key i (su_id user) w)"
  using assms by (simp add: keys_delete_def gate_up delete_one_up db_then_def db_bind_def db_return_def Let_def)

text \<open>
  C11. A revoked key is gone. With the database up, whatever becomes of the answer of the route, revoking a
  card deletes the key of that identifier if it is the user's and no other, the page is asked for again, and the
  card is out of the list.
\<close>

theorem revoke_removes_key:
  assumes "outages w = []" and "0 < i" and "to_number (jint i) = Some (of_int i)"
  shows "case revoke_key to_number (Some user) arrives (jint i) s w of ((s', again), w') \<Rightarrow>
      again \<and> apiKeys w' = filter (\<lambda>k. \<not> (k_id k = i \<and> k_userId k = su_id user)) (apiKeys w)
      \<and> payments w' = payments w \<and> kv_list s' = filter (\<lambda>c. kc_id c \<noteq> jint i) (kv_list s)"
proof -
  let ?w1 = "without_key i (su_id user) w"
  have up: "outages ?w1 = []" using assms(1) by simp
  have "revoke_rest to_number (Some user) (jint i) a ?w1 = (Inr True, ?w1)" for a
    by (simp add: revoke_rest_def assms(3) revoke_up [OF up assms(2)] db_then_def db_bind_def db_return_def db_catch_def
        Let_def split: ui_answer.split)
  then show ?thesis
    by (simp add: revoke_key_def run_key_route delete_up [where to_number = to_number, OF assms] revoke_click_def) (simp add: without_key_def)
qed

definition number_of :: "jsv \<Rightarrow> rat option" where
  "number_of v = (case v of JNum m e \<Rightarrow> Some (of_int m) | _ \<Rightarrow> None)"

theorem revoke_removes_key_witness:
  "case revoke_key number_of (Some demo_user) (\<lambda>_. UiFailed ''Failed to fetch'') (jint 1)
       (vault_open None ''live'' (map card_of_row (apiKeys demo_issued_world))) demo_issued_world of
     ((s', again), w') \<Rightarrow> again \<and> apiKeys w' = [] \<and> kv_list s' = []"
  using revoke_removes_key [of demo_issued_world 1 number_of, where user = demo_user
      and arrives = "\<lambda>_. UiFailed ''Failed to fetch''" and s = "vault_open None ''live'' (map card_of_row (apiKeys demo_issued_world))"]
  by (simp add: demo_issued_world_def empty_world_def number_of_def jint_def demo_user_def new_key_row_def vault_open_def
      card_of_row_def case_prod_beta)

text \<open>
  With the database down the card is gone, the key is not, and the page is not asked for again: the list hides a
  key that still works.
\<close>

lemma revoke_hides_live_key:
  assumes "outages w = [True, True, True]" and "0 < i" and "to_number (jint i) = Some (of_int i)"
  shows "case revoke_key to_number (Some user) response_answer (jint i) s w of ((s', again), w') \<Rightarrow>
      \<not> again \<and> apiKeys w' = apiKeys w \<and> kv_list s' = filter (\<lambda>c. kc_id c \<noteq> jint i) (kv_list s)"
proof -
  have down: "keys_delete to_number (Some user) b w = (Inl (Error ''connection failure''), w\<lparr>outages := [True, True]\<rparr>)" for b
    using assms(1) by (simp add: keys_delete_def schema_gate_def read_db_def db_query_def db_then_def db_bind_def)
  have act: "revokeApiKey (Some user) (Some (of_int i)) v = (Inl (Error ''connection failure''), v\<lparr>outages := r\<rparr>)"
    if "outages v = True # r" for v r
    using assms(2) that by (simp add: revokeApiKey_def delete_api_keys_def db_query_def db_then_def db_bind_def db_return_def)
  show ?thesis
    by (simp add: revoke_key_def run_key_route down revoke_rest_def response_answer_def assms(3) act db_then_def db_bind_def
        db_catch_def revoke_click_def Let_def)
qed

section \<open>The settings form\<close>

lemma bind_refused [simp]: "Option.bind x (\<lambda>_. None) = None"
  by (cases x) simp_all

text \<open>A check that refuses its member refuses the body.\<close>

lemma logo_refused: "trimmed_string 0 500000 (field body ''brandLogoUrl'') = None \<Longrightarrow> field body ''brandLogoUrl'' \<noteq> JUndef
    \<Longrightarrow> settingsUpdateSchema email_ok url_ok body = None"
  by (cases body) (simp_all add: settingsUpdateSchema_def optional_def)

lemma save_refused:
  assumes "settingsUpdateSchema email_ok url_ok (save_body s) = None"
  shows "save_form to_iso email_ok url_ok details now secret secret' (Some user) s w
    = ((save_click s)\<lparr>sf_saving := False, sf_saveError := Some ''Invalid settings data''\<rparr>, w)"
  by (simp add: save_form_def settings_patch_route_def assms run_handler_def db_return_def json_response_def
      response_answer_def save_answered_def save_click_def jor_def)

text \<open>The form after the trimming of the schema.\<close>

definition trimmed_form :: "settings_console \<Rightarrow> settings_form" where
  "trimmed_form s = \<lparr>sf_orgName = js_trim (sf_orgName s), sf_billingEmail = js_trim (sf_billingEmail s),
     sf_currency = sf_currency s, sf_webhookUrl = js_trim (sf_webhookUrl s), sf_webhookSecret = js_trim (sf_webhookSecret s),
     sf_brandLogoUrl = js_trim (sf_brandLogoUrl s), sf_brandColor = js_trim (sf_brandColor s), sf_brandName = js_trim (sf_brandName s)\<rparr>"

definition form_patch :: "settings_form \<Rightarrow> settings_patch" where
  "form_patch f = \<lparr>sp_orgName = Some (sf_orgName f), sp_billingEmail = Some (sf_billingEmail f), sp_currency = Some (sf_currency f),
     sp_webhookUrl = Some (sf_webhookUrl f), sp_webhookSecret = Some (sf_webhookSecret f), sp_brandLogoUrl = Some (sf_brandLogoUrl f),
     sp_brandColor = Some (sf_brandColor f), sp_brandName = Some (sf_brandName f)\<rparr>"

lemma trimmed_value: "trimmed_string a b (JStr s) = Some t \<Longrightarrow> t = js_trim s"
  by (auto simp: trimmed_string_def Let_def split: if_splits)

lemma checked_value: "checked_string P (JStr s) = Some t \<Longrightarrow> t = js_trim s"
  by (auto simp: checked_string_def split: if_splits)

lemma or_empty_value: "or_empty (checked_string P) (JStr s) = Some t \<Longrightarrow> t = js_trim s"
  by (auto simp: or_empty_def checked_string_def js_trim_id split: option.splits if_splits)

lemma currency_value: "currency_member (JStr s) = Some t \<Longrightarrow> t = s"
  by (auto simp: currency_member_def split: if_splits)

lemma save_body_members [simp]:
  "field (save_body s) ''orgName'' = JStr (sf_orgName s)" "field (save_body s) ''billingEmail'' = JStr (sf_billingEmail s)"
  "field (save_body s) ''currency'' = JStr (sf_currency s)" "field (save_body s) ''webhookUrl'' = JStr (sf_webhookUrl s)"
  "field (save_body s) ''webhookSecret'' = JStr (sf_webhookSecret s)" "field (save_body s) ''brandLogoUrl'' = JStr (sf_brandLogoUrl s)"
  "field (save_body s) ''brandColor'' = JStr (sf_brandColor s)" "field (save_body s) ''brandName'' = JStr (sf_brandName s)"
  by (simp_all add: save_body_def)

lemma save_body_object: "settingsUpdateSchema email_ok url_ok (save_body s)
  = Option.bind (trimmed_string 2 100 (JStr (sf_orgName s))) (\<lambda>orgName.
    Option.bind (or_empty (checked_string email_ok) (JStr (sf_billingEmail s))) (\<lambda>billingEmail.
    Option.bind (currency_member (JStr (sf_currency s))) (\<lambda>currency.
    Option.bind (or_empty (checked_string url_ok) (JStr (sf_webhookUrl s))) (\<lambda>webhookUrl.
    Option.bind (checked_string (\<lambda>s. 16 \<le> length s) (JStr (sf_webhookSecret s))) (\<lambda>webhookSecret.
    Option.bind (trimmed_string 0 500000 (JStr (sf_brandLogoUrl s))) (\<lambda>brandLogoUrl.
    Option.bind (checked_string color_ok (JStr (sf_brandColor s))) (\<lambda>brandColor.
    Option.bind (trimmed_string 0 100 (JStr (sf_brandName s))) (\<lambda>brandName.
      Some \<lparr>sp_orgName = Some orgName, sp_billingEmail = Some billingEmail, sp_currency = Some currency,
        sp_webhookUrl = Some webhookUrl, sp_webhookSecret = Some webhookSecret, sp_brandLogoUrl = Some brandLogoUrl,
        sp_brandColor = Some brandColor, sp_brandName = Some brandName\<rparr>))))))))"
proof -
  have opt: "Option.bind (optional check (JStr t)) f = Option.bind (check (JStr t)) (\<lambda>x. f (Some x))" for check t and f :: "string option \<Rightarrow> settings_patch option"
    by (cases "check (JStr t)") (simp_all add: optional_def)
  have obj: "\<exists>ps. save_body s = JObj ps" by (simp add: save_body_def)
  then obtain ps where ps: "save_body s = JObj ps" by blast
  show ?thesis
    by (simp only: settingsUpdateSchema_def save_body_members opt ps [symmetric]) (simp only: ps jsv.case save_body_members [unfolded ps] opt)
qed

lemma saved_patch: "settingsUpdateSchema email_ok url_ok (save_body s) = Some d \<Longrightarrow> d = form_patch (trimmed_form s)"
  unfolding save_body_object
  by (auto simp: bind_eq_Some_conv form_patch_def trimmed_form_def
      dest: trimmed_value checked_value or_empty_value currency_value)

definition update_own :: "int \<Rightarrow> string \<Rightarrow> settings_patch \<Rightarrow> world \<Rightarrow> world" where
  "update_own now u d w = w\<lparr>merchantSettings := map (\<lambda>m. if m_userId m = u then patch_row now d m else m) (merchantSettings w)\<rparr>"

lemma find_updated:
  "find (\<lambda>m. m_userId m = u) (merchantSettings (update_own now u d w))
    = map_option (patch_row now d) (find (\<lambda>m. m_userId m = u) (merchantSettings w))"
proof -
  have "m_userId (patch_row now d m) = m_userId m" for m by (simp add: patch_row_def)
  then have "find (\<lambda>m. m_userId m = u) (map (\<lambda>m. if m_userId m = u then patch_row now d m else m) ms)
      = map_option (patch_row now d) (find (\<lambda>m. m_userId m = u) ms)" for ms
    by (induction ms) auto
  then show ?thesis by (simp add: update_own_def)
qed

lemma read_settings_up:
  assumes "outages w = []" and "find (\<lambda>m. m_userId m = u) (merchantSettings w) = Some m"
  shows "getMerchantSettings now secret u name email w = (Inr (stored_settings name email m), w)"
  using assms by (simp add: getMerchantSettings_def gate_up select_settings_up settings_or_create_def db_then_def db_bind_def
      db_return_def)

lemma update_settings_up:
  assumes "outages w = []" and "find (\<lambda>m. m_userId m = u) (merchantSettings w) = Some m"
  shows "updateMerchantSettings now secret secret' u d w
    = (Inr (stored_settings None None (patch_row now d m)), update_own now u d w)"
proof -
  have "list_ex (\<lambda>m. m_userId m = u) (merchantSettings w)"
    using assms(2) by (auto simp: list_ex_iff find_Some_iff intro: nth_mem)
  then have "upsert_settings (patched_defaults now secret u d) (patch_row now d) w = (Inr (), update_own now u d w)"
    using assms(1) by (simp add: upsert_settings_def db_query_def update_own_def patched_defaults_def)
  moreover have "outages (update_own now u d w) = []" using assms(1) by (simp add: update_own_def)
  note read_settings_up [OF this, of u]
  ultimately show ?thesis
    using assms by (simp add: updateMerchantSettings_def gate_up db_then_def db_bind_def find_updated)
qed

lemma form_reads_back: "settings_form.truncate (form_open (Some (stored_settings name email (patch_row now (form_patch f) m))) x y) = f"
  by (simp add: settings_form.truncate_def form_open_def stored_settings_def patch_row_def form_patch_def nullish_else_def)

text \<open>
  C9. Saved settings come back. A form the schema accepts is saved: the console says so, the settings page rendered
  next opens the form with exactly the values that were in it, without white space around them, and
  nobody else's settings change.
\<close>

theorem settings_form_saved:
  assumes "outages w = []" and "find (\<lambda>m. m_userId m = su_id user) (merchantSettings w) = Some m"
    and "settingsUpdateSchema email_ok url_ok (save_body s) \<noteq> None"
  shows "case save_form to_iso email_ok url_ok details now secret secret' (Some user) s w of (s', w') \<Rightarrow>
      sf_saved s' \<and> sf_saveError s' = None
      \<and> (\<exists>d. fst (settings_page now' secret'' (Some user) w') = Inr (Some d)
           \<and> settings_form.truncate (form_open (Some d) orgName email) = trimmed_form s)
      \<and> filter (\<lambda>m. m_userId m \<noteq> su_id user) (merchantSettings w') = filter (\<lambda>m. m_userId m \<noteq> su_id user) (merchantSettings w)"
proof -
  let ?p = "form_patch (trimmed_form s)"
  let ?w = "update_own now (su_id user) ?p w"
  have accepted: "settingsUpdateSchema email_ok url_ok (save_body s) = Some ?p" using assms(3) saved_patch by blast
  have save: "save_form to_iso email_ok url_ok details now secret secret' (Some user) s w
      = ((save_click s)\<lparr>sf_saving := False, sf_saved := True\<rparr>, ?w)"
    by (simp add: save_form_def settings_patch_route_def accepted update_settings_up [OF assms(1,2)] run_handler_def
        db_bind_def db_return_def no_store_def response_answer_def save_answered_def save_click_def)
  have up: "outages ?w = []" using assms(1) by (simp add: update_own_def)
  have "find (\<lambda>m. m_userId m = su_id user) (merchantSettings ?w) = Some (patch_row now ?p m)"
    using assms(2) by (simp add: find_updated)
  then have page: "fst (settings_page now' secret'' (Some user) ?w)
      = Inr (Some (stored_settings (su_name user) (su_email user) (patch_row now ?p m)))"
    by (simp add: settings_page_def read_settings_up [OF up] db_bind_def db_return_def)
  have "filter (\<lambda>m. m_userId m \<noteq> u) (map (\<lambda>m. if m_userId m = u then patch_row now ?p m else m) ms) = filter (\<lambda>m. m_userId m \<noteq> u) ms"
    for u ms by (induction ms) (auto simp: patch_row_def)
  then have "filter (\<lambda>m. m_userId m \<noteq> su_id user) (merchantSettings ?w) = filter (\<lambda>m. m_userId m \<noteq> su_id user) (merchantSettings w)"
    by (simp add: update_own_def)
  with page show ?thesis by (auto simp: save save_click_def form_reads_back)
qed

definition shop_row :: merchant_settings_row where
  "shop_row = settings_row 0 (initial_settings ''u1'' (Some ''Ada'') (Some ''ada@example.com'') ''whsec_0123456789'')"

definition shop_world :: world where
  "shop_world = empty_world\<lparr>merchantSettings := [shop_row]\<rparr>"

definition shop_form :: settings_console where
  "shop_form = (form_open (Some (stored_settings None None shop_row)) [] [])\<lparr>sf_orgName := '' Ada Stores ''\<rparr>"

lemma shop_form_members [simp]:
  "sf_orgName shop_form = '' Ada Stores ''" "sf_billingEmail shop_form = ''ada@example.com''" "sf_currency shop_form = ''EGP''"
  "sf_webhookUrl shop_form = []" "sf_webhookSecret shop_form = ''whsec_0123456789''" "sf_brandLogoUrl shop_form = []"
  "sf_brandColor shop_form = DEFAULT_COLOR" "sf_brandName shop_form = ''Ada''"
  by (simp_all add: shop_form_def form_open_def nullish_else_def stored_settings_def shop_row_def settings_row_def initial_settings_def)

lemma shop_trims: "js_trim '' Ada Stores '' = ''Ada Stores''" "js_trim ''ada@example.com'' = ''ada@example.com''"
  "js_trim ''whsec_0123456789'' = ''whsec_0123456789''" "js_trim DEFAULT_COLOR = DEFAULT_COLOR" "js_trim ''Ada'' = ''Ada''" "js_trim [] = []"
  by code_simp+

lemma shop_form_accepted: "settingsUpdateSchema (\<lambda>_. True) (\<lambda>_. True) (save_body shop_form) \<noteq> None"
  by (simp add: save_body_object trimmed_string_def checked_string_def or_empty_def currency_member_def currencies_def
      shop_trims default_color_ok)

theorem settings_form_saved_witness:
  "case save_form int_str (\<lambda>_. True) (\<lambda>_. True) (\<lambda>_. JNull) 1 [] [] (Some demo_user) shop_form shop_world of (s', w') \<Rightarrow>
     sf_saved s' \<and> (\<exists>d. fst (settings_page 2 [] (Some demo_user) w') = Inr (Some d) \<and> sd_orgName d = ''Ada Stores'')"
proof -
  have org: "sf_orgName (settings_form.truncate (form_open (Some d) x y)) = sd_orgName d" for d x y
    by (simp add: settings_form.truncate_def form_open_def nullish_else_def)
  have t: "sf_orgName (trimmed_form shop_form) = ''Ada Stores''" by (simp add: trimmed_form_def shop_trims)
  have "find (\<lambda>m. m_userId m = su_id demo_user) (merchantSettings shop_world) = Some shop_row"
    by (simp add: shop_world_def shop_row_def settings_row_def initial_settings_def demo_user_def)
  moreover have "outages shop_world = []" by (simp add: shop_world_def empty_world_def)
  ultimately show ?thesis
    using settings_form_saved [OF _ _ shop_form_accepted, where w = shop_world and user = demo_user and m = shop_row and to_iso = int_str
        and details = "\<lambda>_. JNull" and now = 1 and secret = "[]" and secret' = "[]" and now' = 2 and secret'' = "[]" and orgName = "[]" and email = "[]"]
    by (auto simp: t split: prod.splits) (metis org t)
qed

section \<open>An uploaded logo\<close>

lemma base64_length: "length (base64 bs) = 4 * ((length bs + 2) div 3)"
proof (induction bs rule: base64.induct)
  case (4 a b c r)
  have "(length (a # b # c # r) + 2) div 3 = Suc ((length r + 2) div 3)" by simp
  with 4 show ?case by simp
qed simp_all

lemma base64_no_ws: "c \<in> set (base64 bs) \<Longrightarrow> \<not> is_ws c"
proof -
  have "list_all (\<lambda>c. \<not> is_ws c) ''ABCDEFGHIJKLMNOPQRSTUVWXYZabcdefghijklmnopqrstuvwxyz0123456789+/''" by code_simp
  then have char: "\<not> is_ws (base64_char n)" for n unfolding base64_char_def by (simp only: list_all_length) simp
  have "\<not> is_ws (CHR ''='')" by code_simp
  with char show "c \<in> set (base64 bs) \<Longrightarrow> \<not> is_ws c" by (induction bs rule: base64.induct) auto
qed

lemma data_url_trimmed: "if_bytes f \<noteq> [] \<Longrightarrow> js_trim (data_url f) = data_url f"
proof (rule js_trim_id)
  assume "if_bytes f \<noteq> []"
  then have ne: "base64 (if_bytes f) \<noteq> []" by (cases "if_bytes f" rule: base64.cases) auto
  then have "last (data_url f) \<in> set (base64 (if_bytes f))" by (simp add: data_url_def)
  then have "\<not> is_ws (last (data_url f))" by (rule base64_no_ws)
  moreover have "hd (data_url f) = CHR ''d''" "\<not> is_ws (CHR ''d'')" by (simp_all add: data_url_def is_ws_def char_code_def)
  ultimately show "data_url f = [] \<or> \<not> is_ws (hd (data_url f)) \<and> \<not> is_ws (last (data_url f))" by simp
qed

lemma data_url_length: "length (data_url f) = 13 + length (if_type f) + 4 * ((length (if_bytes f) + 2) div 3)"
  by (simp add: data_url_def base64_length)

text \<open>
  C10. A logo the form takes can be one the server never takes. The console accepts images up to two megabytes; from
  375000 bytes on, the data URL it makes of one is longer than the route allows, so that every later save of the form is
  refused with the general message, whatever else the form holds, and nothing is stored.
\<close>

theorem large_logo_blocks_saving:
  assumes "starts_with (if_type f) ''image/''" and "375000 \<le> length (if_bytes f)" and "length (if_bytes f) \<le> 2097152"
  shows "case handleFileUpload f s of (alert, s1) \<Rightarrow>
      alert = None \<and> sf_brandLogoUrl s1 = data_url f
      \<and> (case save_form to_iso email_ok url_ok details now secret secret' (Some user)
             (s1\<lparr>sf_orgName := orgName, sf_billingEmail := email, sf_currency := currency, sf_webhookUrl := url,
                sf_webhookSecret := hook, sf_brandColor := color, sf_brandName := brand\<rparr>) w of (s2, w') \<Rightarrow>
           sf_saveError s2 = Some ''Invalid settings data'' \<and> \<not> sf_saved s2 \<and> w' = w)"
proof -
  have "(375000 + 2) div 3 \<le> (length (if_bytes f) + 2) div 3" using assms(2) by (intro div_le_mono) simp
  then have long: "500000 < length (data_url f)" unfolding data_url_length by simp
  have "if_bytes f \<noteq> []" using assms(2) by auto
  then have refused: "trimmed_string 0 500000 (JStr (data_url f)) = None"
    using long by (simp add: trimmed_string_def data_url_trimmed Let_def)
  have "settingsUpdateSchema email_ok url_ok (save_body t) = None" if "sf_brandLogoUrl t = data_url f" for t
    using that refused by (intro logo_refused) simp_all
  note save = save_refused [OF this]
  have upload: "handleFileUpload f s = (None, s\<lparr>sf_brandLogoUrl := data_url f\<rparr>)" using assms by (simp add: handleFileUpload_def)
  show ?thesis unfolding upload prod.case
    by (subst save) (simp_all add: save_click_def)
qed

definition photo :: image_file where
  "photo = \<lparr>if_type = ''image/png'', if_bytes = replicate 400000 0\<rparr>"

theorem large_logo_blocks_saving_witness:
  "sf_saveError (fst (save_form int_str (\<lambda>_. True) (\<lambda>_. True) (\<lambda>_. JNull) 1 [] [] (Some demo_user)
      ((snd (handleFileUpload photo shop_form))\<lparr>sf_orgName := ''Ada'', sf_billingEmail := [], sf_currency := ''EGP'', sf_webhookUrl := [],
         sf_webhookSecret := ''whsec_0123456789'', sf_brandColor := ''#6366f1'', sf_brandName := ''Ada''\<rparr>) shop_world))
    = Some ''Invalid settings data''"
proof -
  have "starts_with (if_type photo) ''image/''" "375000 \<le> length (if_bytes photo)" "length (if_bytes photo) \<le> 2097152"
    by (simp_all add: photo_def)
  from large_logo_blocks_saving [OF this, where s = shop_form and to_iso = int_str and email_ok = "\<lambda>_. True" and url_ok = "\<lambda>_. True"
      and details = "\<lambda>_. JNull" and now = 1 and secret = "[]" and secret' = "[]" and user = demo_user and orgName = "''Ada''"
      and email = "[]" and currency = "''EGP''" and url = "[]" and hook = "''whsec_0123456789''" and color = "''#6366f1''"
      and brand = "''Ada''" and w = shop_world]
  show ?thesis by (simp add: case_prod_beta)
qed

text \<open>The console shows what the test route reports in \<open>message\<close>; its refusals come in \<open>error\<close> and are not shown.\<close>

lemma ping_refusal_not_shown:
  assumes "testWebhookSchema url_ok b = None" and "outages w = []"
  shows "sf_testStatus (ping_answered (response_answer (fst (run_handler
      (test_webhook_post url_ok post hmac hex iso_now now_ms latency (Some user) (Some b)) w))) s)
    = Some (False, ''Failed to deliver ping.'')"
  by (simp add: test_webhook_post_def assms(1) gate_up [OF assms(2)] run_handler_def db_then_def db_bind_def db_return_def
      error_text_def json_response_def response_answer_def ping_answered_def jor_def)

end
