(* ===== verification/Playground.thy ===== *)
theory Playground
  imports Formatting Checkout_Ui
begin

text \<open>
  The request playground of the documentation, \<open>components/payment-orchestrator-console.tsx\<close>: presets, the switch between
  the environments, the guard on the address, the request, and what is shown of its answer. The clock, the random part
  of the idempotency key, \<open>new URL\<close> and \<open>JSON.parse\<close> are arguments. Of the generated samples the shell command
  is modelled; the others put the same values into fixed texts. Then what it guarantees.
\<close>

section \<open>Presets\<close>

record preset =
  ps_method :: string
  ps_path :: string
  ps_body :: string

text \<open>\<open>Date.now().toString().slice(-6)\<close> when the module is loaded.\<close>

definition ms_tail :: "int \<Rightarrow> string" where
  "ms_tail now_ms = slice_last 6 (int_str now_ms)"

definition preset_customer :: "string \<Rightarrow> string \<Rightarrow> string \<Rightarrow> jsv" where
  "preset_customer phone email name = JObj [(''phone'', JStr phone), (''email'', JStr email), (''full_name'', JStr name)]"

definition paymob_body :: "int \<Rightarrow> jsv" where
  "paymob_body now_ms = JObj [(''provider'', JStr ''paymob''), (''amount_minor_units'', JNum 10000 0), (''currency'', JStr ''EGP''),
     (''customer'', preset_customer ''+201001234567'' ''buyer@example.com'' ''Ahmed Hassan''),
     (''merchant_reference'', JStr (''ord_'' @ ms_tail now_ms)), (''description'', JStr ''OpenWrapper Pro Subscription''),
     (''return_url'', JStr ''https://example.com/checkout/complete'')]"

definition fawry_body :: "int \<Rightarrow> jsv" where
  "fawry_body now_ms = JObj [(''provider'', JStr ''fawry''), (''amount_minor_units'', JNum 5000 0), (''currency'', JStr ''EGP''),
     (''customer'', preset_customer ''+201201234567'' ''customer@example.com'' ''Sara Mahmoud''),
     (''merchant_reference'', JStr (''fawry_'' @ ms_tail now_ms)), (''description'', JStr ''E-Commerce Order at Fawry Terminal'')]"

definition stripe_body :: jsv where
  "stripe_body = JObj [(''provider'', JStr ''stripe''), (''amount_minor_units'', JNum 2499 0), (''currency'', JStr ''USD''),
     (''customer'', preset_customer ''+15551234567'' ''user@example.com'' ''Alex Smith''),
     (''description'', JStr ''SaaS Monthly License''), (''return_url'', JStr ''https://example.com/billing/success'')]"

definition mock_body :: "int \<Rightarrow> jsv" where
  "mock_body now_ms = JObj [(''provider'', JStr ''mock''), (''amount_minor_units'', JNum 10000 0), (''currency'', JStr ''EGP''),
     (''customer'', preset_customer ''+201000000000'' ''mock-tester@example.com'' ''Mock Tester''),
     (''merchant_reference'', JStr (''mock_'' @ ms_tail now_ms)),
     (''description'', JStr ''Deterministic Simulation (% 100 == 99 declines, % 100 == 88 times out)'')]"

definition post_preset :: "jsv \<Rightarrow> preset" where
  "post_preset v = \<lparr>ps_method = ''POST'', ps_path = ''/api/v1/payments'', ps_body = nullish_else (pretty 2 v 0) []\<rparr>"

definition presets :: "int \<Rightarrow> (string \<times> preset) list" where
  "presets now_ms = [(''paymob'', post_preset (paymob_body now_ms)), (''fawry'', post_preset (fawry_body now_ms)),
     (''stripe'', post_preset stripe_body), (''mock'', post_preset (mock_body now_ms)),
     (''health'', \<lparr>ps_method = ''GET'', ps_path = ''/api/v1/health'', ps_body = []\<rparr>)]"

section \<open>State\<close>

record playground =
  pl_preset :: string
  pl_apiEnv :: string
  pl_key :: string
  pl_endpoint :: string
  pl_method :: string
  pl_body :: string
  pl_result :: string
  pl_status :: "nat option"
  pl_latency :: "int option"
  pl_tab :: string

definition SANDBOX_KEY :: string where "SANDBOX_KEY = ''ow_test_sandbox_demo''"

definition preset_of :: "int \<Rightarrow> string \<Rightarrow> preset" where
  "preset_of now_ms k = nullish_else (map_of (presets now_ms) k) (post_preset (paymob_body now_ms))"

definition playground_open :: "int \<Rightarrow> playground" where
  "playground_open now_ms = (let p = preset_of now_ms ''paymob'' in
     \<lparr>pl_preset = ''paymob'', pl_apiEnv = ''test'', pl_key = SANDBOX_KEY, pl_endpoint = ps_path p, pl_method = ps_method p,
      pl_body = ps_body p, pl_result = ''Ready to test. Select a preset and click '' @ [CHR 0x27] @ ''Execute Request'' @ [CHR 0x27] @ ''.'',
      pl_status = None, pl_latency = None, pl_tab = ''response''\<rparr>)"

definition applyPreset :: "int \<Rightarrow> string \<Rightarrow> playground \<Rightarrow> playground" where
  "applyPreset now_ms k s = (let p = preset_of now_ms k in
     s\<lparr>pl_preset := k, pl_method := ps_method p, pl_endpoint := ps_path p, pl_body := ps_body p,
       pl_status := None, pl_latency := None\<rparr>)"

text \<open>The pills of the environment.\<close>

definition env_pill :: "string \<Rightarrow> playground \<Rightarrow> playground" where
  "env_pill i s =
     (if i = ''test'' then
        (if pl_key s = [] \<or> pl_key s = ''ow_live_production_key'' then s\<lparr>pl_apiEnv := ''test'', pl_key := SANDBOX_KEY\<rparr>
         else s\<lparr>pl_apiEnv := ''test''\<rparr>)
      else (if pl_key s = SANDBOX_KEY then s\<lparr>pl_apiEnv := ''live'', pl_key := []\<rparr> else s\<lparr>pl_apiEnv := ''live''\<rparr>))"

text \<open>The button that formats the payload, which does nothing when it does not parse.\<close>

definition format_body :: "(string \<Rightarrow> jsv option) \<Rightarrow> playground \<Rightarrow> playground" where
  "format_body parse s = (case parse (pl_body s) of None \<Rightarrow> s | Some v \<Rightarrow> s\<lparr>pl_body := nullish_else (pretty 2 v 0) []\<rparr>)"

section \<open>The request\<close>

definition id_char :: "char \<Rightarrow> bool" where
  "id_char c \<longleftrightarrow> (let n = char_code c in
     (65 \<le> n \<and> n \<le> 90) \<or> (97 \<le> n \<and> n \<le> 122) \<or> is_digit c \<or> c = CHR ''_'' \<or> c = CHR ''-'')"

text \<open>\<open>r{0,n}\<close>, as many as possible first.\<close>

primrec at_most :: "nat \<Rightarrow> re \<Rightarrow> re" where
  "at_most 0 r = Eps"
| "at_most (Suc n) r = Alt (Seq r (at_most n r)) Eps"

definition ENDPOINT_REGEX :: re where
  "ENDPOINT_REGEX = seqs [Str ''/api/'', Seq (Str ''v'') (some_of digit), Str ''/'',
     Alt (Str ''health'') (Seq (Str ''payments'') (maybe (Seq (Str ''/'') (Seq (Cls id_char) (at_most 127 (Cls id_char))))))]"

record play_request =
  pq_method :: string
  pq_url :: string
  pq_headers :: headers
  pq_body :: "string option"

text \<open>
  \<open>resolve\<close> is \<open>new URL(endpoint, origin)\<close>: origin, path and query, or a throw with a message.
\<close>

definition run_click ::
  "(string \<Rightarrow> string + string \<times> string \<times> string) \<Rightarrow> string \<Rightarrow> int \<Rightarrow> string \<Rightarrow> playground \<Rightarrow> string + play_request" where
  "run_click resolve origin now_ms random s =
     (case resolve (pl_endpoint s) of
        Inl m \<Rightarrow> Inl m
      | Inr (u_org, pathname, query) \<Rightarrow>
          if u_org \<noteq> origin \<or> full_match ENDPOINT_REGEX pathname = None
          then Inl ''Only same-origin OpenWrapper health and payment endpoints are allowed.''
          else Inr \<lparr>pq_method = pl_method s, pq_url = pathname @ query,
            pq_headers = [(''Content-Type'', ''application/json''), (''Idempotency-Key'', ''idem_'' @ int_str now_ms @ ''_'' @ random)]
              @ (if js_trim (pl_key s) \<noteq> [] then [(''Authorization'', ''Bearer '' @ js_trim (pl_key s))] else []),
            pq_body = (if pl_method s = ''POST'' \<and> js_trim (pl_body s) \<noteq> [] then Some (pl_body s) else None)\<rparr>)"

definition shown_json :: "jsv \<Rightarrow> string" where
  "shown_json v = nullish_else (pretty 2 v 0) []"

definition run_failed :: "int \<Rightarrow> string \<Rightarrow> playground \<Rightarrow> playground" where
  "run_failed duration message s = s\<lparr>pl_status := Some 500, pl_latency := Some duration, pl_tab := ''response'',
     pl_result := shown_json (JObj [(''error'', JObj [(''message'', JStr (if message = [] then ''Request failed'' else message)),
       (''hint'', JStr ''Ensure the gateway is running and your API key is valid.'')])])\<rparr>"

definition run_answered :: "int \<Rightarrow> ui_answer \<Rightarrow> playground \<Rightarrow> playground" where
  "run_answered duration a s =
     (case a of
        UiFailed m \<Rightarrow> run_failed duration m s
      | UiAnswer status d \<Rightarrow> s\<lparr>pl_status := Some status, pl_latency := Some duration, pl_tab := ''response'',
          pl_result := shown_json (nullish_else d (JObj [(''error'', JObj [(''message'', JStr ''Invalid JSON response'')])]))\<rparr>)"

section \<open>The shell command\<close>

definition dquoted :: "string \<Rightarrow> string" where
  "dquoted s = [CHR 0x22] @ s @ [CHR 0x22]"

definition sampleKey :: "playground \<Rightarrow> string" where
  "sampleKey s = (if js_trim (pl_key s) \<noteq> [] then js_trim (pl_key s)
     else if pl_apiEnv s = ''test'' then SANDBOX_KEY else ''ow_live_production_key'')"

definition curl_header :: "string \<Rightarrow> string" where
  "curl_header s = ''  -H '' @ dquoted s @ '' '' @ [CHR 0x5C]"

definition curlProviderHeaders :: "string \<Rightarrow> string list" where
  "curlProviderHeaders k =
     (if k = ''stripe'' then [curl_header ''X-Stripe-Secret-Key: $STRIPE_SECRET_KEY'']
      else if k = ''fawry'' then [curl_header ''X-Fawry-Merchant-Code: $FAWRY_MERCHANT_CODE'', curl_header ''X-Fawry-Secure-Key: $FAWRY_SECURE_KEY'']
      else if k = ''mock'' then [curl_header ''X-Mock-Mode: deterministic'']
      else if k = ''health'' then []
      else [curl_header ''X-Paymob-Secret-Key: $PAYMOB_SECRET_KEY'', curl_header ''X-Paymob-Integration-Id: $PAYMOB_INTEGRATION_ID''])"

text \<open>The provider of the PHP and .NET samples; amount, currency and customer are fixed texts there.\<close>

definition sample_provider :: "string \<Rightarrow> string" where
  "sample_provider k = (if k = ''fawry'' then ''fawry'' else if k = ''stripe'' then ''stripe'' else ''paymob'')"

text \<open>\<open>replace(/\\n\\s*/g, " ")\<close>: every line break with the white space after it.\<close>

function join_lines :: "string \<Rightarrow> string" where
  "join_lines [] = []"
| "join_lines (c # cs) = (if c = newline then CHR '' '' # join_lines (dropWhile is_ws cs) else c # join_lines cs)"
  by pat_completeness auto
termination
  by (relation "measure length") (auto simp: less_Suc_eq_le length_dropWhile_le)

definition curl_payload :: "playground \<Rightarrow> string" where
  "curl_payload s = (if pl_body s = [] then ''{}'' else join_lines (pl_body s))"

definition generatedCurl :: "string \<Rightarrow> playground \<Rightarrow> string" where
  "generatedCurl origin s = js_join [newline]
     ([''curl -X '' @ pl_method s @ '' '' @ dquoted (origin @ pl_endpoint s) @ '' '' @ [CHR 0x5C],
       curl_header (''Authorization: Bearer '' @ sampleKey s), curl_header ''Idempotency-Key: idem_$(date +%s)'',
       curl_header ''Content-Type: application/json'']
      @ curlProviderHeaders (pl_preset s)
      @ [''  -d '' @ [CHR 0x27] @ curl_payload s @ [CHR 0x27]])"

end
