(* ===== verification/Playground_Facts.thy ===== *)
theory Playground_Facts
  imports Playground Access
begin

text \<open>What the guard of the playground lets through, what its samples say, and where its environment switch misleads.\<close>

section \<open>The guard\<close>

lemma in_at_most:
  "(m, c, r) \<in> set (matches (at_most n (Cls P)) s) \<longleftrightarrow> length m \<le> n \<and> list_all P m \<and> c = [] \<and> s = m @ r"
proof (induction n arbitrary: m c r s)
  case 0
  show ?case by auto
next
  case (Suc n)
  have "(m, c, r) \<in> set (matches (at_most (Suc n) (Cls P)) s)
    \<longleftrightarrow> (\<exists>x m'. P x \<and> m = x # m' \<and> length m' \<le> n \<and> list_all P m' \<and> c = [] \<and> s = x # m' @ r) \<or> (m = [] \<and> c = [] \<and> s = r)"
    unfolding at_most.simps in_alt in_seq in_cls in_eps Suc.IH by auto
  also have "\<dots> \<longleftrightarrow> length m \<le> Suc n \<and> list_all P m \<and> c = [] \<and> s = m @ r" by (cases m) auto
  finally show ?case .
qed

lemma in_some_of: "(m, c, r) \<in> set (matches (some_of (Cls P)) s) \<longleftrightarrow> m \<noteq> [] \<and> list_all P m \<and> c = [] \<and> s = m @ r"
proof -
  have "(m, c, r) \<in> set (matches (some_of (Cls P)) s) \<longleftrightarrow> (\<exists>x m'. P x \<and> m = x # m' \<and> list_all P m' \<and> c = [] \<and> s = x # m' @ r)"
    unfolding some_of_def in_seq in_cls in_star_cls by auto
  also have "\<dots> \<longleftrightarrow> m \<noteq> [] \<and> list_all P m \<and> c = [] \<and> s = m @ r" by (cases m) auto
  finally show ?thesis .
qed

lemma full_match_some: "full_match r s \<noteq> None \<longleftrightarrow> (\<exists>c. (s, c, []) \<in> set (matches r s))"
proof -
  have "full_match r s \<noteq> None \<longleftrightarrow> (\<exists>x \<in> set (matches r s). snd (snd x) = [])"
    unfolding full_match_def option.map_disc_iff find_None_iff by blast
  also have "\<dots> \<longleftrightarrow> (\<exists>m c. (m, c, []) \<in> set (matches r s))" by force
  also have "\<dots> \<longleftrightarrow> (\<exists>c. (s, c, []) \<in> set (matches r s))" using matches_split by fastforce
  finally show ?thesis .
qed

text \<open>A fixed start, a fixed mark before some characters of a class, another mark, and the rest.\<close>

lemma seq_intro:
  "(m1, c1, r1) \<in> set (matches a s) \<Longrightarrow> (m2, c2, r) \<in> set (matches b r1) \<Longrightarrow> (m1 @ m2, c2 @ c1, r) \<in> set (matches (Seq a b) s)"
  unfolding in_seq by blast

lemma path_shape:
  assumes "\<And>m c r s. (m, c, r) \<in> set (matches R s) \<longleftrightarrow> c = [] \<and> s = m @ r \<and> Q m"
  shows "(\<exists>c. (p, c, []) \<in> set (matches (Seq (Str a) (Seq (Seq (Str v) (some_of (Cls P))) (Seq (Str b) R))) p))
    \<longleftrightarrow> (\<exists>d rest. d \<noteq> [] \<and> list_all P d \<and> p = a @ v @ d @ b @ rest \<and> Q rest)" (is "?l = ?r")
proof
  assume ?l
  then show ?r
    unfolding in_seq [of _ _ _ "Str a"] in_seq [of _ _ _ "Seq (Str v) (some_of (Cls P))"] in_seq [of _ _ _ "Str v"]
      in_seq [of _ _ _ "Str b"] in_str in_some_of assms by auto
next
  assume ?r
  then obtain d rest where d: "d \<noteq> []" "list_all P d" "Q rest" and p: "p = a @ v @ d @ b @ rest" by blast
  have start: "(l, [], r) \<in> set (matches (Str l) (l @ r))" for l r unfolding in_str by simp
  have "(d, [], b @ rest) \<in> set (matches (some_of (Cls P)) (d @ b @ rest))" unfolding in_some_of using d by simp
  note middle = seq_intro [OF start this]
  have "(rest, [], []) \<in> set (matches R rest)" unfolding assms using d by simp
  note whole = seq_intro [OF start seq_intro [OF middle seq_intro [OF start this]]]
  show ?l unfolding p using whole by auto
qed

definition gateway_path :: "string \<Rightarrow> bool" where
  "gateway_path p \<longleftrightarrow> (\<exists>v rest. v \<noteq> [] \<and> list_all is_digit v \<and> p = ''/api/v'' @ v @ ''/'' @ rest
     \<and> (rest = ''health'' \<or> rest = ''payments''
       \<or> (\<exists>i. rest = ''payments/'' @ i \<and> 1 \<le> length i \<and> length i \<le> 128 \<and> list_all id_char i)))"

lemma in_resource:
  "(m, c, r) \<in> set (matches (Alt (Str ''health'') (Seq (Str ''payments'') (maybe (Seq (Str ''/'') (Seq (Cls id_char) (at_most 127 (Cls id_char))))))) s)
    \<longleftrightarrow> c = [] \<and> s = m @ r \<and> (m = ''health'' \<or> m = ''payments''
       \<or> (\<exists>i. m = ''payments/'' @ i \<and> 1 \<le> length i \<and> length i \<le> 128 \<and> list_all id_char i))"
proof -
  have ident: "(m, c, r) \<in> set (matches (Seq (Cls id_char) (at_most 127 (Cls id_char))) s)
      \<longleftrightarrow> c = [] \<and> s = m @ r \<and> 1 \<le> length m \<and> length m \<le> 128 \<and> list_all id_char m" for m c r s
  proof -
    have "(m, c, r) \<in> set (matches (Seq (Cls id_char) (at_most 127 (Cls id_char))) s)
        \<longleftrightarrow> (\<exists>x m'. id_char x \<and> m = x # m' \<and> length m' \<le> 127 \<and> list_all id_char m' \<and> c = [] \<and> s = x # m' @ r)"
      unfolding in_seq in_cls in_at_most by auto
    also have "\<dots> \<longleftrightarrow> c = [] \<and> s = m @ r \<and> 1 \<le> length m \<and> length m \<le> 128 \<and> list_all id_char m" by (cases m) auto
    finally show ?thesis .
  qed
  show ?thesis
    unfolding in_alt in_seq [of _ _ _ "Str ''payments''"] maybe_def in_alt in_seq [of _ _ _ "Str ''/''"] in_str in_eps ident
    by auto
qed

lemma endpoint_guard: "full_match ENDPOINT_REGEX p \<noteq> None \<longleftrightarrow> gateway_path p"
  unfolding full_match_some ENDPOINT_REGEX_def seqs.simps digit_def path_shape [OF in_resource] gateway_path_def by simp

text \<open>
  C36. The playground talks to the gateway only. Whatever address, key and payload are typed in and however the browser
  resolves the address, a request goes out only if it stays on the origin of the page and its path is that of the health check, of the
  payments, or of one payment with an identifier of at most 128 letters, digits, dashes and underscores;
  these are exactly the addresses the guard lets through. It has a fresh idempotency key and carries the key that
  was typed in and no other.
\<close>

theorem playground_stays_on_gateway:
  assumes "resolve (pl_endpoint s) = Inr (u_org, pathname, query)"
  shows "case run_click resolve origin now_ms random s of
      Inl m \<Rightarrow> u_org \<noteq> origin \<or> \<not> gateway_path pathname
    | Inr r \<Rightarrow> u_org = origin \<and> gateway_path pathname \<and> pq_url r = pathname @ query
        \<and> map_of (pq_headers r) ''Idempotency-Key'' = Some (''idem_'' @ int_str now_ms @ ''_'' @ random)
        \<and> map_of (pq_headers r) ''Authorization'' = (if js_trim (pl_key s) = [] then None else Some (''Bearer '' @ js_trim (pl_key s)))"
  using endpoint_guard [of pathname] by (cases "full_match ENDPOINT_REGEX pathname") (simp_all add: run_click_def assms)

theorem playground_stays_on_gateway_witness:
  "\<exists>r. run_click (\<lambda>e. Inr (''https://ow.test'', e, [])) ''https://ow.test'' 1700000000123 ''k3x9a'' (playground_open 1700000000123) = Inr r
    \<and> pq_url r = ''/api/v1/payments'' \<and> map_of (pq_headers r) ''Authorization'' = Some ''Bearer ow_test_sandbox_demo''"
proof -
  let ?s = "playground_open 1700000000123"
  have e: "pl_endpoint ?s = ''/api/v1/payments''" "pl_key ?s = ''ow_test_sandbox_demo''"
    by (simp_all add: playground_open_def preset_of_def presets_def post_preset_def nullish_else_def SANDBOX_KEY_def Let_def)
  have "gateway_path ''/api/v1/payments''" unfolding gateway_path_def
    by (rule exI [of _ "''1''"], rule exI [of _ "''payments''"]) (simp add: is_digit_def char_eval)
  moreover have "js_trim ''ow_test_sandbox_demo'' = ''ow_test_sandbox_demo''" by code_simp
  ultimately show ?thesis
    using playground_stays_on_gateway [of "\<lambda>e. Inr (''https://ow.test'', e, [])" ?s "''https://ow.test''" "''/api/v1/payments''" "[]"
        "''https://ow.test''" 1700000000123 "''k3x9a''"]
    by (auto simp: e split: sum.splits)
qed

text \<open>Every preset passes the guard.\<close>

lemma presets_run:
  assumes "k \<in> {''paymob'', ''fawry'', ''stripe'', ''mock'', ''health''}" and "\<And>p. resolve p = Inr (origin, p, [])"
  shows "\<exists>r. run_click resolve origin now_ms random (applyPreset loaded k s) = Inr r \<and> pq_method r = ps_method (preset_of loaded k)"
proof -
  have digit: "list_all is_digit ''1''" by (simp add: is_digit_def char_eval)
  have paths: "gateway_path ''/api/v1/payments''" "gateway_path ''/api/v1/health''" unfolding gateway_path_def
    using digit by (rule_tac [!] exI [of _ "''1''"], rule_tac exI [of _ "''payments''"], simp, rule_tac exI [of _ "''health''"], simp)
  have "ps_path (preset_of loaded k) = ''/api/v1/payments'' \<or> ps_path (preset_of loaded k) = ''/api/v1/health''"
    using assms(1) by (auto simp: preset_of_def presets_def post_preset_def nullish_else_def)
  then have "full_match ENDPOINT_REGEX (ps_path (preset_of loaded k)) \<noteq> None" using paths endpoint_guard by metis
  then show ?thesis by (simp add: run_click_def assms(2) applyPreset_def Let_def)
qed

section \<open>The switch of the environment\<close>

text \<open>
  Switching to the test environment replaces an empty key and a placeholder, not a live key: the next request of the
  sandbox carries it, and the server takes the environment from the key.
\<close>

lemma test_pill_keeps_live_key:
  assumes "pl_key s = ''ow_live_'' @ k" and "k \<noteq> ''production_key''"
  shows "pl_apiEnv (env_pill ''test'' s) = ''test'' \<and> pl_key (env_pill ''test'' s) = ''ow_live_'' @ k"
  using assms by (simp add: env_pill_def)

text \<open>Switching to and fro between the environments without a key of one's own is harmless.\<close>

lemma pills_return: "pl_key s = SANDBOX_KEY \<Longrightarrow> pl_key (env_pill ''test'' (env_pill ''live'' s)) = SANDBOX_KEY"
  by (simp add: env_pill_def SANDBOX_KEY_def)

section \<open>The shell command\<close>

text \<open>The samples of the mock preset charge a real rail.\<close>

lemma mock_sample_provider: "sample_provider ''mock'' = ''paymob'' \<and> field (mock_body now_ms) ''provider'' = JStr ''mock''"
  by (simp add: sample_provider_def mock_body_def)

lemma join_lines_one_line: "newline \<notin> set (join_lines s)"
  by (induction s rule: join_lines.induct) (auto simp: newline_def)

lemma join_lines_same: "newline \<notin> set s \<Longrightarrow> join_lines s = s"
  by (induction s rule: join_lines.induct) auto

lemma join_lines_quote: "CHR 0x27 \<in> set s \<Longrightarrow> CHR 0x27 \<in> set (join_lines s)"
proof (induction s rule: join_lines.induct)
  case (2 c cs)
  have ws: "\<not> is_ws (CHR 0x27)" by (simp add: is_ws_def char_code_def)
  have "CHR 0x27 \<in> set (dropWhile is_ws cs)" if "CHR 0x27 \<in> set cs"
    using that ws by (metis UnE set_append set_takeWhileD takeWhile_dropWhile_id)
  with 2 show ?case by (auto simp: newline_def)
qed simp

text \<open>
  What a shell reads of a word in single quotes ends at the first quote. A payload without one arrives as a
  whole; a name such as O'Brien in it ends the word early, and the rest of the payload is read as shell text.
\<close>

lemma curl_word: "CHR 0x27 \<notin> set (pl_body s) \<longleftrightarrow> takeWhile (\<lambda>c. c \<noteq> CHR 0x27) (curl_payload s) = curl_payload s"
proof -
  have "CHR 0x27 \<in> set t" if "CHR 0x27 \<in> set (join_lines t)" for t
    using that
  proof (induction t rule: join_lines.induct)
    case (2 c cs)
    then show ?case by (cases "c = newline") (auto dest: set_dropWhileD)
  qed simp
  then have "CHR 0x27 \<in> set (join_lines t) \<longleftrightarrow> CHR 0x27 \<in> set t" for t using join_lines_quote by blast
  then have "CHR 0x27 \<in> set (curl_payload s) \<longleftrightarrow> CHR 0x27 \<in> set (pl_body s)"
    unfolding curl_payload_def by (cases "pl_body s = []") simp_all
  then show ?thesis unfolding takeWhile_eq_all_conv by blast
qed

end
