(* ===== verification/Db_Script.thy ===== *)
theory Db_Script
  imports Db_Init
begin

text \<open>
  The command line script that prepares a database before the application starts,
  \<open>apps/web/scripts/init-db.mjs\<close>. It repeats the statements of \<open>lib/db/init.ts\<close> with differences: it makes no
  table of settings, sets no defaults on the columns of times, and has one more index. Its statements are
  data of their own here, run on the same database, so that the two can be compared.
\<close>

section \<open>The statements of the script\<close>

definition script_auth_tables :: "sql_stmt list" where
  "script_auth_tables =
    [CreateTable ''user''
       [required ''id'' ''TEXT'', required ''name'' ''TEXT'', required ''email'' ''TEXT'',
        col ''emailVerified'' ''BOOLEAN'' True (Some (Literal ''false'')), nullable ''image'' ''TEXT'',
        col ''createdAt'' ''TIMESTAMP'' True (Some Now), col ''updatedAt'' ''TIMESTAMP'' True (Some Now)],
     CreateTable ''session''
       [required ''id'' ''TEXT'', required ''expiresAt'' ''TIMESTAMP'', required ''token'' ''TEXT'',
        col ''createdAt'' ''TIMESTAMP'' True (Some Now), col ''updatedAt'' ''TIMESTAMP'' True (Some Now),
        nullable ''ipAddress'' ''TEXT'', nullable ''userAgent'' ''TEXT'', required ''userId'' ''TEXT''],
     CreateTable ''account''
       [required ''id'' ''TEXT'', required ''accountId'' ''TEXT'', required ''providerId'' ''TEXT'',
        col ''issuer'' ''TEXT'' True (Some (Literal ''credential'')), required ''userId'' ''TEXT'',
        nullable ''accessToken'' ''TEXT'', nullable ''refreshToken'' ''TEXT'', nullable ''idToken'' ''TEXT'',
        nullable ''accessTokenExpiresAt'' ''TIMESTAMP'', nullable ''refreshTokenExpiresAt'' ''TIMESTAMP'',
        nullable ''scope'' ''TEXT'', nullable ''password'' ''TEXT'', col ''createdAt'' ''TIMESTAMP'' True (Some Now),
        col ''updatedAt'' ''TIMESTAMP'' True (Some Now)],
     CreateTable ''verification''
       [required ''id'' ''TEXT'', required ''identifier'' ''TEXT'', required ''value'' ''TEXT'',
        required ''expiresAt'' ''TIMESTAMP'', col ''createdAt'' ''TIMESTAMP'' False (Some Now),
        col ''updatedAt'' ''TIMESTAMP'' False (Some Now)]]"

definition script_tables :: "sql_stmt list" where
  "script_tables =
    [CreateTable ''api_keys''
       [col ''id'' ''BIGSERIAL'' True (Some Serial), nullable ''user_id'' ''TEXT'', nullable ''name'' ''TEXT'',
        nullable ''key_hash'' ''TEXT'', nullable ''prefix'' ''TEXT'', nullable ''last_four'' ''TEXT'',
        col ''environment'' ''TEXT'' True (Some (Literal ''live'')),
        col ''created_at'' ''TIMESTAMPTZ'' False (Some Now), nullable ''last_used_at'' ''TIMESTAMPTZ'',
        nullable ''revoked_at'' ''TIMESTAMPTZ''],
     CreateTable ''api_requests''
       [col ''id'' ''BIGSERIAL'' True (Some Serial), nullable ''user_id'' ''TEXT'', nullable ''api_key_id'' ''BIGINT'',
        nullable ''method'' ''TEXT'', nullable ''endpoint'' ''TEXT'', nullable ''status_code'' ''INTEGER'',
        nullable ''latency_ms'' ''INTEGER'', nullable ''routing_latency_ms'' ''INTEGER'',
        col ''environment'' ''TEXT'' True (Some (Literal ''live'')), col ''created_at'' ''TIMESTAMPTZ'' False (Some Now)],
     CreateTable ''payments''
       [required ''id'' ''TEXT'', nullable ''user_id'' ''TEXT'', nullable ''api_key_id'' ''BIGINT'',
        nullable ''idempotency_key'' ''TEXT'', nullable ''request_fingerprint'' ''TEXT'',
        nullable ''provider'' ''TEXT'', nullable ''provider_reference'' ''TEXT'',
        col ''status'' ''TEXT'' False (Some (Literal ''pending'')), nullable ''amount_minor_units'' ''BIGINT'',
        col ''currency'' ''TEXT'' False (Some (Literal ''EGP'')), nullable ''merchant_reference'' ''TEXT'',
        nullable ''description'' ''TEXT'', nullable ''customer_phone'' ''TEXT'', nullable ''customer_email'' ''TEXT'',
        nullable ''customer_name'' ''TEXT'', nullable ''next_action_type'' ''TEXT'',
        nullable ''next_action_payload'' ''TEXT'', nullable ''metadata_json'' ''TEXT'',
        col ''environment'' ''TEXT'' True (Some (Literal ''live'')),
        col ''created_at'' ''TIMESTAMPTZ'' False (Some Now), col ''updated_at'' ''TIMESTAMPTZ'' False (Some Now)],
     CreateTable ''webhook_events''
       [required ''event_id'' ''TEXT'', nullable ''provider'' ''TEXT'', nullable ''payment_id'' ''TEXT'',
        nullable ''payload_json'' ''TEXT'', nullable ''signature'' ''TEXT'',
        col ''received_at'' ''TIMESTAMPTZ'' False (Some Now)]]"

definition script_drop_pairs :: "(string \<times> string) list" where
  "script_drop_pairs =
    [(''api_keys'', ''userId''), (''api_keys'', ''keyHash''), (''api_keys'', ''prefix''),
     (''api_keys'', ''lastFour''), (''api_keys'', ''createdAt''), (''api_requests'', ''userId''),
     (''api_requests'', ''apiKeyId''), (''api_requests'', ''method''), (''api_requests'', ''endpoint''),
     (''api_requests'', ''statusCode''), (''api_requests'', ''latencyMs''), (''api_requests'', ''createdAt''),
     (''payments'', ''userId''), (''payments'', ''apiKeyId''), (''payments'', ''idempotencyKey''),
     (''payments'', ''requestFingerprint''), (''payments'', ''provider''), (''payments'', ''status''),
     (''payments'', ''amountMinorUnits''), (''payments'', ''currency''), (''payments'', ''createdAt''),
     (''payments'', ''updatedAt''), (''webhook_events'', ''eventId''), (''webhook_events'', ''provider''),
     (''webhook_events'', ''paymentId''), (''webhook_events'', ''payloadJson''), (''webhook_events'', ''receivedAt'')]"

definition script_alters :: "sql_stmt list" where
  "script_alters =
    [AddColumn ''api_keys'' (nullable ''user_id'' ''TEXT''),
     AddColumn ''api_keys'' (nullable ''name'' ''TEXT''),
     AddColumn ''api_keys'' (nullable ''key_hash'' ''TEXT''),
     AddColumn ''api_keys'' (nullable ''prefix'' ''TEXT''),
     AddColumn ''api_keys'' (nullable ''last_four'' ''TEXT''),
     AddColumn ''api_keys'' (col ''environment'' ''TEXT'' True (Some (Literal ''live''))),
     AddColumn ''api_keys'' (col ''created_at'' ''TIMESTAMPTZ'' False (Some Now)),
     AddColumn ''api_keys'' (nullable ''last_used_at'' ''TIMESTAMPTZ''),
     AddColumn ''api_keys'' (nullable ''revoked_at'' ''TIMESTAMPTZ''),
     AddColumn ''api_requests'' (nullable ''user_id'' ''TEXT''),
     AddColumn ''api_requests'' (nullable ''api_key_id'' ''BIGINT''),
     SetType ''api_requests'' ''api_key_id'' ''BIGINT'',
     AddColumn ''api_requests'' (nullable ''method'' ''TEXT''),
     AddColumn ''api_requests'' (nullable ''endpoint'' ''TEXT''),
     AddColumn ''api_requests'' (nullable ''status_code'' ''INTEGER''),
     AddColumn ''api_requests'' (nullable ''latency_ms'' ''INTEGER''),
     AddColumn ''api_requests'' (nullable ''routing_latency_ms'' ''INTEGER''),
     AddColumn ''api_requests'' (col ''environment'' ''TEXT'' True (Some (Literal ''live''))),
     AddColumn ''api_requests'' (col ''created_at'' ''TIMESTAMPTZ'' False (Some Now)),
     AddColumn ''payments'' (nullable ''user_id'' ''TEXT''),
     AddColumn ''payments'' (nullable ''api_key_id'' ''BIGINT''),
     SetType ''payments'' ''api_key_id'' ''BIGINT'',
     SetType ''api_keys'' ''id'' ''BIGINT'',
     AddColumn ''payments'' (nullable ''idempotency_key'' ''TEXT''),
     AddColumn ''payments'' (nullable ''request_fingerprint'' ''TEXT''),
     AddColumn ''payments'' (nullable ''provider'' ''TEXT''),
     AddColumn ''payments'' (nullable ''provider_reference'' ''TEXT''),
     AddColumn ''payments'' (col ''status'' ''TEXT'' False (Some (Literal ''pending''))),
     AddColumn ''payments'' (nullable ''amount_minor_units'' ''BIGINT''),
     AddColumn ''payments'' (col ''currency'' ''TEXT'' False (Some (Literal ''EGP''))),
     AddColumn ''payments'' (nullable ''merchant_reference'' ''TEXT''),
     AddColumn ''payments'' (nullable ''description'' ''TEXT''),
     AddColumn ''payments'' (nullable ''customer_phone'' ''TEXT''),
     AddColumn ''payments'' (nullable ''customer_email'' ''TEXT''),
     AddColumn ''payments'' (nullable ''customer_name'' ''TEXT''),
     AddColumn ''payments'' (nullable ''next_action_type'' ''TEXT''),
     AddColumn ''payments'' (nullable ''next_action_payload'' ''TEXT''),
     AddColumn ''payments'' (nullable ''metadata_json'' ''TEXT''),
     AddColumn ''payments'' (col ''environment'' ''TEXT'' True (Some (Literal ''live''))),
     AddColumn ''payments'' (col ''created_at'' ''TIMESTAMPTZ'' False (Some Now)),
     AddColumn ''payments'' (col ''updated_at'' ''TIMESTAMPTZ'' False (Some Now)),
     AddColumn ''webhook_events'' (nullable ''event_id'' ''TEXT''),
     AddColumn ''webhook_events'' (nullable ''provider'' ''TEXT''),
     AddColumn ''webhook_events'' (nullable ''payment_id'' ''TEXT''),
     AddColumn ''webhook_events'' (nullable ''payload_json'' ''TEXT''),
     AddColumn ''webhook_events'' (nullable ''signature'' ''TEXT''),
     AddColumn ''webhook_events'' (col ''received_at'' ''TIMESTAMPTZ'' False (Some Now))]"

definition script_indexes :: "sql_stmt list" where
  "script_indexes =
    [CreateIndex ''idx_api_keys_user_id'' False ''api_keys'' [''user_id''],
     CreateIndex ''idx_api_keys_key_hash'' False ''api_keys'' [''key_hash''],
     CreateIndex ''idx_api_keys_user_env'' False ''api_keys'' [''user_id'', ''environment''],
     CreateIndex ''idx_api_requests_user_id'' False ''api_requests'' [''user_id''],
     CreateIndex ''idx_api_requests_user_created'' False ''api_requests'' [''user_id'', ''created_at''],
     CreateIndex ''idx_api_requests_user_env'' False ''api_requests'' [''user_id'', ''environment''],
     CreateIndex ''idx_payments_user_id'' False ''payments'' [''user_id''],
     CreateIndex ''idx_payments_user_created'' False ''payments'' [''user_id'', ''created_at''],
     CreateIndex ''idx_payments_user_env'' False ''payments'' [''user_id'', ''environment''],
     CreateIndex ''idx_payments_idempotency_key'' False ''payments'' [''idempotency_key''],
     CreateIndex ''idx_payments_status_updated'' False ''payments'' [''status'', ''updated_at''],
     CreateIndex ''idx_payments_user_idempotency'' True ''payments'' [''user_id'', ''idempotency_key''],
     CreateIndex ''idx_payments_user_env_idempotency'' True ''payments'' [''user_id'', ''environment'', ''idempotency_key'']]"

definition script_copy_triples :: "(string \<times> string \<times> string) list" where
  "script_copy_triples =
    [(''api_keys'', ''user_id'', ''userId''), (''api_keys'', ''key_hash'', ''keyHash''),
     (''api_keys'', ''last_four'', ''lastFour''), (''api_keys'', ''created_at'', ''createdAt''),
     (''api_keys'', ''last_used_at'', ''lastUsedAt''), (''api_keys'', ''revoked_at'', ''revokedAt''),
     (''api_requests'', ''user_id'', ''userId''), (''api_requests'', ''api_key_id'', ''apiKeyId''),
     (''api_requests'', ''status_code'', ''statusCode''), (''api_requests'', ''latency_ms'', ''latencyMs''),
     (''api_requests'', ''created_at'', ''createdAt''), (''payments'', ''user_id'', ''userId''),
     (''payments'', ''api_key_id'', ''apiKeyId''), (''payments'', ''idempotency_key'', ''idempotencyKey''),
     (''payments'', ''request_fingerprint'', ''requestFingerprint''),
     (''payments'', ''provider_reference'', ''providerReference''),
     (''payments'', ''amount_minor_units'', ''amountMinorUnits''),
     (''payments'', ''merchant_reference'', ''merchantReference''),
     (''payments'', ''customer_phone'', ''customerPhone''), (''payments'', ''customer_email'', ''customerEmail''),
     (''payments'', ''customer_name'', ''customerName''), (''payments'', ''next_action_type'', ''nextActionType''),
     (''payments'', ''next_action_payload'', ''nextActionPayload''),
     (''payments'', ''metadata_json'', ''metadataJson''), (''payments'', ''created_at'', ''createdAt''),
     (''payments'', ''updated_at'', ''updatedAt''), (''webhook_events'', ''event_id'', ''eventId''),
     (''webhook_events'', ''payment_id'', ''paymentId''), (''webhook_events'', ''payload_json'', ''payloadJson''),
     (''webhook_events'', ''received_at'', ''receivedAt'')]"

section \<open>The run\<close>

definition script_migration :: "sql_db \<Rightarrow> sql_stmt list" where
  "script_migration existing =
     map (\<lambda>(n, c). DropNotNull n c) (filter (\<lambda>(n, c). hasColumn existing n c) script_drop_pairs)
     @ script_alters @ script_indexes
     @ map (\<lambda>(n, snake, camel). CopyColumn n snake camel)
         (filter (\<lambda>(n, snake, camel). hasColumn existing n camel \<and> hasColumn existing n snake) script_copy_triples)
     @ environment_updates"

definition script_setup :: "string \<Rightarrow> sql_db \<Rightarrow> sql_error option \<times> sql_db" where
  "script_setup now d =
     (case run_all now (script_auth_tables @ script_tables) d of
        (Some e, d') \<Rightarrow> (Some e, d')
      | (None, existing) \<Rightarrow> run_all now (script_migration existing) existing)"

text \<open>The exit code and the database; \<open>connect\<close> is the message of a failed connection.\<close>

definition init_script :: "string option \<Rightarrow> string option \<Rightarrow> string \<Rightarrow> sql_db \<Rightarrow> nat \<times> sql_db" where
  "init_script connectionString connect now d =
     (if \<not> truthy connectionString \<or> connect \<noteq> None then (1, d)
      else case script_setup now d of (Some e, d') \<Rightarrow> (1, d') | (None, d') \<Rightarrow> (0, d'))"

section \<open>The two lists of statements\<close>

lemma script_lists:
  "script_auth_tables = auth_tables" "script_drop_pairs = legacyDropNotNulls" "script_copy_triples = legacyCopies"
  by (simp_all only: script_auth_tables_def auth_tables_def script_drop_pairs_def legacyDropNotNulls_def script_copy_triples_def legacyCopies_def)

lemma script_tables_core: "core_tables = script_tables @ [last core_tables]" "last core_tables \<in> range (CreateTable ''merchant_settings'')"
  by (simp_all add: core_tables_def script_tables_def)

lemma script_alters_core: "script_alters = account_alters @ drop 5 payment_alters"
  by (simp add: script_alters_def account_alters_def payment_alters_def)

lemma script_indexes_core:
  "index_statements = take 10 script_indexes @ drop 11 script_indexes"
  by (simp add: script_indexes_def index_statements_def)

text \<open>The defaults the script does not set are on columns it adds.\<close>

lemma payment_alters_defaults:
  "payment_alters = [SetDefault ''payments'' ''created_at'' Now, SetDefault ''payments'' ''updated_at'' Now,
     SetDefault ''api_keys'' ''created_at'' Now, SetDefault ''api_requests'' ''created_at'' Now,
     SetDefault ''webhook_events'' ''received_at'' Now] @ drop 5 payment_alters"
  by (simp add: payment_alters_def)

lemma script_adds_times:
  "list_ex (\<lambda>s. adds s ''payments'' ''created_at'') script_alters" "list_ex (\<lambda>s. adds s ''payments'' ''updated_at'') script_alters"
  "list_ex (\<lambda>s. adds s ''api_keys'' ''created_at'') script_alters" "list_ex (\<lambda>s. adds s ''api_requests'' ''created_at'') script_alters"
  "list_ex (\<lambda>s. adds s ''webhook_events'' ''received_at'') script_alters"
  by code_simp+

section \<open>Statements that run again\<close>

text \<open>
  A state of the database on which a statement cannot fail: the columns and the index it is about are there
  already, those it adds or makes included.
\<close>

fun runs_on :: "sql_db \<Rightarrow> sql_stmt \<Rightarrow> bool" where
  "runs_on d (CreateTable n cs) = True"
| "runs_on d (DropNotNull n c) = hasColumn d n c"
| "runs_on d (AddColumn n x) = hasColumn d n (c_name x)"
| "runs_on d (SetType n c ty) = hasColumn d n c"
| "runs_on d (SetDefault n c v) = hasColumn d n c"
| "runs_on d (CreateIndex i uniq n cs) = (i \<in> set (db_indexes d))"
| "runs_on d (CopyColumn n snake camel) = (hasColumn d n snake \<and> hasColumn d n camel)"
| "runs_on d (SetColumn n c v P) = hasColumn d n c"

text \<open>A later state of a database: nothing is lost.\<close>

definition extends :: "sql_db \<Rightarrow> sql_db \<Rightarrow> bool" where
  "extends d d' \<longleftrightarrow> (\<forall>n c. hasColumn d n c \<longrightarrow> hasColumn d' n c) \<and> set (db_indexes d) \<subseteq> set (db_indexes d')"

lemma extends_refl [simp]: "extends d d"
  by (simp add: extends_def)

lemma extends_trans: "extends d e \<Longrightarrow> extends e f \<Longrightarrow> extends d f"
  by (auto simp: extends_def)

lemma runs_on_extends: "runs_on d s \<Longrightarrow> extends d d' \<Longrightarrow> runs_on d' s"
  by (cases s) (auto simp: extends_def)

lemma hasColumn_table: "hasColumn d n c \<Longrightarrow> \<exists>t. map_of (db_tables d) n = Some t \<and> has_column t c"
  by (simp add: hasColumn_def split: option.splits)

lemma stmt_extends:
  assumes "run_stmt now s d = Inr d'"
  shows "extends d d'"
proof -
  have tables: "\<exists>t'. map_of (db_tables d') n = Some t' \<and> (\<forall>c. has_column t c \<longrightarrow> has_column t' c)"
    if "map_of (db_tables d) n = Some t" for n t
    using run_stmt_effect [OF assms that] effect_columns by blast
  have "set (db_indexes d) \<subseteq> set (db_indexes d')"
    using assms by (cases s) (auto elim!: on_tableE split: if_splits option.splits)
  with tables show ?thesis
    unfolding extends_def hasColumn_def by (force split: option.splits)
qed

lemma stmt_runs: "runs_on d s \<Longrightarrow> \<exists>d'. run_stmt now s d = Inr d'"
  by (cases s) (auto simp: on_table_def on_column_def dest!: hasColumn_table)

text \<open>A statement that has run has left what it needs to run again.\<close>

lemma stmt_runs_again:
  assumes "run_stmt now s d = Inr d'"
  shows "runs_on d' s"
proof (cases s)
  case (CreateIndex i uniq n cs)
  with assms show ?thesis by (auto split: if_splits option.splits)
next
  case (AddColumn n x)
  with assms show ?thesis by (auto elim!: on_tableE simp: hasColumn_def put_lookup add_column_has)
qed (use assms in \<open>auto elim!: on_tableE dest!: on_columnE simp: hasColumn_def put_lookup alter_column_same split: if_splits\<close>,
    use assms in \<open>auto simp: has_column_def\<close>)

lemma run_all_extends: "run_all now ss d = (None, d') \<Longrightarrow> extends d d'"
proof (induction ss arbitrary: d)
  case (Cons s ss)
  then obtain e where "run_stmt now s d = Inr e" "run_all now ss e = (None, d')" unfolding run_all_ok by blast
  then show ?case using Cons.IH stmt_extends extends_trans by blast
qed simp

lemma run_all_again: "run_all now ss d = (None, d') \<Longrightarrow> list_all (runs_on d') ss"
proof (induction ss arbitrary: d)
  case (Cons s ss)
  then obtain e where e: "run_stmt now s d = Inr e" "run_all now ss e = (None, d')" unfolding run_all_ok by blast
  then have "runs_on d' s" using stmt_runs_again run_all_extends runs_on_extends by blast
  with Cons.IH [OF e(2)] show ?case by simp
qed simp

lemma run_all_runs: "list_all (runs_on d) ss \<Longrightarrow> \<exists>d'. run_all now ss d = (None, d')"
proof (induction ss arbitrary: d)
  case (Cons s ss)
  then obtain e where e: "run_stmt now s d = Inr e" using stmt_runs by fastforce
  have "list_all (runs_on e) ss"
    using Cons.prems runs_on_extends [OF _ stmt_extends [OF e]] by (simp add: list_all_iff)
  with Cons.IH obtain d' where "run_all now ss e = (None, d')" by blast
  with e show ?case by auto
qed simp

section \<open>The application after the script\<close>

lemma script_setup_ok:
  assumes "init_script connectionString connect now d = (0, d')"
  obtains existing where "run_all now (script_migration existing) existing = (None, d')"
  using assms by (auto simp: init_script_def script_setup_def split: if_splits prod.splits option.splits)

lemma added_column: "list_ex (\<lambda>s. adds s n c) ss \<Longrightarrow> list_all (runs_on d) ss \<Longrightarrow> hasColumn d n c"
proof -
  have "hasColumn d n c" if "adds s n c" "runs_on d s" for s using that by (cases s) (auto simp: adds_def)
  then show "list_ex (\<lambda>s. adds s n c) ss \<Longrightarrow> list_all (runs_on d) ss \<Longrightarrow> hasColumn d n c" by (auto simp: list_ex_iff list_all_iff)
qed

lemma migration_runs:
  assumes "list_all (runs_on e) (script_migration existing)"
  shows "list_all (runs_on e) (migration e)"
proof -
  have alters: "list_all (runs_on e) script_alters" and indexes: "list_all (runs_on e) script_indexes"
    and updates: "list_all (runs_on e) environment_updates"
    using assms by (simp_all add: script_migration_def)
  have "list_all (runs_on e) account_alters" "list_all (runs_on e) (drop 5 payment_alters)"
    using alters by (simp_all add: script_alters_core)
  moreover have "list_all (runs_on e) payment_alters"
    by (subst payment_alters_defaults) (use calculation(2) script_adds_times [THEN added_column, OF alters] in simp)
  moreover have "list_all (runs_on e) index_statements"
    using indexes unfolding script_indexes_core by (auto simp: list_all_iff dest: in_set_takeD in_set_dropD)
  moreover have "list_all (runs_on e) (legacy_drops e)" "list_all (runs_on e) (legacy_copies e)"
    by (auto simp: legacy_drops_def legacy_copies_def list_all_iff)
  ultimately show ?thesis using updates by (simp add: migration_def)
qed


text \<open>A payments table of an older version, without the column of the creation time.\<close>

definition old_payments :: sql_db where
  "old_payments = \<lparr>db_tables = [(''payments'', \<lparr>t_columns = [required ''id'' ''TEXT'', nullable ''createdAt'' ''TIMESTAMPTZ''],
     t_rows = []\<rparr>)], db_indexes = []\<rparr>"

lemma old_payments_script: "fst (init_script (Some ''postgres://db'') None ''t0'' old_payments) = 0"
  by code_simp


text \<open>The script alone is not enough: it makes no table of settings.\<close>

lemma script_makes_no_settings: "map_of (db_tables (snd (init_script (Some ''postgres://db'') None ''t0'' empty_db))) ''merchant_settings'' = None"
  by code_simp

text \<open>And the index over status and time of the last change is made by the script only.\<close>

lemma application_makes_no_status_index:
  "''idx_payments_status_updated'' \<in> set (db_indexes (snd (init_script (Some ''postgres://db'') None ''t0'' empty_db)))"
  "''idx_payments_status_updated'' \<notin> set (db_indexes (snd (schema_setup ''t0'' empty_db)))"
  by code_simp+

end
