(* ===== verification/Graphql_Types.thy ===== *)
theory Graphql_Types
  imports Graphql Payment_Routing Ledger
begin

text \<open>
  The types of the GraphQL schema, \<open>apps/web/lib/graphql/schema.ts\<close>, and what the resolvers return against them.

  Whether a value completes to a type without an error is the business of the GraphQL library: the locale
  \<open>gql_completion\<close> states what the GraphQL specification says of it (a 32-bit integer for \<open>Int\<close>, no null under a
  non-null type, every declared field of an object), and \<open>coerces\<close> is a function that does so.
\<close>

section \<open>The schema\<close>

datatype gql_type = GString | GInt | GFloat | GId | GObject string | GList gql_type | GNonNull gql_type

record gql_field =
  gf_name :: string
  gf_args :: "(string \<times> gql_type \<times> jsv) list"
  gf_type :: gql_type

definition fld :: "string \<Rightarrow> gql_type \<Rightarrow> gql_field" where
  "fld n t = \<lparr>gf_name = n, gf_args = [], gf_type = t\<rparr>"

definition fld_with :: "string \<Rightarrow> (string \<times> gql_type \<times> jsv) list \<Rightarrow> gql_type \<Rightarrow> gql_field" where
  "fld_with n args t = \<lparr>gf_name = n, gf_args = args, gf_type = t\<rparr>"

definition gql_Payment :: "gql_field list" where
  "gql_Payment =
    [fld ''id'' (GNonNull GId), fld ''userId'' GString, fld ''apiKeyId'' GInt, fld ''idempotencyKey'' (GNonNull GString),
     fld ''requestFingerprint'' (GNonNull GString), fld ''provider'' (GNonNull GString), fld ''providerReference'' GString,
     fld ''status'' (GNonNull GString), fld ''amountMinorUnits'' (GNonNull GInt), fld ''currency'' (GNonNull GString),
     fld ''merchantReference'' GString, fld ''description'' GString, fld ''customerPhone'' GString, fld ''customerEmail'' GString,
     fld ''customerName'' GString, fld ''nextActionType'' GString, fld ''nextActionPayload'' GString, fld ''metadataJson'' GString,
     fld ''createdAt'' (GNonNull GString), fld ''updatedAt'' (GNonNull GString)]"

definition gql_ApiRequest :: "gql_field list" where
  "gql_ApiRequest =
    [fld ''id'' (GNonNull GId), fld ''userId'' (GNonNull GString), fld ''apiKeyId'' GInt, fld ''method'' (GNonNull GString),
     fld ''endpoint'' (GNonNull GString), fld ''statusCode'' (GNonNull GInt), fld ''latencyMs'' (GNonNull GInt),
     fld ''routingLatencyMs'' GInt, fld ''createdAt'' (GNonNull GString)]"

definition gql_ApiKey :: "gql_field list" where
  "gql_ApiKey =
    [fld ''id'' (GNonNull GId), fld ''userId'' (GNonNull GString), fld ''name'' (GNonNull GString), fld ''prefix'' (GNonNull GString),
     fld ''lastFour'' (GNonNull GString), fld ''createdAt'' (GNonNull GString), fld ''lastUsedAt'' GString, fld ''revokedAt'' GString]"

definition gql_ProviderMixPoint :: "gql_field list" where
  "gql_ProviderMixPoint =
    [fld ''provider'' (GNonNull GString), fld ''count'' (GNonNull GInt), fld ''settledCount'' GInt, fld ''settledVolumeMinor'' GInt,
     fld ''settlementRate'' GFloat]"

definition gql_DashboardMetrics :: "gql_field list" where
  "gql_DashboardMetrics =
    [fld ''apiSuccessRate24h'' GFloat, fld ''paymentSettlementRate'' GFloat, fld ''settledVolumeMinor'' (GNonNull GInt),
     fld ''initiatedVolumeMinor'' (GNonNull GInt), fld ''totalPayments'' (GNonNull GInt), fld ''pendingPayments'' (GNonNull GInt),
     fld ''routingLatencyP50'' GFloat, fld ''routingLatencyP95'' GFloat, fld ''activeKeys'' (GNonNull GInt),
     fld ''providerMix'' (GNonNull (GList (GNonNull (GObject ''ProviderMixPoint''))))]"

definition gql_ChartDataPoint :: "gql_field list" where
  "gql_ChartDataPoint =
    [fld ''day'' (GNonNull GString), fld ''requests'' (GNonNull GInt), fld ''errors'' (GNonNull GInt), fld ''successes'' (GNonNull GInt),
     fld ''volume'' (GNonNull GInt), fld ''settledVolume'' (GNonNull GInt)]"

definition gql_HealthStatus :: "gql_field list" where
  "gql_HealthStatus = map (\<lambda>n. fld n (GNonNull GString)) [''status'', ''timestamp'', ''version'', ''database'', ''gatewayGrpc'']"

definition payments_field :: gql_field where
  "payments_field = fld_with ''payments'' [(''status'', GString, JUndef), (''provider'', GString, JUndef),
     (''limit'', GInt, jint 50), (''offset'', GInt, jint 0)] (GNonNull (GList (GNonNull (GObject ''Payment''))))"

definition payment_field :: gql_field where
  "payment_field = fld_with ''payment'' [(''id'', GNonNull GId, JUndef)] (GObject ''Payment'')"

definition timeline_field :: gql_field where
  "timeline_field = fld_with ''timeline'' [(''days'', GInt, jint 7)] (GNonNull (GList (GNonNull (GObject ''ChartDataPoint''))))"

definition gql_MerchantViewer :: "gql_field list" where
  "gql_MerchantViewer =
    [fld ''id'' (GNonNull GId), fld ''email'' GString, fld ''name'' GString, fld ''metrics'' (GNonNull (GObject ''DashboardMetrics'')),
     payments_field, payment_field,
     fld_with ''apiRequests'' [(''limit'', GInt, jint 20), (''offset'', GInt, jint 0)] (GNonNull (GList (GNonNull (GObject ''ApiRequest'')))),
     fld ''apiKeys'' (GNonNull (GList (GNonNull (GObject ''ApiKey'')))), timeline_field]"

definition gql_Query :: "gql_field list" where
  "gql_Query =
    [fld ''viewer'' (GObject ''MerchantViewer''), fld ''health'' (GNonNull (GObject ''HealthStatus'')), payment_field, payments_field,
     fld ''metrics'' (GNonNull (GObject ''DashboardMetrics'')), timeline_field]"

definition schema_types :: "(string \<times> gql_field list) list" where
  "schema_types = [(''Payment'', gql_Payment), (''ApiRequest'', gql_ApiRequest), (''ApiKey'', gql_ApiKey),
     (''ProviderMixPoint'', gql_ProviderMixPoint), (''DashboardMetrics'', gql_DashboardMetrics),
     (''ChartDataPoint'', gql_ChartDataPoint), (''HealthStatus'', gql_HealthStatus), (''MerchantViewer'', gql_MerchantViewer),
     (''Query'', gql_Query)]"

text \<open>Every object type that a field names is declared.\<close>

primrec named_type :: "gql_type \<Rightarrow> string option" where
  "named_type GString = None"
| "named_type GInt = None"
| "named_type GFloat = None"
| "named_type GId = None"
| "named_type (GObject n) = Some n"
| "named_type (GList t) = named_type t"
| "named_type (GNonNull t) = named_type t"

lemma schema_closed:
  "list_all (\<lambda>(n, fs). list_all (\<lambda>f. case named_type (gf_type f) of None \<Rightarrow> True | Some m \<Rightarrow> m \<in> set (map fst schema_types)) fs) schema_types"
  by code_simp

section \<open>Completion\<close>

definition int32 :: "int \<Rightarrow> bool" where
  "int32 n \<longleftrightarrow> - (2 ^ 31) \<le> n \<and> n < 2 ^ 31"

definition is_null :: "jsv \<Rightarrow> bool" where
  "is_null v \<longleftrightarrow> v = JNull \<or> v = JUndef"

text \<open>What the specification says of a value that completes to a type without an error.\<close>

locale gql_completion =
  fixes completes :: "gql_type \<Rightarrow> jsv \<Rightarrow> bool"
  assumes non_null: "completes (GNonNull t) v \<longleftrightarrow> \<not> is_null v \<and> completes t v"
    and null: "is_null v \<Longrightarrow> completes t v \<longleftrightarrow> (\<forall>u. t \<noteq> GNonNull u)"
    and integer: "completes GInt (jint i) \<longleftrightarrow> int32 i"
    and texts: "completes GString (JStr s)" "completes GId (JStr s)"
    and elements: "completes (GList t) (JArr vs) \<longleftrightarrow> list_all (completes t) vs"
    and members: "map_of schema_types n = Some fs
        \<Longrightarrow> completes (GObject n) (JObj ps) \<longleftrightarrow> list_all (\<lambda>f. completes (gf_type f) (field (JObj ps) (gf_name f))) fs"
begin

lemma nullable_text: "completes GString (jstr_or_null v)"
  using texts null [of JNull GString] by (cases v) (simp_all add: jstr_or_null_def is_null_def)

lemma nullable_int: "(case k of None \<Rightarrow> True | Some i \<Rightarrow> int32 i) \<Longrightarrow> completes GInt (case k of None \<Rightarrow> JNull | Some i \<Rightarrow> jint i)"
  using integer null [of JNull GInt] by (cases k) (simp_all add: is_null_def)

lemma required_text: "completes (GNonNull GString) (JStr s)" "completes (GNonNull GId) (JStr s)"
  by (simp_all add: non_null texts is_null_def)

lemma required_int: "completes (GNonNull GInt) (jint i) \<longleftrightarrow> int32 i"
  by (simp add: non_null integer) (simp add: is_null_def jint_def)

lemma required_object:
  "map_of schema_types n = Some fs \<Longrightarrow> completes (GNonNull (GObject n)) (JObj ps)
    \<longleftrightarrow> list_all (\<lambda>f. completes (gf_type f) (field (JObj ps) (gf_name f))) fs"
  by (simp add: non_null members is_null_def)

end

text \<open>A function with these laws: the coercions of the specification, on the value and below it.\<close>

lemma member_size: "map_of ps k = Some v \<Longrightarrow> size v < size (JObj ps)"
  by (induction ps) (auto split: if_splits)

lemma field_size: "size (field (JObj ps) k) < size (JObj ps)"
  using member_size by (auto split: option.split)

lemma element_size: "(x :: jsv) \<in> set vs \<Longrightarrow> size x < Suc (size_list size vs)"
  using size_list_estimation' [of x vs "size x" size] by simp

function coerces :: "gql_type \<Rightarrow> jsv \<Rightarrow> bool" where
  "coerces t v = (case t of
     GNonNull u \<Rightarrow> \<not> is_null v \<and> coerces u v
   | GInt \<Rightarrow> (case v of JNum m e \<Rightarrow> 0 \<le> e \<and> int32 (m * 10 ^ nat e) | _ \<Rightarrow> is_null v)
   | GFloat \<Rightarrow> (case v of JNum m e \<Rightarrow> True | _ \<Rightarrow> is_null v)
   | GString \<Rightarrow> (case v of JStr s \<Rightarrow> True | _ \<Rightarrow> is_null v)
   | GId \<Rightarrow> (case v of JStr s \<Rightarrow> True | JNum m e \<Rightarrow> e = 0 | _ \<Rightarrow> is_null v)
   | GList u \<Rightarrow> (case v of JArr vs \<Rightarrow> list_all (coerces u) vs | _ \<Rightarrow> is_null v)
   | GObject n \<Rightarrow> (case v of
        JObj ps \<Rightarrow> (case map_of schema_types n of None \<Rightarrow> False
          | Some fs \<Rightarrow> list_all (\<lambda>f. coerces (gf_type f) (field (JObj ps) (gf_name f))) fs)
      | _ \<Rightarrow> is_null v))"
  by pat_completeness auto
termination
  apply (relation "measures [\<lambda>(t, v). size v, \<lambda>(t, v). size t]")
  apply (use field_size element_size in \<open>auto simp del: field_simps_obj\<close>)
  done

declare coerces.simps [simp del]

interpretation spec: gql_completion coerces
proof unfold_locales
  show "coerces (GNonNull t) v \<longleftrightarrow> \<not> is_null v \<and> coerces t v" for t v by (simp add: coerces.simps [of "GNonNull t"])
  show "is_null v \<Longrightarrow> coerces t v \<longleftrightarrow> (\<forall>u. t \<noteq> GNonNull u)" for v t
    unfolding coerces.simps [of t v] is_null_def by (cases t) auto
  show "coerces GInt (jint i) \<longleftrightarrow> int32 i" for i by (simp add: coerces.simps jint_def)
  show "coerces GString (JStr s)" "coerces GId (JStr s)" for s by (simp_all add: coerces.simps)
  show "coerces (GList t) (JArr vs) \<longleftrightarrow> list_all (coerces t) vs" for t vs by (simp add: coerces.simps [of "GList t"])
  show "coerces (GObject n) (JObj ps) \<longleftrightarrow> list_all (\<lambda>f. coerces (gf_type f) (field (JObj ps) (gf_name f))) fs"
    if "map_of schema_types n = Some fs" for n fs ps
    using that by (simp add: coerces.simps [of "GObject n"] del: field_simps_obj)
qed

section \<open>Payments and metrics\<close>

text \<open>The value \<open>resolve_metrics\<close> hands to the library; \<open>number\<close> is the number of a rate.\<close>

definition mix_json :: "(rat \<Rightarrow> jsv) \<Rightarrow> provider_mix \<Rightarrow> jsv" where
  "mix_json number p = JObj
     [(''provider'', JStr (pm_provider p)), (''count'', jint (pm_count p)), (''settledCount'', jint (pm_settledCount p)),
      (''settledVolumeMinor'', jint (pm_settledVolumeMinor p)),
      (''settlementRate'', case pm_settlementRate p of None \<Rightarrow> JNull | Some r \<Rightarrow> number r)]"

definition metrics_json :: "(rat \<Rightarrow> jsv) \<Rightarrow> metrics \<Rightarrow> jsv" where
  "metrics_json number m = JObj
     [(''apiSuccessRate24h'', case me_apiSuccessRate24h m of None \<Rightarrow> JNull | Some r \<Rightarrow> number r),
      (''paymentSettlementRate'', case me_paymentSettlementRate m of None \<Rightarrow> JNull | Some r \<Rightarrow> number r),
      (''settledVolumeMinor'', jint (me_settledVolumeMinor m)), (''initiatedVolumeMinor'', jint (me_initiatedVolumeMinor m)),
      (''totalPayments'', jint (me_totalPayments m)), (''pendingPayments'', jint (me_pendingPayments m)),
      (''routingLatencyP50'', case me_routingLatencyP50 m of None \<Rightarrow> JNull | Some n \<Rightarrow> jint n),
      (''routingLatencyP95'', case me_routingLatencyP95 m of None \<Rightarrow> JNull | Some n \<Rightarrow> jint n),
      (''activeKeys'', jint (me_activeKeys m)), (''providerMix'', JArr (map (mix_json number) (me_providerMix m)))]"

lemma amount_int32: "amount_ok (Some a) \<Longrightarrow> int32 a"
  by (simp add: amount_ok_def int32_def)

context gql_completion begin

lemma payment_completes:
  assumes "amount_ok (Some (p_amountMinorUnits p))" and "case p_apiKeyId p of None \<Rightarrow> True | Some k \<Rightarrow> int32 k"
  shows "completes (GNonNull (GObject ''Payment'')) (gql_payment to_iso p)"
proof -
  have t: "map_of schema_types ''Payment'' = Some gql_Payment" by (simp add: schema_types_def)
  show ?thesis
    unfolding gql_payment_def required_object [OF t] gql_Payment_def
    using amount_int32 [OF assms(1)] nullable_int [OF assms(2)]
    by (simp add: fld_def required_text required_int nullable_text)
qed

lemma metrics_overflow:
  assumes "\<not> int32 (me_settledVolumeMinor m)"
  shows "\<not> completes (GNonNull (GObject ''DashboardMetrics'')) (metrics_json number m)"
proof -
  have t: "map_of schema_types ''DashboardMetrics'' = Some gql_DashboardMetrics" by (simp add: schema_types_def)
  have f: "fld ''settledVolumeMinor'' (GNonNull GInt) \<in> set gql_DashboardMetrics" by (simp add: gql_DashboardMetrics_def)
  have v: "field (metrics_json number m) ''settledVolumeMinor'' = jint (me_settledVolumeMinor m)" by (simp add: metrics_json_def Let_def)
  obtain ps where ps: "metrics_json number m = JObj ps" by (simp add: metrics_json_def Let_def)
  show ?thesis
  proof
    assume "completes (GNonNull (GObject ''DashboardMetrics'')) (metrics_json number m)"
    then have "completes (GNonNull GInt) (field (metrics_json number m) ''settledVolumeMinor'')"
      using f unfolding ps required_object [OF t] list_all_iff by (force simp: fld_def)
    with assms show False by (simp add: v required_int)
  qed
qed

end

lemma metrics_volume:
  assumes "outages w = []" and "map_of c (cache_key (effective_user ctx) ''test'') = None"
    and "resolve_metrics cal t1 t2 t3 ctx c w = (Inr (m, c'), w')"
  shows "me_settledVolumeMinor m = volume (filter is_settled (own_payments (effective_user ctx) ''test'' w))"
  using assms
  by (auto simp: resolve_metrics_def gql_dashboard_def getDashboardData_def Let_def db_bind_def db_return_def fetch_up
      assemble_def payment_totals_def split: prod.splits)


definition large_payment :: "string \<Rightarrow> payment_row" where
  "large_payment i = (demo_payment i ''paymob'' ''succeeded'')\<lparr>p_amountMinorUnits := 1000000000, p_environment := ''test''\<rparr>"

definition large_world :: world where
  "large_world = demo_world [large_payment ''p1'', large_payment ''p2'', large_payment ''p3'']"


end
