(* ===== verification/Spec2Isabelle.thy ===== *)
theory Spec2Isabelle
  imports System Sdk_Client Db_Init Versioning_Facts Site Formatting Demo_Page_Facts Checkout_Ui_Facts
    Dashboard_Tables_Facts Consoles_Facts Playground_Facts Db_Script Graphql_Types
begin

text \<open>
  Verification of OpenWrapper.

  The program. OpenWrapper is a payment gateway for several merchants: the web application
  \<open>apps/web\<close> (Next.js) stores payments in Postgres, routes them to a Rust gateway or to Stripe,
  receives the webhooks of the providers, and shows a dashboard; the SDK \<open>sdk/typescript\<close> is its
  client; \<open>scripts/version.mjs\<close> keeps the versions of the repository in step.

  The theories and the files they model:
  \<^item> \<open>Js_Base\<close>, \<open>Json\<close>, \<open>Js_Number\<close>, \<open>Regex\<close>: the parts of JavaScript the sources use: strings of code units
    below 256, truthiness, decimal numerals, values and \<open>JSON.stringify\<close>, rounding to doubles, a
    backtracking matcher of regular expressions with replacement templates.
  \<^item> \<open>Money\<close> (the SDK's \<open>client.ts\<close>, \<open>lib/utils.ts\<close>), \<open>Signatures\<close>
    (\<open>lib/cryptographic-signatures.ts\<close>, the rails, the SDK's \<open>client.ts\<close>).
  \<^item> \<open>Database\<close> (\<open>lib/db/schema.ts\<close>): tables as records, statements as state passing with
    exceptions, the relations computations keep. \<open>Db_Init\<close> (\<open>lib/db/init.ts\<close>): the migrations as
    data, run on a small relational database. \<open>Db_Script\<close>: the script
    \<open>scripts/init-db.mjs\<close> on the same database, and the start of the application after it.
  \<^item> \<open>Access\<close> (API versions, keys, authentication, telemetry), \<open>Gateway\<close> (bridge to the Rust
    gateway, provider credentials), \<open>Request\<close> (body reader), \<open>Ledger\<close> (\<open>lib/payment-ledger-service.ts\<close>),
    \<open>Payment_Routing\<close>, \<open>Payments\<close>, \<open>Payment_Get\<close> (the payment routes), \<open>Webhooks\<close> (the four
    webhook routes and their dispatcher), \<open>Interleaving\<close> (two webhooks statement by statement).
  \<^item> \<open>Dashboard\<close> (\<open>lib/dashboard-telemetry-service.ts\<close>), \<open>Accounts\<close> and \<open>Settings\<close> (keys and
    merchant settings by route and by action), \<open>Graphql\<close> and \<open>Graphql_Types\<close> (\<open>lib/graphql\<close>, its route; the
    schema against the laws of the GraphQL specification, the locale \<open>gql_completion\<close>), \<open>Site\<close>
    (origins, authentication and pool configuration, health, framework configuration),
    \<open>Formatting\<close> (code and JSON as shown).
  \<^item> \<open>Account_Safety\<close>, \<open>Tenancy\<close>, \<open>System\<close>: properties across components. \<open>Sdk_Client\<close>
    (\<open>sdk/typescript/src/client.ts\<close>), \<open>Versioning\<close> and \<open>Versioning_Facts\<close> (\<open>scripts/version.mjs\<close>).
  \<^item> \<open>Demo_Server\<close> and \<open>Demo_Facts\<close> (the merchant server \<open>examples/checkout-demo/typescript/server.js\<close>
    over the model of the SDK, with a heap for its shared records), \<open>Demo_Page\<close> and
    \<open>Demo_Page_Facts\<close> (its page \<open>public/app.js\<close> as a state machine of events and answers).
  \<^item> \<open>Checkout_Ui\<close> and \<open>Checkout_Ui_Facts\<close>: the two checkout components of \<open>apps/web\<close> as state machines,
    the multi-rail checkout and the mock panel.
  \<^item> \<open>Dashboard_Pages\<close>, \<open>Dashboard_Tables\<close>, \<open>Consoles\<close> with their \<open>_Facts\<close>: the server side of the pages under
    \<open>app/dashboard\<close>, which reads, reconciles Stripe sessions and creates settings; the tables and charts of
    \<open>components/dashboard\<close> as states with filters, paging and answers; the mode switch, the key manager and the
    settings form, run against the models of the routes and actions they call. \<open>Playground\<close> and \<open>Playground_Facts\<close>: the
    request playground of the documentation.

  How the code is represented. A table is the list of its rows. A handler is a function from a
  world (tables, failures to come, telemetry queue) to a result or a thrown error, and a new
  world. The list \<open>outages\<close> says for every statement to come whether the database rejects it, so
  a theorem about a handler covers every pattern of failures. \<open>run_handler\<close> answers an uncaught
  error with 500. The clock, random values, digests, the URL parser, \<open>JSON.parse\<close>, schema
  validation, sessions, the gateway and Stripe are arguments; hypotheses about them are named in
  the theorems that need them and say what their documentation says.

  What the lemmas show. The locales \<open>world_relation\<close> and \<open>row_relation\<close> turn a relation on worlds
  or rows into one every handler keeps; they are interpreted for money, settled states, the audit
  log, accounts, one user's account, stored settings, and all tables. \<open>world_view\<close> is the same for
  two runs: what a tenant can observe. \<open>webhook_handler\<close> is the contract of the webhook routes.
  On these rest: settled payments stay settled under webhooks, reads and pages, money never changes,
  signatures are checked before anything is stored, replays create nothing, tenants see and
  change their own rows only, credentials change by their owner only, the cache of the dashboard
  is a map with an age limit, the SDK retries within its bounds and reaches an answer, money
  formatting round-trips, initialisation is complete and repeatable, the pages
  of a table (\<open>listed_table\<close>) show every matching row once, saved settings come back in the form. \<open>System\<close> composes all
  handlers, pages and actions into one step relation and states the ledger and credential invariants of its runs. Some theorems state how the
  code falls short: two conflicting webhooks race, unsigned mock webhooks settle, unauthenticated
  GraphQL queries read every tenant's payments, a lost answer makes a second key, an accepted logo blocks saving.

  Bounds and fuel. The request loop of the SDK recurses on the retries left, the body reader and
  the cache on lists; the regular expressions iterate at most the length of the text, as an
  iteration must consume a character. Amounts are integers as the code bounds them; the numbers
  of a version are exact below 2 ^ 53.

  Not modelled: the Rust gateway and crates, the PHP and .NET SDKs (other languages), the React
  markup, styling, animation and static pages of \<open>apps/web\<close>, load and end-to-end tests, infrastructure and documents, the
  authentication, GraphQL, schema and syntax libraries.
\<close>

section \<open>The SDK against the payment routes\<close>

lemma sdk_key_valid: "validateIdempotencyKey k = None \<Longrightarrow> valid_idempotency_key k"
proof -
  have "(n = 33 \<or> (35 \<le> n \<and> n \<le> 126)) \<longrightarrow> (33 \<le> n \<and> n \<le> 126)" for n :: nat by auto
  then show "validateIdempotencyKey k = None \<Longrightarrow> valid_idempotency_key k"
    by (auto simp: validateIdempotencyKey_def valid_idempotency_key_def Let_def list_all_iff Suc_le_eq split: if_splits)
qed

text \<open>
  C38. Every request \<open>payments.create\<close> sends passes the checks the payment route makes before it
  looks at the schema, and its amount passes the schema: it is a POST of \<open>create_body\<close> with an
  idempotency key the route accepts and an amount between 1 and 1000000000, which is the integer
  the caller gave. All attempts of a call carry the same key, so a retry replays the payment.
\<close>

theorem sdk_create_accepted_by_route:
  assumes "r \<in> set (sent (snd (payments_create cl server uuid ps options)))"
  shows "\<exists>key n. sq_method r = ''POST'' \<and> sq_url r = urlFor cl ''/v1/payments''
    \<and> map_of (sq_headers r) ''Idempotency-Key'' = Some key
    \<and> key = nullish_else (op_idempotencyKey options) uuid \<and> valid_idempotency_key key
    \<and> pp_amountMinorUnits ps = Some (of_int n) \<and> 1 \<le> n \<and> n \<le> 1000000000 \<and> amount_ok (Some n)
    \<and> sq_body r = js_stringify (create_body ps n)"
proof -
  obtain n key where n: "checked_amount (pp_amountMinorUnits ps) = Inr n"
    "key = nullish_else (op_idempotencyKey options) uuid" "validateIdempotencyKey key = None"
    and r: "r = built_request cl ''POST'' ''/v1/payments''
       \<lparr>ri_headers = (''Idempotency-Key'', key) # credential_headers (mergeProviders (cl_providers cl) (op_providers options)),
        ri_body = Some (create_body ps n), ri_signal = op_signal options, ri_timeoutMs = op_timeoutMs options\<rparr>"
    using payments_create_accepted[OF assms] by metis
  have "sq_method r = ''POST''" "sq_url r = urlFor cl ''/v1/payments''" "sq_body r = js_stringify (create_body ps n)"
    by (simp_all add: r built_request_def Let_def)
  with n show ?thesis
    using create_key_header[of cl "''POST''" "''/v1/payments''" key] sdk_key_valid
    by (intro exI[of _ key] exI[of _ n]) (auto simp: r checked_amount_range amount_ok_def)
qed

definition demo_params :: payment_params where
  "demo_params = \<lparr>pp_provider = ''mock'', pp_amountMinorUnits = Some 1000, pp_currency = Some ''EGP'',
     pp_phone = ''+201234567890'', pp_email = None, pp_fullName = None, pp_merchantReference = None,
     pp_description = None, pp_returnUrl = None, pp_metadata = None\<rparr>"

lemma demo_create_sends:
  "sent (snd (payments_create (demo_client 0) (\<lambda>_ _. Failed ''ECONNRESET'' False) ''key-1'' demo_params demo_options)) \<noteq> []"
proof -
  have "checked_amount (pp_amountMinorUnits demo_params) = Inr 1000"
    by (simp add: demo_params_def checked_amount_range)
  moreover have "validateIdempotencyKey ''key-1'' = None" by code_simp
  ultimately show ?thesis
    by (simp add: payments_create_def demo_options_def sdk_request_run_def demo_client_def positive_30000
        request_loop.simps no_signal_def Let_def)
qed

theorem sdk_create_accepted_by_route_witness:
  "\<exists>r key. r \<in> set (sent (snd (payments_create (demo_client 0) (\<lambda>_ _. Failed ''ECONNRESET'' False) ''key-1''
       demo_params demo_options)))
     \<and> sq_method r = ''POST'' \<and> map_of (sq_headers r) ''Idempotency-Key'' = Some key \<and> valid_idempotency_key key"
proof -
  obtain r where r: "r \<in> set (sent (snd (payments_create (demo_client 0) (\<lambda>_ _. Failed ''ECONNRESET'' False) ''key-1''
       demo_params demo_options)))"
    using demo_create_sends by (meson last_in_set)
  with sdk_create_accepted_by_route[OF r] show ?thesis by metis
qed

section \<open>Live payments at a restart\<close>

text \<open>
  The initialisation moves every payment whose metadata text contains the text of a test
  environment to the test environment. The text of a live payment can contain it: a merchant's
  key that ends in a quote and \<open>environment\<close> does it.
\<close>

lemma live_payment_moved_at_restart:
  "test_payment [(''metadata_json'', metadata_json [(''x'' @ dquote @ ''environment'', ''test'')] ''live'')]"
  by code_simp

end
